(* ===== verification/Toolkit_Prelude.thy ===== *)
theory Toolkit_Prelude
  imports Main "HOL-Library.List_Lexorder" "HOL-Library.Char_ord"
begin

text \<open>
  Shared vocabulary of the development.

  \<^item> \<open>go_error\<close>: the error values a fold, an emit or a handler can return.
  \<^item> \<open>('s, 'a) tx\<close>: Go code running against a live transaction. It reads and writes the
    state and ends in an error or a value; the state at the point of the error is kept, because
    whether it is discarded is the decision of the caller (\<open>Pool.WithWrite\<close> rolls back, a
    handler that swallows the error does not).
  \<^item> the SQL statements the code issues, as functions on tables (lists of rows in storage
    order): first-row queries, guarded updates, upserts, deletes, \<open>MAX + 1\<close>.
  \<^item> the generic lemmas on these that the component proofs share.
\<close>

named_theorems tx_simps \<open>unfolding rules of the transaction monad\<close>
named_theorems sql_defs \<open>definitions of the SQL statement functions\<close>

section \<open>Errors\<close>

datatype go_error =
    ErrPanic string                \<comment> \<open>nil dereference or an explicit panic\<close>
  | ErrPayload string              \<comment> \<open>json.Unmarshal failed on the event's payload\<close>
  | ErrMissingProject string       \<comment> \<open>event without entity\_project\_id\<close>
  | ErrConstraint string           \<comment> \<open>UNIQUE, PRIMARY KEY or CHECK violation in the named table\<close>
  | ErrUnknownColumn string string \<comment> \<open>event id and column name\<close>
  | ErrMissingItems string         \<comment> \<open>roadmap insert/update event without items\<close>
  | ErrInvalidInput string         \<comment> \<open>events.ErrInvalidInput, with the field\<close>
  | ErrHook go_error               \<comment> \<open>an error wrapped by the fold hook\<close>
  | ErrNoRows                      \<comment> \<open>sql.ErrNoRows\<close>
  | ErrUnknownProjection string
  | ErrNestedWrite
  | ErrTaskNotFound string string  \<comment> \<open>task slug and chain slug\<close>
  | ErrTaskIdNotFound int
  | ErrAmbiguousSlug string "string list"
  | ErrTransition string string string
  | ErrGate string string string
  | ErrIdentifierRequired string
  | ErrBadSHA string
  | ErrSelfBlock string
  | ErrTerminalBlocker string string
  | ErrNotBlockedBy string string
  | ErrStampState string string
  | ErrStampHandoff string
  | ErrForeignCommit string
  | ErrScan string                 \<comment> \<open>rows.Scan could not convert a column\<close>
  | ErrParams                      \<comment> \<open>json.Unmarshal failed on the call's params\<close>
  | ErrUnknownParam string string  \<comment> \<open>action and the unknown key\<close>
  | ErrUnknownField string
  | ErrExclusiveFields string string
  | ErrFieldShape string
  | ErrValidationFailed
  | ErrNoFields
  | ErrNoParsedFields
  | ErrChainNotFound string
  | ErrChainIdNotFound int
  | ErrSearchArgs
  | ErrChainHasOpenTasks string int
  | ErrBatchAborted
  | ErrNotFound string string      \<comment> \<open>entity kind and its slug or id\<close>
  | ErrMessage string              \<comment> \<open>any other message, by its first words\<close>

section \<open>Transactions\<close>

type_synonym ('s, 'a) tx = "'s \<Rightarrow> (go_error + 'a) \<times> 's"

definition tx_return :: "'a \<Rightarrow> ('s, 'a) tx" where
  "tx_return a = (\<lambda>s. (Inr a, s))"

definition tx_fail :: "go_error \<Rightarrow> ('s, 'a) tx" where
  "tx_fail e = (\<lambda>s. (Inl e, s))"

definition tx_bind :: "('s, 'a) tx \<Rightarrow> ('a \<Rightarrow> ('s, 'b) tx) \<Rightarrow> ('s, 'b) tx" where
  "tx_bind m f = (\<lambda>s. case m s of (Inl e, s') \<Rightarrow> (Inl e, s') | (Inr a, s') \<Rightarrow> f a s')"

definition tx_then :: "('s, unit) tx \<Rightarrow> ('s, 'b) tx \<Rightarrow> ('s, 'b) tx" where
  "tx_then m n = tx_bind m (\<lambda>_. n)"

definition tx_read :: "('s \<Rightarrow> 'a) \<Rightarrow> ('s, 'a) tx" where
  "tx_read f = (\<lambda>s. (Inr (f s), s))"

definition tx_modify :: "('s \<Rightarrow> 's) \<Rightarrow> ('s, unit) tx" where
  "tx_modify f = (\<lambda>s. (Inr (), f s))"

text \<open>
  One SQL statement that may violate a constraint of the named table: on a violation SQLite
  undoes the statement and reports the error, and the transaction goes on from the state before.
\<close>

definition tx_exec :: "string \<Rightarrow> ('s \<Rightarrow> 's option) \<Rightarrow> ('s, unit) tx" where
  "tx_exec tbl f =
     (\<lambda>s. case f s of None \<Rightarrow> (Inl (ErrConstraint tbl), s) | Some s' \<Rightarrow> (Inr (), s'))"

fun tx_foreach :: "('x \<Rightarrow> ('s, unit) tx) \<Rightarrow> 'x list \<Rightarrow> ('s, unit) tx" where
  "tx_foreach f [] = tx_return ()"
| "tx_foreach f (x # xs) = tx_then (f x) (tx_foreach f xs)"

lemma tx_apply [tx_simps]:
  "tx_return a s = (Inr a, s)"
  "tx_fail e s = (Inl e, s)"
  "tx_read g s = (Inr (g s), s)"
  "tx_modify h s = (Inr (), h s)"
  by (simp_all add: tx_return_def tx_fail_def tx_read_def tx_modify_def)

lemma tx_bind_Inr [tx_simps]:
  "tx_bind m f s = (Inr b, s'') \<longleftrightarrow> (\<exists>a s'. m s = (Inr a, s') \<and> f a s' = (Inr b, s''))"
  by (auto simp: tx_bind_def split: prod.splits sum.splits)

lemma tx_then_Inr [tx_simps]:
  "tx_then m n s = (Inr b, s'') \<longleftrightarrow> (\<exists>s'. m s = (Inr (), s') \<and> n s' = (Inr b, s''))"
  by (simp add: tx_then_def tx_bind_Inr)

lemma tx_exec_Inr [tx_simps]:
  "tx_exec tbl f s = (Inr u, s') \<longleftrightarrow> f s = Some s'"
  by (auto simp: tx_exec_def split: option.splits)

lemma tx_bind_assoc: "tx_bind (tx_bind m f) g = tx_bind m (\<lambda>x. tx_bind (f x) g)"
  by (auto simp: tx_bind_def fun_eq_iff split: prod.splits sum.splits)

lemma tx_then_assoc: "tx_then (tx_then l m) n = tx_then l (tx_then m n)"
  by (simp add: tx_then_def tx_bind_assoc)

lemma tx_then_return: "tx_then (tx_return ()) n = n"
  by (simp add: tx_then_def tx_bind_def tx_return_def)

lemma tx_foreach_append:
  "tx_foreach f (xs @ ys) = tx_then (tx_foreach f xs) (tx_foreach f ys)"
  by (induction xs) (simp_all add: tx_then_assoc tx_then_return)

text \<open>
  A transaction keeps a property of the state, whether it ends in a value or in an error.
\<close>

definition tx_keeps :: "('s \<Rightarrow> bool) \<Rightarrow> ('s, 'a) tx \<Rightarrow> bool" where
  "tx_keeps P m \<longleftrightarrow> (\<forall>s. P s \<longrightarrow> P (snd (m s)))"

named_theorems keeps_intros \<open>introduction rules for properties a transaction keeps\<close>

lemma keeps_return [keeps_intros]: "tx_keeps P (tx_return a)"
  by (simp add: tx_keeps_def tx_return_def)

lemma keeps_fail [keeps_intros]: "tx_keeps P (tx_fail e)"
  by (simp add: tx_keeps_def tx_fail_def)

lemma keeps_read [keeps_intros]: "tx_keeps P (tx_read f)"
  by (simp add: tx_keeps_def tx_read_def)

lemma keeps_bind [keeps_intros]:
  assumes "tx_keeps P m" and "\<And>a. tx_keeps P (f a)"
  shows "tx_keeps P (tx_bind m f)"
  unfolding tx_keeps_def
proof (intro allI impI)
  fix s assume s: "P s"
  obtain r s' where m: "m s = (r, s')" by (cases "m s")
  with assms(1) s have s': "P s'" by (auto simp: tx_keeps_def dest!: spec [of _ s])
  show "P (snd (tx_bind m f s))"
    using m s' assms(2) by (cases r) (auto simp: tx_bind_def tx_keeps_def)
qed

lemma keeps_then [keeps_intros]:
  "tx_keeps P m \<Longrightarrow> tx_keeps P n \<Longrightarrow> tx_keeps P (tx_then m n)"
  by (simp add: tx_then_def keeps_bind)

lemma keeps_modify: "(\<And>s. P s \<Longrightarrow> P (f s)) \<Longrightarrow> tx_keeps P (tx_modify f)"
  by (simp add: tx_keeps_def tx_modify_def)

lemma keeps_exec: "(\<And>s s'. P s \<Longrightarrow> f s = Some s' \<Longrightarrow> P s') \<Longrightarrow> tx_keeps P (tx_exec tbl f)"
  by (auto simp: tx_keeps_def tx_exec_def split: option.splits)

lemma keeps_foreach [keeps_intros]:
  "(\<And>x. tx_keeps P (f x)) \<Longrightarrow> tx_keeps P (tx_foreach f xs)"
  by (induction xs) (auto intro: keeps_intros)

lemma keepsD: "tx_keeps P m \<Longrightarrow> P s \<Longrightarrow> m s = (r, s') \<Longrightarrow> P s'"
  by (metis snd_conv tx_keeps_def)

text \<open>
  A transaction commutes with a change \<open>h\<close> of the state: it neither reads what \<open>h\<close>
  changes nor undoes it, so it ends the same way on both states.
\<close>

definition tx_commutes :: "('s \<Rightarrow> 's) \<Rightarrow> ('s, 'a) tx \<Rightarrow> bool" where
  "tx_commutes h m \<longleftrightarrow> (\<forall>s. m (h s) = (fst (m s), h (snd (m s))))"

named_theorems commutes_intros \<open>introduction rules for state changes a transaction commutes with\<close>

lemma commutesD: "tx_commutes h m \<Longrightarrow> m s = (r, s') \<Longrightarrow> m (h s) = (r, h s')"
  by (simp add: tx_commutes_def)

lemma commutes_return [commutes_intros]: "tx_commutes h (tx_return a)"
  by (simp add: tx_commutes_def tx_return_def)

lemma commutes_fail [commutes_intros]: "tx_commutes h (tx_fail e)"
  by (simp add: tx_commutes_def tx_fail_def)

lemma commutes_read: "(\<And>s. f (h s) = f s) \<Longrightarrow> tx_commutes h (tx_read f)"
  by (simp add: tx_commutes_def tx_read_def)

lemma commutes_modify: "(\<And>s. f (h s) = h (f s)) \<Longrightarrow> tx_commutes h (tx_modify f)"
  by (simp add: tx_commutes_def tx_modify_def)

lemma commutes_exec: "(\<And>s. f (h s) = map_option h (f s)) \<Longrightarrow> tx_commutes h (tx_exec tbl f)"
  by (auto simp: tx_commutes_def tx_exec_def split: option.splits)

lemma commutes_bind [commutes_intros]:
  assumes "tx_commutes h m" and "\<And>a. tx_commutes h (f a)"
  shows "tx_commutes h (tx_bind m f)"
  unfolding tx_commutes_def
proof
  fix s
  obtain r s' where m: "m s = (r, s')" by (cases "m s")
  have mh: "m (h s) = (r, h s')" by (rule commutesD [OF assms(1) m])
  show "tx_bind m f (h s) = (fst (tx_bind m f s), h (snd (tx_bind m f s)))"
    using m mh assms(2) by (cases r) (simp_all add: tx_bind_def tx_commutes_def)
qed

lemma commutes_then [commutes_intros]:
  "tx_commutes h m \<Longrightarrow> tx_commutes h n \<Longrightarrow> tx_commutes h (tx_then m n)"
  by (simp add: tx_then_def commutes_bind)

lemma commutes_foreach [commutes_intros]:
  "(\<And>x. tx_commutes h (f x)) \<Longrightarrow> tx_commutes h (tx_foreach f xs)"
  by (induction xs) (auto intro: commutes_intros)

lemma commutes_foreach_set:
  "(\<And>x. x \<in> set xs \<Longrightarrow> tx_commutes h (f x)) \<Longrightarrow> tx_commutes h (tx_foreach f xs)"
  by (induction xs) (auto intro: commutes_intros)

lemma keeps_foreach_set:
  "(\<And>x. x \<in> set xs \<Longrightarrow> tx_keeps P (f x)) \<Longrightarrow> tx_keeps P (tx_foreach f xs)"
  by (induction xs) (auto intro: keeps_intros)

section \<open>SQL statements on tables\<close>

text \<open>
  \<open>QueryRow(...).Scan\<close>: the first row of the result. Where several rows match and the
  statement has no ORDER BY, SQLite does not say which comes first; the model takes the storage
  order, and a table's list is arbitrary in every theorem.
\<close>

definition sql_first :: "('r \<Rightarrow> bool) \<Rightarrow> 'r list \<Rightarrow> 'r option" where
  [sql_defs]: "sql_first p rows = find p rows"

text \<open>\<open>SELECT COUNT(*) ... WHERE\<close>\<close>

definition sql_count :: "('r \<Rightarrow> bool) \<Rightarrow> 'r list \<Rightarrow> int" where
  [sql_defs]: "sql_count p rows = int (length (filter p rows))"

text \<open>\<open>SELECT COALESCE(MAX(id), 0) + 1\<close>\<close>

definition sql_next_id :: "int list \<Rightarrow> int" where
  [sql_defs]: "sql_next_id ids = (case ids of [] \<Rightarrow> 0 | i # is \<Rightarrow> fold max is i) + 1"

text \<open>
  \<open>UPDATE ... WHERE\<close> of columns outside the primary key: every updated row must pass the
  table's CHECK constraints, else the whole statement fails.
\<close>

definition sql_update ::
  "('r \<Rightarrow> bool) \<Rightarrow> ('r \<Rightarrow> bool) \<Rightarrow> ('r \<Rightarrow> 'r) \<Rightarrow> 'r list \<Rightarrow> 'r list option" where
  [sql_defs]: "sql_update chk whr upd rows =
     (if list_all (\<lambda>r. whr r \<longrightarrow> chk (upd r)) rows
      then Some (map (\<lambda>r. if whr r then upd r else r) rows) else None)"

text \<open>\<open>UPDATE\<close> that writes primary-key columns: the key must stay unique.\<close>

definition sql_update_key ::
  "('r \<Rightarrow> 'k) \<Rightarrow> ('r \<Rightarrow> bool) \<Rightarrow> ('r \<Rightarrow> bool) \<Rightarrow> ('r \<Rightarrow> 'r) \<Rightarrow> 'r list \<Rightarrow> 'r list option" where
  [sql_defs]: "sql_update_key key chk whr upd rows =
     (case sql_update chk whr upd rows of
        None \<Rightarrow> None
      | Some rows' \<Rightarrow> if distinct (map key rows') then Some rows' else None)"

text \<open>\<open>INSERT\<close> under a primary key and CHECK constraints.\<close>

definition sql_insert ::
  "('r \<Rightarrow> 'k) \<Rightarrow> ('r \<Rightarrow> bool) \<Rightarrow> 'r \<Rightarrow> 'r list \<Rightarrow> 'r list option" where
  [sql_defs]: "sql_insert key chk r rows =
     (if chk r \<and> key r \<notin> key ` set rows then Some (rows @ [r]) else None)"

text \<open>
  \<open>INSERT ... ON CONFLICT(key) DO UPDATE SET ...\<close>; \<open>upd\<close> takes the existing row. SQLite
  evaluates the CHECK constraints of the proposed row before it looks for a conflict.
\<close>

definition sql_upsert ::
  "('r \<Rightarrow> 'k) \<Rightarrow> ('r \<Rightarrow> bool) \<Rightarrow> 'r \<Rightarrow> ('r \<Rightarrow> 'r) \<Rightarrow> 'r list \<Rightarrow> 'r list option" where
  [sql_defs]: "sql_upsert key chk r upd rows =
     (if \<not> chk r then None
      else if key r \<in> key ` set rows then sql_update chk (\<lambda>x. key x = key r) upd rows
      else sql_insert key chk r rows)"

text \<open>\<open>INSERT OR IGNORE\<close> and \<open>INSERT ... ON CONFLICT DO NOTHING\<close>.\<close>

definition sql_insert_ignore :: "('r \<Rightarrow> 'k) \<Rightarrow> 'r \<Rightarrow> 'r list \<Rightarrow> 'r list" where
  [sql_defs]: "sql_insert_ignore key r rows =
     (if key r \<in> key ` set rows then rows else rows @ [r])"

definition sql_delete :: "('r \<Rightarrow> bool) \<Rightarrow> 'r list \<Rightarrow> 'r list" where
  [sql_defs]: "sql_delete whr rows = filter (\<lambda>r. \<not> whr r) rows"

section \<open>Lemmas on the statements\<close>

lemma fold_max_ge: "(a::int) \<le> fold max xs a \<and> (\<forall>x \<in> set xs. x \<le> fold max xs a)"
proof (induction xs arbitrary: a)
  case Nil
  then show ?case by simp
next
  case (Cons x xs)
  have "max x a \<le> fold max xs (max x a)" using Cons by blast
  moreover have "\<forall>y \<in> set xs. y \<le> fold max xs (max x a)" using Cons by blast
  ultimately show ?case by auto
qed

lemma sql_next_id_fresh:
  assumes "i \<in> set ids"
  shows "i < sql_next_id ids"
proof (cases ids)
  case Nil
  with assms show ?thesis by simp
next
  case (Cons j js)
  have "i \<le> fold max js j" using fold_max_ge [of j js] assms Cons by auto
  then show ?thesis by (simp add: sql_next_id_def Cons)
qed

lemma sql_next_id_notin: "sql_next_id ids \<notin> set ids"
  using sql_next_id_fresh by blast

lemma find_Some_set: "find P xs = Some x \<Longrightarrow> x \<in> set xs \<and> P x"
  by (induction xs) (auto split: if_splits)

lemma sql_first_Some: "sql_first p rows = Some r \<Longrightarrow> r \<in> set rows \<and> p r"
  unfolding sql_first_def by (rule find_Some_set)

lemma sql_first_None: "sql_first p rows = None \<longleftrightarrow> (\<forall>r \<in> set rows. \<not> p r)"
  by (auto simp: sql_first_def find_None_iff)

lemma sql_first_unique:
  assumes "r \<in> set rows" "p r" "\<And>x. x \<in> set rows \<Longrightarrow> p x \<Longrightarrow> x = r"
  shows "sql_first p rows = Some r"
proof (cases "sql_first p rows")
  case None
  with assms(1,2) show ?thesis by (simp add: sql_first_None)
next
  case (Some x)
  then have "x \<in> set rows" "p x" by (simp_all add: sql_first_Some)
  then have "x = r" by (rule assms(3))
  with Some show ?thesis by simp
qed

lemma sql_first_map_cong:
  "(\<And>r. r \<in> set rows \<Longrightarrow> p (f r) = p r) \<Longrightarrow>
   sql_first p (map f rows) = map_option f (sql_first p rows)"
  by (induction rows) (auto simp: sql_first_def)

lemma sql_first_key_unique:
  assumes "distinct (map key rows)" "r \<in> set rows" "\<And>x. p x \<longleftrightarrow> key x = key r"
  shows "sql_first p rows = Some r"
  using assms(2)
proof (rule sql_first_unique)
  show "p r" by (simp add: assms(3))
next
  fix x assume "x \<in> set rows" "p x"
  with assms(1,2,3) show "x = r"
    by (metis distinct_map inj_on_eq_iff)
qed

lemma sql_update_Some:
  "sql_update chk whr upd rows = Some rows' \<Longrightarrow>
   rows' = map (\<lambda>r. if whr r then upd r else r) rows"
  by (auto simp: sql_update_def split: if_splits)

lemma sql_update_checks:
  "sql_update chk whr upd rows = Some rows' \<Longrightarrow> (\<forall>r \<in> set rows. chk r) \<Longrightarrow> (\<forall>r \<in> set rows'. chk r)"
  by (auto simp: sql_update_def list_all_iff split: if_splits)

lemma sql_update_keeps_image:
  assumes "sql_update chk whr upd rows = Some rows'" "\<And>r. r \<in> set rows \<Longrightarrow> whr r \<Longrightarrow> g (upd r) = g r"
  shows "map g rows' = map g rows"
  using assms by (auto dest!: sql_update_Some)

lemma sql_insert_Some:
  "sql_insert key chk r rows = Some rows' \<longleftrightarrow>
   chk r \<and> key r \<notin> key ` set rows \<and> rows' = rows @ [r]"
  by (auto simp: sql_insert_def)

lemma sql_upsert_cases:
  assumes "sql_upsert key chk r upd rows = Some rows'"
  obtains (update) "key r \<in> key ` set rows" "sql_update chk (\<lambda>x. key x = key r) upd rows = Some rows'"
    | (insert) "key r \<notin> key ` set rows" "chk r" "rows' = rows @ [r]"
  using assms by (auto simp: sql_upsert_def sql_insert_Some split: if_splits)

lemma sql_upsert_checks:
  "sql_upsert key chk r upd rows = Some rows' \<Longrightarrow> (\<forall>x \<in> set rows. chk x) \<Longrightarrow> (\<forall>x \<in> set rows'. chk x)"
  by (erule sql_upsert_cases) (auto dest: sql_update_checks)

lemma sql_upsert_distinct:
  assumes "sql_upsert key chk r upd rows = Some rows'" "distinct (map key rows)"
    and "\<And>x. x \<in> set rows \<Longrightarrow> key x = key r \<Longrightarrow> key (upd x) = key x"
  shows "distinct (map key rows')"
  using assms(1)
proof (cases rule: sql_upsert_cases)
  case update
  have "map key rows' = map key rows"
    by (rule sql_update_keeps_image [OF update(2)]) (rule assms(3))
  then show ?thesis using assms(2) by simp
next
  case insert
  then show ?thesis using assms(2) by simp
qed

lemma sql_upsert_fresh_ids:
  assumes "sql_upsert key chk r upd rows = Some rows'" "distinct (map ident rows)"
    and "\<And>x. ident (upd x) = ident x" and "ident r = sql_next_id (map ident rows)"
  shows "distinct (map ident rows')"
  using assms(1)
proof (cases rule: sql_upsert_cases)
  case update
  have "map ident rows' = map ident rows"
    by (rule sql_update_keeps_image [OF update(2)]) (rule assms(3))
  then show ?thesis using assms(2) by simp
next
  case insert
  then show ?thesis using assms(2,4) sql_next_id_notin [of "map ident rows"] by simp
qed

lemma distinct_map_filterI: "distinct (map f xs) \<Longrightarrow> distinct (map f (filter P xs))"
  by (rule distinct_map_filter)

lemma sql_insert_ignore_distinct:
  "distinct (map key rows) \<Longrightarrow> distinct (map key (sql_insert_ignore key r rows))"
  by (auto simp: sql_insert_ignore_def)

lemma sql_delete_distinct:
  "distinct (map key rows) \<Longrightarrow> distinct (map key (sql_delete whr rows))"
  unfolding sql_delete_def by (rule distinct_map_filterI)

lemma sql_count_map_cong:
  "(\<And>r. r \<in> set rows \<Longrightarrow> p (f r) = p r) \<Longrightarrow> sql_count p (map f rows) = sql_count p rows"
  by (induction rows) (auto simp: sql_count_def)

section \<open>Small Go helpers\<close>

text \<open>\<open>nullableStringFromPtr\<close>-style defaulting and dereferencing of optional strings.\<close>

definition deref_or :: "'a \<Rightarrow> 'a option \<Rightarrow> 'a" where
  "deref_or d p = (case p of None \<Rightarrow> d | Some v \<Rightarrow> v)"

lemma deref_or_simps [simp]: "deref_or d None = d" "deref_or d (Some v) = v"
  by (simp_all add: deref_or_def)

end
