(* ===== verification/Event_Payloads.thy ===== *)
theory Event_Payloads
  imports Toolkit_Prelude "HOL-Library.Monad_Syntax"
begin

text \<open>
  The typed event payloads of \<open>go/internal/events/payloads.go\<close> that the work
  projections fold, with the parts of \<open>encoding/json\<close> the code uses on them: \<open>Marshal\<close>
  at emit time (struct order, \<open>omitempty\<close>) and \<open>Unmarshal\<close> at fold time (absent and null
  members leave the zero value, unknown members are ignored, member names match
  case-insensitively, a member of the wrong JSON type makes the whole call fail).

  JSON text itself is not modelled: a payload column is \<open>Some\<close> JSON value or, for bytes that are
  not JSON, \<open>None\<close>. Strings are sequences of bytes holding valid UTF-8; Go's \<open>int\<close> and
  \<open>int64\<close> are \<open>int\<close> with the 64-bit range checked where a number is decoded. A Go
  \<open>map[string]string\<close> is an association list sorted by key, the order \<open>Marshal\<close> writes.
  The lemmas \<open>roundtrip_*\<close> show that what Emit writes is what Fold reads.
\<close>

named_theorems roundtrip \<open>Unmarshal after Marshal\<close>

section \<open>JSON values\<close>

datatype json =
    JNull
  | JBool bool
  | JInt int
  | JFrac string   \<comment> \<open>a number with a fraction or an exponent, by its text\<close>
  | JStr string
  | JArr "json list"
  | JObj "(string \<times> json) list"

section \<open>encoding/json: member lookup\<close>

definition ascii_lower :: "char \<Rightarrow> char" where
  "ascii_lower c =
     (let n = (of_char c :: nat) in if 65 \<le> n \<and> n \<le> 90 then char_of (n + 32) else c)"

text \<open>
  Simple case folding of a member name, as \<open>encoding/json\<close> compares names: ASCII letters, and
  the two other code points that fold to an ASCII letter (U+017F to s, U+212A to k).
\<close>

function fold_name :: "string \<Rightarrow> string" where
  "fold_name [] = []"
| "fold_name (c # cs) =
     (if c = CHR 0xC5 \<and> take 1 cs = [CHR 0xBF] then CHR ''s'' # fold_name (drop 1 cs)
      else if c = CHR 0xE2 \<and> take 2 cs = [CHR 0x84, CHR 0xAA] then CHR ''k'' # fold_name (drop 2 cs)
      else ascii_lower c # fold_name cs)"
  by pat_completeness auto
termination
  by (relation "measure length") auto

definition vals :: "(string \<times> json) list \<Rightarrow> string \<Rightarrow> json list" where
  "vals fs k = map snd (filter (\<lambda>f. fold_name (fst f) = k) fs)"

text \<open>Decoding into a struct: an object, or null which leaves the zero value.\<close>

fun struct_fields :: "json \<Rightarrow> (string \<times> json) list option" where
  "struct_fields JNull = Some []"
| "struct_fields (JObj fs) = Some fs"
| "struct_fields _ = None"

section \<open>encoding/json: values\<close>

definition in_int64 :: "int \<Rightarrow> bool" where
  "in_int64 n \<longleftrightarrow> - (2 ^ 63) \<le> n \<and> n < 2 ^ 63"

definition ptr_in_int64 :: "int option \<Rightarrow> bool" where
  "ptr_in_int64 p = (case p of None \<Rightarrow> True | Some n \<Rightarrow> in_int64 n)"

text \<open>
  The occurrences of one member are decoded in order, each into the value the one before left.
\<close>

definition dec_step :: "('a \<Rightarrow> json \<Rightarrow> 'a option) \<Rightarrow> 'a \<Rightarrow> json list \<Rightarrow> 'a option" where
  "dec_step f z js = foldl (\<lambda>acc j. case acc of None \<Rightarrow> None | Some a \<Rightarrow> f a j) (Some z) js"

fun str_val :: "string \<Rightarrow> json \<Rightarrow> string option" where
  "str_val a JNull = Some a"
| "str_val a (JStr s) = Some s"
| "str_val a _ = None"

fun str_ptr_val :: "string option \<Rightarrow> json \<Rightarrow> string option option" where
  "str_ptr_val a JNull = Some None"
| "str_ptr_val a (JStr s) = Some (Some s)"
| "str_ptr_val a _ = None"

fun int_val :: "int \<Rightarrow> json \<Rightarrow> int option" where
  "int_val a JNull = Some a"
| "int_val a (JInt n) = (if in_int64 n then Some n else None)"
| "int_val a _ = None"

fun int_ptr_val :: "int option \<Rightarrow> json \<Rightarrow> int option option" where
  "int_ptr_val a JNull = Some None"
| "int_ptr_val a (JInt n) = (if in_int64 n then Some (Some n) else None)"
| "int_ptr_val a _ = None"

fun dec_all :: "(json \<Rightarrow> 'a option) \<Rightarrow> json list \<Rightarrow> 'a list option" where
  "dec_all f [] = Some []"
| "dec_all f (j # js) = do { x \<leftarrow> f j; xs \<leftarrow> dec_all f js; Some (x # xs) }"

fun arr_val :: "(json \<Rightarrow> 'a option) \<Rightarrow> 'a list \<Rightarrow> json \<Rightarrow> 'a list option" where
  "arr_val f a JNull = Some []"
| "arr_val f a (JArr js) = dec_all f js"
| "arr_val f a _ = None"

subsection \<open>Maps\<close>

type_synonym go_map = "(string \<times> string) list"

fun gm_put :: "string \<Rightarrow> string \<Rightarrow> go_map \<Rightarrow> go_map" where
  "gm_put k v [] = [(k, v)]"
| "gm_put k v ((k', v') # m) =
     (if k < k' then (k, v) # (k', v') # m
      else if k = k' then (k, v) # m
      else (k', v') # gm_put k v m)"

definition gm_sorted :: "go_map \<Rightarrow> bool" where
  "gm_sorted m \<longleftrightarrow> sorted_wrt (\<lambda>x y. fst x < fst y) m"

fun map_entries :: "go_map \<Rightarrow> (string \<times> json) list \<Rightarrow> go_map option" where
  "map_entries m [] = Some m"
| "map_entries m ((k, j) # es) =
     (case str_val [] j of None \<Rightarrow> None | Some v \<Rightarrow> map_entries (gm_put k v m) es)"

fun map_val :: "go_map \<Rightarrow> json \<Rightarrow> go_map option" where
  "map_val a JNull = Some []"
| "map_val a (JObj es) = map_entries a es"
| "map_val a _ = None"

subsection \<open>Members\<close>

text \<open>
  \<open>TaskCreatedPayload.UnmarshalJSON\<close>: the last \<open>acceptance_criteria\<close> member is kept as
  raw bytes and read as a list of strings, as null, or as one string (legacy events).
\<close>

fun criteria_val :: "json \<Rightarrow> string list option" where
  "criteria_val JNull = Some []"
| "criteria_val (JArr js) = dec_all (str_val []) js"
| "criteria_val (JStr s) = Some (if s = [] then [] else [s])"
| "criteria_val _ = None"

definition dec_criteria :: "json list \<Rightarrow> string list option" where
  "dec_criteria js = (if js = [] then Some [] else criteria_val (last js))"

abbreviation "dec_str \<equiv> dec_step str_val []"
abbreviation "dec_str_ptr \<equiv> dec_step str_ptr_val None"
abbreviation "dec_int \<equiv> dec_step int_val 0"
abbreviation "dec_int_ptr \<equiv> dec_step int_ptr_val None"
abbreviation "dec_strs \<equiv> dec_step (arr_val (str_val [])) []"
abbreviation "dec_ints \<equiv> dec_step (arr_val (int_val 0)) []"
abbreviation "dec_map \<equiv> dec_step map_val []"

definition enc_str :: "string \<Rightarrow> string \<Rightarrow> (string \<times> json) list" where
  "enc_str k s = [(k, JStr s)]"

definition enc_str_omit :: "string \<Rightarrow> string \<Rightarrow> (string \<times> json) list" where
  "enc_str_omit k s = (if s = [] then [] else [(k, JStr s)])"

definition enc_str_ptr :: "string \<Rightarrow> string option \<Rightarrow> (string \<times> json) list" where
  "enc_str_ptr k p = (case p of None \<Rightarrow> [] | Some s \<Rightarrow> [(k, JStr s)])"

definition enc_int :: "string \<Rightarrow> int \<Rightarrow> (string \<times> json) list" where
  "enc_int k n = [(k, JInt n)]"

definition enc_int_ptr :: "string \<Rightarrow> int option \<Rightarrow> (string \<times> json) list" where
  "enc_int_ptr k p = (case p of None \<Rightarrow> [] | Some n \<Rightarrow> [(k, JInt n)])"

definition enc_strs :: "string \<Rightarrow> string list \<Rightarrow> (string \<times> json) list" where
  "enc_strs k xs = [(k, JArr (map JStr xs))]"

definition enc_strs_omit :: "string \<Rightarrow> string list \<Rightarrow> (string \<times> json) list" where
  "enc_strs_omit k xs = (if xs = [] then [] else enc_strs k xs)"

definition enc_ints_omit :: "string \<Rightarrow> int list \<Rightarrow> (string \<times> json) list" where
  "enc_ints_omit k xs = (if xs = [] then [] else [(k, JArr (map JInt xs))])"

definition enc_map_omit :: "string \<Rightarrow> go_map \<Rightarrow> (string \<times> json) list" where
  "enc_map_omit k m = (if m = [] then [] else [(k, JObj (map (\<lambda>e. (fst e, JStr (snd e))) m))])"

section \<open>The payload structs\<close>


record TaskCreatedPayload =
  tc_chain_slug :: "string"
  tc_position :: "int option"
  tc_problem_statement :: "string"
  tc_acceptance_criteria :: "string list"
  tc_context_required :: "string option"
  tc_constraints :: "string option"
  tc_handoff_output :: "string option"

definition unmarshal_TaskCreatedPayload :: "json \<Rightarrow> TaskCreatedPayload option" where
  "unmarshal_TaskCreatedPayload j = do {
     fs \<leftarrow> struct_fields j;
     x0 \<leftarrow> dec_str (vals fs ''chain_slug'');
     x1 \<leftarrow> dec_int_ptr (vals fs ''position'');
     x2 \<leftarrow> dec_str (vals fs ''problem_statement'');
     x3 \<leftarrow> dec_criteria (vals fs ''acceptance_criteria'');
     x4 \<leftarrow> dec_str_ptr (vals fs ''context_required'');
     x5 \<leftarrow> dec_str_ptr (vals fs ''constraints'');
     x6 \<leftarrow> dec_str_ptr (vals fs ''handoff_output'');
     Some \<lparr>tc_chain_slug = x0, tc_position = x1, tc_problem_statement = x2, tc_acceptance_criteria = x3, tc_context_required = x4, tc_constraints = x5, tc_handoff_output = x6\<rparr> }"

definition marshal_TaskCreatedPayload :: "TaskCreatedPayload \<Rightarrow> json" where
  "marshal_TaskCreatedPayload p = JObj (
     enc_str ''chain_slug'' (tc_chain_slug p) @
     enc_int_ptr ''position'' (tc_position p) @
     enc_str ''problem_statement'' (tc_problem_statement p) @
     enc_strs_omit ''acceptance_criteria'' (tc_acceptance_criteria p) @
     enc_str_ptr ''context_required'' (tc_context_required p) @
     enc_str_ptr ''constraints'' (tc_constraints p) @
     enc_str_ptr ''handoff_output'' (tc_handoff_output p))"

definition TaskCreatedPayload_ok :: "TaskCreatedPayload \<Rightarrow> bool" where
  "TaskCreatedPayload_ok p \<longleftrightarrow> ptr_in_int64 (tc_position p)"

record TaskAssignedToChainPayload =
  ta_from_chain_slug :: "string option"
  ta_to_chain_slug :: "string"
  ta_from_position :: "int option"
  ta_to_position :: "int option"

definition unmarshal_TaskAssignedToChainPayload :: "json \<Rightarrow> TaskAssignedToChainPayload option" where
  "unmarshal_TaskAssignedToChainPayload j = do {
     fs \<leftarrow> struct_fields j;
     x0 \<leftarrow> dec_str_ptr (vals fs ''from_chain_slug'');
     x1 \<leftarrow> dec_str (vals fs ''to_chain_slug'');
     x2 \<leftarrow> dec_int_ptr (vals fs ''from_position'');
     x3 \<leftarrow> dec_int_ptr (vals fs ''to_position'');
     Some \<lparr>ta_from_chain_slug = x0, ta_to_chain_slug = x1, ta_from_position = x2, ta_to_position = x3\<rparr> }"

definition marshal_TaskAssignedToChainPayload :: "TaskAssignedToChainPayload \<Rightarrow> json" where
  "marshal_TaskAssignedToChainPayload p = JObj (
     enc_str_ptr ''from_chain_slug'' (ta_from_chain_slug p) @
     enc_str ''to_chain_slug'' (ta_to_chain_slug p) @
     enc_int_ptr ''from_position'' (ta_from_position p) @
     enc_int_ptr ''to_position'' (ta_to_position p))"

definition TaskAssignedToChainPayload_ok :: "TaskAssignedToChainPayload \<Rightarrow> bool" where
  "TaskAssignedToChainPayload_ok p \<longleftrightarrow> ptr_in_int64 (ta_from_position p) \<and> ptr_in_int64 (ta_to_position p)"

record TaskCompletedPayload =
  tp_chain_slug :: "string"
  tp_commit_sha :: "string option"
  tp_closure_summary :: "string option"

definition unmarshal_TaskCompletedPayload :: "json \<Rightarrow> TaskCompletedPayload option" where
  "unmarshal_TaskCompletedPayload j = do {
     fs \<leftarrow> struct_fields j;
     x0 \<leftarrow> dec_str (vals fs ''chain_slug'');
     x1 \<leftarrow> dec_str_ptr (vals fs ''commit_sha'');
     x2 \<leftarrow> dec_str_ptr (vals fs ''closure_summary'');
     Some \<lparr>tp_chain_slug = x0, tp_commit_sha = x1, tp_closure_summary = x2\<rparr> }"

definition marshal_TaskCompletedPayload :: "TaskCompletedPayload \<Rightarrow> json" where
  "marshal_TaskCompletedPayload p = JObj (
     enc_str_omit ''chain_slug'' (tp_chain_slug p) @
     enc_str_ptr ''commit_sha'' (tp_commit_sha p) @
     enc_str_ptr ''closure_summary'' (tp_closure_summary p))"

record TaskCancelledPayload =
  tn_chain_slug :: "string"
  tn_reason :: "string option"

definition unmarshal_TaskCancelledPayload :: "json \<Rightarrow> TaskCancelledPayload option" where
  "unmarshal_TaskCancelledPayload j = do {
     fs \<leftarrow> struct_fields j;
     x0 \<leftarrow> dec_str (vals fs ''chain_slug'');
     x1 \<leftarrow> dec_str_ptr (vals fs ''reason'');
     Some \<lparr>tn_chain_slug = x0, tn_reason = x1\<rparr> }"

definition marshal_TaskCancelledPayload :: "TaskCancelledPayload \<Rightarrow> json" where
  "marshal_TaskCancelledPayload p = JObj (
     enc_str_omit ''chain_slug'' (tn_chain_slug p) @
     enc_str_ptr ''reason'' (tn_reason p))"

record TaskTransitionedPayload =
  tt_chain_slug :: "string"
  tt_from_status :: "string"
  tt_to_status :: "string"
  tt_blocker_slug :: "string option"
  tt_removed_blocker_slug :: "string option"

definition unmarshal_TaskTransitionedPayload :: "json \<Rightarrow> TaskTransitionedPayload option" where
  "unmarshal_TaskTransitionedPayload j = do {
     fs \<leftarrow> struct_fields j;
     x0 \<leftarrow> dec_str (vals fs ''chain_slug'');
     x1 \<leftarrow> dec_str (vals fs ''from_status'');
     x2 \<leftarrow> dec_str (vals fs ''to_status'');
     x3 \<leftarrow> dec_str_ptr (vals fs ''blocker_slug'');
     x4 \<leftarrow> dec_str_ptr (vals fs ''removed_blocker_slug'');
     Some \<lparr>tt_chain_slug = x0, tt_from_status = x1, tt_to_status = x2, tt_blocker_slug = x3, tt_removed_blocker_slug = x4\<rparr> }"

definition marshal_TaskTransitionedPayload :: "TaskTransitionedPayload \<Rightarrow> json" where
  "marshal_TaskTransitionedPayload p = JObj (
     enc_str_omit ''chain_slug'' (tt_chain_slug p) @
     enc_str ''from_status'' (tt_from_status p) @
     enc_str ''to_status'' (tt_to_status p) @
     enc_str_ptr ''blocker_slug'' (tt_blocker_slug p) @
     enc_str_ptr ''removed_blocker_slug'' (tt_removed_blocker_slug p))"

record TaskEditedPayload =
  te_chain_slug :: "string"
  te_updated_fields :: "string list"
  te_updated_values :: "go_map"

definition unmarshal_TaskEditedPayload :: "json \<Rightarrow> TaskEditedPayload option" where
  "unmarshal_TaskEditedPayload j = do {
     fs \<leftarrow> struct_fields j;
     x0 \<leftarrow> dec_str (vals fs ''chain_slug'');
     x1 \<leftarrow> dec_strs (vals fs ''updated_fields'');
     x2 \<leftarrow> dec_map (vals fs ''updated_values'');
     Some \<lparr>te_chain_slug = x0, te_updated_fields = x1, te_updated_values = x2\<rparr> }"

definition marshal_TaskEditedPayload :: "TaskEditedPayload \<Rightarrow> json" where
  "marshal_TaskEditedPayload p = JObj (
     enc_str_omit ''chain_slug'' (te_chain_slug p) @
     enc_strs ''updated_fields'' (te_updated_fields p) @
     enc_map_omit ''updated_values'' (te_updated_values p))"

definition TaskEditedPayload_ok :: "TaskEditedPayload \<Rightarrow> bool" where
  "TaskEditedPayload_ok p \<longleftrightarrow> gm_sorted (te_updated_values p)"

record TaskStampedPayload =
  ts_chain_slug :: "string"
  ts_commit_sha :: "string"

definition unmarshal_TaskStampedPayload :: "json \<Rightarrow> TaskStampedPayload option" where
  "unmarshal_TaskStampedPayload j = do {
     fs \<leftarrow> struct_fields j;
     x0 \<leftarrow> dec_str (vals fs ''chain_slug'');
     x1 \<leftarrow> dec_str (vals fs ''commit_sha'');
     Some \<lparr>ts_chain_slug = x0, ts_commit_sha = x1\<rparr> }"

definition marshal_TaskStampedPayload :: "TaskStampedPayload \<Rightarrow> json" where
  "marshal_TaskStampedPayload p = JObj (
     enc_str_omit ''chain_slug'' (ts_chain_slug p) @
     enc_str ''commit_sha'' (ts_commit_sha p))"

record ChainCreatedPayload =
  cc_output :: "string"
  cc_design_decisions :: "string"
  cc_completion_condition :: "string"
  cc_tasks :: "string list"

definition unmarshal_ChainCreatedPayload :: "json \<Rightarrow> ChainCreatedPayload option" where
  "unmarshal_ChainCreatedPayload j = do {
     fs \<leftarrow> struct_fields j;
     x0 \<leftarrow> dec_str (vals fs ''output'');
     x1 \<leftarrow> dec_str (vals fs ''design_decisions'');
     x2 \<leftarrow> dec_str (vals fs ''completion_condition'');
     x3 \<leftarrow> dec_strs (vals fs ''tasks'');
     Some \<lparr>cc_output = x0, cc_design_decisions = x1, cc_completion_condition = x2, cc_tasks = x3\<rparr> }"

definition marshal_ChainCreatedPayload :: "ChainCreatedPayload \<Rightarrow> json" where
  "marshal_ChainCreatedPayload p = JObj (
     enc_str ''output'' (cc_output p) @
     enc_str ''design_decisions'' (cc_design_decisions p) @
     enc_str ''completion_condition'' (cc_completion_condition p) @
     enc_strs_omit ''tasks'' (cc_tasks p))"

record ChainClosedPayload =
  cl_closure_summary :: "string option"

definition unmarshal_ChainClosedPayload :: "json \<Rightarrow> ChainClosedPayload option" where
  "unmarshal_ChainClosedPayload j = do {
     fs \<leftarrow> struct_fields j;
     x0 \<leftarrow> dec_str_ptr (vals fs ''closure_summary'');
     Some \<lparr>cl_closure_summary = x0\<rparr> }"

definition marshal_ChainClosedPayload :: "ChainClosedPayload \<Rightarrow> json" where
  "marshal_ChainClosedPayload p = JObj (
     enc_str_ptr ''closure_summary'' (cl_closure_summary p))"

record ChainEditedPayload =
  ce_updated_fields :: "string list"
  ce_updated_values :: "go_map"

definition unmarshal_ChainEditedPayload :: "json \<Rightarrow> ChainEditedPayload option" where
  "unmarshal_ChainEditedPayload j = do {
     fs \<leftarrow> struct_fields j;
     x0 \<leftarrow> dec_strs (vals fs ''updated_fields'');
     x1 \<leftarrow> dec_map (vals fs ''updated_values'');
     Some \<lparr>ce_updated_fields = x0, ce_updated_values = x1\<rparr> }"

definition marshal_ChainEditedPayload :: "ChainEditedPayload \<Rightarrow> json" where
  "marshal_ChainEditedPayload p = JObj (
     enc_strs ''updated_fields'' (ce_updated_fields p) @
     enc_map_omit ''updated_values'' (ce_updated_values p))"

definition ChainEditedPayload_ok :: "ChainEditedPayload \<Rightarrow> bool" where
  "ChainEditedPayload_ok p \<longleftrightarrow> gm_sorted (ce_updated_values p)"

record BugReportedPayload =
  br_title :: "string"
  br_problem_statement :: "string"
  br_surface :: "string option"
  br_severity :: "string option"
  br_source :: "string option"
  br_tags :: "string option"
  br_acceptance_criteria :: "string list"
  br_constraints :: "string option"
  br_qwen_task_id :: "string option"
  br_routed_suggestion_slug :: "string option"

definition unmarshal_BugReportedPayload :: "json \<Rightarrow> BugReportedPayload option" where
  "unmarshal_BugReportedPayload j = do {
     fs \<leftarrow> struct_fields j;
     x0 \<leftarrow> dec_str (vals fs ''title'');
     x1 \<leftarrow> dec_str (vals fs ''problem_statement'');
     x2 \<leftarrow> dec_str_ptr (vals fs ''surface'');
     x3 \<leftarrow> dec_str_ptr (vals fs ''severity'');
     x4 \<leftarrow> dec_str_ptr (vals fs ''source'');
     x5 \<leftarrow> dec_str_ptr (vals fs ''tags'');
     x6 \<leftarrow> dec_strs (vals fs ''acceptance_criteria'');
     x7 \<leftarrow> dec_str_ptr (vals fs ''constraints'');
     x8 \<leftarrow> dec_str_ptr (vals fs ''qwen_task_id'');
     x9 \<leftarrow> dec_str_ptr (vals fs ''routed_suggestion_slug'');
     Some \<lparr>br_title = x0, br_problem_statement = x1, br_surface = x2, br_severity = x3, br_source = x4, br_tags = x5, br_acceptance_criteria = x6, br_constraints = x7, br_qwen_task_id = x8, br_routed_suggestion_slug = x9\<rparr> }"

definition marshal_BugReportedPayload :: "BugReportedPayload \<Rightarrow> json" where
  "marshal_BugReportedPayload p = JObj (
     enc_str ''title'' (br_title p) @
     enc_str ''problem_statement'' (br_problem_statement p) @
     enc_str_ptr ''surface'' (br_surface p) @
     enc_str_ptr ''severity'' (br_severity p) @
     enc_str_ptr ''source'' (br_source p) @
     enc_str_ptr ''tags'' (br_tags p) @
     enc_strs_omit ''acceptance_criteria'' (br_acceptance_criteria p) @
     enc_str_ptr ''constraints'' (br_constraints p) @
     enc_str_ptr ''qwen_task_id'' (br_qwen_task_id p) @
     enc_str_ptr ''routed_suggestion_slug'' (br_routed_suggestion_slug p))"

record BugTriagedPayload =
  bt_from_severity :: "string option"
  bt_to_severity :: "string option"
  bt_from_tags :: "string option"
  bt_to_tags :: "string option"

definition unmarshal_BugTriagedPayload :: "json \<Rightarrow> BugTriagedPayload option" where
  "unmarshal_BugTriagedPayload j = do {
     fs \<leftarrow> struct_fields j;
     x0 \<leftarrow> dec_str_ptr (vals fs ''from_severity'');
     x1 \<leftarrow> dec_str_ptr (vals fs ''to_severity'');
     x2 \<leftarrow> dec_str_ptr (vals fs ''from_tags'');
     x3 \<leftarrow> dec_str_ptr (vals fs ''to_tags'');
     Some \<lparr>bt_from_severity = x0, bt_to_severity = x1, bt_from_tags = x2, bt_to_tags = x3\<rparr> }"

definition marshal_BugTriagedPayload :: "BugTriagedPayload \<Rightarrow> json" where
  "marshal_BugTriagedPayload p = JObj (
     enc_str_ptr ''from_severity'' (bt_from_severity p) @
     enc_str_ptr ''to_severity'' (bt_to_severity p) @
     enc_str_ptr ''from_tags'' (bt_from_tags p) @
     enc_str_ptr ''to_tags'' (bt_to_tags p))"

record BugResolvedPayload =
  bv_kind :: "string"
  bv_commit_sha :: "string option"
  bv_dup_of :: "string option"
  bv_routed_chain_slug :: "string option"
  bv_routed_task_slug :: "string option"
  bv_routed_suggestion_slug :: "string option"
  bv_resolution_note :: "string option"

definition unmarshal_BugResolvedPayload :: "json \<Rightarrow> BugResolvedPayload option" where
  "unmarshal_BugResolvedPayload j = do {
     fs \<leftarrow> struct_fields j;
     x0 \<leftarrow> dec_str (vals fs ''kind'');
     x1 \<leftarrow> dec_str_ptr (vals fs ''commit_sha'');
     x2 \<leftarrow> dec_str_ptr (vals fs ''dup_of'');
     x3 \<leftarrow> dec_str_ptr (vals fs ''routed_chain_slug'');
     x4 \<leftarrow> dec_str_ptr (vals fs ''routed_task_slug'');
     x5 \<leftarrow> dec_str_ptr (vals fs ''routed_suggestion_slug'');
     x6 \<leftarrow> dec_str_ptr (vals fs ''resolution_note'');
     Some \<lparr>bv_kind = x0, bv_commit_sha = x1, bv_dup_of = x2, bv_routed_chain_slug = x3, bv_routed_task_slug = x4, bv_routed_suggestion_slug = x5, bv_resolution_note = x6\<rparr> }"

definition marshal_BugResolvedPayload :: "BugResolvedPayload \<Rightarrow> json" where
  "marshal_BugResolvedPayload p = JObj (
     enc_str ''kind'' (bv_kind p) @
     enc_str_ptr ''commit_sha'' (bv_commit_sha p) @
     enc_str_ptr ''dup_of'' (bv_dup_of p) @
     enc_str_ptr ''routed_chain_slug'' (bv_routed_chain_slug p) @
     enc_str_ptr ''routed_task_slug'' (bv_routed_task_slug p) @
     enc_str_ptr ''routed_suggestion_slug'' (bv_routed_suggestion_slug p) @
     enc_str_ptr ''resolution_note'' (bv_resolution_note p))"

record BugEditedPayload =
  be_updated_fields :: "string list"
  be_updated_values :: "go_map"

definition unmarshal_BugEditedPayload :: "json \<Rightarrow> BugEditedPayload option" where
  "unmarshal_BugEditedPayload j = do {
     fs \<leftarrow> struct_fields j;
     x0 \<leftarrow> dec_strs (vals fs ''updated_fields'');
     x1 \<leftarrow> dec_map (vals fs ''updated_values'');
     Some \<lparr>be_updated_fields = x0, be_updated_values = x1\<rparr> }"

definition marshal_BugEditedPayload :: "BugEditedPayload \<Rightarrow> json" where
  "marshal_BugEditedPayload p = JObj (
     enc_strs ''updated_fields'' (be_updated_fields p) @
     enc_map_omit ''updated_values'' (be_updated_values p))"

definition BugEditedPayload_ok :: "BugEditedPayload \<Rightarrow> bool" where
  "BugEditedPayload_ok p \<longleftrightarrow> gm_sorted (be_updated_values p)"

record BugStampedPayload =
  bs_commit_sha :: "string"

definition unmarshal_BugStampedPayload :: "json \<Rightarrow> BugStampedPayload option" where
  "unmarshal_BugStampedPayload j = do {
     fs \<leftarrow> struct_fields j;
     x0 \<leftarrow> dec_str (vals fs ''commit_sha'');
     Some \<lparr>bs_commit_sha = x0\<rparr> }"

definition marshal_BugStampedPayload :: "BugStampedPayload \<Rightarrow> json" where
  "marshal_BugStampedPayload p = JObj (
     enc_str ''commit_sha'' (bs_commit_sha p))"

record SuggestionReportedPayload =
  sr_title :: "string"
  sr_problem_statement :: "string"
  sr_surface :: "string option"
  sr_priority :: "string option"
  sr_source :: "string option"
  sr_tags :: "string option"
  sr_acceptance_criteria :: "string list"
  sr_constraints :: "string option"

definition unmarshal_SuggestionReportedPayload :: "json \<Rightarrow> SuggestionReportedPayload option" where
  "unmarshal_SuggestionReportedPayload j = do {
     fs \<leftarrow> struct_fields j;
     x0 \<leftarrow> dec_str (vals fs ''title'');
     x1 \<leftarrow> dec_str (vals fs ''problem_statement'');
     x2 \<leftarrow> dec_str_ptr (vals fs ''surface'');
     x3 \<leftarrow> dec_str_ptr (vals fs ''priority'');
     x4 \<leftarrow> dec_str_ptr (vals fs ''source'');
     x5 \<leftarrow> dec_str_ptr (vals fs ''tags'');
     x6 \<leftarrow> dec_strs (vals fs ''acceptance_criteria'');
     x7 \<leftarrow> dec_str_ptr (vals fs ''constraints'');
     Some \<lparr>sr_title = x0, sr_problem_statement = x1, sr_surface = x2, sr_priority = x3, sr_source = x4, sr_tags = x5, sr_acceptance_criteria = x6, sr_constraints = x7\<rparr> }"

definition marshal_SuggestionReportedPayload :: "SuggestionReportedPayload \<Rightarrow> json" where
  "marshal_SuggestionReportedPayload p = JObj (
     enc_str ''title'' (sr_title p) @
     enc_str ''problem_statement'' (sr_problem_statement p) @
     enc_str_ptr ''surface'' (sr_surface p) @
     enc_str_ptr ''priority'' (sr_priority p) @
     enc_str_ptr ''source'' (sr_source p) @
     enc_str_ptr ''tags'' (sr_tags p) @
     enc_strs_omit ''acceptance_criteria'' (sr_acceptance_criteria p) @
     enc_str_ptr ''constraints'' (sr_constraints p))"

record SuggestionResolvedPayload =
  sv_kind :: "string"
  sv_commit_sha :: "string option"
  sv_routed_chain_slug :: "string option"
  sv_routed_task_slug :: "string option"
  sv_routed_bug_slug :: "string option"
  sv_resolution_note :: "string option"

definition unmarshal_SuggestionResolvedPayload :: "json \<Rightarrow> SuggestionResolvedPayload option" where
  "unmarshal_SuggestionResolvedPayload j = do {
     fs \<leftarrow> struct_fields j;
     x0 \<leftarrow> dec_str (vals fs ''kind'');
     x1 \<leftarrow> dec_str_ptr (vals fs ''commit_sha'');
     x2 \<leftarrow> dec_str_ptr (vals fs ''routed_chain_slug'');
     x3 \<leftarrow> dec_str_ptr (vals fs ''routed_task_slug'');
     x4 \<leftarrow> dec_str_ptr (vals fs ''routed_bug_slug'');
     x5 \<leftarrow> dec_str_ptr (vals fs ''resolution_note'');
     Some \<lparr>sv_kind = x0, sv_commit_sha = x1, sv_routed_chain_slug = x2, sv_routed_task_slug = x3, sv_routed_bug_slug = x4, sv_resolution_note = x5\<rparr> }"

definition marshal_SuggestionResolvedPayload :: "SuggestionResolvedPayload \<Rightarrow> json" where
  "marshal_SuggestionResolvedPayload p = JObj (
     enc_str ''kind'' (sv_kind p) @
     enc_str_ptr ''commit_sha'' (sv_commit_sha p) @
     enc_str_ptr ''routed_chain_slug'' (sv_routed_chain_slug p) @
     enc_str_ptr ''routed_task_slug'' (sv_routed_task_slug p) @
     enc_str_ptr ''routed_bug_slug'' (sv_routed_bug_slug p) @
     enc_str_ptr ''resolution_note'' (sv_resolution_note p))"

record SuggestionEditedPayload =
  se_updated_fields :: "string list"
  se_updated_values :: "go_map"

definition unmarshal_SuggestionEditedPayload :: "json \<Rightarrow> SuggestionEditedPayload option" where
  "unmarshal_SuggestionEditedPayload j = do {
     fs \<leftarrow> struct_fields j;
     x0 \<leftarrow> dec_strs (vals fs ''updated_fields'');
     x1 \<leftarrow> dec_map (vals fs ''updated_values'');
     Some \<lparr>se_updated_fields = x0, se_updated_values = x1\<rparr> }"

definition marshal_SuggestionEditedPayload :: "SuggestionEditedPayload \<Rightarrow> json" where
  "marshal_SuggestionEditedPayload p = JObj (
     enc_strs ''updated_fields'' (se_updated_fields p) @
     enc_map_omit ''updated_values'' (se_updated_values p))"

definition SuggestionEditedPayload_ok :: "SuggestionEditedPayload \<Rightarrow> bool" where
  "SuggestionEditedPayload_ok p \<longleftrightarrow> gm_sorted (se_updated_values p)"

record SuggestionStampedPayload =
  ss_commit_sha :: "string"

definition unmarshal_SuggestionStampedPayload :: "json \<Rightarrow> SuggestionStampedPayload option" where
  "unmarshal_SuggestionStampedPayload j = do {
     fs \<leftarrow> struct_fields j;
     x0 \<leftarrow> dec_str (vals fs ''commit_sha'');
     Some \<lparr>ss_commit_sha = x0\<rparr> }"

definition marshal_SuggestionStampedPayload :: "SuggestionStampedPayload \<Rightarrow> json" where
  "marshal_SuggestionStampedPayload p = JObj (
     enc_str ''commit_sha'' (ss_commit_sha p))"

record MemoryWrittenPayload =
  mw_name :: "string"
  mw_kind :: "string"
  mw_description :: "string"
  mw_source :: "string option"
  mw_observed_first :: "string option"
  mw_vault_path :: "string"
  mw_body_length_bytes :: "int"

definition unmarshal_MemoryWrittenPayload :: "json \<Rightarrow> MemoryWrittenPayload option" where
  "unmarshal_MemoryWrittenPayload j = do {
     fs \<leftarrow> struct_fields j;
     x0 \<leftarrow> dec_str (vals fs ''name'');
     x1 \<leftarrow> dec_str (vals fs ''kind'');
     x2 \<leftarrow> dec_str (vals fs ''description'');
     x3 \<leftarrow> dec_str_ptr (vals fs ''source'');
     x4 \<leftarrow> dec_str_ptr (vals fs ''observed_first'');
     x5 \<leftarrow> dec_str (vals fs ''vault_path'');
     x6 \<leftarrow> dec_int (vals fs ''body_length_bytes'');
     Some \<lparr>mw_name = x0, mw_kind = x1, mw_description = x2, mw_source = x3, mw_observed_first = x4, mw_vault_path = x5, mw_body_length_bytes = x6\<rparr> }"

definition marshal_MemoryWrittenPayload :: "MemoryWrittenPayload \<Rightarrow> json" where
  "marshal_MemoryWrittenPayload p = JObj (
     enc_str ''name'' (mw_name p) @
     enc_str ''kind'' (mw_kind p) @
     enc_str ''description'' (mw_description p) @
     enc_str_ptr ''source'' (mw_source p) @
     enc_str_ptr ''observed_first'' (mw_observed_first p) @
     enc_str ''vault_path'' (mw_vault_path p) @
     enc_int ''body_length_bytes'' (mw_body_length_bytes p))"

definition MemoryWrittenPayload_ok :: "MemoryWrittenPayload \<Rightarrow> bool" where
  "MemoryWrittenPayload_ok p \<longleftrightarrow> in_int64 (mw_body_length_bytes p)"

record RoadmapItemPayload =
  ri_position :: "int"
  ri_ref_kind :: "string"
  ri_ref_slug :: "string"
  ri_chain_slug :: "string option"
  ri_note :: "string option"

definition unmarshal_RoadmapItemPayload :: "json \<Rightarrow> RoadmapItemPayload option" where
  "unmarshal_RoadmapItemPayload j = do {
     fs \<leftarrow> struct_fields j;
     x0 \<leftarrow> dec_int (vals fs ''position'');
     x1 \<leftarrow> dec_str (vals fs ''ref_kind'');
     x2 \<leftarrow> dec_str (vals fs ''ref_slug'');
     x3 \<leftarrow> dec_str_ptr (vals fs ''chain_slug'');
     x4 \<leftarrow> dec_str_ptr (vals fs ''note'');
     Some \<lparr>ri_position = x0, ri_ref_kind = x1, ri_ref_slug = x2, ri_chain_slug = x3, ri_note = x4\<rparr> }"

definition marshal_RoadmapItemPayload :: "RoadmapItemPayload \<Rightarrow> json" where
  "marshal_RoadmapItemPayload p = JObj (
     enc_int ''position'' (ri_position p) @
     enc_str ''ref_kind'' (ri_ref_kind p) @
     enc_str ''ref_slug'' (ri_ref_slug p) @
     enc_str_ptr ''chain_slug'' (ri_chain_slug p) @
     enc_str_ptr ''note'' (ri_note p))"

definition RoadmapItemPayload_ok :: "RoadmapItemPayload \<Rightarrow> bool" where
  "RoadmapItemPayload_ok p \<longleftrightarrow> in_int64 (ri_position p)"

abbreviation "dec_items \<equiv> dec_step (arr_val unmarshal_RoadmapItemPayload) []"

definition enc_items_omit :: "string \<Rightarrow> RoadmapItemPayload list \<Rightarrow> (string \<times> json) list" where
  "enc_items_omit k xs = (if xs = [] then [] else [(k, JArr (map marshal_RoadmapItemPayload xs))])"

record RoadmapUpdatedPayload =
  ru_action_kind :: "string"
  ru_positions :: "int list"
  ru_ref_kind :: "string option"
  ru_ref_slug :: "string option"
  ru_item_count :: "int option"
  ru_items :: "RoadmapItemPayload list"

text \<open>
  The \<open>UnmarshalJSON\<close> of the type: a legacy payload with the layout in top-level fields gets
  one item per position.
\<close>

definition legacy_items :: "RoadmapUpdatedPayload \<Rightarrow> RoadmapUpdatedPayload" where
  "legacy_items p =
     (case (ru_ref_kind p, ru_ref_slug p) of
        (Some k, Some s) \<Rightarrow>
          if ru_items p = [] \<and> ru_positions p \<noteq> []
          then p\<lparr>ru_items := map (\<lambda>pos. \<lparr>ri_position = pos, ri_ref_kind = k, ri_ref_slug = s,
                 ri_chain_slug = None, ri_note = None\<rparr>) (ru_positions p)\<rparr>
          else p
      | _ \<Rightarrow> p)"

definition unmarshal_RoadmapUpdatedPayload :: "json \<Rightarrow> RoadmapUpdatedPayload option" where
  "unmarshal_RoadmapUpdatedPayload j = do {
     fs \<leftarrow> struct_fields j;
     x0 \<leftarrow> dec_str (vals fs ''action_kind'');
     x1 \<leftarrow> dec_ints (vals fs ''positions'');
     x2 \<leftarrow> dec_str_ptr (vals fs ''ref_kind'');
     x3 \<leftarrow> dec_str_ptr (vals fs ''ref_slug'');
     x4 \<leftarrow> dec_int_ptr (vals fs ''item_count'');
     x5 \<leftarrow> dec_items (vals fs ''items'');
     Some (legacy_items \<lparr>ru_action_kind = x0, ru_positions = x1, ru_ref_kind = x2, ru_ref_slug = x3, ru_item_count = x4, ru_items = x5\<rparr>) }"

definition marshal_RoadmapUpdatedPayload :: "RoadmapUpdatedPayload \<Rightarrow> json" where
  "marshal_RoadmapUpdatedPayload p = JObj (
     enc_str ''action_kind'' (ru_action_kind p) @
     enc_ints_omit ''positions'' (ru_positions p) @
     enc_str_ptr ''ref_kind'' (ru_ref_kind p) @
     enc_str_ptr ''ref_slug'' (ru_ref_slug p) @
     enc_int_ptr ''item_count'' (ru_item_count p) @
     enc_items_omit ''items'' (ru_items p))"

definition RoadmapUpdatedPayload_ok :: "RoadmapUpdatedPayload \<Rightarrow> bool" where
  "RoadmapUpdatedPayload_ok p \<longleftrightarrow> list_all in_int64 (ru_positions p) \<and> ptr_in_int64 (ru_item_count p) \<and> list_all RoadmapItemPayload_ok (ru_items p)"

section \<open>Round trips\<close>

lemma fold_name_keys [simp]:
  "fold_name ''acceptance_criteria'' = ''acceptance_criteria''"
  "fold_name ''action_kind'' = ''action_kind''"
  "fold_name ''blocker_slug'' = ''blocker_slug''"
  "fold_name ''body_length_bytes'' = ''body_length_bytes''"
  "fold_name ''chain_slug'' = ''chain_slug''"
  "fold_name ''closure_summary'' = ''closure_summary''"
  "fold_name ''commit_sha'' = ''commit_sha''"
  "fold_name ''completion_condition'' = ''completion_condition''"
  "fold_name ''constraints'' = ''constraints''"
  "fold_name ''context_required'' = ''context_required''"
  "fold_name ''description'' = ''description''"
  "fold_name ''design_decisions'' = ''design_decisions''"
  "fold_name ''dup_of'' = ''dup_of''"
  "fold_name ''from_chain_slug'' = ''from_chain_slug''"
  "fold_name ''from_position'' = ''from_position''"
  "fold_name ''from_severity'' = ''from_severity''"
  "fold_name ''from_status'' = ''from_status''"
  "fold_name ''from_tags'' = ''from_tags''"
  "fold_name ''handoff_output'' = ''handoff_output''"
  "fold_name ''item_count'' = ''item_count''"
  "fold_name ''items'' = ''items''"
  "fold_name ''kind'' = ''kind''"
  "fold_name ''name'' = ''name''"
  "fold_name ''note'' = ''note''"
  "fold_name ''observed_first'' = ''observed_first''"
  "fold_name ''output'' = ''output''"
  "fold_name ''position'' = ''position''"
  "fold_name ''positions'' = ''positions''"
  "fold_name ''priority'' = ''priority''"
  "fold_name ''problem_statement'' = ''problem_statement''"
  "fold_name ''qwen_task_id'' = ''qwen_task_id''"
  "fold_name ''reason'' = ''reason''"
  "fold_name ''ref_kind'' = ''ref_kind''"
  "fold_name ''ref_slug'' = ''ref_slug''"
  "fold_name ''removed_blocker_slug'' = ''removed_blocker_slug''"
  "fold_name ''resolution_note'' = ''resolution_note''"
  "fold_name ''routed_bug_slug'' = ''routed_bug_slug''"
  "fold_name ''routed_chain_slug'' = ''routed_chain_slug''"
  "fold_name ''routed_suggestion_slug'' = ''routed_suggestion_slug''"
  "fold_name ''routed_task_slug'' = ''routed_task_slug''"
  "fold_name ''severity'' = ''severity''"
  "fold_name ''source'' = ''source''"
  "fold_name ''surface'' = ''surface''"
  "fold_name ''tags'' = ''tags''"
  "fold_name ''tasks'' = ''tasks''"
  "fold_name ''title'' = ''title''"
  "fold_name ''to_chain_slug'' = ''to_chain_slug''"
  "fold_name ''to_position'' = ''to_position''"
  "fold_name ''to_severity'' = ''to_severity''"
  "fold_name ''to_status'' = ''to_status''"
  "fold_name ''to_tags'' = ''to_tags''"
  "fold_name ''updated_fields'' = ''updated_fields''"
  "fold_name ''updated_values'' = ''updated_values''"
  "fold_name ''vault_path'' = ''vault_path''"
  by code_simp+

declare fold_name.simps [simp del]

lemma vals_Nil [simp]: "vals [] k = []"
  by (simp add: vals_def)

lemma vals_append [simp]: "vals (fs @ gs) k = vals fs k @ vals gs k"
  by (simp add: vals_def)

text \<open>The values an optional member contributes, folded so that no case split is needed.\<close>

definition ptr_vals :: "('a \<Rightarrow> json) \<Rightarrow> 'a option \<Rightarrow> json list" where
  "ptr_vals f p = (case p of None \<Rightarrow> [] | Some x \<Rightarrow> [f x])"

definition omit_vals :: "('a list \<Rightarrow> json) \<Rightarrow> 'a list \<Rightarrow> json list" where
  "omit_vals f xs = (if xs = [] then [] else [f xs])"

lemma vals_enc [simp]:
  "vals (enc_str k s) q = (if fold_name k = q then [JStr s] else [])"
  "vals (enc_str_omit k s) q = (if fold_name k = q then omit_vals JStr s else [])"
  "vals (enc_str_ptr k p) q = (if fold_name k = q then ptr_vals JStr p else [])"
  "vals (enc_int k n) q = (if fold_name k = q then [JInt n] else [])"
  "vals (enc_int_ptr k i) q = (if fold_name k = q then ptr_vals JInt i else [])"
  "vals (enc_strs k xs) q = (if fold_name k = q then [JArr (map JStr xs)] else [])"
  "vals (enc_strs_omit k xs) q =
     (if fold_name k = q then omit_vals (\<lambda>xs. JArr (map JStr xs)) xs else [])"
  "vals (enc_ints_omit k ns) q =
     (if fold_name k = q then omit_vals (\<lambda>xs. JArr (map JInt xs)) ns else [])"
  "vals (enc_map_omit k m) q =
     (if fold_name k = q then omit_vals (\<lambda>m. JObj (map (\<lambda>e. (fst e, JStr (snd e))) m)) m else [])"
  by (auto simp: vals_def enc_str_def enc_str_omit_def enc_str_ptr_def enc_int_def enc_int_ptr_def
      enc_strs_def enc_strs_omit_def enc_ints_omit_def enc_map_omit_def ptr_vals_def omit_vals_def
      split: option.splits)

lemma dec_step_simps [simp]:
  "dec_step f z [] = Some z"
  "dec_step f z [j] = f z j"
  by (simp_all add: dec_step_def)

lemma dec_all_map:
  "(\<And>x. x \<in> set xs \<Longrightarrow> f (g x) = Some x) \<Longrightarrow> dec_all f (map g xs) = Some xs"
  by (induction xs) auto

lemma dec_all_strs [simp]: "dec_all (str_val []) (map JStr xs) = Some xs"
  by (rule dec_all_map) simp

lemma dec_all_ints [simp]: "list_all in_int64 xs \<Longrightarrow> dec_all (int_val 0) (map JInt xs) = Some xs"
  by (rule dec_all_map) (simp add: list_all_iff)

lemma gm_put_snoc:
  "\<forall>e \<in> set m. fst e < k \<Longrightarrow> gm_put k v m = m @ [(k, v)]"
  by (induction k v m rule: gm_put.induct) auto

lemma map_entries_append:
  "map_entries m (xs @ ys) = (case map_entries m xs of None \<Rightarrow> None | Some m' \<Rightarrow> map_entries m' ys)"
  by (induction m xs rule: map_entries.induct) (auto split: option.splits)

lemma map_entries_sorted [simp]:
  "gm_sorted m \<Longrightarrow> map_entries [] (map (\<lambda>e. (fst e, JStr (snd e))) m) = Some m"
proof (induction m rule: rev_induct)
  case Nil
  then show ?case by simp
next
  case (snoc e m)
  then show ?case
    by (simp add: map_entries_append gm_sorted_def sorted_wrt_append gm_put_snoc)
qed

lemma dec_folded [simp]:
  "dec_str (omit_vals JStr s) = Some s"
  "dec_str_ptr (ptr_vals JStr p) = Some p"
  "ptr_in_int64 i \<Longrightarrow> dec_int_ptr (ptr_vals JInt i) = Some i"
  "dec_strs (omit_vals (\<lambda>xs. JArr (map JStr xs)) ss) = Some ss"
  "dec_criteria (omit_vals (\<lambda>xs. JArr (map JStr xs)) ss) = Some ss"
  "list_all in_int64 ns \<Longrightarrow> dec_ints (omit_vals (\<lambda>xs. JArr (map JInt xs)) ns) = Some ns"
  "gm_sorted m \<Longrightarrow>
   dec_map (omit_vals (\<lambda>m. JObj (map (\<lambda>e. (fst e, JStr (snd e))) m)) m) = Some m"
  by (auto simp: omit_vals_def ptr_vals_def ptr_in_int64_def dec_criteria_def split: option.splits)

lemma gm_put_lookup: "map_of (gm_put k v m) = (map_of m)(k \<mapsto> v)"
  by (induction k v m rule: gm_put.induct) auto

lemma roundtrip_TaskCreatedPayload [roundtrip]:
  "TaskCreatedPayload_ok p \<Longrightarrow> unmarshal_TaskCreatedPayload (marshal_TaskCreatedPayload p) = Some p"
  by (simp add: unmarshal_TaskCreatedPayload_def marshal_TaskCreatedPayload_def TaskCreatedPayload_ok_def)

lemma roundtrip_TaskAssignedToChainPayload [roundtrip]:
  "TaskAssignedToChainPayload_ok p \<Longrightarrow> unmarshal_TaskAssignedToChainPayload (marshal_TaskAssignedToChainPayload p) = Some p"
  by (simp add: unmarshal_TaskAssignedToChainPayload_def marshal_TaskAssignedToChainPayload_def TaskAssignedToChainPayload_ok_def)

lemma roundtrip_TaskCompletedPayload [roundtrip]:
  "unmarshal_TaskCompletedPayload (marshal_TaskCompletedPayload p) = Some p"
  by (simp add: unmarshal_TaskCompletedPayload_def marshal_TaskCompletedPayload_def)

lemma roundtrip_TaskCancelledPayload [roundtrip]:
  "unmarshal_TaskCancelledPayload (marshal_TaskCancelledPayload p) = Some p"
  by (simp add: unmarshal_TaskCancelledPayload_def marshal_TaskCancelledPayload_def)

lemma roundtrip_TaskTransitionedPayload [roundtrip]:
  "unmarshal_TaskTransitionedPayload (marshal_TaskTransitionedPayload p) = Some p"
  by (simp add: unmarshal_TaskTransitionedPayload_def marshal_TaskTransitionedPayload_def)

lemma roundtrip_TaskEditedPayload [roundtrip]:
  "TaskEditedPayload_ok p \<Longrightarrow> unmarshal_TaskEditedPayload (marshal_TaskEditedPayload p) = Some p"
  by (simp add: unmarshal_TaskEditedPayload_def marshal_TaskEditedPayload_def TaskEditedPayload_ok_def)

lemma roundtrip_TaskStampedPayload [roundtrip]:
  "unmarshal_TaskStampedPayload (marshal_TaskStampedPayload p) = Some p"
  by (simp add: unmarshal_TaskStampedPayload_def marshal_TaskStampedPayload_def)

lemma roundtrip_ChainCreatedPayload [roundtrip]:
  "unmarshal_ChainCreatedPayload (marshal_ChainCreatedPayload p) = Some p"
  by (simp add: unmarshal_ChainCreatedPayload_def marshal_ChainCreatedPayload_def)

lemma roundtrip_ChainClosedPayload [roundtrip]:
  "unmarshal_ChainClosedPayload (marshal_ChainClosedPayload p) = Some p"
  by (simp add: unmarshal_ChainClosedPayload_def marshal_ChainClosedPayload_def)

lemma roundtrip_ChainEditedPayload [roundtrip]:
  "ChainEditedPayload_ok p \<Longrightarrow> unmarshal_ChainEditedPayload (marshal_ChainEditedPayload p) = Some p"
  by (simp add: unmarshal_ChainEditedPayload_def marshal_ChainEditedPayload_def ChainEditedPayload_ok_def)

lemma roundtrip_BugReportedPayload [roundtrip]:
  "unmarshal_BugReportedPayload (marshal_BugReportedPayload p) = Some p"
  by (simp add: unmarshal_BugReportedPayload_def marshal_BugReportedPayload_def)

lemma roundtrip_BugTriagedPayload [roundtrip]:
  "unmarshal_BugTriagedPayload (marshal_BugTriagedPayload p) = Some p"
  by (simp add: unmarshal_BugTriagedPayload_def marshal_BugTriagedPayload_def)

lemma roundtrip_BugResolvedPayload [roundtrip]:
  "unmarshal_BugResolvedPayload (marshal_BugResolvedPayload p) = Some p"
  by (simp add: unmarshal_BugResolvedPayload_def marshal_BugResolvedPayload_def)

lemma roundtrip_BugEditedPayload [roundtrip]:
  "BugEditedPayload_ok p \<Longrightarrow> unmarshal_BugEditedPayload (marshal_BugEditedPayload p) = Some p"
  by (simp add: unmarshal_BugEditedPayload_def marshal_BugEditedPayload_def BugEditedPayload_ok_def)

lemma roundtrip_BugStampedPayload [roundtrip]:
  "unmarshal_BugStampedPayload (marshal_BugStampedPayload p) = Some p"
  by (simp add: unmarshal_BugStampedPayload_def marshal_BugStampedPayload_def)

lemma roundtrip_SuggestionReportedPayload [roundtrip]:
  "unmarshal_SuggestionReportedPayload (marshal_SuggestionReportedPayload p) = Some p"
  by (simp add: unmarshal_SuggestionReportedPayload_def marshal_SuggestionReportedPayload_def)

lemma roundtrip_SuggestionResolvedPayload [roundtrip]:
  "unmarshal_SuggestionResolvedPayload (marshal_SuggestionResolvedPayload p) = Some p"
  by (simp add: unmarshal_SuggestionResolvedPayload_def marshal_SuggestionResolvedPayload_def)

lemma roundtrip_SuggestionEditedPayload [roundtrip]:
  "SuggestionEditedPayload_ok p \<Longrightarrow> unmarshal_SuggestionEditedPayload (marshal_SuggestionEditedPayload p) = Some p"
  by (simp add: unmarshal_SuggestionEditedPayload_def marshal_SuggestionEditedPayload_def SuggestionEditedPayload_ok_def)

lemma roundtrip_SuggestionStampedPayload [roundtrip]:
  "unmarshal_SuggestionStampedPayload (marshal_SuggestionStampedPayload p) = Some p"
  by (simp add: unmarshal_SuggestionStampedPayload_def marshal_SuggestionStampedPayload_def)

lemma roundtrip_MemoryWrittenPayload [roundtrip]:
  "MemoryWrittenPayload_ok p \<Longrightarrow> unmarshal_MemoryWrittenPayload (marshal_MemoryWrittenPayload p) = Some p"
  by (simp add: unmarshal_MemoryWrittenPayload_def marshal_MemoryWrittenPayload_def MemoryWrittenPayload_ok_def)

lemma roundtrip_RoadmapItemPayload [roundtrip]:
  "RoadmapItemPayload_ok p \<Longrightarrow> unmarshal_RoadmapItemPayload (marshal_RoadmapItemPayload p) = Some p"
  by (simp add: unmarshal_RoadmapItemPayload_def marshal_RoadmapItemPayload_def RoadmapItemPayload_ok_def)

lemma dec_all_items [simp]:
  "list_all RoadmapItemPayload_ok xs \<Longrightarrow>
   dec_all unmarshal_RoadmapItemPayload (map marshal_RoadmapItemPayload xs) = Some xs"
  by (rule dec_all_map) (simp add: list_all_iff roundtrip_RoadmapItemPayload)

lemma vals_enc_items [simp]:
  "vals (enc_items_omit k xs) q =
     (if fold_name k = q then omit_vals (\<lambda>xs. JArr (map marshal_RoadmapItemPayload xs)) xs else [])"
  by (simp add: vals_def enc_items_omit_def omit_vals_def)

lemma dec_folded_items [simp]:
  "list_all RoadmapItemPayload_ok xs \<Longrightarrow>
   dec_items (omit_vals (\<lambda>xs. JArr (map marshal_RoadmapItemPayload xs)) xs) = Some xs"
  by (simp add: omit_vals_def)

lemma roundtrip_RoadmapUpdatedPayload [roundtrip]:
  "RoadmapUpdatedPayload_ok p \<Longrightarrow> unmarshal_RoadmapUpdatedPayload (marshal_RoadmapUpdatedPayload p) = Some (legacy_items p)"
  by (cases p) (simp add: unmarshal_RoadmapUpdatedPayload_def marshal_RoadmapUpdatedPayload_def RoadmapUpdatedPayload_ok_def)

lemma legacy_items_id:
  "legacy_items p = p \<longleftrightarrow> ru_items p \<noteq> [] \<or> ru_positions p = [] \<or> ru_ref_kind p = None \<or> ru_ref_slug p = None"
  by (cases p) (auto simp: legacy_items_def split: option.splits)

text \<open>C22. What the folds decode is what was emitted: for each of the payload structs that a fold of the
  work projections decodes (those of tasks, chains, bugs, suggestions, memories and the roadmap; the
  payloads of reopened bugs and suggestions, retired tasks, batches and handoffs are decoded by none),
  \<open>Unmarshal\<close> after \<open>Marshal\<close> gives the value back, provided its integers fit 64 bits, its maps are in
  key order, as \<open>Marshal\<close> writes them, and its strings are valid UTF-8. A roadmap payload comes back
  through \<open>legacy_items\<close>, which changes it only if it names a reference and positions but no items.\<close>

theorem emitted_payloads_decode:
  "(TaskCreatedPayload_ok tc \<longrightarrow> unmarshal_TaskCreatedPayload (marshal_TaskCreatedPayload tc) = Some tc) \<and>
   (TaskAssignedToChainPayload_ok ta \<longrightarrow> unmarshal_TaskAssignedToChainPayload (marshal_TaskAssignedToChainPayload ta) = Some ta) \<and>
   unmarshal_TaskCompletedPayload (marshal_TaskCompletedPayload tp) = Some tp \<and>
   unmarshal_TaskCancelledPayload (marshal_TaskCancelledPayload tn) = Some tn \<and>
   unmarshal_TaskTransitionedPayload (marshal_TaskTransitionedPayload tt) = Some tt \<and>
   (TaskEditedPayload_ok te \<longrightarrow> unmarshal_TaskEditedPayload (marshal_TaskEditedPayload te) = Some te) \<and>
   unmarshal_TaskStampedPayload (marshal_TaskStampedPayload ts) = Some ts \<and>
   unmarshal_ChainCreatedPayload (marshal_ChainCreatedPayload cc) = Some cc \<and>
   unmarshal_ChainClosedPayload (marshal_ChainClosedPayload cl) = Some cl \<and>
   (ChainEditedPayload_ok ce \<longrightarrow> unmarshal_ChainEditedPayload (marshal_ChainEditedPayload ce) = Some ce) \<and>
   unmarshal_BugReportedPayload (marshal_BugReportedPayload br) = Some br \<and>
   unmarshal_BugTriagedPayload (marshal_BugTriagedPayload bt) = Some bt \<and>
   unmarshal_BugResolvedPayload (marshal_BugResolvedPayload bv) = Some bv \<and>
   (BugEditedPayload_ok be \<longrightarrow> unmarshal_BugEditedPayload (marshal_BugEditedPayload be) = Some be) \<and>
   unmarshal_BugStampedPayload (marshal_BugStampedPayload bs) = Some bs \<and>
   unmarshal_SuggestionReportedPayload (marshal_SuggestionReportedPayload sr) = Some sr \<and>
   unmarshal_SuggestionResolvedPayload (marshal_SuggestionResolvedPayload sv) = Some sv \<and>
   (SuggestionEditedPayload_ok se \<longrightarrow> unmarshal_SuggestionEditedPayload (marshal_SuggestionEditedPayload se) = Some se) \<and>
   unmarshal_SuggestionStampedPayload (marshal_SuggestionStampedPayload ss) = Some ss \<and>
   (MemoryWrittenPayload_ok mw \<longrightarrow> unmarshal_MemoryWrittenPayload (marshal_MemoryWrittenPayload mw) = Some mw) \<and>
   (RoadmapItemPayload_ok ri \<longrightarrow> unmarshal_RoadmapItemPayload (marshal_RoadmapItemPayload ri) = Some ri) \<and>
   (RoadmapUpdatedPayload_ok ru \<longrightarrow> unmarshal_RoadmapUpdatedPayload (marshal_RoadmapUpdatedPayload ru) = Some (legacy_items ru)) \<and>
   (ru_items ru \<noteq> [] \<or> ru_positions ru = [] \<or> ru_ref_kind ru = None \<or> ru_ref_slug ru = None \<longleftrightarrow> legacy_items ru = ru)"
  by (simp add: roundtrip legacy_items_id)

definition ex_created_payload :: TaskCreatedPayload where
  "ex_created_payload = \<lparr>tc_chain_slug = ''c'', tc_position = Some 3, tc_problem_statement = ''x'',
     tc_acceptance_criteria = [''y'', ''z''], tc_context_required = None, tc_constraints = Some ''k'',
     tc_handoff_output = None\<rparr>"

theorem emitted_payloads_decode_witness:
  "unmarshal_TaskCreatedPayload (marshal_TaskCreatedPayload ex_created_payload) = Some ex_created_payload"
proof -
  have "TaskCreatedPayload_ok ex_created_payload"
    by (simp add: TaskCreatedPayload_ok_def ex_created_payload_def ptr_in_int64_def in_int64_def)
  then show ?thesis by (rule emitted_payloads_decode [where tc = ex_created_payload, THEN conjunct1, THEN mp])
qed

end
