(* ===== verification/Work_Tables.thy ===== *)
theory Work_Tables
  imports Event_Payloads Complex_Main
begin

text \<open>
  The database the work surface runs on: the append-only \<open>events\<close> ledger and the projection
  tables of \<open>go/internal/db/migrations\<close> (their live shape after migrations 033 to 072),
  each table a list of rows in storage order, with its primary key and CHECK constraints as
  functions of a row. A nullable column is an \<open>option\<close>; the two FTS5 tables are maps from
  rowid to the indexed columns.
\<close>

section \<open>Events\<close>

text \<open>\<open>projections.RawEvent\<close>: one row of the events table.\<close>

record raw_event =
  ev_id :: string
  ev_ts :: string
  ev_actor_kind :: string
  ev_actor_id :: string
  ev_type :: string
  ev_kind :: string
  ev_slug :: string
  ev_project :: "string option"
  ev_payload :: "json option"
  ev_rationale :: "string option"
  ev_caused_by :: "string option"
  ev_related :: "json option"
  ev_span :: string
  ev_schema_version :: int

section \<open>Rows\<close>

text \<open>
  A value of an INTEGER column. A number bound as an int is stored as such; a text bound to the
  column goes through SQLite's column affinity, which stores an integer, a real or the text. That
  conversion is SQLite's own, so it is a parameter of the folds that need it.
\<close>

datatype sqlval = SqlInt int | SqlReal rat | SqlText string

text \<open>SQLite's comparison of values: numbers by value, before every text; texts bytewise.\<close>

fun sqlval_less :: "sqlval \<Rightarrow> sqlval \<Rightarrow> bool" where
  "sqlval_less (SqlInt a) (SqlInt b) = (a < b)"
| "sqlval_less (SqlInt a) (SqlReal b) = (rat_of_int a < b)"
| "sqlval_less (SqlReal a) (SqlInt b) = (a < rat_of_int b)"
| "sqlval_less (SqlReal a) (SqlReal b) = (a < b)"
| "sqlval_less (SqlText a) (SqlText b) = (a < b)"
| "sqlval_less (SqlText _) _ = False"
| "sqlval_less _ (SqlText _) = True"

text \<open>\<open>rows.Scan\<close> of such a value into an int64: only an integer converts.\<close>

fun scan_int64 :: "sqlval \<Rightarrow> int option" where
  "scan_int64 (SqlInt n) = Some n"
| "scan_int64 _ = None"

record task_row =
  t_id :: int
  t_chain :: int
  t_slug :: string
  t_position :: sqlval
  t_status :: string
  t_problem :: string
  t_acceptance :: string
  t_context :: string
  t_constraints :: string
  t_handoff :: string
  t_originated :: "int option"
  t_moved_on :: "string option"
  t_commit :: "string option"
  t_created :: string
  t_updated :: string
  t_last_id :: string
  t_last_ts :: string

record chain_row =
  c_slug :: string
  c_project :: string
  c_id :: int
  c_status :: string
  c_output :: string
  c_completion :: string
  c_closure :: string
  c_total :: int
  c_pending :: int
  c_active :: int
  c_blocked :: int
  c_closed :: int
  c_cancelled :: int
  c_created :: string
  c_updated :: string
  c_last_id :: string
  c_last_ts :: string

record blocker_row =
  k_blocked :: int
  k_blocker :: int
  k_reason :: string
  k_created :: string
  k_last_id :: string
  k_last_ts :: string

record bug_row =
  b_slug :: string
  b_project :: string
  b_id :: int
  b_title :: string
  b_problem :: string
  b_surface :: string
  b_severity :: string
  b_source :: string
  b_acceptance :: string
  b_constraints :: string
  b_status :: string
  b_resolution :: "string option"
  b_routed_chain :: string
  b_routed_task :: string
  b_routed_suggestion :: string
  b_commit :: "string option"
  b_qwen :: "string option"
  b_tags :: string
  b_filed :: string
  b_resolved_at :: "string option"
  b_updated :: string
  b_last_id :: string
  b_last_ts :: string

record suggestion_row =
  g_slug :: string
  g_project :: string
  g_id :: int
  g_title :: string
  g_problem :: string
  g_surface :: string
  g_priority :: string
  g_source :: string
  g_acceptance :: string
  g_constraints :: string
  g_status :: string
  g_resolution :: "string option"
  g_routed_chain :: string
  g_routed_task :: string
  g_routed_bug :: string
  g_commit :: "string option"
  g_tags :: string
  g_filed :: string
  g_resolved_at :: "string option"
  g_updated :: string
  g_last_id :: string
  g_last_ts :: string

record roadmap_row =
  r_project :: string
  r_position :: int
  r_ref_kind :: string
  r_ref_slug :: string
  r_chain_slug :: "string option"
  r_note :: "string option"
  r_target_status :: "string option"
  r_target_updated :: "string option"
  r_last_id :: string
  r_last_ts :: string

record memory_row =
  m_name :: string
  m_kind :: string
  m_description :: string
  m_body_length :: int
  m_vault_path :: string
  m_project :: string
  m_filed :: string
  m_last_id :: string
  m_last_ts :: string

section \<open>Keys and CHECK constraints\<close>

text \<open>Primary keys.\<close>

definition task_key :: "task_row \<Rightarrow> int \<times> string" where
  "task_key t = (t_chain t, t_slug t)"

definition chain_key :: "chain_row \<Rightarrow> string \<times> string" where
  "chain_key c = (c_project c, c_slug c)"

definition blocker_key :: "blocker_row \<Rightarrow> int \<times> int" where
  "blocker_key k = (k_blocked k, k_blocker k)"

definition bug_key :: "bug_row \<Rightarrow> string \<times> string" where
  "bug_key b = (b_project b, b_slug b)"

definition suggestion_key :: "suggestion_row \<Rightarrow> string \<times> string" where
  "suggestion_key g = (g_project g, g_slug g)"

definition roadmap_key :: "roadmap_row \<Rightarrow> string \<times> string \<times> string" where
  "roadmap_key r = (r_project r, r_ref_kind r, r_ref_slug r)"

text \<open>CHECK constraints of migrations 066 and 072.\<close>

definition task_statuses :: "string list" where
  "task_statuses = [''pending'', ''active'', ''blocked'', ''closed'', ''cancelled'']"

definition task_check :: "task_row \<Rightarrow> bool" where
  "task_check t \<longleftrightarrow>
     t_status t \<in> set task_statuses \<and> (t_status t \<noteq> ''closed'' \<or> t_commit t \<noteq> None)"

definition chain_check :: "chain_row \<Rightarrow> bool" where
  "chain_check c \<longleftrightarrow> c_status c \<in> {''open'', ''closed''}"

definition bug_check :: "bug_row \<Rightarrow> bool" where
  "bug_check b \<longleftrightarrow>
     b_status b \<in> {''open'', ''fixed'', ''wontfix'', ''upstream'', ''dup'', ''routed''} \<and>
     (b_status b = ''open'' \<longleftrightarrow> b_resolved_at b = None)"

definition memory_check :: "memory_row \<Rightarrow> bool" where
  "memory_check m \<longleftrightarrow>
     m_kind m \<in> {''user'', ''feedback'', ''project'', ''reference''} \<and> m_description m \<noteq> [] \<and>
     0 \<le> m_body_length m \<and> m_vault_path m \<noteq> [] \<and> m_last_ts m \<noteq> []"

lemmas key_defs = task_key_def chain_key_def blocker_key_def bug_key_def suggestion_key_def
  roadmap_key_def

section \<open>The database\<close>

type_synonym fts = "int \<rightharpoonup> string \<times> string"

record db =
  db_events :: "raw_event list"
  db_tasks :: "task_row list"
  db_chains :: "chain_row list"
  db_blockers :: "blocker_row list"
  db_bugs :: "bug_row list"
  db_bugs_fts :: fts
  db_suggestions :: "suggestion_row list"
  db_suggestions_fts :: fts
  db_roadmap :: "roadmap_row list"
  db_memories :: "memory_row list"
  db_watermark :: "string \<rightharpoonup> (string option \<times> string option)"

text \<open>
  The tables the handlers write directly, outside the ledger: \<open>chain_deps\<close>, and the key
  last\_reassessed\_at of \<open>roadmap_meta\<close>.
\<close>

record dep_row =
  d_dependent :: int
  d_prerequisite :: int
  d_reason :: string

record direct_tables =
  dt_chain_deps :: "dep_row list"
  dt_reassessed :: "string option"

type_synonym 'a dbtx = "(db, 'a) tx"

definition empty_db :: db where
  "empty_db = \<lparr>db_events = [], db_tasks = [], db_chains = [], db_blockers = [], db_bugs = [],
     db_bugs_fts = Map.empty, db_suggestions = [], db_suggestions_fts = Map.empty,
     db_roadmap = [], db_memories = [], db_watermark = Map.empty\<rparr>"

text \<open>Statements on one table of the database.\<close>

definition exec_tasks :: "(task_row list \<Rightarrow> task_row list option) \<Rightarrow> unit dbtx" where
  "exec_tasks f = tx_exec ''proj_current_tasks''
     (\<lambda>d. map_option (\<lambda>rows. d\<lparr>db_tasks := rows\<rparr>) (f (db_tasks d)))"

definition exec_chains :: "(chain_row list \<Rightarrow> chain_row list option) \<Rightarrow> unit dbtx" where
  "exec_chains f = tx_exec ''proj_chain_status''
     (\<lambda>d. map_option (\<lambda>rows. d\<lparr>db_chains := rows\<rparr>) (f (db_chains d)))"

definition exec_bugs :: "(bug_row list \<Rightarrow> bug_row list option) \<Rightarrow> unit dbtx" where
  "exec_bugs f = tx_exec ''proj_current_bugs''
     (\<lambda>d. map_option (\<lambda>rows. d\<lparr>db_bugs := rows\<rparr>) (f (db_bugs d)))"

definition exec_suggestions ::
  "(suggestion_row list \<Rightarrow> suggestion_row list option) \<Rightarrow> unit dbtx" where
  "exec_suggestions f = tx_exec ''proj_current_suggestions''
     (\<lambda>d. map_option (\<lambda>rows. d\<lparr>db_suggestions := rows\<rparr>) (f (db_suggestions d)))"

definition exec_roadmap :: "(roadmap_row list \<Rightarrow> roadmap_row list option) \<Rightarrow> unit dbtx" where
  "exec_roadmap f = tx_exec ''proj_roadmap_view''
     (\<lambda>d. map_option (\<lambda>rows. d\<lparr>db_roadmap := rows\<rparr>) (f (db_roadmap d)))"

definition exec_memories :: "(memory_row list \<Rightarrow> memory_row list option) \<Rightarrow> unit dbtx" where
  "exec_memories f = tx_exec ''proj_memories''
     (\<lambda>d. map_option (\<lambda>rows. d\<lparr>db_memories := rows\<rparr>) (f (db_memories d)))"

lemma exec_Inr [tx_simps]:
  "exec_tasks f1 d = (Inr u, d') \<longleftrightarrow> (\<exists>r. f1 (db_tasks d) = Some r \<and> d' = d\<lparr>db_tasks := r\<rparr>)"
  "exec_chains f2 d = (Inr u, d') \<longleftrightarrow> (\<exists>r. f2 (db_chains d) = Some r \<and> d' = d\<lparr>db_chains := r\<rparr>)"
  "exec_bugs f3 d = (Inr u, d') \<longleftrightarrow> (\<exists>r. f3 (db_bugs d) = Some r \<and> d' = d\<lparr>db_bugs := r\<rparr>)"
  "exec_suggestions f4 d = (Inr u, d') \<longleftrightarrow>
     (\<exists>r. f4 (db_suggestions d) = Some r \<and> d' = d\<lparr>db_suggestions := r\<rparr>)"
  "exec_roadmap f5 d = (Inr u, d') \<longleftrightarrow> (\<exists>r. f5 (db_roadmap d) = Some r \<and> d' = d\<lparr>db_roadmap := r\<rparr>)"
  "exec_memories f6 d = (Inr u, d') \<longleftrightarrow>
     (\<exists>r. f6 (db_memories d) = Some r \<and> d' = d\<lparr>db_memories := r\<rparr>)"
  by (auto simp: exec_tasks_def exec_chains_def exec_bugs_def exec_suggestions_def
      exec_roadmap_def exec_memories_def tx_exec_Inr)

lemma keeps_exec_tables [keeps_intros]:
  "(\<And>d r. P d \<Longrightarrow> f1 (db_tasks d) = Some r \<Longrightarrow> P (d\<lparr>db_tasks := r\<rparr>)) \<Longrightarrow> tx_keeps P (exec_tasks f1)"
  "(\<And>d r. P d \<Longrightarrow> f2 (db_chains d) = Some r \<Longrightarrow> P (d\<lparr>db_chains := r\<rparr>)) \<Longrightarrow> tx_keeps P (exec_chains f2)"
  "(\<And>d r. P d \<Longrightarrow> f3 (db_bugs d) = Some r \<Longrightarrow> P (d\<lparr>db_bugs := r\<rparr>)) \<Longrightarrow> tx_keeps P (exec_bugs f3)"
  "(\<And>d r. P d \<Longrightarrow> f4 (db_suggestions d) = Some r \<Longrightarrow> P (d\<lparr>db_suggestions := r\<rparr>)) \<Longrightarrow>
   tx_keeps P (exec_suggestions f4)"
  "(\<And>d r. P d \<Longrightarrow> f5 (db_roadmap d) = Some r \<Longrightarrow> P (d\<lparr>db_roadmap := r\<rparr>)) \<Longrightarrow>
   tx_keeps P (exec_roadmap f5)"
  "(\<And>d r. P d \<Longrightarrow> f6 (db_memories d) = Some r \<Longrightarrow> P (d\<lparr>db_memories := r\<rparr>)) \<Longrightarrow>
   tx_keeps P (exec_memories f6)"
  unfolding exec_tasks_def exec_chains_def exec_bugs_def exec_suggestions_def
    exec_roadmap_def exec_memories_def
  by (rule keeps_exec; auto)+

section \<open>Decoding an event's payload\<close>

text \<open>\<open>json.Unmarshal(evt.Payload, &p)\<close> with the error returned to the caller.\<close>

definition payload_of :: "(json \<Rightarrow> 'p option) \<Rightarrow> raw_event \<Rightarrow> 'p dbtx" where
  "payload_of dec evt =
     (case ev_payload evt of
        None \<Rightarrow> tx_fail (ErrPayload (ev_id evt))
      | Some j \<Rightarrow> (case dec j of
            None \<Rightarrow> tx_fail (ErrPayload (ev_id evt))
          | Some p \<Rightarrow> tx_return p))"

text \<open>\<open>*evt.EntityProjectID\<close>: a nil pointer panics.\<close>

definition project_of :: "raw_event \<Rightarrow> string dbtx" where
  "project_of evt =
     (case ev_project evt of
        None \<Rightarrow> tx_fail (ErrPanic ''nil entity_project_id'')
      | Some pid \<Rightarrow> tx_return pid)"

definition decoded :: "(json \<Rightarrow> 'p option) \<Rightarrow> raw_event \<Rightarrow> 'p option" where
  "decoded dec evt = (case ev_payload evt of None \<Rightarrow> None | Some j \<Rightarrow> dec j)"

lemma payload_of_Inr [tx_simps]:
  "payload_of dec evt d = (Inr p, d') \<longleftrightarrow> decoded dec evt = Some p \<and> d' = d"
  by (auto simp: payload_of_def decoded_def tx_apply split: option.splits)

lemma project_of_Inr [tx_simps]:
  "project_of evt d = (Inr pid, d') \<longleftrightarrow> ev_project evt = Some pid \<and> d' = d"
  by (auto simp: project_of_def tx_apply split: option.splits)

lemma keeps_payload_of [keeps_intros]: "tx_keeps P (payload_of dec evt)"
  by (auto simp: payload_of_def intro: keeps_intros split: option.splits)

lemma keeps_project_of [keeps_intros]: "tx_keeps P (project_of evt)"
  by (auto simp: project_of_def intro: keeps_intros split: option.splits)

end
