(* ===== verification/Proj_Tasks.thy ===== *)
theory Proj_Tasks
  imports Work_Tables
begin

text \<open>
  \<open>go/internal/projections/tasks.go\<close>: the \<open>current_tasks\<close> and \<open>task_blockers\<close>
  projections. Every fold function of the file is one definition, the SQL it issues written with
  the statement functions of the prelude. \<open>aff\<close> is SQLite's INTEGER affinity for bound
  text, used by \<open>TaskEdited\<close> on the \<open>position\<close> column.
\<close>

section \<open>Shared helpers\<close>

text \<open>\<open>acceptanceCriteriaJoined\<close> (suggestions.go): items joined on newline-dash.\<close>

fun acceptanceCriteriaJoined :: "string list \<Rightarrow> string" where
  "acceptanceCriteriaJoined [] = []"
| "acceptanceCriteriaJoined [x] = x"
| "acceptanceCriteriaJoined (x # y # xs) =
     x @ (CHR 0x0A # ''- '') @ acceptanceCriteriaJoined (y # xs)"

text \<open>\<open>nullableStringFromPtr\<close> (suggestions.go): unset becomes the empty string.\<close>

definition nullableStringFromPtr :: "string option \<Rightarrow> string" where
  "nullableStringFromPtr p = (case p of None \<Rightarrow> [] | Some s \<Rightarrow> s)"

text \<open>\<open>SELECT id FROM proj_chain_status WHERE project_id = ? AND slug = ?\<close>\<close>

definition chain_id_by_slug :: "db \<Rightarrow> string \<Rightarrow> string \<Rightarrow> int option" where
  "chain_id_by_slug d pid slug =
     map_option c_id (sql_first (\<lambda>c. c_project c = pid \<and> c_slug c = slug) (db_chains d))"

text \<open>The rows of \<open>proj_current_tasks t JOIN proj_chain_status c ON c.id = t.chain_id\<close>.\<close>

definition task_chain_join :: "db \<Rightarrow> (task_row \<times> chain_row) list" where
  "task_chain_join d =
     concat (map (\<lambda>t. map (\<lambda>c. (t, c)) (filter (\<lambda>c. c_id c = t_chain t) (db_chains d))) (db_tasks d))"

text \<open>\<open>taskTargetWhere\<close>: the rows a lifecycle event refers to.\<close>

definition taskTargetWhere :: "db \<Rightarrow> string \<Rightarrow> string \<Rightarrow> string \<Rightarrow> task_row \<Rightarrow> bool" where
  "taskTargetWhere d chainSlug slug pid t \<longleftrightarrow>
     t_slug t = slug \<and>
     (if chainSlug \<noteq> [] then Some (t_chain t) = chain_id_by_slug d pid chainSlug
      else t_chain t \<in> c_id ` set (filter (\<lambda>c. c_project c = pid) (db_chains d)))"

definition update_target ::
  "string \<Rightarrow> raw_event \<Rightarrow> (task_row \<Rightarrow> task_row) \<Rightarrow> unit dbtx" where
  "update_target chainSlug evt upd =
     tx_bind (project_of evt) (\<lambda>pid.
     (\<lambda>d. exec_tasks (sql_update task_check (taskTargetWhere d chainSlug (ev_slug evt) pid) upd) d))"

text \<open>The event columns every task statement stamps.\<close>

definition task_stamp :: "raw_event \<Rightarrow> task_row \<Rightarrow> task_row" where
  "task_stamp evt t = t\<lparr>t_updated := ev_ts evt, t_last_id := ev_id evt, t_last_ts := ev_ts evt\<rparr>"

text \<open>
  The denormalised counters of a chain row, recomputed from the task table; written by
  \<open>foldTaskRetired\<close> here and by \<open>refreshChainTaskCountsByID\<close> in chains.go.
\<close>

definition with_task_counts :: "task_row list \<Rightarrow> int \<Rightarrow> chain_row \<Rightarrow> chain_row" where
  "with_task_counts tasks cid c =
     c\<lparr>c_total := sql_count (\<lambda>t. t_chain t = cid) tasks,
       c_pending := sql_count (\<lambda>t. t_chain t = cid \<and> t_status t = ''pending'') tasks,
       c_active := sql_count (\<lambda>t. t_chain t = cid \<and> t_status t = ''active'') tasks,
       c_blocked := sql_count (\<lambda>t. t_chain t = cid \<and> t_status t = ''blocked'') tasks,
       c_closed := sql_count (\<lambda>t. t_chain t = cid \<and> t_status t = ''closed'') tasks,
       c_cancelled := sql_count (\<lambda>t. t_chain t = cid \<and> t_status t = ''cancelled'') tasks\<rparr>"

section \<open>current\_tasks\<close>

text \<open>
  The default position: \<open>COALESCE(MAX(position), 0)\<close> over the chain, scanned into a
  \<open>sql.NullInt64\<close> with the scan error dropped, plus one.
\<close>

fun sql_max :: "sqlval list \<Rightarrow> sqlval option" where
  "sql_max [] = None"
| "sql_max (v # vs) =
     (case sql_max vs of None \<Rightarrow> Some v | Some w \<Rightarrow> if sqlval_less v w then Some w else Some v)"

definition next_position :: "db \<Rightarrow> int \<Rightarrow> int" where
  "next_position d cid =
     (case sql_max (map t_position (filter (\<lambda>t. t_chain t = cid) (db_tasks d))) of
        None \<Rightarrow> 0
      | Some v \<Rightarrow> deref_or 0 (scan_int64 v)) + 1"

definition created_row ::
  "raw_event \<Rightarrow> TaskCreatedPayload \<Rightarrow> int \<Rightarrow> int \<Rightarrow> int \<Rightarrow> task_row" where
  "created_row evt p ident cid pos =
     \<lparr>t_id = ident, t_chain = cid, t_slug = ev_slug evt, t_position = SqlInt pos,
      t_status = ''pending'', t_problem = tc_problem_statement p,
      t_acceptance = acceptanceCriteriaJoined (tc_acceptance_criteria p),
      t_context = nullableStringFromPtr (tc_context_required p),
      t_constraints = nullableStringFromPtr (tc_constraints p),
      t_handoff = nullableStringFromPtr (tc_handoff_output p),
      t_originated = None, t_moved_on = None, t_commit = None,
      t_created = ev_ts evt, t_updated = ev_ts evt, t_last_id = ev_id evt, t_last_ts = ev_ts evt\<rparr>"

text \<open>The \<open>ON CONFLICT DO UPDATE SET\<close> list: id, chain, status and commit are kept.\<close>

definition recreated_row :: "task_row \<Rightarrow> task_row \<Rightarrow> task_row" where
  "recreated_row new old =
     old\<lparr>t_position := t_position new, t_problem := t_problem new,
         t_acceptance := t_acceptance new, t_context := t_context new,
         t_constraints := t_constraints new, t_handoff := t_handoff new,
         t_created := t_created new, t_updated := t_updated new,
         t_last_id := t_last_id new, t_last_ts := t_last_ts new\<rparr>"

definition foldTaskCreated :: "raw_event \<Rightarrow> unit dbtx" where
  "foldTaskCreated evt =
     tx_bind (payload_of unmarshal_TaskCreatedPayload evt) (\<lambda>p.
     tx_bind (project_of evt) (\<lambda>pid.
     tx_bind (tx_read (\<lambda>d. chain_id_by_slug d pid (tc_chain_slug p))) (\<lambda>found.
     case found of
       None \<Rightarrow> tx_return ()
     | Some cid \<Rightarrow>
         tx_bind (tx_read (\<lambda>d. sql_next_id (map t_id (db_tasks d)))) (\<lambda>ident.
         tx_bind (tx_read (\<lambda>d. case tc_position p of
             Some n \<Rightarrow> n | None \<Rightarrow> next_position d cid)) (\<lambda>pos.
         let new = created_row evt p ident cid pos in
         exec_tasks (sql_upsert task_key task_check new
           (recreated_row new)))))))"

definition resolveTaskEditColumn :: "string \<Rightarrow> string" where
  "resolveTaskEditColumn inputKey =
     (if inputKey = ''handoff_output_append'' then ''handoff_output''
      else if inputKey \<in> {''problem_statement'', ''acceptance_criteria'', ''context_required'',
                 ''constraints'', ''handoff_output'', ''position''} then inputKey
      else [])"

definition set_task_column ::
  "(string \<Rightarrow> sqlval) \<Rightarrow> string \<Rightarrow> string \<Rightarrow> task_row \<Rightarrow> task_row" where
  "set_task_column aff column v t =
     (if column = ''problem_statement'' then t\<lparr>t_problem := v\<rparr>
      else if column = ''acceptance_criteria'' then t\<lparr>t_acceptance := v\<rparr>
      else if column = ''context_required'' then t\<lparr>t_context := v\<rparr>
      else if column = ''constraints'' then t\<lparr>t_constraints := v\<rparr>
      else if column = ''handoff_output'' then t\<lparr>t_handoff := v\<rparr>
      else if column = ''position'' then t\<lparr>t_position := aff v\<rparr>
      else t)"

definition foldTaskEdited :: "(string \<Rightarrow> sqlval) \<Rightarrow> raw_event \<Rightarrow> unit dbtx" where
  "foldTaskEdited aff evt =
     tx_bind (payload_of unmarshal_TaskEditedPayload evt) (\<lambda>p.
     tx_foreach (\<lambda>col.
       case map_of (te_updated_values p) col of
         None \<Rightarrow> tx_return ()
       | Some v \<Rightarrow>
           let column = resolveTaskEditColumn col in
           if column = [] then tx_return ()
           else update_target (te_chain_slug p) evt
                  (\<lambda>t. task_stamp evt (set_task_column aff column v t)))
       (te_updated_fields p))"

definition foldTaskTransitioned :: "raw_event \<Rightarrow> unit dbtx" where
  "foldTaskTransitioned evt =
     tx_bind (payload_of unmarshal_TaskTransitionedPayload evt) (\<lambda>p.
     update_target (tt_chain_slug p) evt
       (\<lambda>t. task_stamp evt (t\<lparr>t_status := tt_to_status p, t_commit := None\<rparr>)))"

definition foldTaskCompleted :: "raw_event \<Rightarrow> unit dbtx" where
  "foldTaskCompleted evt =
     tx_bind (payload_of unmarshal_TaskCompletedPayload evt) (\<lambda>p.
     update_target (tp_chain_slug p) evt
       (\<lambda>t. task_stamp evt (t\<lparr>t_status := ''closed'',
              t_commit := Some (deref_or [] (tp_commit_sha p)),
              t_handoff := deref_or [] (tp_closure_summary p)\<rparr>)))"

definition foldTaskCancelled :: "raw_event \<Rightarrow> unit dbtx" where
  "foldTaskCancelled evt =
     tx_bind (payload_of unmarshal_TaskCancelledPayload evt) (\<lambda>p.
     update_target (tn_chain_slug p) evt
       (\<lambda>t. task_stamp evt (t\<lparr>t_status := ''cancelled''\<rparr>)))"

definition foldTaskRetired :: "raw_event \<Rightarrow> unit dbtx" where
  "foldTaskRetired evt =
     tx_bind (project_of evt) (\<lambda>pid.
     tx_bind (tx_read (\<lambda>d. sql_first (\<lambda>(t, c). t_slug t = ev_slug evt \<and> c_project c = pid)
                              (task_chain_join d))) (\<lambda>found.
     case found of
       None \<Rightarrow> tx_return ()
     | Some (t, c) \<Rightarrow>
         tx_then (tx_modify (\<lambda>d. d\<lparr>db_blockers := sql_delete
                    (\<lambda>k. k_blocked k = t_id t \<or> k_blocker k = t_id t) (db_blockers d)\<rparr>))
        (tx_then (tx_modify (\<lambda>d. d\<lparr>db_tasks := sql_delete (\<lambda>x. t_id x = t_id t) (db_tasks d)\<rparr>))
        (\<lambda>d. exec_chains (sql_update chain_check (\<lambda>x. c_id x = t_chain t)
               (\<lambda>x. (with_task_counts (db_tasks d) (t_chain t) x)
                      \<lparr>c_last_id := ev_id evt, c_last_ts := ev_ts evt\<rparr>)) d))))"

definition foldTaskAssignedToChain :: "raw_event \<Rightarrow> unit dbtx" where
  "foldTaskAssignedToChain evt =
     tx_bind (payload_of unmarshal_TaskAssignedToChainPayload evt) (\<lambda>p.
     tx_bind (project_of evt) (\<lambda>pid.
     tx_bind (tx_read (\<lambda>d. chain_id_by_slug d pid (ta_to_chain_slug p))) (\<lambda>found.
     case found of
       None \<Rightarrow> tx_return ()
     | Some toChainID \<Rightarrow>
         exec_tasks (sql_update_key task_key task_check (\<lambda>t. t_slug t = ev_slug evt)
           (\<lambda>t. task_stamp evt (t\<lparr>t_chain := toChainID,
                  t_position := SqlInt (deref_or 0 (ta_to_position p)),
                  t_moved_on := Some (ev_ts evt)\<rparr>))))))"

definition foldTaskStamped :: "raw_event \<Rightarrow> unit dbtx" where
  "foldTaskStamped evt =
     tx_bind (payload_of unmarshal_TaskStampedPayload evt) (\<lambda>p.
     update_target (ts_chain_slug p) evt
       (\<lambda>t. task_stamp evt (t\<lparr>t_commit := Some (ts_commit_sha p)\<rparr>)))"

definition current_tasks_Fold :: "(string \<Rightarrow> sqlval) \<Rightarrow> raw_event \<Rightarrow> unit dbtx" where
  "current_tasks_Fold aff evt =
     (if ev_kind evt \<noteq> ''task'' then tx_return ()
      else if ev_project evt = None then tx_fail (ErrMissingProject (ev_id evt))
      else if ev_type evt = ''TaskCreated'' then foldTaskCreated evt
      else if ev_type evt = ''TaskEdited'' then foldTaskEdited aff evt
      else if ev_type evt = ''TaskTransitioned'' then foldTaskTransitioned evt
      else if ev_type evt = ''TaskCompleted'' then foldTaskCompleted evt
      else if ev_type evt = ''TaskCancelled'' then foldTaskCancelled evt
      else if ev_type evt = ''TaskRetired'' then foldTaskRetired evt
      else if ev_type evt = ''TaskAssignedToChain'' then foldTaskAssignedToChain evt
      else if ev_type evt = ''TaskStamped'' then foldTaskStamped evt
      else tx_return ())"

section \<open>task\_blockers\<close>

definition resolveTaskIDForBlockerFold :: "db \<Rightarrow> string \<Rightarrow> string \<Rightarrow> string \<Rightarrow> int option" where
  "resolveTaskIDForBlockerFold d projectID chainSlug slug =
     map_option (\<lambda>(t, c). t_id t)
       (if chainSlug \<noteq> []
        then sql_first (\<lambda>(t, c). c_project c = projectID \<and> c_slug c = chainSlug \<and> t_slug t = slug)
               (task_chain_join d)
        else sql_first (\<lambda>(t, c). c_project c = projectID \<and> t_slug t = slug) (task_chain_join d))"

definition foldTaskBlockersTransitioned :: "raw_event \<Rightarrow> unit dbtx" where
  "foldTaskBlockersTransitioned evt =
     (case ev_project evt of
        None \<Rightarrow> tx_fail (ErrMissingProject (ev_id evt))
      | Some pid \<Rightarrow>
          tx_bind (payload_of unmarshal_TaskTransitionedPayload evt) (\<lambda>p.
          tx_bind (tx_read (\<lambda>d. resolveTaskIDForBlockerFold d pid (tt_chain_slug p) (ev_slug evt)))
            (\<lambda>found.
          case found of
            None \<Rightarrow> tx_return ()
          | Some blockedID \<Rightarrow>
              tx_then
                (case tt_blocker_slug p of
                   None \<Rightarrow> tx_return ()
                 | Some bs \<Rightarrow>
                     tx_bind (tx_read (\<lambda>d. resolveTaskIDForBlockerFold d pid [] bs)) (\<lambda>blocker.
                     case blocker of
                       None \<Rightarrow> tx_return ()
                     | Some blockerID \<Rightarrow>
                         tx_modify (\<lambda>d. d\<lparr>db_blockers := sql_insert_ignore blocker_key
                           \<lparr>k_blocked = blockedID, k_blocker = blockerID, k_reason = [],
                            k_created = ev_ts evt, k_last_id = ev_id evt, k_last_ts = ev_ts evt\<rparr>
                           (db_blockers d)\<rparr>)))
                (case tt_removed_blocker_slug p of
                   None \<Rightarrow> tx_return ()
                 | Some rs \<Rightarrow>
                     tx_bind (tx_read (\<lambda>d. resolveTaskIDForBlockerFold d pid [] rs)) (\<lambda>removed.
                     case removed of
                       None \<Rightarrow> tx_return ()
                     | Some removedID \<Rightarrow>
                         tx_modify (\<lambda>d. d\<lparr>db_blockers := sql_delete
                           (\<lambda>k. k_blocked k = blockedID \<and> k_blocker k = removedID)
                           (db_blockers d)\<rparr>))))))"

text \<open>
  The close payload is decoded only for its \<open>chain_slug\<close>, with the error dropped: a member of
  the wrong type leaves what was decoded before it.
\<close>

definition close_chain_slug :: "raw_event \<Rightarrow> string" where
  "close_chain_slug evt =
     (case ev_payload evt of
        None \<Rightarrow> []
      | Some j \<Rightarrow> (case struct_fields j of
            None \<Rightarrow> []
          | Some fs \<Rightarrow> foldl (\<lambda>acc v. deref_or acc (str_val acc v)) [] (vals fs ''chain_slug'')))"

definition foldTaskBlockersCleanupOnClose :: "raw_event \<Rightarrow> unit dbtx" where
  "foldTaskBlockersCleanupOnClose evt =
     (case ev_project evt of
        None \<Rightarrow> tx_return ()
      | Some pid \<Rightarrow>
          tx_bind (tx_read (\<lambda>d. resolveTaskIDForBlockerFold d pid (close_chain_slug evt) (ev_slug evt)))
            (\<lambda>found.
          case found of
            None \<Rightarrow> tx_return ()
          | Some closingID \<Rightarrow>
              tx_modify (\<lambda>d. d\<lparr>db_blockers := sql_delete
                (\<lambda>k. k_blocked k = closingID \<or> k_blocker k = closingID) (db_blockers d)\<rparr>)))"

definition task_blockers_Fold :: "raw_event \<Rightarrow> unit dbtx" where
  "task_blockers_Fold evt =
     (if ev_kind evt \<noteq> ''task'' then tx_return ()
      else if ev_type evt = ''TaskTransitioned'' then foldTaskBlockersTransitioned evt
      else if ev_type evt \<in> {''TaskCompleted'', ''TaskCancelled'', ''TaskRetired''}
      then foldTaskBlockersCleanupOnClose evt
      else tx_return ())"

end
