(* ===== verification/Proj_Chains.thy ===== *)
theory Proj_Chains
  imports Proj_Tasks
begin

text \<open>
  \<open>go/internal/projections/chains.go\<close>: the \<open>chain_status\<close> projection. Chain events
  construct and edit the row; every task event recomputes the denormalised task counters of the
  chains it touches from \<open>proj_current_tasks\<close>.
\<close>

section \<open>Chain events\<close>

definition created_chain :: "raw_event \<Rightarrow> ChainCreatedPayload \<Rightarrow> string \<Rightarrow> int \<Rightarrow> chain_row" where
  "created_chain evt p pid ident =
     \<lparr>c_slug = ev_slug evt, c_project = pid, c_id = ident, c_status = ''open'',
      c_output = cc_output p, c_completion = cc_completion_condition p, c_closure = [],
      c_total = 0, c_pending = 0, c_active = 0, c_blocked = 0, c_closed = 0, c_cancelled = 0,
      c_created = ev_ts evt, c_updated = ev_ts evt, c_last_id = ev_id evt, c_last_ts = ev_ts evt\<rparr>"

text \<open>The \<open>ON CONFLICT DO UPDATE SET\<close> list: id, status, closure summary and counters are kept.\<close>

definition recreated_chain :: "chain_row \<Rightarrow> chain_row \<Rightarrow> chain_row" where
  "recreated_chain new old =
     old\<lparr>c_output := c_output new, c_completion := c_completion new,
         c_created := c_created new, c_updated := c_updated new,
         c_last_id := c_last_id new, c_last_ts := c_last_ts new\<rparr>"

definition foldChainCreated :: "raw_event \<Rightarrow> unit dbtx" where
  "foldChainCreated evt =
     (case ev_project evt of
        None \<Rightarrow> tx_fail (ErrMissingProject (ev_id evt))
      | Some pid \<Rightarrow>
          tx_bind (payload_of unmarshal_ChainCreatedPayload evt) (\<lambda>p.
          tx_bind (tx_read (\<lambda>d. sql_next_id (map c_id (db_chains d)))) (\<lambda>ident.
          let new = created_chain evt p pid ident in
          exec_chains (sql_upsert chain_key chain_check new
            (recreated_chain new)))))"

definition isRetiredChainColumn :: "string \<Rightarrow> bool" where
  "isRetiredChainColumn col \<longleftrightarrow> col = ''design_decisions''"

definition isAllowedChainColumn :: "string \<Rightarrow> bool" where
  "isAllowedChainColumn col \<longleftrightarrow> col \<in> {''output'', ''completion_condition'', ''closure_summary''}"

definition set_chain_column :: "string \<Rightarrow> string \<Rightarrow> chain_row \<Rightarrow> chain_row" where
  "set_chain_column col v c =
     (if col = ''output'' then c\<lparr>c_output := v\<rparr>
      else if col = ''completion_condition'' then c\<lparr>c_completion := v\<rparr>
      else if col = ''closure_summary'' then c\<lparr>c_closure := v\<rparr>
      else c)"

definition chain_stamp :: "raw_event \<Rightarrow> chain_row \<Rightarrow> chain_row" where
  "chain_stamp evt c = c\<lparr>c_updated := ev_ts evt, c_last_id := ev_id evt, c_last_ts := ev_ts evt\<rparr>"

definition foldChainEdited :: "raw_event \<Rightarrow> unit dbtx" where
  "foldChainEdited evt =
     (case ev_project evt of
        None \<Rightarrow> tx_fail (ErrMissingProject (ev_id evt))
      | Some pid \<Rightarrow>
          tx_bind (payload_of unmarshal_ChainEditedPayload evt) (\<lambda>p.
          tx_foreach (\<lambda>col.
            case map_of (ce_updated_values p) col of
              None \<Rightarrow> tx_return ()
            | Some v \<Rightarrow>
                if isRetiredChainColumn col then tx_return ()
                else if \<not> isAllowedChainColumn col then tx_fail (ErrUnknownColumn (ev_id evt) col)
                else exec_chains (sql_update chain_check
                       (\<lambda>c. c_project c = pid \<and> c_slug c = ev_slug evt)
                       (\<lambda>c. chain_stamp evt (set_chain_column col v c))))
            (ce_updated_fields p)))"

definition foldChainClosed :: "raw_event \<Rightarrow> unit dbtx" where
  "foldChainClosed evt =
     (case ev_project evt of
        None \<Rightarrow> tx_fail (ErrMissingProject (ev_id evt))
      | Some pid \<Rightarrow>
          tx_bind (payload_of unmarshal_ChainClosedPayload evt) (\<lambda>p.
          exec_chains (sql_update chain_check
            (\<lambda>c. c_project c = pid \<and> c_slug c = ev_slug evt)
            (\<lambda>c. chain_stamp evt (c\<lparr>c_status := ''closed'',
                   c_closure := deref_or [] (cl_closure_summary p)\<rparr>)))))"

section \<open>Task counters\<close>

text \<open>\<open>chainIDBySlug\<close>: the single id, or none.\<close>

definition chainIDBySlug :: "db \<Rightarrow> string \<Rightarrow> string \<Rightarrow> int list" where
  "chainIDBySlug d project slug =
     (case chain_id_by_slug d project slug of None \<Rightarrow> [] | Some i \<Rightarrow> [i])"

definition chainIDsForTaskEvent :: "string \<Rightarrow> raw_event \<Rightarrow> int list dbtx" where
  "chainIDsForTaskEvent project evt =
     (if ev_type evt = ''TaskCreated'' then
        tx_bind (payload_of unmarshal_TaskCreatedPayload evt) (\<lambda>p.
        tx_read (\<lambda>d. chainIDBySlug d project (tc_chain_slug p)))
      else if ev_type evt = ''TaskAssignedToChain'' then
        tx_bind (payload_of unmarshal_TaskAssignedToChainPayload evt) (\<lambda>p.
        tx_read (\<lambda>d.
          (case ta_from_chain_slug p of
             None \<Rightarrow> []
           | Some f \<Rightarrow> if f \<noteq> [] then chainIDBySlug d project f else [])
          @ chainIDBySlug d project (ta_to_chain_slug p)))
      else
        tx_read (\<lambda>d. map (\<lambda>(t, c). t_chain t)
          (filter (\<lambda>(t, c). t_slug t = ev_slug evt \<and> c_project c = project) (task_chain_join d))))"

definition refreshChainTaskCountsByID :: "raw_event \<Rightarrow> int \<Rightarrow> unit dbtx" where
  "refreshChainTaskCountsByID evt chainID =
     (\<lambda>d. exec_chains (sql_update chain_check (\<lambda>c. c_id c = chainID)
            (\<lambda>c. chain_stamp evt (with_task_counts (db_tasks d) chainID c))) d)"

definition refreshChainTaskCountsForTaskEvent :: "raw_event \<Rightarrow> unit dbtx" where
  "refreshChainTaskCountsForTaskEvent evt =
     (case ev_project evt of
        None \<Rightarrow> tx_return ()
      | Some project \<Rightarrow>
          tx_bind (chainIDsForTaskEvent project evt) (\<lambda>chainIDs.
          tx_foreach (refreshChainTaskCountsByID evt) chainIDs))"

definition chain_status_Fold :: "raw_event \<Rightarrow> unit dbtx" where
  "chain_status_Fold evt =
     (if ev_type evt = ''ChainCreated'' then foldChainCreated evt
      else if ev_type evt = ''ChainEdited'' then foldChainEdited evt
      else if ev_type evt = ''ChainClosed'' then foldChainClosed evt
      else if ev_kind evt = ''task'' then refreshChainTaskCountsForTaskEvent evt
      else tx_return ())"

end
