(* ===== verification/Proj_Roadmap.thy ===== *)
theory Proj_Roadmap
  imports Proj_Chains
begin

text \<open>
  \<open>go/internal/projections/roadmap.go\<close> and \<open>memories.go\<close>: the \<open>roadmap_view\<close>
  projection (layout from \<open>RoadmapUpdated\<close>, target status from chains and tasks) and the
  \<open>memories\<close> projection.
\<close>

section \<open>roadmap\_view\<close>

text \<open>
  Status and update time of a roadmap item's target: the first row with that slug, in any project.
\<close>

definition ref_target :: "db \<Rightarrow> string \<Rightarrow> string \<Rightarrow> (string \<times> string) option" where
  "ref_target d refKind refSlug =
     (if refKind = ''chain'' then
        map_option (\<lambda>c. (c_status c, c_updated c)) (sql_first (\<lambda>c. c_slug c = refSlug) (db_chains d))
      else if refKind = ''task'' then
        map_option (\<lambda>t. (t_status t, t_updated t)) (sql_first (\<lambda>t. t_slug t = refSlug) (db_tasks d))
      else None)"

definition insertRoadmapRow :: "string \<Rightarrow> raw_event \<Rightarrow> RoadmapItemPayload \<Rightarrow> unit dbtx" where
  "insertRoadmapRow projectID evt item =
     tx_bind (tx_read (\<lambda>d. ref_target d (ri_ref_kind item) (ri_ref_slug item))) (\<lambda>target.
     exec_roadmap (sql_insert roadmap_key (\<lambda>_. True)
       \<lparr>r_project = projectID, r_position = ri_position item, r_ref_kind = ri_ref_kind item,
        r_ref_slug = ri_ref_slug item, r_chain_slug = ri_chain_slug item, r_note = ri_note item,
        r_target_status = map_option fst target, r_target_updated = map_option snd target,
        r_last_id = ev_id evt, r_last_ts = ev_ts evt\<rparr>))"

definition refreshRoadmapRowsForRef :: "string \<Rightarrow> string \<Rightarrow> raw_event \<Rightarrow> unit dbtx" where
  "refreshRoadmapRowsForRef refKind refSlug evt =
     tx_bind (tx_read (\<lambda>d. ref_target d refKind refSlug)) (\<lambda>target.
     exec_roadmap (sql_update (\<lambda>_. True) (\<lambda>r. r_ref_kind r = refKind \<and> r_ref_slug r = refSlug)
       (\<lambda>r. r\<lparr>r_target_status := map_option fst target, r_target_updated := map_option snd target,
               r_last_id := ev_id evt, r_last_ts := ev_ts evt\<rparr>)))"

definition cascadeDeleteRoadmapRows :: "string \<Rightarrow> string \<Rightarrow> unit dbtx" where
  "cascadeDeleteRoadmapRows refKind refSlug =
     tx_modify (\<lambda>d. d\<lparr>db_roadmap :=
       sql_delete (\<lambda>r. r_ref_kind r = refKind \<and> r_ref_slug r = refSlug) (db_roadmap d)\<rparr>)"

text \<open>The three arms of \<open>foldRoadmapUpdated\<close> that write.\<close>

definition roadmap_set :: "string \<Rightarrow> raw_event \<Rightarrow> RoadmapUpdatedPayload \<Rightarrow> unit dbtx" where
  "roadmap_set projectID evt p =
     tx_then (tx_modify (\<lambda>d. d\<lparr>db_roadmap := sql_delete (\<lambda>r. r_project r = projectID) (db_roadmap d)\<rparr>))
             (tx_foreach (insertRoadmapRow projectID evt) (ru_items p))"

definition roadmap_insert :: "string \<Rightarrow> raw_event \<Rightarrow> RoadmapUpdatedPayload \<Rightarrow> unit dbtx" where
  "roadmap_insert projectID evt p =
     (case ru_items p of
        [] \<Rightarrow> tx_fail (ErrMissingItems (ev_id evt))
      | item # _ \<Rightarrow>
          tx_then
            (exec_roadmap (sql_update (\<lambda>_. True)
               (\<lambda>r. r_project r = projectID \<and> r_position r \<ge> ri_position item)
               (\<lambda>r. r\<lparr>r_position := r_position r + 1\<rparr>)))
            (insertRoadmapRow projectID evt item))"

definition roadmap_update :: "string \<Rightarrow> raw_event \<Rightarrow> RoadmapUpdatedPayload \<Rightarrow> unit dbtx" where
  "roadmap_update projectID evt p =
     (case ru_items p of
        [] \<Rightarrow> tx_fail (ErrMissingItems (ev_id evt))
      | item # _ \<Rightarrow>
          let here = (\<lambda>r. r_project r = projectID \<and> r_position r = ri_position item) in
          tx_then
            (exec_roadmap (sql_update_key roadmap_key (\<lambda>_. True) here
               (\<lambda>r. r\<lparr>r_ref_kind := ri_ref_kind item, r_ref_slug := ri_ref_slug item,
                       r_last_id := ev_id evt, r_last_ts := ev_ts evt\<rparr>)))
         (tx_then
            (case ri_note item of
               None \<Rightarrow> tx_return ()
             | Some n \<Rightarrow> exec_roadmap (sql_update (\<lambda>_. True) here
                  (\<lambda>r. r\<lparr>r_note := (if n = [] then None else Some n)\<rparr>)))
         (tx_then
            (case ri_chain_slug item of
               None \<Rightarrow> tx_return ()
             | Some cs \<Rightarrow> exec_roadmap (sql_update (\<lambda>_. True) here (\<lambda>r. r\<lparr>r_chain_slug := Some cs\<rparr>)))
            (refreshRoadmapRowsForRef (ri_ref_kind item) (ri_ref_slug item) evt))))"

definition foldRoadmapUpdated :: "raw_event \<Rightarrow> unit dbtx" where
  "foldRoadmapUpdated evt =
     tx_bind (payload_of unmarshal_RoadmapUpdatedPayload evt) (\<lambda>p.
     case ev_project evt of
       None \<Rightarrow> if ru_action_kind p = ''mark_reassessed'' then tx_return ()
                else tx_fail (ErrMissingProject (ev_id evt))
     | Some projectID \<Rightarrow>
         if ru_action_kind p = ''set'' then roadmap_set projectID evt p
         else if ru_action_kind p = ''insert'' then roadmap_insert projectID evt p
         else if ru_action_kind p = ''update'' then roadmap_update projectID evt p
         else tx_return ())"

definition roadmap_view_Fold :: "raw_event \<Rightarrow> unit dbtx" where
  "roadmap_view_Fold evt =
     (if ev_type evt = ''RoadmapUpdated'' then foldRoadmapUpdated evt
      else if ev_type evt = ''ChainClosed'' then cascadeDeleteRoadmapRows ''chain'' (ev_slug evt)
      else if ev_type evt = ''TaskCompleted'' \<or> ev_type evt = ''TaskCancelled''
      then cascadeDeleteRoadmapRows ''task'' (ev_slug evt)
      else if ev_kind evt = ''chain'' then refreshRoadmapRowsForRef ''chain'' (ev_slug evt) evt
      else if ev_kind evt = ''task'' then refreshRoadmapRowsForRef ''task'' (ev_slug evt) evt
      else tx_return ())"

section \<open>memories\<close>

definition foldMemoryWritten :: "raw_event \<Rightarrow> unit dbtx" where
  "foldMemoryWritten evt =
     tx_bind (payload_of unmarshal_MemoryWrittenPayload evt) (\<lambda>p.
     let projectID = deref_or [] (ev_project evt);
         new = \<lparr>m_name = ev_slug evt, m_kind = mw_kind p, m_description = mw_description p,
                m_body_length = mw_body_length_bytes p, m_vault_path = mw_vault_path p,
                m_project = projectID, m_filed = ev_ts evt,
                m_last_id = ev_id evt, m_last_ts = ev_ts evt\<rparr>
     in exec_memories (sql_upsert m_name memory_check new
          (\<lambda>old. new\<lparr>m_name := m_name old, m_filed := m_filed old\<rparr>)))"

definition memories_Fold :: "raw_event \<Rightarrow> unit dbtx" where
  "memories_Fold evt =
     (if ev_kind evt \<noteq> ''memory'' then tx_return ()
      else if ev_type evt = ''MemoryWritten'' then foldMemoryWritten evt
      else tx_return ())"

end
