(* ===== verification/Proj_Bugs.thy ===== *)
theory Proj_Bugs
  imports Proj_Tasks
begin

text \<open>
  \<open>go/internal/projections/bugs.go\<close>: the \<open>current_bugs\<close> projection and its full-text
  companion \<open>bugs_fts\<close>.
\<close>

definition nullableQwenTaskIDFromPtr :: "string option \<Rightarrow> string option" where
  "nullableQwenTaskIDFromPtr p = (case p of None \<Rightarrow> None | Some s \<Rightarrow> if s = [] then None else Some s)"

definition reported_bug :: "raw_event \<Rightarrow> BugReportedPayload \<Rightarrow> string \<Rightarrow> int \<Rightarrow> bug_row" where
  "reported_bug evt p pid ident =
     \<lparr>b_slug = ev_slug evt, b_project = pid, b_id = ident, b_title = br_title p,
      b_problem = br_problem_statement p, b_surface = nullableStringFromPtr (br_surface p),
      b_severity = deref_or ''medium'' (br_severity p),
      b_source = nullableStringFromPtr (br_source p),
      b_acceptance = acceptanceCriteriaJoined (br_acceptance_criteria p),
      b_constraints = nullableStringFromPtr (br_constraints p), b_status = ''open'',
      b_resolution = None, b_routed_chain = [], b_routed_task = [],
      b_routed_suggestion = nullableStringFromPtr (br_routed_suggestion_slug p),
      b_commit = None, b_qwen = nullableQwenTaskIDFromPtr (br_qwen_task_id p),
      b_tags = nullableStringFromPtr (br_tags p), b_filed = ev_ts evt, b_resolved_at = None,
      b_updated = ev_ts evt, b_last_id = ev_id evt, b_last_ts = ev_ts evt\<rparr>"

text \<open>DELETE then INSERT of one full-text row.\<close>

definition write_bugs_fts :: "int \<Rightarrow> string \<Rightarrow> string \<Rightarrow> unit dbtx" where
  "write_bugs_fts ident title problem =
     tx_then (tx_modify (\<lambda>d. d\<lparr>db_bugs_fts := (db_bugs_fts d)(ident := None)\<rparr>))
             (tx_modify (\<lambda>d. d\<lparr>db_bugs_fts := (db_bugs_fts d)(ident \<mapsto> (title, problem))\<rparr>))"

text \<open>The \<open>ON CONFLICT DO UPDATE SET\<close> list: id, status and resolution are kept.\<close>

definition rereported_bug :: "bug_row \<Rightarrow> bug_row \<Rightarrow> bug_row" where
  "rereported_bug new old =
     old\<lparr>b_title := b_title new, b_problem := b_problem new, b_surface := b_surface new,
         b_severity := b_severity new, b_source := b_source new,
         b_acceptance := b_acceptance new, b_constraints := b_constraints new,
         b_routed_suggestion := b_routed_suggestion new, b_qwen := b_qwen new,
         b_tags := b_tags new, b_filed := b_filed new, b_updated := b_updated new,
         b_last_id := b_last_id new, b_last_ts := b_last_ts new\<rparr>"

definition foldBugReported :: "raw_event \<Rightarrow> unit dbtx" where
  "foldBugReported evt =
     tx_bind (payload_of unmarshal_BugReportedPayload evt) (\<lambda>p.
     tx_bind (tx_read (\<lambda>d. sql_next_id (map b_id (db_bugs d)))) (\<lambda>ident.
     tx_bind (project_of evt) (\<lambda>pid.
     let new = reported_bug evt p pid ident in
     tx_then
       (exec_bugs (sql_upsert bug_key bug_check new
          (rereported_bug new)))
       (write_bugs_fts ident (br_title p) (br_problem_statement p)))))"

definition isAllowedBugColumn :: "string \<Rightarrow> bool" where
  "isAllowedBugColumn col \<longleftrightarrow>
     col \<in> {''title'', ''problem_statement'', ''surface'', ''severity'', ''source'',
            ''acceptance_criteria'', ''constraints'', ''tags'', ''qwen_task_id'',
            ''routed_chain_slug'', ''routed_task_slug'', ''routed_suggestion_slug''}"

definition set_bug_column :: "string \<Rightarrow> string \<Rightarrow> bug_row \<Rightarrow> bug_row" where
  "set_bug_column col v b =
     (if col = ''title'' then b\<lparr>b_title := v\<rparr>
      else if col = ''problem_statement'' then b\<lparr>b_problem := v\<rparr>
      else if col = ''surface'' then b\<lparr>b_surface := v\<rparr>
      else if col = ''severity'' then b\<lparr>b_severity := v\<rparr>
      else if col = ''source'' then b\<lparr>b_source := v\<rparr>
      else if col = ''acceptance_criteria'' then b\<lparr>b_acceptance := v\<rparr>
      else if col = ''constraints'' then b\<lparr>b_constraints := v\<rparr>
      else if col = ''tags'' then b\<lparr>b_tags := v\<rparr>
      else if col = ''qwen_task_id'' then b\<lparr>b_qwen := Some v\<rparr>
      else if col = ''routed_chain_slug'' then b\<lparr>b_routed_chain := v\<rparr>
      else if col = ''routed_task_slug'' then b\<lparr>b_routed_task := v\<rparr>
      else if col = ''routed_suggestion_slug'' then b\<lparr>b_routed_suggestion := v\<rparr>
      else b)"

definition bug_stamp :: "raw_event \<Rightarrow> bug_row \<Rightarrow> bug_row" where
  "bug_stamp evt b = b\<lparr>b_updated := ev_ts evt, b_last_id := ev_id evt, b_last_ts := ev_ts evt\<rparr>"

definition update_bug :: "raw_event \<Rightarrow> (bug_row \<Rightarrow> bug_row) \<Rightarrow> unit dbtx" where
  "update_bug evt upd =
     tx_bind (project_of evt) (\<lambda>pid.
     exec_bugs (sql_update bug_check (\<lambda>b. b_project b = pid \<and> b_slug b = ev_slug evt)
       (\<lambda>b. bug_stamp evt (upd b))))"

definition refreshBugsFTS :: "string \<Rightarrow> string \<Rightarrow> unit dbtx" where
  "refreshBugsFTS projectID slug =
     tx_bind (tx_read (\<lambda>d. sql_first (\<lambda>b. b_project b = projectID \<and> b_slug b = slug) (db_bugs d)))
       (\<lambda>found. case found of
          None \<Rightarrow> tx_return ()
        | Some b \<Rightarrow> write_bugs_fts (b_id b) (b_title b) (b_problem b))"

definition foldBugEdited :: "raw_event \<Rightarrow> unit dbtx" where
  "foldBugEdited evt =
     tx_bind (payload_of unmarshal_BugEditedPayload evt) (\<lambda>p.
     tx_then
       (tx_foreach (\<lambda>col.
          case map_of (be_updated_values p) col of
            None \<Rightarrow> tx_return ()
          | Some v \<Rightarrow>
              if \<not> isAllowedBugColumn col then tx_fail (ErrUnknownColumn (ev_id evt) col)
              else update_bug evt (set_bug_column col v))
          (be_updated_fields p))
       (if map_of (be_updated_values p) ''title'' \<noteq> None
           \<or> map_of (be_updated_values p) ''problem_statement'' \<noteq> None
        then tx_bind (project_of evt) (\<lambda>pid. refreshBugsFTS pid (ev_slug evt))
        else tx_return ()))"

definition foldBugResolved :: "raw_event \<Rightarrow> unit dbtx" where
  "foldBugResolved evt =
     tx_bind (payload_of unmarshal_BugResolvedPayload evt) (\<lambda>p.
     update_bug evt (\<lambda>b.
       b\<lparr>b_status := bv_kind p, b_resolution := Some (bv_kind p),
         b_routed_chain := nullableStringFromPtr (bv_routed_chain_slug p),
         b_routed_task := nullableStringFromPtr (bv_routed_task_slug p),
         b_routed_suggestion := nullableStringFromPtr (bv_routed_suggestion_slug p),
         b_commit := bv_commit_sha p,
         b_resolved_at := (case b_resolved_at b of None \<Rightarrow> Some (ev_ts evt) | Some x \<Rightarrow> Some x)\<rparr>))"

definition foldBugReopened :: "raw_event \<Rightarrow> unit dbtx" where
  "foldBugReopened evt =
     update_bug evt (\<lambda>b.
       b\<lparr>b_status := ''open'', b_resolution := None, b_routed_chain := [], b_routed_task := [],
         b_routed_suggestion := [], b_resolved_at := None\<rparr>)"

definition foldBugStamped :: "raw_event \<Rightarrow> unit dbtx" where
  "foldBugStamped evt =
     tx_bind (payload_of unmarshal_BugStampedPayload evt) (\<lambda>p.
     update_bug evt (\<lambda>b. b\<lparr>b_commit := Some (bs_commit_sha p)\<rparr>))"

definition foldBugTriaged :: "raw_event \<Rightarrow> unit dbtx" where
  "foldBugTriaged evt =
     tx_bind (payload_of unmarshal_BugTriagedPayload evt) (\<lambda>p.
     tx_then
       (case bt_to_severity p of None \<Rightarrow> tx_return ()
        | Some s \<Rightarrow> update_bug evt (\<lambda>b. b\<lparr>b_severity := s\<rparr>))
       (case bt_to_tags p of None \<Rightarrow> tx_return ()
        | Some s \<Rightarrow> update_bug evt (\<lambda>b. b\<lparr>b_tags := s\<rparr>)))"

definition current_bugs_Fold :: "raw_event \<Rightarrow> unit dbtx" where
  "current_bugs_Fold evt =
     (if ev_kind evt \<noteq> ''bug'' then tx_return ()
      else if ev_project evt = None then tx_fail (ErrMissingProject (ev_id evt))
      else if ev_type evt = ''BugReported'' then foldBugReported evt
      else if ev_type evt = ''BugEdited'' then foldBugEdited evt
      else if ev_type evt = ''BugResolved'' then foldBugResolved evt
      else if ev_type evt = ''BugReopened'' then foldBugReopened evt
      else if ev_type evt = ''BugStamped'' then foldBugStamped evt
      else if ev_type evt = ''BugTriaged'' then foldBugTriaged evt
      else tx_return ())"

end
