(* ===== verification/Proj_Suggestions.thy ===== *)
theory Proj_Suggestions
  imports Proj_Tasks
begin

text \<open>
  \<open>go/internal/projections/suggestions.go\<close>: the \<open>current_suggestions\<close> projection and its
  full-text companion \<open>suggestions_fts\<close>; the table has no CHECK constraints.
\<close>

definition reported_suggestion ::
  "raw_event \<Rightarrow> SuggestionReportedPayload \<Rightarrow> string \<Rightarrow> int \<Rightarrow> suggestion_row" where
  "reported_suggestion evt p pid ident =
     \<lparr>g_slug = ev_slug evt, g_project = pid, g_id = ident, g_title = sr_title p,
      g_problem = sr_problem_statement p, g_surface = nullableStringFromPtr (sr_surface p),
      g_priority = deref_or ''medium'' (sr_priority p),
      g_source = nullableStringFromPtr (sr_source p),
      g_acceptance = acceptanceCriteriaJoined (sr_acceptance_criteria p),
      g_constraints = nullableStringFromPtr (sr_constraints p), g_status = ''open'',
      g_resolution = None, g_routed_chain = [], g_routed_task = [], g_routed_bug = [],
      g_commit = None, g_tags = nullableStringFromPtr (sr_tags p), g_filed = ev_ts evt,
      g_resolved_at = None, g_updated = ev_ts evt, g_last_id = ev_id evt, g_last_ts = ev_ts evt\<rparr>"

definition write_suggestions_fts :: "int \<Rightarrow> string \<Rightarrow> string \<Rightarrow> unit dbtx" where
  "write_suggestions_fts ident title problem =
     tx_then (tx_modify (\<lambda>d. d\<lparr>db_suggestions_fts := (db_suggestions_fts d)(ident := None)\<rparr>))
             (tx_modify (\<lambda>d. d\<lparr>db_suggestions_fts :=
                (db_suggestions_fts d)(ident \<mapsto> (title, problem))\<rparr>))"

text \<open>The \<open>ON CONFLICT DO UPDATE SET\<close> list: id, status and resolution are kept.\<close>

definition rereported_suggestion :: "suggestion_row \<Rightarrow> suggestion_row \<Rightarrow> suggestion_row" where
  "rereported_suggestion new old =
     old\<lparr>g_title := g_title new, g_problem := g_problem new, g_surface := g_surface new,
         g_priority := g_priority new, g_source := g_source new,
         g_acceptance := g_acceptance new, g_constraints := g_constraints new,
         g_tags := g_tags new, g_filed := g_filed new, g_updated := g_updated new,
         g_last_id := g_last_id new, g_last_ts := g_last_ts new\<rparr>"

definition foldSuggestionReported :: "raw_event \<Rightarrow> unit dbtx" where
  "foldSuggestionReported evt =
     tx_bind (payload_of unmarshal_SuggestionReportedPayload evt) (\<lambda>p.
     tx_bind (tx_read (\<lambda>d. sql_next_id (map g_id (db_suggestions d)))) (\<lambda>ident.
     tx_bind (project_of evt) (\<lambda>pid.
     let new = reported_suggestion evt p pid ident in
     tx_then
       (exec_suggestions (sql_upsert suggestion_key (\<lambda>_. True) new
          (rereported_suggestion new)))
       (write_suggestions_fts ident (sr_title p) (sr_problem_statement p)))))"

definition isAllowedSuggestionColumn :: "string \<Rightarrow> bool" where
  "isAllowedSuggestionColumn col \<longleftrightarrow>
     col \<in> {''title'', ''problem_statement'', ''surface'', ''priority'', ''source'',
            ''acceptance_criteria'', ''constraints'', ''tags'',
            ''routed_chain_slug'', ''routed_task_slug'', ''routed_bug_slug''}"

definition set_suggestion_column :: "string \<Rightarrow> string \<Rightarrow> suggestion_row \<Rightarrow> suggestion_row" where
  "set_suggestion_column col v g =
     (if col = ''title'' then g\<lparr>g_title := v\<rparr>
      else if col = ''problem_statement'' then g\<lparr>g_problem := v\<rparr>
      else if col = ''surface'' then g\<lparr>g_surface := v\<rparr>
      else if col = ''priority'' then g\<lparr>g_priority := v\<rparr>
      else if col = ''source'' then g\<lparr>g_source := v\<rparr>
      else if col = ''acceptance_criteria'' then g\<lparr>g_acceptance := v\<rparr>
      else if col = ''constraints'' then g\<lparr>g_constraints := v\<rparr>
      else if col = ''tags'' then g\<lparr>g_tags := v\<rparr>
      else if col = ''routed_chain_slug'' then g\<lparr>g_routed_chain := v\<rparr>
      else if col = ''routed_task_slug'' then g\<lparr>g_routed_task := v\<rparr>
      else if col = ''routed_bug_slug'' then g\<lparr>g_routed_bug := v\<rparr>
      else g)"

definition update_suggestion :: "raw_event \<Rightarrow> (suggestion_row \<Rightarrow> suggestion_row) \<Rightarrow> unit dbtx" where
  "update_suggestion evt upd =
     tx_bind (project_of evt) (\<lambda>pid.
     exec_suggestions (sql_update (\<lambda>_. True) (\<lambda>g. g_project g = pid \<and> g_slug g = ev_slug evt)
       (\<lambda>g. (upd g)\<lparr>g_updated := ev_ts evt, g_last_id := ev_id evt, g_last_ts := ev_ts evt\<rparr>)))"

definition refreshSuggestionsFTS :: "string \<Rightarrow> string \<Rightarrow> unit dbtx" where
  "refreshSuggestionsFTS projectID slug =
     tx_bind (tx_read (\<lambda>d. sql_first (\<lambda>g. g_project g = projectID \<and> g_slug g = slug)
                              (db_suggestions d)))
       (\<lambda>found. case found of
          None \<Rightarrow> tx_return ()
        | Some g \<Rightarrow> write_suggestions_fts (g_id g) (g_title g) (g_problem g))"

definition foldSuggestionEdited :: "raw_event \<Rightarrow> unit dbtx" where
  "foldSuggestionEdited evt =
     tx_bind (payload_of unmarshal_SuggestionEditedPayload evt) (\<lambda>p.
     tx_then
       (tx_foreach (\<lambda>col.
          case map_of (se_updated_values p) col of
            None \<Rightarrow> tx_return ()
          | Some v \<Rightarrow>
              if \<not> isAllowedSuggestionColumn col then tx_fail (ErrUnknownColumn (ev_id evt) col)
              else update_suggestion evt (set_suggestion_column col v))
          (se_updated_fields p))
       (if map_of (se_updated_values p) ''title'' \<noteq> None
           \<or> map_of (se_updated_values p) ''problem_statement'' \<noteq> None
        then tx_bind (project_of evt) (\<lambda>pid. refreshSuggestionsFTS pid (ev_slug evt))
        else tx_return ()))"

definition foldSuggestionResolved :: "raw_event \<Rightarrow> unit dbtx" where
  "foldSuggestionResolved evt =
     tx_bind (payload_of unmarshal_SuggestionResolvedPayload evt) (\<lambda>p.
     update_suggestion evt (\<lambda>g.
       g\<lparr>g_status := sv_kind p, g_resolution := Some (sv_kind p),
         g_routed_chain := nullableStringFromPtr (sv_routed_chain_slug p),
         g_routed_task := nullableStringFromPtr (sv_routed_task_slug p),
         g_routed_bug := nullableStringFromPtr (sv_routed_bug_slug p),
         g_commit := sv_commit_sha p, g_resolved_at := Some (ev_ts evt)\<rparr>))"

definition foldSuggestionReopened :: "raw_event \<Rightarrow> unit dbtx" where
  "foldSuggestionReopened evt =
     update_suggestion evt (\<lambda>g.
       g\<lparr>g_status := ''open'', g_resolution := None, g_resolved_at := None, g_commit := None\<rparr>)"

definition foldSuggestionStamped :: "raw_event \<Rightarrow> unit dbtx" where
  "foldSuggestionStamped evt =
     tx_bind (payload_of unmarshal_SuggestionStampedPayload evt) (\<lambda>p.
     update_suggestion evt (\<lambda>g. g\<lparr>g_commit := Some (ss_commit_sha p)\<rparr>))"

definition current_suggestions_Fold :: "raw_event \<Rightarrow> unit dbtx" where
  "current_suggestions_Fold evt =
     (if ev_kind evt \<noteq> ''suggestion'' then tx_return ()
      else if ev_project evt = None then tx_fail (ErrMissingProject (ev_id evt))
      else if ev_type evt = ''SuggestionReported'' then foldSuggestionReported evt
      else if ev_type evt = ''SuggestionEdited'' then foldSuggestionEdited evt
      else if ev_type evt = ''SuggestionResolved'' then foldSuggestionResolved evt
      else if ev_type evt = ''SuggestionReopened'' then foldSuggestionReopened evt
      else if ev_type evt = ''SuggestionStamped'' then foldSuggestionStamped evt
      else tx_return ())"

end
