(* ===== verification/Projection_Registry.thy ===== *)
theory Projection_Registry
  imports Toolkit_Prelude "HOL-Library.Multiset"
begin

text \<open>
  \<open>go/internal/projections/projections.go\<close>, the registry half: \<open>Register\<close>,
  \<open>topoSort\<close>, \<open>All\<close>, \<open>Get\<close> and the read-side name prefixes. A registered projection is
  any value with a name and a list of declared dependencies (\<open>DependsOn\<close>); the sort works on
  these two only, so the definitions take them as functions \<open>name\<close> and \<open>deps\<close>.

  The lemmas show that the order honours every declared dependency, contains every registered
  projection once, and is produced for every acyclic, fully registered dependency graph.
\<close>

section \<open>Definitions\<close>

text \<open>\<open>Register\<close>: a duplicate name panics.\<close>

definition Register :: "('p \<Rightarrow> string) \<Rightarrow> 'p \<Rightarrow> 'p list \<Rightarrow> go_error + 'p list" where
  "Register name p registered =
     (if name p \<in> name ` set registered then Inl (ErrPanic ''duplicate registration'')
      else Inr (registered @ [p]))"

text \<open>The dependency pairs \<open>(dep, dependent)\<close>, in the order the counting loop visits them.\<close>

definition dep_edges :: "('p \<Rightarrow> string) \<Rightarrow> ('p \<Rightarrow> string list) \<Rightarrow> 'p list \<Rightarrow> (string \<times> string) list" where
  "dep_edges name deps nodes = concat (map (\<lambda>p. map (\<lambda>dep. (dep, name p)) (deps p)) nodes)"

text \<open>The two authoring errors the counting loop panics on.\<close>

definition deps_ok :: "('p \<Rightarrow> string) \<Rightarrow> ('p \<Rightarrow> string list) \<Rightarrow> 'p list \<Rightarrow> bool" where
  "deps_ok name deps nodes \<longleftrightarrow>
     list_all (\<lambda>e. fst e \<in> set (map name nodes) \<and> fst e \<noteq> snd e) (dep_edges name deps nodes)"

definition in_degree :: "(string \<times> string) list \<Rightarrow> string \<Rightarrow> nat" where
  "in_degree edges n = length (filter (\<lambda>e. snd e = n) edges)"

definition dependents :: "(string \<times> string) list \<Rightarrow> string \<Rightarrow> string list" where
  "dependents edges n = map snd (filter (\<lambda>e. fst e = n) edges)"

text \<open>Dropping the in-degree of each dependent, collecting those that reach zero.\<close>

definition dec_degree :: "(string \<Rightarrow> nat) \<Rightarrow> string \<Rightarrow> string \<Rightarrow> nat" where
  "dec_degree deg child = deg(child := deg child - 1)"

fun drop_degrees :: "string list \<Rightarrow> (string \<Rightarrow> nat) \<Rightarrow> string list \<Rightarrow> (string \<Rightarrow> nat) \<times> string list" where
  "drop_degrees [] deg newly = (deg, newly)"
| "drop_degrees (child # cs) deg newly =
     (let deg' = dec_degree deg child
      in drop_degrees cs deg' (if deg' child = 0 then newly @ [child] else newly))"

lemma drop_degrees_newly_subset: "set (snd (drop_degrees cs deg newly)) \<subseteq> set newly \<union> set cs"
  by (induction cs deg newly rule: drop_degrees.induct) (auto simp: Let_def)

text \<open>
  The work list. \<open>out\<close> holds the names emitted so far, so membership in it is the code's
  \<open>emitted\<close> map.
\<close>

function topo_loop ::
  "(string \<times> string) list \<Rightarrow> string list \<Rightarrow> (string \<Rightarrow> nat) \<Rightarrow> string list \<Rightarrow> string list" where
  "topo_loop edges [] deg out = out"
| "topo_loop edges (n # ready) deg out =
     (if n \<in> set out then topo_loop edges ready deg out
      else (let (deg', newly) = drop_degrees (dependents edges n) deg []
            in topo_loop edges (if newly = [] then ready else sort (ready @ newly)) deg' (out @ [n])))"
  by pat_completeness auto
termination
proof (relation "measures
    [\<lambda>(edges, ready, deg, out). card ((set ready \<union> snd ` set edges) - set out),
     \<lambda>(edges, ready, deg, out). length ready]", goal_cases)
  case 1
  then show ?case by simp
next
  case (2 edges n ready deg out)
  then have "(set (n # ready) \<union> snd ` set edges) - set out = (set ready \<union> snd ` set edges) - set out"
    by auto
  then show ?case by simp
next
  case (3 edges n ready deg out x deg' newly)
  have newly: "newly = snd (drop_degrees (dependents edges n) deg [])"
    using 3(2,3) by (metis snd_conv)
  have "set newly \<subseteq> snd ` set edges"
    using drop_degrees_newly_subset [of "dependents edges n" deg "[]"]
    unfolding newly by (auto simp: dependents_def)
  then have "(set (if newly = [] then ready else sort (ready @ newly)) \<union> snd ` set edges) - set (out @ [n])
      \<subseteq> ((set (n # ready) \<union> snd ` set edges) - set out) - {n}"
    by auto
  moreover have "n \<in> (set (n # ready) \<union> snd ` set edges) - set out"
    using 3(1) by simp
  ultimately have "card ((set (if newly = [] then ready else sort (ready @ newly)) \<union> snd ` set edges) - set (out @ [n]))
      < card ((set (n # ready) \<union> snd ` set edges) - set out)"
    by (intro psubset_card_mono) auto
  then show ?case by simp
qed

text \<open>\<open>topoSort\<close>: the projections in topological order, or the panic.\<close>

definition topo_names :: "('p \<Rightarrow> string) \<Rightarrow> ('p \<Rightarrow> string list) \<Rightarrow> 'p list \<Rightarrow> string list" where
  "topo_names name deps nodes =
     (let edges = dep_edges name deps nodes;
          ready = sort (filter (\<lambda>n. in_degree edges n = 0) (map name nodes))
      in topo_loop edges ready (in_degree edges) [])"

definition topoSort :: "('p \<Rightarrow> string) \<Rightarrow> ('p \<Rightarrow> string list) \<Rightarrow> 'p list \<Rightarrow> go_error + 'p list" where
  "topoSort name deps ps =
     (let nodes = sort_key name ps
      in if \<not> deps_ok name deps nodes then Inl (ErrPanic ''DependsOn not registered or on itself'')
         else let out = topo_names name deps nodes
              in if length out \<noteq> length nodes then Inl (ErrPanic ''DependsOn cycle detected'')
                 else Inr (map (\<lambda>n. the (find (\<lambda>p. name p = n) nodes)) out))"

text \<open>\<open>Get\<close>: the named projection of \<open>All()\<close>.\<close>

definition Get :: "('p \<Rightarrow> string) \<Rightarrow> ('p \<Rightarrow> string list) \<Rightarrow> 'p list \<Rightarrow> string \<Rightarrow> go_error + 'p option" where
  "Get name deps ps n = (case topoSort name deps ps of
     Inl e \<Rightarrow> Inl e | Inr all \<Rightarrow> Inr (find (\<lambda>p. name p = n) all))"

definition readSidePrefixes :: "string list" where
  "readSidePrefixes =
     [''query_'', ''retrieval_'', ''training_'', ''injection_'', ''offload_'', ''inference_'']"

definition isReadSideName :: "string \<Rightarrow> bool" where
  "isReadSideName n =
     list_ex (\<lambda>p. length p \<le> length n \<and> take (length p) n = p) readSidePrefixes"

section \<open>Correctness of the sort\<close>

subsection \<open>The degree bookkeeping\<close>

lemma dec_degree_apply: "dec_degree deg child n = (if n = child then deg n - 1 else deg n)"
  by (simp add: dec_degree_def)

lemma drop_degrees_fst: "fst (drop_degrees cs deg newly) n = deg n - count_list cs n"
  by (induction cs arbitrary: deg newly) (auto simp: Let_def dec_degree_apply)

lemma drop_degrees_snd:
  assumes "\<And>n. count_list cs n \<le> deg n"
  shows "set (snd (drop_degrees cs deg newly)) = set newly \<union> {n \<in> set cs. deg n = count_list cs n}"
  using assms
proof (induction cs arbitrary: deg newly)
  case Nil
  then show ?case by simp
next
  case (Cons child cs)
  let ?deg' = "dec_degree deg child"
  have pos: "0 < deg child" using Cons.prems [of child] by simp
  have le: "count_list cs n \<le> ?deg' n" for n
    using Cons.prems [of n] by (cases "n = child") (simp_all add: dec_degree_apply)
  have IH: "set (snd (drop_degrees cs ?deg' (if ?deg' child = 0 then newly @ [child] else newly)))
      = set (if ?deg' child = 0 then newly @ [child] else newly)
        \<union> {n \<in> set cs. ?deg' n = count_list cs n}"
    by (rule Cons.IH [OF le])
  have zero: "?deg' child = 0 \<Longrightarrow> count_list cs child = 0" using le [of child] by simp
  have eq: "(?deg' n = count_list cs n) = (deg n = count_list (child # cs) n)" for n
    using pos by (auto simp: dec_degree_apply)
  have head: "(?deg' child = 0) = (deg child = count_list (child # cs) child \<and> child \<notin> set cs)"
    using zero pos by (auto simp: count_list_0_iff dec_degree_apply)
  have "set (if ?deg' child = 0 then newly @ [child] else newly)
      = set newly \<union> (if ?deg' child = 0 then {child} else {})" by simp
  then show ?case
    using IH eq head by (auto simp: Let_def)
qed

text \<open>A node that is not emitted yet and whose dependencies all are.\<close>

definition available :: "(string \<times> string) list \<Rightarrow> string list \<Rightarrow> string \<Rightarrow> bool" where
  "available edges out m \<longleftrightarrow>
     m \<notin> set out \<and> list_all (\<lambda>e. snd e = m \<longrightarrow> fst e \<in> set out) edges"

definition topo_inv :: "(string \<times> string) list \<Rightarrow> string set \<Rightarrow> string list \<Rightarrow> (string \<Rightarrow> nat) \<Rightarrow> string list \<Rightarrow> bool" where
  "topo_inv edges N ready deg out \<longleftrightarrow>
     distinct out \<and> set out \<subseteq> N \<and> set ready \<subseteq> N \<and>
     (\<forall>n. deg n = length (filter (\<lambda>e. snd e = n \<and> fst e \<notin> set out) edges)) \<and>
     (\<forall>n \<in> set ready. deg n = 0) \<and> (\<forall>n \<in> N. deg n = 0 \<longrightarrow> n \<in> set ready \<union> set out) \<and>
     (\<forall>i < length out. \<forall>e \<in> set edges. snd e = out ! i \<longrightarrow> fst e \<in> set (take i out)) \<and>
     sorted ready \<and>
     (\<forall>i < length out. \<forall>m \<in> N. available edges (take i out) m \<longrightarrow> out ! i \<le> m)"

lemma count_dependents:
  "count_list (dependents edges n) m = length (filter (\<lambda>e. fst e = n \<and> snd e = m) edges)"
  by (induction edges) (auto simp: dependents_def)

lemma filter_split_length:
  "length (filter (\<lambda>x. P x \<and> Q x) xs) + length (filter (\<lambda>x. P x \<and> \<not> Q x) xs) = length (filter P xs)"
  by (induction xs) auto

lemma topo_invD:
  assumes "topo_inv edges N ready deg out"
  shows "distinct out" "set out \<subseteq> N" "set ready \<subseteq> N"
    "\<And>n. deg n = length (filter (\<lambda>e. snd e = n \<and> fst e \<notin> set out) edges)"
    "\<And>n. n \<in> set ready \<Longrightarrow> deg n = 0"
    "\<And>n. n \<in> N \<Longrightarrow> deg n = 0 \<Longrightarrow> n \<in> set ready \<union> set out"
    "\<And>i e. i < length out \<Longrightarrow> e \<in> set edges \<Longrightarrow> snd e = out ! i \<Longrightarrow> fst e \<in> set (take i out)"
    "sorted ready"
    "\<And>i m. i < length out \<Longrightarrow> m \<in> N \<Longrightarrow> available edges (take i out) m \<Longrightarrow> out ! i \<le> m"
  using assms unfolding topo_inv_def by blast+

text \<open>Emitting a node moves exactly its outgoing pairs out of the count.\<close>

lemma degree_split:
  assumes "n \<notin> set out"
  shows "length (filter (\<lambda>e. snd e = m \<and> fst e \<notin> set out) edges)
    = count_list (dependents edges n) m
      + length (filter (\<lambda>e. snd e = m \<and> fst e \<notin> set (out @ [n])) edges)"
proof -
  have "filter (\<lambda>e. (snd e = m \<and> fst e \<notin> set out) \<and> fst e = n) edges
      = filter (\<lambda>e. fst e = n \<and> snd e = m) edges"
    using assms by (intro filter_cong) auto
  moreover have "filter (\<lambda>e. (snd e = m \<and> fst e \<notin> set out) \<and> fst e \<noteq> n) edges
      = filter (\<lambda>e. snd e = m \<and> fst e \<notin> set (out @ [n])) edges"
    by (intro filter_cong) auto
  ultimately show ?thesis
    using filter_split_length [of "\<lambda>e. snd e = m \<and> fst e \<notin> set out" "\<lambda>e. fst e = n" edges]
    by (simp add: count_dependents)
qed

lemma topo_inv_step:
  assumes inv: "topo_inv edges N (n # ready) deg out" and new: "n \<notin> set out"
    and edges: "snd ` set edges \<subseteq> N"
    and drop: "drop_degrees (dependents edges n) deg [] = (deg', newly)"
  shows "topo_inv edges N (if newly = [] then ready else sort (ready @ newly)) deg' (out @ [n])"
proof -
  note inv = topo_invD [OF inv]
  let ?rem = "\<lambda>m. length (filter (\<lambda>e. snd e = m \<and> fst e \<notin> set (out @ [n])) edges)"
  have split: "deg m = count_list (dependents edges n) m + ?rem m" for m
    unfolding inv(4) by (rule degree_split [OF new])
  have deg': "deg' m = ?rem m" for m
    using drop_degrees_fst [of "dependents edges n" deg "[]" m] split [of m] drop by simp
  have newly: "set newly = {m \<in> set (dependents edges n). deg m = count_list (dependents edges n) m}"
    using drop_degrees_snd [of "dependents edges n" deg "[]"] split drop by simp
  have newlyN: "set newly \<subseteq> N" using newly edges by (auto simp: dependents_def)
  have zeros: "deg' m = 0" if "m \<in> set ready \<union> set newly" for m
    using that newly split [of m] deg' [of m] inv(5) [of m] by auto
  have caught: "m \<in> set ready \<union> set newly \<union> set (out @ [n])" if "m \<in> N" "deg' m = 0" for m
  proof (cases "deg m = 0")
    case True
    then show ?thesis using inv(6) that by auto
  next
    case False
    then have "deg m = count_list (dependents edges n) m"
      using split [of m] deg' [of m] that by simp
    moreover with False have "m \<in> set (dependents edges n)" by (metis count_notin)
    ultimately show ?thesis by (simp add: newly)
  qed
  have "filter (\<lambda>e. snd e = n \<and> fst e \<notin> set out) edges = []"
    using inv(5) [of n] by (simp only: inv(4) length_0_conv list.set_intros)
  then have prec: "\<forall>e \<in> set edges. snd e = n \<longrightarrow> fst e \<in> set out"
    by (auto simp: filter_empty_conv)
  have order: "fst e \<in> set (take i (out @ [n]))"
    if "i < length (out @ [n])" "e \<in> set edges" "snd e = (out @ [n]) ! i" for i e
    using that prec inv(7) by (cases "i = length out") (auto simp: nth_append)
  have least_n: "n \<le> m" if "m \<in> N" "available edges out m" for m
  proof -
    have "filter (\<lambda>e. snd e = m \<and> fst e \<notin> set out) edges = []"
      using that(2) by (auto simp: available_def list_all_iff filter_empty_conv)
    then have "deg m = 0" by (simp only: inv(4) list.size)
    then have "m \<in> set (n # ready)" using inv(6) that by (auto simp: available_def)
    then show ?thesis using inv(8) by auto
  qed
  have least: "(out @ [n]) ! i \<le> m"
    if "i < length (out @ [n])" "m \<in> N" "available edges (take i (out @ [n])) m" for i m
    using that least_n inv(9) by (cases "i = length out") (auto simp: nth_append)
  have sorted': "sorted (if newly = [] then ready else sort (ready @ newly))"
    using inv(8) by simp
  have sets: "set (if newly = [] then ready else sort (ready @ newly)) = set ready \<union> set newly"
    by simp
  show ?thesis
    unfolding topo_inv_def sets
    using inv(1,2,3) new newlyN zeros caught order deg' least sorted'
    by (intro conjI allI ballI impI) auto
qed

lemma topo_loop_inv:
  assumes "topo_inv edges N ready deg out" "snd ` set edges \<subseteq> N"
  shows "\<exists>deg'. topo_inv edges N [] deg' (topo_loop edges ready deg out)"
  using assms
proof (induction edges ready deg out rule: topo_loop.induct)
  case (1 edges deg out)
  then show ?case by auto
next
  case (2 edges n ready deg out)
  show ?case
  proof (cases "n \<in> set out")
    case True
    then have "topo_inv edges N ready deg out" using "2.prems"(1) by (auto simp: topo_inv_def)
    then show ?thesis using "2.IH"(1) [OF True _ "2.prems"(2)] True by simp
  next
    case False
    obtain deg' newly where drop: "drop_degrees (dependents edges n) deg [] = (deg', newly)"
      by fastforce
    have "topo_inv edges N (if newly = [] then ready else sort (ready @ newly)) deg' (out @ [n])"
      by (rule topo_inv_step [OF "2.prems"(1) False "2.prems"(2) drop])
    then show ?thesis
      using "2.IH"(2) [OF False _ refl _ "2.prems"(2)] False drop by simp
  qed
qed

subsection \<open>The result\<close>

lemma set_dep_edges: "set (dep_edges name deps ps) = {(d, name p) | p d. p \<in> set ps \<and> d \<in> set (deps p)}"
  by (auto simp: dep_edges_def)

lemma dep_edges_targets: "snd ` set (dep_edges name deps ps) \<subseteq> name ` set ps"
  by (auto simp: set_dep_edges)

lemma topo_names_inv:
  "\<exists>deg. topo_inv (dep_edges name deps nodes) (name ` set nodes) [] deg (topo_names name deps nodes)"
proof -
  have "topo_inv (dep_edges name deps nodes) (name ` set nodes)
      (sort (filter (\<lambda>n. in_degree (dep_edges name deps nodes) n = 0) (map name nodes)))
      (in_degree (dep_edges name deps nodes)) []"
    by (auto simp: topo_inv_def in_degree_def)
  from topo_loop_inv [OF this dep_edges_targets] show ?thesis
    by (simp add: topo_names_def Let_def)
qed

text \<open>Unemitted nodes each wait for another unemitted node, so an acyclic graph leaves none.\<close>

lemma topo_all_emitted:
  assumes inv: "topo_inv edges N [] deg out" and acyclic: "acyclic (set edges)"
    and closed: "fst ` set edges \<subseteq> N"
  shows "set out = N"
proof (rule ccontr)
  note inv = topo_invD [OF inv]
  assume "set out \<noteq> N"
  with inv(2) obtain x where x: "x \<in> N - set out" by blast
  have "wf (set edges)" using acyclic by (simp add: finite_acyclic_wf)
  from wfE_min [OF this x] obtain m where
    m: "m \<in> N - set out" and least: "\<And>y. (y, m) \<in> set edges \<Longrightarrow> y \<notin> N - set out" by blast
  have "deg m \<noteq> 0" using inv(6) [of m] m by auto
  then obtain e where "e \<in> set edges" "snd e = m" "fst e \<notin> set out"
    unfolding inv(4) by (auto simp: filter_empty_conv)
  then show False using least [of "fst e"] closed by (metis DiffI image_subset_iff prod.collapse)
qed

lemma length_takeWhile_nth:
  "distinct xs \<Longrightarrow> i < length xs \<Longrightarrow> length (takeWhile (\<lambda>y. y \<noteq> xs ! i) xs) = i"
  by (induction xs arbitrary: i) (auto simp: nth_Cons split: nat.splits)

lemma ordered_acyclic:
  assumes "distinct out" and "snd ` r \<subseteq> set out"
    and "\<And>i e. i < length out \<Longrightarrow> e \<in> r \<Longrightarrow> snd e = out ! i \<Longrightarrow> fst e \<in> set (take i out)"
  shows "acyclic r"
proof -
  let ?pos = "\<lambda>x. length (takeWhile (\<lambda>y. y \<noteq> x) out)"
  have "r \<subseteq> measure ?pos"
  proof
    fix e assume e: "e \<in> r"
    with assms(2) obtain i where i: "i < length out" "snd e = out ! i"
      by (metis image_subset_iff in_set_conv_nth)
    with assms(3) e have "fst e \<in> set (take i out)" by blast
    then obtain j where "j < i" "fst e = out ! j" using i(1) by (auto simp: in_set_conv_nth)
    with i assms(1) show "e \<in> measure ?pos"
      by (cases e) (simp add: length_takeWhile_nth)
  qed
  then show ?thesis by (meson wf_acyclic wf_measure wf_subset)
qed

lemma find_by_name:
  assumes "distinct (map name ps)" "p \<in> set ps"
  shows "find (\<lambda>q. name q = name p) ps = Some p"
  using sql_first_key_unique [OF assms, of "\<lambda>q. name q = name p"] by (simp add: sql_first_def)

text \<open>What a successful sort returns, over the sorted node list.\<close>

lemma topoSort_InrD:
  assumes names: "distinct (map name ps)" and sort: "topoSort name deps ps = Inr qs"
  shows "mset qs = mset ps" "map name qs = topo_names name deps (sort_key name ps)"
    "deps_ok name deps (sort_key name ps)"
proof -
  let ?nodes = "sort_key name ps" and ?out = "topo_names name deps (sort_key name ps)"
  let ?pick = "\<lambda>n. the (find (\<lambda>p. name p = n) ?nodes)"
  have ok: "deps_ok name deps ?nodes" and len: "length ?out = length ps" and qs: "qs = map ?pick ?out"
    using sort by (auto simp: topoSort_def Let_def split: if_splits)
  obtain deg where inv: "topo_inv (dep_edges name deps ?nodes) (name ` set ?nodes) [] deg ?out"
    using topo_names_inv by blast
  note inv = topo_invD [OF inv]
  have names': "distinct (map name ?nodes)" using names by (simp add: distinct_map)
  have pick: "?pick n \<in> set ps \<and> name (?pick n) = n" if "n \<in> set ?out" for n
    using that inv(2) find_by_name [OF names'] by auto
  then show map_name: "map name qs = ?out" by (simp add: qs map_idI)
  have "distinct qs" using inv(1) map_name by (metis distinct_map)
  moreover have "set qs = set ps"
  proof (rule card_subset_eq)
    show "set qs \<subseteq> set ps" using pick by (auto simp: qs)
    have "length qs = length ps" using len by (simp add: qs)
    then show "card (set qs) = card (set ps)"
      using \<open>distinct qs\<close> names by (metis distinct_card distinct_map)
  qed simp
  moreover have "distinct ps" using names by (simp add: distinct_map)
  ultimately show "mset qs = mset ps" by (simp add: set_eq_iff_mset_eq_distinct)
  show "deps_ok name deps ?nodes" by (rule ok)
qed

lemma deps_ok_iff:
  "deps_ok name deps (sort_key name ps) \<longleftrightarrow>
   (\<forall>p \<in> set ps. set (deps p) \<subseteq> name ` set ps - {name p})"
  by (auto simp: deps_ok_def list_all_iff dep_edges_def)

lemma topoSort_order:
  assumes "distinct (map name ps)" "topoSort name deps ps = Inr qs"
    and "i < length qs" "d \<in> set (deps (qs ! i))"
  shows "\<exists>j < i. name (qs ! j) = d"
proof -
  obtain deg where inv: "topo_inv (dep_edges name deps (sort_key name ps)) (name ` set ps) [] deg (map name qs)"
    using topo_names_inv [of name deps "sort_key name ps"] topoSort_InrD(2) [OF assms(1,2)] by auto
  have "qs ! i \<in> set ps"
    using assms(3) topoSort_InrD(1) [OF assms(1,2)] by (metis nth_mem set_mset_mset)
  then have "(d, name (qs ! i)) \<in> set (dep_edges name deps (sort_key name ps))"
    using assms(4) by (auto simp: set_dep_edges)
  from topo_invD(7) [OF inv _ this] assms(3) have "d \<in> set (take i (map name qs))" by simp
  then show ?thesis using assms(3) by (auto simp: in_set_conv_nth)
qed

lemma topoSort_least:
  assumes "distinct (map name ps)" "topoSort name deps ps = Inr qs" "i < length qs"
    and p: "p \<in> set ps" "name p \<notin> name ` set (take i qs)" "set (deps p) \<subseteq> name ` set (take i qs)"
  shows "name (qs ! i) \<le> name p"
proof -
  obtain deg where inv: "topo_inv (dep_edges name deps (sort_key name ps)) (name ` set ps) [] deg (map name qs)"
    using topo_names_inv [of name deps "sort_key name ps"] topoSort_InrD(2) [OF assms(1,2)] by auto
  have "q = p" if "q \<in> set ps" "name q = name p" for q
    using that p(1) assms(1) by (metis distinct_map inj_on_eq_iff)
  then have "available (dep_edges name deps (sort_key name ps)) (take i (map name qs)) (name p)"
    using p(2,3) by (fastforce simp: available_def list_all_iff set_dep_edges take_map)
  then show ?thesis using topo_invD(9) [OF inv, of i "name p"] assms(3) p(1) by simp
qed

lemma topoSort_total:
  assumes names: "distinct (map name ps)"
    and registered: "\<And>p. p \<in> set ps \<Longrightarrow> set (deps p) \<subseteq> name ` set ps"
    and acyclic: "acyclic {(d, name p) | p d. p \<in> set ps \<and> d \<in> set (deps p)}"
  shows "\<exists>qs. topoSort name deps ps = Inr qs"
proof -
  let ?nodes = "sort_key name ps"
  obtain deg where inv: "topo_inv (dep_edges name deps ?nodes) (name ` set ?nodes) [] deg (topo_names name deps ?nodes)"
    using topo_names_inv by blast
  have acyc: "acyclic (set (dep_edges name deps ?nodes))" using acyclic by (simp add: set_dep_edges)
  have closed: "fst ` set (dep_edges name deps ?nodes) \<subseteq> name ` set ?nodes"
    using registered by (fastforce simp: set_dep_edges)
  have out: "set (topo_names name deps ?nodes) = name ` set ps"
    using topo_all_emitted [OF inv acyc closed] by simp
  have "length (topo_names name deps ?nodes) = length ps"
    using names topo_invD(1) [OF inv] out by (metis distinct_card length_map list.set_map)
  moreover have "deps_ok name deps ?nodes"
    unfolding deps_ok_iff
  proof (intro ballI subsetI DiffI)
    fix p d assume p: "p \<in> set ps" "d \<in> set (deps p)"
    then show "d \<in> name ` set ps" using registered by blast
    show "d \<notin> {name p}"
      using p acyclic unfolding acyclic_def by (blast intro: r_into_trancl)
  qed
  ultimately show ?thesis by (simp add: topoSort_def Let_def)
qed

lemma topoSort_Inr_acyclic:
  assumes names: "distinct (map name ps)" and sort: "topoSort name deps ps = Inr qs"
  shows "acyclic {(d, name p) | p d. p \<in> set ps \<and> d \<in> set (deps p)}"
proof (rule ordered_acyclic [of "map name qs"])
  obtain deg where inv: "topo_inv (dep_edges name deps (sort_key name ps)) (name ` set ps) [] deg (map name qs)"
    using topo_names_inv [of name deps "sort_key name ps"] topoSort_InrD(2) [OF names sort] by auto
  have "set ps = set qs" using topoSort_InrD(1) [OF names sort] by (metis set_mset_mset)
  then show "snd ` {(d, name p) | p d. p \<in> set ps \<and> d \<in> set (deps p)} \<subseteq> set (map name qs)" by auto
  show "distinct (map name qs)" using topo_invD(1) [OF inv] .
  show "fst e \<in> set (take i (map name qs))"
    if "i < length (map name qs)" "e \<in> {(d, name p) | p d. p \<in> set ps \<and> d \<in> set (deps p)}"
      "snd e = map name qs ! i" for i e
    using topo_invD(7) [OF inv that(1) _ that(3)] that(2) by (simp add: set_dep_edges)
qed

subsection \<open>The order depends on names and dependencies only\<close>

lemma insort_key_map: "insort_key k (f x) (map f xs) = map f (insort_key (\<lambda>a. k (f a)) x xs)"
  by (induction xs) auto

lemma sort_key_map: "sort_key k (map f xs) = map f (sort_key (\<lambda>a. k (f a)) xs)"
  by (induction xs) (simp_all add: insort_key_map)

lemma dep_edges_map: "dep_edges name deps (map f xs) = dep_edges (name \<circ> f) (deps \<circ> f) xs"
  by (simp add: dep_edges_def o_def)

lemma topoSort_by_names:
  assumes sort: "topoSort fst snd (map (\<lambda>p. (name p, deps p)) ps) = Inr rs"
    and names: "distinct (map name ps)"
  shows "topoSort name deps ps = Inr (map (\<lambda>n. the (find (\<lambda>p. name p = n) ps)) (map fst rs))"
proof -
  let ?f = "\<lambda>p. (name p, deps p)" and ?nodes = "sort_key name ps"
  have nodes: "sort_key fst (map ?f ps) = map ?f ?nodes" by (simp add: sort_key_map o_def)
  have edges: "dep_edges fst snd (map ?f ?nodes) = dep_edges name deps ?nodes"
    by (simp add: dep_edges_map o_def)
  have out: "topo_names fst snd (map ?f ?nodes) = topo_names name deps ?nodes"
    by (simp add: topo_names_def edges o_def)
  have ok: "deps_ok name deps ?nodes" and len: "length (topo_names name deps ?nodes) = length ?nodes"
    using sort by (auto simp: topoSort_def Let_def nodes out deps_ok_def edges o_def image_image split: if_splits)
  have "distinct (map fst (map ?f ps))" using names by (simp add: o_def)
  from topoSort_InrD(2) [OF this sort] have rs: "map fst rs = topo_names name deps ?nodes"
    by (simp add: nodes out)
  obtain deg where inv: "topo_inv (dep_edges name deps ?nodes) (name ` set ?nodes) [] deg (topo_names name deps ?nodes)"
    using topo_names_inv by blast
  have names': "distinct (map name ?nodes)" using names by (simp add: distinct_map)
  have "find (\<lambda>p. name p = n) ?nodes = find (\<lambda>p. name p = n) ps"
    if "n \<in> set (topo_names name deps ?nodes)" for n
    using that topo_invD(2) [OF inv] find_by_name [OF names'] find_by_name [OF names] by auto
  then show ?thesis using ok len by (simp add: topoSort_def Let_def rs del: map_map)
qed

section \<open>Properties of the sort\<close>

text \<open>C21. The order \<open>All()\<close> iterates holds every registered projection once, puts each one
  after everything it depends on, and at every position emits the alphabetically least projection
  whose dependencies are already emitted.\<close>

theorem topoSort_respects_dependencies:
  assumes "distinct (map name ps)" "topoSort name deps ps = Inr qs"
  shows "mset qs = mset ps \<and>
    (\<forall>i < length qs. \<forall>d \<in> set (deps (qs ! i)). \<exists>j < i. name (qs ! j) = d) \<and>
    (\<forall>i < length qs. \<forall>p \<in> set ps. name p \<notin> name ` set (take i qs) \<and>
       set (deps p) \<subseteq> name ` set (take i qs) \<longrightarrow> name (qs ! i) \<le> name p)"
  using topoSort_InrD(1) [OF assms] topoSort_order [OF assms] topoSort_least [OF assms] by blast

theorem topoSort_respects_dependencies_witness:
  "mset [(''b'', []), (''a'', [''b''])] = mset [(''a'', [''b'']), (''b'', [] :: string list)] \<and>
   topoSort fst snd [(''a'', [''b'']), (''b'', [])] = Inr [(''b'', []), (''a'', [''b''])]"
proof -
  have "topoSort fst snd [(''a'', [''b'']), (''b'', [])] = Inr [(''b'', []), (''a'', [''b''])]"
    by code_simp
  with topoSort_respects_dependencies [of fst "[(''a'', [''b'']), (''b'', [])]" snd
      "[(''b'', []), (''a'', [''b''])]"] show ?thesis by auto
qed

text \<open>C30. The sort returns an order exactly when every declared dependency is registered and the
  declarations have no cycle; in every other case it panics.\<close>

theorem topoSort_succeeds_iff_acyclic:
  assumes "distinct (map name ps)"
  shows "(\<exists>qs. topoSort name deps ps = Inr qs) \<longleftrightarrow>
    (\<forall>p \<in> set ps. set (deps p) \<subseteq> name ` set ps) \<and>
    acyclic {(d, name p) | p d. p \<in> set ps \<and> d \<in> set (deps p)}"
proof
  assume "\<exists>qs. topoSort name deps ps = Inr qs"
  then obtain qs where qs: "topoSort name deps ps = Inr qs" ..
  show "(\<forall>p \<in> set ps. set (deps p) \<subseteq> name ` set ps) \<and>
    acyclic {(d, name p) | p d. p \<in> set ps \<and> d \<in> set (deps p)}"
    using topoSort_InrD(3) [OF assms qs] topoSort_Inr_acyclic [OF assms qs] unfolding deps_ok_iff by blast
qed (use topoSort_total [OF assms] in blast)

theorem topoSort_succeeds_iff_acyclic_witness:
  "\<not> acyclic {(d, fst p) | p d. p \<in> set [(''a'', [''b'']), (''b'', [''a''])] \<and> d \<in> set (snd p)}"
proof -
  have "topoSort fst snd [(''a'', [''b'']), (''b'', [''a''])] = Inl (ErrPanic ''DependsOn cycle detected'')"
    by code_simp
  then show ?thesis
    using topoSort_succeeds_iff_acyclic [of fst "[(''a'', [''b'']), (''b'', [''a''])]" snd] by auto
qed

end
