(* ===== verification/Fold_Engine.thy ===== *)
theory Fold_Engine
  imports Proj_Roadmap Proj_Bugs Proj_Suggestions Projection_Registry "HOL-Library.Product_Lexorder"
begin

text \<open>
  \<open>go/internal/projections/projections.go\<close>, the fold half: \<open>FoldAll\<close>,
  \<open>FoldAllReadSide\<close>, the watermark table, \<open>RebuildAll\<close> with its full and targeted paths,
  and every projection's \<open>RebuildFromEmpty\<close>. A registered projection is a record of the
  methods of the \<open>Projection\<close> interface; the functions take the registered list as an
  argument, and \<open>work_projections\<close> is the list of the projections modelled here.
\<close>

section \<open>The Projection interface\<close>

record projection =
  p_Name :: string
  p_TableName :: string
  p_DependsOn :: "string list"
  p_Fold :: "raw_event \<Rightarrow> unit dbtx"
  p_RebuildFromEmpty :: "unit dbtx"
  p_truncate :: "db \<Rightarrow> db"          \<comment> \<open>\<open>DELETE FROM TableName()\<close>\<close>
  p_count :: "db \<Rightarrow> int"             \<comment> \<open>\<open>SELECT COUNT(*) FROM TableName()\<close>\<close>

definition All :: "projection list \<Rightarrow> go_error + projection list" where
  "All registered = topoSort p_Name p_DependsOn registered"

definition with_All :: "projection list \<Rightarrow> (projection list \<Rightarrow> 'a dbtx) \<Rightarrow> 'a dbtx" where
  "with_All registered k = (case All registered of Inl e \<Rightarrow> tx_fail e | Inr all \<Rightarrow> k all)"

section \<open>Watermarks\<close>

definition ReadWatermark :: "string \<Rightarrow> (string \<times> string) dbtx" where
  "ReadWatermark name = tx_read (\<lambda>d.
     case db_watermark d name of
       None \<Rightarrow> ([], [])
     | Some (eid, et) \<Rightarrow> (deref_or [] eid, deref_or [] et))"

definition WriteWatermark :: "string \<Rightarrow> string \<Rightarrow> string \<Rightarrow> unit dbtx" where
  "WriteWatermark name eventID ts =
     tx_modify (\<lambda>d. d\<lparr>db_watermark := (db_watermark d)(name \<mapsto> (Some eventID, Some ts))\<rparr>)"

definition ResetWatermark :: "string \<Rightarrow> unit dbtx" where
  "ResetWatermark name =
     tx_modify (\<lambda>d. d\<lparr>db_watermark := (db_watermark d)(name \<mapsto> (None, None))\<rparr>)"

lemma WriteWatermark_Inr [tx_simps]:
  "WriteWatermark name eventID ts d = (Inr u, d') \<longleftrightarrow>
     d' = d\<lparr>db_watermark := (db_watermark d)(name \<mapsto> (Some eventID, Some ts))\<rparr>"
  by (auto simp: WriteWatermark_def tx_simps)

section \<open>Folding one event\<close>

definition FoldAll :: "projection list \<Rightarrow> raw_event \<Rightarrow> unit dbtx" where
  "FoldAll registered evt =
     with_All registered (tx_foreach (\<lambda>p.
       tx_then (p_Fold p evt) (WriteWatermark (p_Name p) (ev_id evt) (ev_ts evt))))"

definition zero_event :: raw_event where
  "zero_event = \<lparr>ev_id = [], ev_ts = [], ev_actor_kind = [], ev_actor_id = [], ev_type = [],
     ev_kind = [], ev_slug = [], ev_project = None, ev_payload = None, ev_rationale = None,
     ev_caused_by = None, ev_related = None, ev_span = [], ev_schema_version = 0\<rparr>"

definition FoldAllReadSide :: "projection list \<Rightarrow> unit dbtx" where
  "FoldAllReadSide registered =
     with_All registered (tx_foreach (\<lambda>p.
       if \<not> isReadSideName (p_Name p) then tx_return () else p_Fold p zero_event))"

section \<open>The live path\<close>

text \<open>
  \<open>INSERT INTO events\<close>: the primary key and the CHECK on \<open>actor_kind\<close>. Foreign keys
  are off on the connection, so \<open>caused_by_event_id\<close> is not checked.
\<close>

definition event_check :: "raw_event \<Rightarrow> bool" where
  "event_check e \<longleftrightarrow> ev_actor_kind e \<in> {''agent'', ''human'', ''system''}"

definition insert_event :: "raw_event \<Rightarrow> unit dbtx" where
  "insert_event evt = tx_exec ''events''
     (\<lambda>d. map_option (\<lambda>es. d\<lparr>db_events := es\<rparr>) (sql_insert ev_id event_check evt (db_events d)))"

text \<open>The INSERT followed by the fold hook, as \<open>Emit\<close> ends.\<close>

definition ingest :: "projection list \<Rightarrow> raw_event \<Rightarrow> unit dbtx" where
  "ingest registered evt = tx_then (insert_event evt) (FoldAll registered evt)"

section \<open>Replaying the ledger\<close>

text \<open>\<open>SELECT ... FROM events WHERE ... ORDER BY ts ASC, event_id ASC\<close>\<close>

definition events_where :: "(raw_event \<Rightarrow> bool) \<Rightarrow> db \<Rightarrow> raw_event list" where
  "events_where whr d = sort_key (\<lambda>e. (ev_ts e, ev_id e)) (filter whr (db_events d))"

definition replay_events :: "(raw_event \<Rightarrow> bool) \<Rightarrow> (raw_event \<Rightarrow> unit dbtx) \<Rightarrow> unit dbtx" where
  "replay_events whr folder = tx_bind (tx_read (events_where whr)) (tx_foreach folder)"

definition replayTaskEvents :: "(raw_event \<Rightarrow> unit dbtx) \<Rightarrow> unit dbtx" where
  "replayTaskEvents folder = replay_events (\<lambda>e. ev_kind e = ''task'') folder"

definition current_tasks_RebuildFromEmpty :: "(string \<Rightarrow> sqlval) \<Rightarrow> unit dbtx" where
  "current_tasks_RebuildFromEmpty aff = replayTaskEvents (current_tasks_Fold aff)"

definition task_blockers_RebuildFromEmpty :: "unit dbtx" where
  "task_blockers_RebuildFromEmpty = replayTaskEvents task_blockers_Fold"

definition chain_status_RebuildFromEmpty :: "unit dbtx" where
  "chain_status_RebuildFromEmpty =
     replay_events (\<lambda>e. ev_kind e = ''chain'' \<or> ev_kind e = ''task'') chain_status_Fold"

definition current_bugs_RebuildFromEmpty :: "unit dbtx" where
  "current_bugs_RebuildFromEmpty = replay_events (\<lambda>e. ev_kind e = ''bug'') current_bugs_Fold"

definition current_suggestions_RebuildFromEmpty :: "unit dbtx" where
  "current_suggestions_RebuildFromEmpty =
     replay_events (\<lambda>e. ev_kind e = ''suggestion'') current_suggestions_Fold"

definition roadmap_view_RebuildFromEmpty :: "unit dbtx" where
  "roadmap_view_RebuildFromEmpty =
     replay_events (\<lambda>e. ev_type e = ''RoadmapUpdated'' \<or> ev_type e = ''ChainClosed''
         \<or> ev_type e = ''TaskCompleted'' \<or> ev_type e = ''TaskCancelled''
         \<or> ev_kind e \<in> {''chain'', ''task''})
       roadmap_view_Fold"

definition memories_RebuildFromEmpty :: "unit dbtx" where
  "memories_RebuildFromEmpty = replay_events (\<lambda>e. ev_kind e = ''memory'') memories_Fold"

section \<open>RebuildAll\<close>

record RebuildResult =
  rr_Name :: string
  rr_TableName :: string
  rr_Rows :: int
  rr_Watermark :: string

text \<open>\<open>SELECT event_id, ts FROM events ORDER BY ts DESC, event_id DESC LIMIT 1\<close>\<close>

definition max_event :: "db \<Rightarrow> raw_event option" where
  "max_event d = (case events_where (\<lambda>_. True) d of [] \<Rightarrow> None | es \<Rightarrow> Some (last es))"

definition finish_rebuild :: "raw_event option \<Rightarrow> projection \<Rightarrow> RebuildResult dbtx" where
  "finish_rebuild mx p =
     tx_bind (tx_read (p_count p)) (\<lambda>n.
     tx_then
       (case mx of
          Some e \<Rightarrow> WriteWatermark (p_Name p) (ev_id e) (ev_ts e)
        | None \<Rightarrow> ResetWatermark (p_Name p))
       (tx_return \<lparr>rr_Name = p_Name p, rr_TableName = p_TableName p, rr_Rows = n,
          rr_Watermark = (case mx of Some e \<Rightarrow> ev_id e | None \<Rightarrow> [])\<rparr>))"

fun tx_collect :: "('x \<Rightarrow> ('s, 'a) tx) \<Rightarrow> 'x list \<Rightarrow> ('s, 'a list) tx" where
  "tx_collect f [] = tx_return []"
| "tx_collect f (x # xs) = tx_bind (f x) (\<lambda>a. tx_bind (tx_collect f xs) (\<lambda>as. tx_return (a # as)))"

definition rebuildAllFullViaFoldAll ::
  "projection list \<Rightarrow> raw_event option \<Rightarrow> RebuildResult list dbtx" where
  "rebuildAllFullViaFoldAll registered mx =
     with_All registered (\<lambda>targets.
       tx_then (tx_foreach (\<lambda>p. tx_modify (p_truncate p)) targets)
      (tx_then
        (let writeSide = filter (\<lambda>p. \<not> isReadSideName (p_Name p)) targets
         in replay_events (\<lambda>_. True) (\<lambda>evt. tx_foreach (\<lambda>p. p_Fold p evt) writeSide))
      (tx_then
        (let readSide = filter (\<lambda>p. isReadSideName (p_Name p)) targets
         in tx_foreach p_RebuildFromEmpty readSide)
        (tx_collect (finish_rebuild mx) targets))))"

fun resolve_targets :: "projection list \<Rightarrow> string list \<Rightarrow> projection list dbtx" where
  "resolve_targets registered [] = tx_return []"
| "resolve_targets registered (n # names) =
     (case Get p_Name p_DependsOn registered n of
        Inl e \<Rightarrow> tx_fail e
      | Inr None \<Rightarrow> tx_fail (ErrUnknownProjection n)
      | Inr (Some p) \<Rightarrow> tx_bind (resolve_targets registered names) (\<lambda>ps. tx_return (p # ps)))"

definition RebuildAll :: "projection list \<Rightarrow> string list \<Rightarrow> RebuildResult list dbtx" where
  "RebuildAll registered names =
     tx_bind (tx_read max_event) (\<lambda>mx.
     if names = [] then rebuildAllFullViaFoldAll registered mx
     else tx_bind (resolve_targets registered names) (tx_collect (\<lambda>p.
            tx_then (tx_modify (p_truncate p))
           (tx_then (p_RebuildFromEmpty p) (finish_rebuild mx p)))))"

section \<open>The registered projections\<close>

definition currentTasks :: "(string \<Rightarrow> sqlval) \<Rightarrow> projection" where
  "currentTasks aff = \<lparr>p_Name = ''current_tasks'', p_TableName = ''proj_current_tasks'',
     p_DependsOn = [], p_Fold = current_tasks_Fold aff,
     p_RebuildFromEmpty = current_tasks_RebuildFromEmpty aff,
     p_truncate = (\<lambda>d. d\<lparr>db_tasks := []\<rparr>), p_count = (\<lambda>d. int (length (db_tasks d)))\<rparr>"

definition taskBlockers :: projection where
  "taskBlockers = \<lparr>p_Name = ''task_blockers'', p_TableName = ''proj_task_blockers'',
     p_DependsOn = [''chain_status'', ''current_tasks''], p_Fold = task_blockers_Fold,
     p_RebuildFromEmpty = task_blockers_RebuildFromEmpty,
     p_truncate = (\<lambda>d. d\<lparr>db_blockers := []\<rparr>), p_count = (\<lambda>d. int (length (db_blockers d)))\<rparr>"

definition chainStatus :: projection where
  "chainStatus = \<lparr>p_Name = ''chain_status'', p_TableName = ''proj_chain_status'',
     p_DependsOn = [''current_tasks''], p_Fold = chain_status_Fold,
     p_RebuildFromEmpty = chain_status_RebuildFromEmpty,
     p_truncate = (\<lambda>d. d\<lparr>db_chains := []\<rparr>), p_count = (\<lambda>d. int (length (db_chains d)))\<rparr>"

definition currentBugs :: projection where
  "currentBugs = \<lparr>p_Name = ''current_bugs'', p_TableName = ''proj_current_bugs'',
     p_DependsOn = [], p_Fold = current_bugs_Fold,
     p_RebuildFromEmpty = current_bugs_RebuildFromEmpty,
     p_truncate = (\<lambda>d. d\<lparr>db_bugs := []\<rparr>), p_count = (\<lambda>d. int (length (db_bugs d)))\<rparr>"

definition currentSuggestions :: projection where
  "currentSuggestions = \<lparr>p_Name = ''current_suggestions'', p_TableName = ''proj_current_suggestions'',
     p_DependsOn = [], p_Fold = current_suggestions_Fold,
     p_RebuildFromEmpty = current_suggestions_RebuildFromEmpty,
     p_truncate = (\<lambda>d. d\<lparr>db_suggestions := []\<rparr>),
     p_count = (\<lambda>d. int (length (db_suggestions d)))\<rparr>"

definition roadmapView :: projection where
  "roadmapView = \<lparr>p_Name = ''roadmap_view'', p_TableName = ''proj_roadmap_view'',
     p_DependsOn = [''chain_status'', ''current_tasks''], p_Fold = roadmap_view_Fold,
     p_RebuildFromEmpty = roadmap_view_RebuildFromEmpty,
     p_truncate = (\<lambda>d. d\<lparr>db_roadmap := []\<rparr>), p_count = (\<lambda>d. int (length (db_roadmap d)))\<rparr>"

definition currentMemories :: projection where
  "currentMemories = \<lparr>p_Name = ''memories'', p_TableName = ''proj_memories'',
     p_DependsOn = [], p_Fold = memories_Fold,
     p_RebuildFromEmpty = memories_RebuildFromEmpty,
     p_truncate = (\<lambda>d. d\<lparr>db_memories := []\<rparr>), p_count = (\<lambda>d. int (length (db_memories d)))\<rparr>"

definition work_projections :: "(string \<Rightarrow> sqlval) \<Rightarrow> projection list" where
  "work_projections aff = [currentBugs, chainStatus, currentMemories, roadmapView,
     currentSuggestions, currentTasks aff, taskBlockers]"

text \<open>Names and dependencies of every projection the package registers, in file order.\<close>

definition production_registry :: "(string \<times> string list) list" where
  "production_registry =
     [(''bench_harnesses'', []), (''benchmark_results'', []), (''current_bugs'', []),
      (''chain_status'', [''current_tasks'']), (''gate_runs'', []),
      (''inference_tool_model_performance'', [''benchmark_results'']),
      (''inference_call_success'', [''benchmark_results'']), (''memories'', []),
      (''retrieval_success_per_query'', []), (''training_data_for_reranker'', []),
      (''query_volume_by_source'', []), (''roadmap_view'', [''chain_status'', ''current_tasks'']),
      (''study_runs'', []), (''current_suggestions'', []), (''current_tasks'', []),
      (''task_blockers'', [''chain_status'', ''current_tasks''])]"

text \<open>The order in which the registered projections fold every event: \<open>current_tasks\<close>
  before \<open>chain_status\<close>, and both before \<open>roadmap_view\<close> and \<open>task_blockers\<close>.\<close>

theorem production_fold_order:
  "map_sum id (map fst) (topoSort fst snd production_registry) =
   Inr [''bench_harnesses'', ''benchmark_results'', ''current_bugs'', ''current_suggestions'',
     ''current_tasks'', ''chain_status'', ''gate_runs'', ''inference_call_success'',
     ''inference_tool_model_performance'', ''memories'', ''query_volume_by_source'',
     ''retrieval_success_per_query'', ''roadmap_view'', ''study_runs'', ''task_blockers'',
     ''training_data_for_reranker'']"
  by code_simp

end
