(* ===== verification/Rebuild_Live.thy ===== *)
theory Rebuild_Live
  imports Fold_Engine
begin

text \<open>
  A full rebuild gives back the live state. No fold reads the ledger, the watermarks or the
  full-text tables, so each commutes with a change of these (\<open>rebase\<close>); replaying the ledger
  from truncated tables therefore repeats the live run step by step. The argument is carried by
  the locale \<open>replayable\<close> over any list of projections that commute and whose truncations
  together empty the tables, and interpreted on \<open>work_projections\<close>.
\<close>

section \<open>Changing what folds do not read\<close>

definition rebase ::
  "raw_event list \<Rightarrow> (string \<rightharpoonup> (string option \<times> string option)) \<Rightarrow> fts \<Rightarrow> fts \<Rightarrow> db \<Rightarrow> db" where
  "rebase E W b s d = d\<lparr>db_events := E, db_bugs_fts := b ++ db_bugs_fts d,
     db_suggestions_fts := s ++ db_suggestions_fts d, db_watermark := W\<rparr>"

lemma rebase_select [simp]:
  "db_tasks (rebase E W b s d) = db_tasks d" "db_chains (rebase E W b s d) = db_chains d"
  "db_blockers (rebase E W b s d) = db_blockers d" "db_bugs (rebase E W b s d) = db_bugs d"
  "db_suggestions (rebase E W b s d) = db_suggestions d"
  "db_roadmap (rebase E W b s d) = db_roadmap d" "db_memories (rebase E W b s d) = db_memories d"
  "db_events (rebase E W b s d) = E" "db_watermark (rebase E W b s d) = W"
  "db_bugs_fts (rebase E W b s d) = b ++ db_bugs_fts d"
  "db_suggestions_fts (rebase E W b s d) = s ++ db_suggestions_fts d"
  by (simp_all add: rebase_def)

lemma rebase_update:
  "(rebase E W b s d)\<lparr>db_tasks := v1\<rparr> = rebase E W b s (d\<lparr>db_tasks := v1\<rparr>)"
  "(rebase E W b s d)\<lparr>db_chains := v2\<rparr> = rebase E W b s (d\<lparr>db_chains := v2\<rparr>)"
  "(rebase E W b s d)\<lparr>db_blockers := v3\<rparr> = rebase E W b s (d\<lparr>db_blockers := v3\<rparr>)"
  "(rebase E W b s d)\<lparr>db_bugs := v4\<rparr> = rebase E W b s (d\<lparr>db_bugs := v4\<rparr>)"
  "(rebase E W b s d)\<lparr>db_suggestions := v5\<rparr> = rebase E W b s (d\<lparr>db_suggestions := v5\<rparr>)"
  "(rebase E W b s d)\<lparr>db_roadmap := v6\<rparr> = rebase E W b s (d\<lparr>db_roadmap := v6\<rparr>)"
  "(rebase E W b s d)\<lparr>db_memories := v7\<rparr> = rebase E W b s (d\<lparr>db_memories := v7\<rparr>)"
  by (simp_all add: rebase_def)

lemma rebase_reads [simp]:
  "chain_id_by_slug (rebase E W b s d) = chain_id_by_slug d"
  "task_chain_join (rebase E W b s d) = task_chain_join d"
  "next_position (rebase E W b s d) = next_position d"
  "resolveTaskIDForBlockerFold (rebase E W b s d) = resolveTaskIDForBlockerFold d"
  "chainIDBySlug (rebase E W b s d) = chainIDBySlug d"
  "ref_target (rebase E W b s d) = ref_target d"
  "taskTargetWhere (rebase E W b s d) = taskTargetWhere d"
  by (simp_all add: fun_eq_iff chain_id_by_slug_def task_chain_join_def next_position_def
      resolveTaskIDForBlockerFold_def chainIDBySlug_def ref_target_def taskTargetWhere_def)

section \<open>The folds commute with it\<close>

lemma commutes_exec_tables [commutes_intros]:
  "tx_commutes (rebase E W b s) (exec_tasks f1)"
  "tx_commutes (rebase E W b s) (exec_chains f2)"
  "tx_commutes (rebase E W b s) (exec_bugs f3)"
  "tx_commutes (rebase E W b s) (exec_suggestions f4)"
  "tx_commutes (rebase E W b s) (exec_roadmap f5)"
  "tx_commutes (rebase E W b s) (exec_memories f6)"
  unfolding exec_tasks_def exec_chains_def exec_bugs_def exec_suggestions_def
    exec_roadmap_def exec_memories_def
  by (rule commutes_exec; simp add: rebase_update option.map_comp o_def)+

lemma commutes_payload_of [commutes_intros]: "tx_commutes h (payload_of dec evt)"
  by (auto simp: payload_of_def intro: commutes_intros split: option.splits)

lemma commutes_project_of [commutes_intros]: "tx_commutes h (project_of evt)"
  by (auto simp: project_of_def intro: commutes_intros split: option.splits)

lemma commutes_exec_tasks_at [commutes_intros]:
  assumes "\<And>d. f (rebase E W b s d) = f d"
  shows "tx_commutes (rebase E W b s) (\<lambda>d. exec_tasks (f d) d)"
  using assms commutes_exec_tables(1) by (simp add: tx_commutes_def)

lemma commutes_exec_chains_at [commutes_intros]:
  assumes "\<And>d. f (rebase E W b s d) = f d"
  shows "tx_commutes (rebase E W b s) (\<lambda>d. exec_chains (f d) d)"
  using assms commutes_exec_tables(2) by (simp add: tx_commutes_def)

lemma rebase_reads_commute [commutes_intros]:
  "(\<And>d. g (rebase E W b s d) = g d) \<Longrightarrow> tx_commutes (rebase E W b s) (tx_read g)"
  by (rule commutes_read)

lemma commutes_update_target [commutes_intros]:
  "tx_commutes (rebase E W b s) (update_target cs evt upd)"
  unfolding update_target_def by (intro commutes_intros) simp

lemma commutes_modify_blockers [commutes_intros]:
  "tx_commutes (rebase E W b s) (tx_modify (\<lambda>d. d\<lparr>db_blockers := g (db_blockers d)\<rparr>))"
  by (rule commutes_modify) (simp add: rebase_update)

lemma commutes_modify_tasks [commutes_intros]:
  "tx_commutes (rebase E W b s) (tx_modify (\<lambda>d. d\<lparr>db_tasks := g (db_tasks d)\<rparr>))"
  by (rule commutes_modify) (simp add: rebase_update)

lemma commutes_modify_roadmap [commutes_intros]:
  "tx_commutes (rebase E W b s) (tx_modify (\<lambda>d. d\<lparr>db_roadmap := g (db_roadmap d)\<rparr>))"
  by (rule commutes_modify) (simp add: rebase_update)

lemma commutes_write_fts [commutes_intros]:
  "tx_commutes (rebase E W b s) (write_bugs_fts i x y)"
  "tx_commutes (rebase E W b s) (write_suggestions_fts i x y)"
  by (auto simp: tx_commutes_def write_bugs_fts_def write_suggestions_fts_def tx_then_def tx_bind_def
      tx_modify_def rebase_def map_add_def fun_eq_iff split: option.splits)

lemma commutes_option [commutes_intros]:
  "tx_commutes h m \<Longrightarrow> (\<And>x. tx_commutes h (f x)) \<Longrightarrow> tx_commutes h (case v of None \<Rightarrow> m | Some x \<Rightarrow> f x)"
  by (cases v) auto

lemma commutes_if [commutes_intros]:
  "tx_commutes h m \<Longrightarrow> tx_commutes h n \<Longrightarrow> tx_commutes h (if c then m else n)"
  by simp

lemma commutes_prod [commutes_intros]:
  "(\<And>x y. tx_commutes h (f x y)) \<Longrightarrow> tx_commutes h (case v of (x, y) \<Rightarrow> f x y)"
  by (cases v) auto

lemma commutes_let [commutes_intros]: "tx_commutes h (f v) \<Longrightarrow> tx_commutes h (let x = v in f x)"
  by simp

lemma commutes_list [commutes_intros]:
  "tx_commutes h m \<Longrightarrow> (\<And>x xs. tx_commutes h (f x xs)) \<Longrightarrow>
   tx_commutes h (case v of [] \<Rightarrow> m | x # xs \<Rightarrow> f x xs)"
  by (cases v) auto

lemma current_tasks_Fold_rebase [commutes_intros]:
  "tx_commutes (rebase E W b s) (current_tasks_Fold aff evt)"
  unfolding current_tasks_Fold_def foldTaskCreated_def foldTaskEdited_def foldTaskTransitioned_def
    foldTaskCompleted_def foldTaskCancelled_def foldTaskRetired_def foldTaskAssignedToChain_def
    foldTaskStamped_def
  by (intro commutes_intros) (simp_all cong: option.case_cong)

lemma task_blockers_Fold_rebase [commutes_intros]:
  "tx_commutes (rebase E W b s) (task_blockers_Fold evt)"
  unfolding task_blockers_Fold_def foldTaskBlockersTransitioned_def foldTaskBlockersCleanupOnClose_def
  by (intro commutes_intros) simp_all

lemma chain_status_Fold_rebase [commutes_intros]:
  "tx_commutes (rebase E W b s) (chain_status_Fold evt)"
  unfolding chain_status_Fold_def foldChainCreated_def foldChainEdited_def foldChainClosed_def
    refreshChainTaskCountsForTaskEvent_def refreshChainTaskCountsByID_def chainIDsForTaskEvent_def
  by (intro commutes_intros) (simp_all split: option.split)

lemma current_bugs_Fold_rebase [commutes_intros]:
  "tx_commutes (rebase E W b s) (current_bugs_Fold evt)"
  unfolding current_bugs_Fold_def foldBugReported_def foldBugEdited_def foldBugResolved_def
    foldBugReopened_def foldBugStamped_def foldBugTriaged_def refreshBugsFTS_def update_bug_def
  by (intro commutes_intros) simp_all

lemma current_suggestions_Fold_rebase [commutes_intros]:
  "tx_commutes (rebase E W b s) (current_suggestions_Fold evt)"
  unfolding current_suggestions_Fold_def foldSuggestionReported_def foldSuggestionEdited_def
    foldSuggestionResolved_def foldSuggestionReopened_def foldSuggestionStamped_def
    refreshSuggestionsFTS_def update_suggestion_def
  by (intro commutes_intros) simp_all

lemma roadmap_view_Fold_rebase [commutes_intros]:
  "tx_commutes (rebase E W b s) (roadmap_view_Fold evt)"
  unfolding roadmap_view_Fold_def foldRoadmapUpdated_def roadmap_set_def roadmap_insert_def
    roadmap_update_def insertRoadmapRow_def refreshRoadmapRowsForRef_def cascadeDeleteRoadmapRows_def
  by (intro commutes_intros) simp_all

lemma memories_Fold_rebase [commutes_intros]:
  "tx_commutes (rebase E W b s) (memories_Fold evt)"
  unfolding memories_Fold_def foldMemoryWritten_def
  by (intro commutes_intros)

section \<open>Rebuilding any replayable registry\<close>

text \<open>One event through a list of folds, as the rebuild walk drives it.\<close>

abbreviation fold_event :: "projection list \<Rightarrow> raw_event \<Rightarrow> unit dbtx" where
  "fold_event ps evt \<equiv> tx_foreach (\<lambda>p. p_Fold p evt) ps"

definition marked :: "raw_event \<Rightarrow> projection list \<Rightarrow> (string \<rightharpoonup> (string option \<times> string option))
    \<Rightarrow> (string \<rightharpoonup> (string option \<times> string option))" where
  "marked e qs W = fold (\<lambda>p w. w(p_Name p \<mapsto> (Some (ev_id e), Some (ev_ts e)))) qs W"

lemma marked_simps:
  "marked e [] W = W"
  "marked e (p # qs) W = marked e qs (W(p_Name p \<mapsto> (Some (ev_id e), Some (ev_ts e))))"
  by (simp_all add: marked_def)

lemma marked_apply:
  "marked e qs W n = (if n \<in> p_Name ` set qs then Some (Some (ev_id e), Some (ev_ts e)) else W n)"
  by (induction qs arbitrary: W) (auto simp: marked_def)

lemma marked_idem: "marked e qs (marked e qs W) = marked e qs W"
  by (simp add: fun_eq_iff marked_apply)

text \<open>The state without its ledger and watermarks.\<close>

definition core :: "db \<Rightarrow> db" where
  "core = rebase [] Map.empty Map.empty Map.empty"

lemma core_eq: "core d = d\<lparr>db_events := [], db_watermark := Map.empty\<rparr>"
  by (simp add: core_def rebase_def)

lemma rebase_core: "rebase (db_events d) (db_watermark d) (db_bugs_fts d) (db_suggestions_fts d) (core d) = d"
  by (simp add: core_eq rebase_def map_add_def fun_eq_iff split: option.split)

text \<open>
  The laws a registry needs: names are distinct and none is read-side, the topological order
  exists, folds commute with \<open>rebase\<close>, and truncating every table leaves what \<open>rebase\<close>
  leaves of the empty database.
\<close>

locale replayable =
  fixes ps :: "projection list"
  assumes sorted_ps: "\<exists>order. All ps = Inr order"
    and names: "distinct (map p_Name ps)"
    and write_side: "p \<in> set ps \<Longrightarrow> \<not> isReadSideName (p_Name p)"
    and folds_commute: "p \<in> set ps \<Longrightarrow> tx_commutes (rebase E W b s) (p_Fold p evt)"
    and truncate_all: "All ps = Inr order \<Longrightarrow> fold p_truncate order d
      = rebase (db_events d) (db_watermark d) (db_bugs_fts d) (db_suggestions_fts d) empty_db"
begin

definition order :: "projection list" where
  "order = (case All ps of Inr qs \<Rightarrow> qs)"

lemma All_order: "All ps = Inr order"
  using sorted_ps by (auto simp: order_def)

lemma set_order: "set order = set ps"
  using topoSort_InrD(1) [OF names] All_order unfolding All_def by (metis set_mset_mset)

lemma with_All_order: "with_All ps k = k order"
  by (simp add: with_All_def All_order)

lemma fold_event_commutes: "tx_commutes (rebase E W b s) (fold_event order evt)"
  by (rule commutes_foreach_set) (simp add: folds_commute set_order)

lemma fold_keeps_log:
  assumes "p \<in> set ps" "p_Fold p evt d = (r, d')"
  shows "db_events d' = db_events d \<and> db_watermark d' = db_watermark d"
proof -
  have id: "rebase (db_events d) (db_watermark d) Map.empty Map.empty d = d" by (simp add: rebase_def)
  have "p_Fold p evt d = (r, rebase (db_events d) (db_watermark d) Map.empty Map.empty d')"
    using commutesD [OF folds_commute [OF assms(1)] assms(2)] id by metis
  then have "d' = rebase (db_events d) (db_watermark d) Map.empty Map.empty d'"
    using assms(2) by simp
  then show ?thesis by (metis rebase_select(8,9))
qed

text \<open>Folding with the watermark writes between, against folding alone.\<close>

lemma interleaved:
  assumes "set qs \<subseteq> set ps"
    and "tx_foreach (\<lambda>p. tx_then (p_Fold p evt) (WriteWatermark (p_Name p) (ev_id evt) (ev_ts evt))) qs d
      = (Inr (), d')"
  shows "fold_event qs evt (core d) = (Inr (), core d') \<and> db_events d' = db_events d
    \<and> db_watermark d' = marked evt qs (db_watermark d)"
  using assms
proof (induction qs arbitrary: d)
  case Nil
  then show ?case by (simp add: tx_simps marked_simps)
next
  case (Cons p qs)
  from Cons.prems obtain d1 where d1: "p_Fold p evt d = (Inr (), d1)"
    and rest: "tx_foreach (\<lambda>p. tx_then (p_Fold p evt) (WriteWatermark (p_Name p) (ev_id evt) (ev_ts evt))) qs
      (d1\<lparr>db_watermark := (db_watermark d1)(p_Name p \<mapsto> (Some (ev_id evt), Some (ev_ts evt)))\<rparr>) = (Inr (), d')"
    by (auto simp: tx_simps)
  have p: "p \<in> set ps" using Cons.prems(1) by simp
  have core: "p_Fold p evt (core d) = (Inr (), core d1)"
    unfolding core_def by (rule commutesD [OF folds_commute [OF p] d1])
  have log: "db_events d1 = db_events d \<and> db_watermark d1 = db_watermark d"
    by (rule fold_keeps_log [OF p d1])
  have "core (d1\<lparr>db_watermark := w\<rparr>) = core d1" for w by (simp add: core_eq)
  then show ?case
    using Cons.IH [OF _ rest] Cons.prems(1) core log by (simp add: tx_simps marked_simps del: fun_upd_apply)
qed

lemma ingest_core:
  assumes "ingest ps evt d = (Inr (), d')"
  shows "fold_event order evt (core d) = (Inr (), core d')" "db_events d' = db_events d @ [evt]"
    "db_watermark d' = marked evt order (db_watermark d)"
proof -
  have fold: "FoldAll ps evt (d\<lparr>db_events := db_events d @ [evt]\<rparr>) = (Inr (), d')"
    using assms by (auto simp: ingest_def insert_event_def tx_simps sql_insert_Some)
  then have "fold_event order evt (core (d\<lparr>db_events := db_events d @ [evt]\<rparr>)) = (Inr (), core d')
      \<and> db_events d' = db_events d @ [evt] \<and> db_watermark d' = marked evt order (db_watermark d)"
    using interleaved [of order evt "d\<lparr>db_events := db_events d @ [evt]\<rparr>" d']
    by (simp add: FoldAll_def with_All_order set_order)
  moreover have "core (d\<lparr>db_events := db_events d @ [evt]\<rparr>) = core d" by (simp add: core_eq)
  ultimately show "fold_event order evt (core d) = (Inr (), core d')" "db_events d' = db_events d @ [evt]"
    "db_watermark d' = marked evt order (db_watermark d)" by simp_all
qed

text \<open>A live run is the replay of its events on the tables, plus the ledger and the marks.\<close>

lemma live_core:
  assumes "tx_foreach (ingest ps) es d = (Inr (), d')"
  shows "tx_foreach (fold_event order) es (core d) = (Inr (), core d') \<and> db_events d' = db_events d @ es
    \<and> (es \<noteq> [] \<longrightarrow> (\<exists>W. db_watermark d' = marked (last es) order W))"
  using assms
proof (induction es arbitrary: d)
  case Nil
  then show ?case by (simp add: tx_simps)
next
  case (Cons e es)
  from Cons.prems obtain d1 where d1: "ingest ps e d = (Inr (), d1)"
    and rest: "tx_foreach (ingest ps) es d1 = (Inr (), d')" by (auto simp: tx_simps)
  have "es = [] \<Longrightarrow> d' = d1" using rest by (simp add: tx_simps)
  then show ?case using ingest_core [OF d1] Cons.IH [OF rest] by (auto simp: tx_simps)
qed

lemma truncate_foreach: "tx_foreach (\<lambda>p. tx_modify (p_truncate p)) qs d = (Inr (), fold p_truncate qs d)"
  by (induction qs arbitrary: d) (simp_all add: tx_simps)

lemma finish_collect:
  assumes "\<forall>p \<in> set qs. db_watermark d (p_Name p) = Some (Some (ev_id e), Some (ev_ts e))"
  shows "tx_collect (finish_rebuild (Some e)) qs d = (Inr (map (\<lambda>p.
      \<lparr>rr_Name = p_Name p, rr_TableName = p_TableName p, rr_Rows = p_count p d, rr_Watermark = ev_id e\<rparr>) qs), d)"
  using assms
proof (induction qs)
  case Nil
  then show ?case by (simp add: tx_simps)
next
  case (Cons p qs)
  then have "(db_watermark d)(p_Name p \<mapsto> (Some (ev_id e), Some (ev_ts e))) = db_watermark d"
    by (simp add: fun_upd_idem)
  then have "finish_rebuild (Some e) p d = (Inr \<lparr>rr_Name = p_Name p, rr_TableName = p_TableName p,
      rr_Rows = p_count p d, rr_Watermark = ev_id e\<rparr>, d)"
    by (simp add: finish_rebuild_def tx_simps)
  then show ?case using Cons by (simp add: tx_simps)
qed

lemma events_where_sorted:
  "sorted (map (\<lambda>e. (ev_ts e, ev_id e)) (db_events d)) \<Longrightarrow> events_where (\<lambda>_. True) d = db_events d"
  by (simp add: events_where_def sort_key_id_if_sorted)

theorem rebuild_is_identity:
  assumes live: "tx_foreach (ingest ps) es start = (Inr (), d)" and "core start = empty_db"
    and "db_events start = []" and "es \<noteq> []" and sorted: "sorted (map (\<lambda>e. (ev_ts e, ev_id e)) es)"
  shows "RebuildAll ps [] d = (Inr (map (\<lambda>p. \<lparr>rr_Name = p_Name p, rr_TableName = p_TableName p,
      rr_Rows = p_count p d, rr_Watermark = ev_id (last es)\<rparr>) order), d)"
proof -
  let ?h = "rebase (db_events d) (db_watermark d) (db_bugs_fts d) (db_suggestions_fts d)"
  obtain W where run: "tx_foreach (fold_event order) es empty_db = (Inr (), core d)"
    and evs: "db_events d = es" and marks: "db_watermark d = marked (last es) order W"
    using live_core [OF live] assms(2,3,4) by auto
  have walk: "events_where (\<lambda>_. True) d' = es" if "db_events d' = es" for d'
    using events_where_sorted [of d'] sorted that by simp
  have mx: "max_event d = Some (last es)"
    using walk [OF evs] assms(4) by (simp add: max_event_def split: list.split)
  have trunc: "fold p_truncate order d = ?h empty_db" by (rule truncate_all [OF All_order])
  have "tx_commutes ?h (tx_foreach (fold_event order) es)"
    by (rule commutes_foreach) (rule fold_event_commutes)
  from commutesD [OF this run] have replay: "tx_foreach (fold_event order) es (?h empty_db) = (Inr (), d)"
    by (simp add: rebase_core)
  have filters: "filter (\<lambda>p. \<not> isReadSideName (p_Name p)) order = order"
    "filter (\<lambda>p. isReadSideName (p_Name p)) order = []"
    using write_side set_order by (auto simp: filter_id_conv filter_empty_conv)
  have "\<forall>p \<in> set order. db_watermark d (p_Name p) = Some (Some (ev_id (last es)), Some (ev_ts (last es)))"
    by (simp add: marks marked_apply)
  from finish_collect [OF this] show ?thesis
    using replay walk [of "?h empty_db"] evs
    by (simp add: RebuildAll_def rebuildAllFullViaFoldAll_def with_All_order replay_events_def
        truncate_foreach trunc mx filters tx_simps)
qed

end

section \<open>The work projections are replayable\<close>

lemmas projection_defs = currentTasks_def taskBlockers_def chainStatus_def currentBugs_def
  currentSuggestions_def roadmapView_def currentMemories_def

lemma work_projections_sorted:
  "All (work_projections aff) = Inr [currentBugs, currentSuggestions, currentTasks aff, chainStatus,
     currentMemories, roadmapView, taskBlockers]"
proof -
  have "topoSort fst snd (map (\<lambda>p. (p_Name p, p_DependsOn p)) (work_projections aff))
      = Inr [(''current_bugs'', []), (''current_suggestions'', []), (''current_tasks'', []),
          (''chain_status'', [''current_tasks'']), (''memories'', []),
          (''roadmap_view'', [''chain_status'', ''current_tasks'']),
          (''task_blockers'', [''chain_status'', ''current_tasks''])]"
    unfolding work_projections_def projection_defs list.map projection.simps by code_simp
  from topoSort_by_names [OF this] show ?thesis
    by (simp add: All_def work_projections_def projection_defs)
qed

interpretation work: replayable "work_projections aff" for aff
proof
  show "\<exists>order. All (work_projections aff) = Inr order" by (simp add: work_projections_sorted)
  show "distinct (map p_Name (work_projections aff))"
    by (simp add: work_projections_def projection_defs)
next
  fix p assume "p \<in> set (work_projections aff)"
  then show "\<not> isReadSideName (p_Name p)"
    by (auto simp: work_projections_def projection_defs isReadSideName_def readSidePrefixes_def)
next
  fix p E W b s evt assume "p \<in> set (work_projections aff)"
  then show "tx_commutes (rebase E W b s) (p_Fold p evt)"
    by (auto simp: work_projections_def projection_defs intro: commutes_intros)
next
  fix order and d :: db assume "All (work_projections aff) = Inr order"
  then have "order = [currentBugs, currentSuggestions, currentTasks aff, chainStatus,
      currentMemories, roadmapView, taskBlockers]" by (simp add: work_projections_sorted)
  then show "fold p_truncate order d
      = rebase (db_events d) (db_watermark d) (db_bugs_fts d) (db_suggestions_fts d) empty_db"
    by (simp add: projection_defs rebase_def empty_db_def)
qed

end
