(* ===== verification/Work_Invariants.thy ===== *)
theory Work_Invariants
  imports Rebuild_Live
begin

text \<open>
  Integrity of the work tables: primary keys and surrogate ids are unique, every CHECK constraint
  holds, every task row refers to a chain row and every blocker edge to two task rows. Every fold
  keeps it, in success and in error, so every sequence of ingested events does.
\<close>

section \<open>Well-formed tables\<close>

definition wf_tasks :: "task_row list \<Rightarrow> bool" where
  "wf_tasks ts \<longleftrightarrow> distinct (map task_key ts) \<and> distinct (map t_id ts) \<and> list_all task_check ts"

definition wf_chains :: "chain_row list \<Rightarrow> bool" where
  "wf_chains cs \<longleftrightarrow> distinct (map chain_key cs) \<and> distinct (map c_id cs) \<and> list_all chain_check cs"

definition wf_bugs :: "bug_row list \<Rightarrow> bool" where
  "wf_bugs bs \<longleftrightarrow> distinct (map bug_key bs) \<and> distinct (map b_id bs) \<and> list_all bug_check bs"

definition wf_suggestions :: "suggestion_row list \<Rightarrow> bool" where
  "wf_suggestions gs \<longleftrightarrow> distinct (map suggestion_key gs) \<and> distinct (map g_id gs)"

definition wf_memories :: "memory_row list \<Rightarrow> bool" where
  "wf_memories ms \<longleftrightarrow> distinct (map m_name ms) \<and> list_all memory_check ms"

definition wf_refs :: "task_row list \<Rightarrow> chain_row list \<Rightarrow> bool" where
  "wf_refs ts cs \<longleftrightarrow> list_all (\<lambda>t. t_chain t \<in> c_id ` set cs) ts"

definition wf_blockers :: "task_row list \<Rightarrow> blocker_row list \<Rightarrow> bool" where
  "wf_blockers ts ks \<longleftrightarrow> distinct (map blocker_key ks) \<and>
     list_all (\<lambda>k. k_blocked k \<in> t_id ` set ts \<and> k_blocker k \<in> t_id ` set ts) ks"

definition wf_db :: "db \<Rightarrow> bool" where
  "wf_db d \<longleftrightarrow> wf_tasks (db_tasks d) \<and> wf_chains (db_chains d) \<and> wf_refs (db_tasks d) (db_chains d) \<and>
     wf_blockers (db_tasks d) (db_blockers d) \<and> wf_bugs (db_bugs d) \<and>
     wf_suggestions (db_suggestions d) \<and> distinct (map roadmap_key (db_roadmap d)) \<and>
     wf_memories (db_memories d)"

lemma wf_empty: "wf_db empty_db"
  by (simp add: wf_db_def empty_db_def wf_tasks_def wf_chains_def wf_refs_def wf_blockers_def
      wf_bugs_def wf_suggestions_def wf_memories_def)

section \<open>Rules for keeping it\<close>

lemma keeps_read_bind:
  "(\<And>d. P d \<Longrightarrow> P (snd (f (g d) d))) \<Longrightarrow> tx_keeps P (tx_bind (tx_read g) f)"
  by (simp add: tx_keeps_def tx_bind_def tx_read_def)

lemma keepsI: "tx_keeps P m \<Longrightarrow> P d \<Longrightarrow> P (snd (m d))"
  by (simp add: tx_keeps_def)

lemma keeps_then_at: "P (snd (m d)) \<Longrightarrow> tx_keeps P n \<Longrightarrow> P (snd (tx_then m n d))"
  by (auto simp: tx_then_def tx_bind_def tx_keeps_def split: prod.splits sum.splits)

lemma keeps_project_at:
  "P d \<Longrightarrow> (\<And>pid. ev_project evt = Some pid \<Longrightarrow> P (snd (f pid d))) \<Longrightarrow>
   P (snd (tx_bind (project_of evt) f d))"
  by (cases "ev_project evt") (auto simp: project_of_def tx_bind_def tx_apply)

lemma keeps_option [keeps_intros]:
  "tx_keeps P m \<Longrightarrow> (\<And>x. tx_keeps P (f x)) \<Longrightarrow> tx_keeps P (case v of None \<Rightarrow> m | Some x \<Rightarrow> f x)"
  by (cases v) auto

lemma keeps_if [keeps_intros]:
  "tx_keeps P m \<Longrightarrow> tx_keeps P n \<Longrightarrow> tx_keeps P (if c then m else n)"
  by simp

lemma keeps_prod [keeps_intros]:
  "(\<And>x y. tx_keeps P (f x y)) \<Longrightarrow> tx_keeps P (case v of (x, y) \<Rightarrow> f x y)"
  by (cases v) auto

lemma keeps_let [keeps_intros]: "tx_keeps P (f v) \<Longrightarrow> tx_keeps P (let x = v in f x)"
  by simp

lemma keeps_list [keeps_intros]:
  "tx_keeps P m \<Longrightarrow> (\<And>x xs. tx_keeps P (f x xs)) \<Longrightarrow>
   tx_keeps P (case v of [] \<Rightarrow> m | x # xs \<Rightarrow> f x xs)"
  by (cases v) auto

lemma keeps_exec_tasks_at:
  "(\<And>d r. P d \<Longrightarrow> f d (db_tasks d) = Some r \<Longrightarrow> P (d\<lparr>db_tasks := r\<rparr>)) \<Longrightarrow>
   tx_keeps P (\<lambda>d. exec_tasks (f d) d)"
  by (auto simp: tx_keeps_def exec_tasks_def tx_exec_def split: option.splits)

lemma keeps_exec_chains_at:
  "(\<And>d r. P d \<Longrightarrow> f d (db_chains d) = Some r \<Longrightarrow> P (d\<lparr>db_chains := r\<rparr>)) \<Longrightarrow>
   tx_keeps P (\<lambda>d. exec_chains (f d) d)"
  by (auto simp: tx_keeps_def exec_chains_def tx_exec_def split: option.splits)

lemma exec_tasks_cases:
  "(f (db_tasks d) = None \<Longrightarrow> P d) \<Longrightarrow> (\<And>r. f (db_tasks d) = Some r \<Longrightarrow> P (d\<lparr>db_tasks := r\<rparr>)) \<Longrightarrow>
   P (snd (exec_tasks f d))"
  by (auto simp: exec_tasks_def tx_exec_def split: option.splits)

lemma exec_chains_cases:
  "(f (db_chains d) = None \<Longrightarrow> P d) \<Longrightarrow> (\<And>r. f (db_chains d) = Some r \<Longrightarrow> P (d\<lparr>db_chains := r\<rparr>)) \<Longrightarrow>
   P (snd (exec_chains f d))"
  by (auto simp: exec_chains_def tx_exec_def split: option.splits)

section \<open>Statements keep the table predicates\<close>

lemma list_all_update:
  "sql_update chk whr upd rows = Some rows' \<Longrightarrow> list_all chk rows \<Longrightarrow> list_all chk rows'"
  using sql_update_checks [of chk whr upd rows rows'] by (simp add: list_all_iff)

lemma list_all_upsert:
  "sql_upsert key chk r upd rows = Some rows' \<Longrightarrow> list_all chk rows \<Longrightarrow> list_all chk rows'"
  using sql_upsert_checks [of key chk r upd rows rows'] by (simp add: list_all_iff)

lemma wf_tasks_update:
  assumes "wf_tasks ts" "sql_update task_check whr upd ts = Some ts'"
    and "\<And>t. task_key (upd t) = task_key t" "\<And>t. t_id (upd t) = t_id t"
  shows "wf_tasks ts'" "map t_id ts' = map t_id ts" "map t_chain ts' = map t_chain ts"
    "map t_slug ts' = map t_slug ts"
proof -
  show ids: "map t_id ts' = map t_id ts" by (rule sql_update_keeps_image [OF assms(2)]) (rule assms(4))
  have keys: "map task_key ts' = map task_key ts"
    by (rule sql_update_keeps_image [OF assms(2)]) (rule assms(3))
  show "map t_chain ts' = map t_chain ts" "map t_slug ts' = map t_slug ts"
    using arg_cong [OF keys, of "map fst"] arg_cong [OF keys, of "map snd"]
    by (simp_all add: task_key_def o_def)
  show "wf_tasks ts'" using assms(1) ids keys list_all_update [OF assms(2)]
    by (simp add: wf_tasks_def)
qed

lemma wf_tasks_upsert:
  assumes "wf_tasks ts" "sql_upsert task_key task_check new upd ts = Some ts'"
    and "\<And>t. task_key (upd t) = task_key t" "\<And>t. t_id (upd t) = t_id t"
    and "t_id new = sql_next_id (map t_id ts)"
  shows "wf_tasks ts'"
  using assms(1) sql_upsert_distinct [OF assms(2)] sql_upsert_fresh_ids [OF assms(2) _ assms(4,5)]
    list_all_upsert [OF assms(2)] assms(3) by (simp add: wf_tasks_def)

lemma wf_chains_update:
  assumes "wf_chains cs" "sql_update chain_check whr upd cs = Some cs'"
    and "\<And>c. chain_key (upd c) = chain_key c" "\<And>c. c_id (upd c) = c_id c"
  shows "wf_chains cs'" "map c_id cs' = map c_id cs" "map chain_key cs' = map chain_key cs"
proof -
  show ids: "map c_id cs' = map c_id cs" by (rule sql_update_keeps_image [OF assms(2)]) (rule assms(4))
  show keys: "map chain_key cs' = map chain_key cs"
    by (rule sql_update_keeps_image [OF assms(2)]) (rule assms(3))
  show "wf_chains cs'" using assms(1) ids keys list_all_update [OF assms(2)]
    by (simp add: wf_chains_def)
qed

lemma wf_chains_upsert:
  assumes "wf_chains cs" "sql_upsert chain_key chain_check new upd cs = Some cs'"
    and "\<And>c. chain_key (upd c) = chain_key c" "\<And>c. c_id (upd c) = c_id c"
    and "c_id new = sql_next_id (map c_id cs)"
  shows "wf_chains cs'" "c_id ` set cs \<subseteq> c_id ` set cs'"
proof -
  show "wf_chains cs'"
    using assms(1) sql_upsert_distinct [OF assms(2)] sql_upsert_fresh_ids [OF assms(2) _ assms(4,5)]
      list_all_upsert [OF assms(2)] assms(3) by (simp add: wf_chains_def)
  show "c_id ` set cs \<subseteq> c_id ` set cs'"
    using assms(2)
  proof (cases rule: sql_upsert_cases)
    case update
    have "map c_id cs' = map c_id cs" by (rule sql_update_keeps_image [OF update(2)]) (rule assms(4))
    then show ?thesis by (metis list.set_map order_refl)
  qed auto
qed

lemma wf_bugs_update:
  assumes "wf_bugs bs" "sql_update bug_check whr upd bs = Some bs'"
    and "\<And>b. bug_key (upd b) = bug_key b" "\<And>b. b_id (upd b) = b_id b"
  shows "wf_bugs bs'"
  using assms(1) sql_update_keeps_image [OF assms(2), of b_id] list_all_update [OF assms(2)]
    sql_update_keeps_image [OF assms(2), of bug_key] assms(3,4) by (simp add: wf_bugs_def)

lemma wf_bugs_upsert:
  assumes "wf_bugs bs" "sql_upsert bug_key bug_check new upd bs = Some bs'"
    and "\<And>b. bug_key (upd b) = bug_key b" "\<And>b. b_id (upd b) = b_id b"
    and "b_id new = sql_next_id (map b_id bs)"
  shows "wf_bugs bs'"
  using assms(1) sql_upsert_distinct [OF assms(2)] sql_upsert_fresh_ids [OF assms(2) _ assms(4,5)]
    list_all_upsert [OF assms(2)] assms(3) by (simp add: wf_bugs_def)

lemma wf_suggestions_update:
  assumes "wf_suggestions gs" "sql_update chk whr upd gs = Some gs'"
    and "\<And>g. suggestion_key (upd g) = suggestion_key g" "\<And>g. g_id (upd g) = g_id g"
  shows "wf_suggestions gs'"
  using assms(1) sql_update_keeps_image [OF assms(2), of g_id]
    sql_update_keeps_image [OF assms(2), of suggestion_key] assms(3,4) by (simp add: wf_suggestions_def)

lemma wf_suggestions_upsert:
  assumes "wf_suggestions gs" "sql_upsert suggestion_key chk new upd gs = Some gs'"
    and "\<And>g. suggestion_key (upd g) = suggestion_key g" "\<And>g. g_id (upd g) = g_id g"
    and "g_id new = sql_next_id (map g_id gs)"
  shows "wf_suggestions gs'"
  using assms(1) sql_upsert_distinct [OF assms(2)] sql_upsert_fresh_ids [OF assms(2) _ assms(4,5)]
    assms(3) by (simp add: wf_suggestions_def)

section \<open>Task folds\<close>

lemma wf_db_update_tasks:
  assumes "wf_db d" "sql_update task_check whr upd (db_tasks d) = Some r"
    and "\<And>t. task_key (upd t) = task_key t" "\<And>t. t_id (upd t) = t_id t"
  shows "wf_db (d\<lparr>db_tasks := r\<rparr>)"
proof -
  have ts: "wf_tasks (db_tasks d)" using assms(1) by (simp add: wf_db_def)
  note upd = wf_tasks_update [OF ts assms(2,3,4)]
  have "t_chain ` set r = t_chain ` set (db_tasks d)" "t_id ` set r = t_id ` set (db_tasks d)"
    using upd(2,3) by (metis list.set_map)+
  then show ?thesis
    using assms(1) upd(1)
    by (simp add: wf_db_def wf_refs_def wf_blockers_def list_all_iff image_subset_iff [symmetric])
qed

lemma keeps_update_target [keeps_intros]:
  assumes "\<And>t. task_key (upd t) = task_key t" "\<And>t. t_id (upd t) = t_id t"
  shows "tx_keeps wf_db (update_target cs evt upd)"
  unfolding update_target_def
  by (intro keeps_bind keeps_project_of keeps_exec_tasks_at)
    (erule (1) wf_db_update_tasks; rule assms)

lemma stamp_frame:
  "task_key (task_stamp evt t) = task_key t" "t_id (task_stamp evt t) = t_id t"
  "task_key (set_task_column aff col v t) = task_key t" "t_id (set_task_column aff col v t) = t_id t"
  "t_status (task_stamp evt t) = t_status t" "t_status (set_task_column aff col v t) = t_status t"
  "t_chain (task_stamp evt t) = t_chain t" "t_chain (set_task_column aff col v t) = t_chain t"
  "t_slug (task_stamp evt t) = t_slug t" "t_slug (set_task_column aff col v t) = t_slug t"
  "t_commit (task_stamp evt t) = t_commit t"
  by (simp_all add: task_stamp_def set_task_column_def task_key_def)

lemma chain_id_by_slug_Some:
  "chain_id_by_slug d pid slug = Some cid \<Longrightarrow>
   \<exists>c \<in> set (db_chains d). c_id c = cid \<and> c_project c = pid \<and> c_slug c = slug"
  by (auto simp: chain_id_by_slug_def dest: sql_first_Some)

lemma wf_db_upsert_tasks:
  assumes d: "wf_db d" and ups: "sql_upsert task_key task_check new upd (db_tasks d) = Some r"
    and "\<And>t. task_key (upd t) = task_key t" "\<And>t. t_id (upd t) = t_id t"
    and "t_id new = sql_next_id (map t_id (db_tasks d))" "t_chain new \<in> c_id ` set (db_chains d)"
  shows "wf_db (d\<lparr>db_tasks := r\<rparr>)"
proof -
  have ts: "wf_tasks (db_tasks d)" using d by (simp add: wf_db_def)
  have "wf_tasks r" by (rule wf_tasks_upsert [OF ts ups assms(3,4,5)])
  moreover have "t_chain ` set r \<subseteq> c_id ` set (db_chains d) \<and> t_id ` set (db_tasks d) \<subseteq> t_id ` set r"
    using ups
  proof (cases rule: sql_upsert_cases)
    case update
    note upd = wf_tasks_update [OF ts update(2) assms(3,4)]
    have "t_chain ` set r = t_chain ` set (db_tasks d)" "t_id ` set r = t_id ` set (db_tasks d)"
      using upd(2,3) by (metis list.set_map)+
    then show ?thesis using d by (auto simp: wf_db_def wf_refs_def list_all_iff)
  next
    case insert
    then show ?thesis using d assms(6) by (auto simp: wf_db_def wf_refs_def list_all_iff)
  qed
  ultimately show ?thesis
    using d by (auto simp: wf_db_def wf_refs_def wf_blockers_def list_all_iff)
qed

lemma recreated_frame:
  "task_key (recreated_row new t) = task_key t" "t_id (recreated_row new t) = t_id t"
  "t_status (recreated_row new t) = t_status t" "t_chain (recreated_row new t) = t_chain t"
  by (simp_all add: recreated_row_def task_key_def)

lemma foldTaskCreated_wf [keeps_intros]: "tx_keeps wf_db (foldTaskCreated evt)"
  unfolding foldTaskCreated_def
proof (rule keeps_bind [OF keeps_payload_of], rule keeps_bind [OF keeps_project_of],
    rule keeps_read_bind, goal_cases)
  case (1 p pid d)
  show ?case
  proof (cases "chain_id_by_slug d pid (tc_chain_slug p)")
    case None
    then show ?thesis using 1 by (simp add: tx_simps)
  next
    case (Some cid)
    then have cid: "cid \<in> c_id ` set (db_chains d)" by (auto dest: chain_id_by_slug_Some)
    have "wf_db (snd (exec_tasks (sql_upsert task_key task_check new (recreated_row new)) d))"
      if "t_id new = sql_next_id (map t_id (db_tasks d))" "t_chain new = cid" for new
    proof (rule exec_tasks_cases)
      fix r assume "sql_upsert task_key task_check new (recreated_row new) (db_tasks d) = Some r"
      then show "wf_db (d\<lparr>db_tasks := r\<rparr>)"
        by (rule wf_db_upsert_tasks [OF 1]) (simp_all add: recreated_frame cid that)
    qed (rule 1)
    then show ?thesis using Some by (simp add: tx_bind_def tx_read_def Let_def created_row_def)
  qed
qed

lemma foldTaskAssignedToChain_wf [keeps_intros]: "tx_keeps wf_db (foldTaskAssignedToChain evt)"
  unfolding foldTaskAssignedToChain_def
proof (rule keeps_bind [OF keeps_payload_of], rule keeps_bind [OF keeps_project_of],
    rule keeps_read_bind, goal_cases)
  case (1 p pid d)
  show ?case
  proof (cases "chain_id_by_slug d pid (ta_to_chain_slug p)")
    case None
    then show ?thesis using 1 by (simp add: tx_simps)
  next
    case (Some cid)
    then have cid: "cid \<in> c_id ` set (db_chains d)" by (auto dest: chain_id_by_slug_Some)
    have "wf_db (snd (exec_tasks (sql_update_key task_key task_check whr upd) d))"
      if "\<And>t. t_id (upd t) = t_id t" "\<And>t. t_chain (upd t) = cid" for whr upd
    proof (rule exec_tasks_cases)
      fix r assume "sql_update_key task_key task_check whr upd (db_tasks d) = Some r"
      then have upd: "sql_update task_check whr upd (db_tasks d) = Some r"
        and key: "distinct (map task_key r)"
        by (auto simp: sql_update_key_def split: option.splits if_splits)
      have ids: "map t_id r = map t_id (db_tasks d)"
        by (rule sql_update_keeps_image [OF upd]) (rule that(1))
      then have "t_id ` set r = t_id ` set (db_tasks d)" by (metis list.set_map)
      moreover have "t_chain ` set r \<subseteq> c_id ` set (db_chains d)"
        using 1 cid that(2) by (auto simp: sql_update_Some [OF upd] wf_db_def wf_refs_def list_all_iff)
      ultimately show "wf_db (d\<lparr>db_tasks := r\<rparr>)"
        using 1 key ids list_all_update [OF upd]
        by (auto simp: wf_db_def wf_tasks_def wf_refs_def wf_blockers_def list_all_iff)
    qed (rule 1)
    then show ?thesis using Some by (simp add: task_stamp_def)
  qed
qed

lemma wf_db_update_chains:
  assumes "wf_db d" "sql_update chain_check whr upd (db_chains d) = Some r"
    and "\<And>c. chain_key (upd c) = chain_key c" "\<And>c. c_id (upd c) = c_id c"
  shows "wf_db (d\<lparr>db_chains := r\<rparr>)"
proof -
  have "wf_chains (db_chains d)" using assms(1) by (simp add: wf_db_def)
  note upd = wf_chains_update [OF this assms(2,3,4)]
  have "c_id ` set r = c_id ` set (db_chains d)" using upd(2) by (metis list.set_map)
  then show ?thesis using assms(1) upd(1) by (simp add: wf_db_def wf_refs_def)
qed

lemma with_task_counts_frame:
  "chain_key (with_task_counts ts cid c) = chain_key c" "c_id (with_task_counts ts cid c) = c_id c"
  by (simp_all add: with_task_counts_def chain_key_def)

lemma wf_db_delete_task:
  assumes "wf_db d"
  shows "wf_db (d\<lparr>db_blockers := sql_delete (\<lambda>k. k_blocked k = i \<or> k_blocker k = i) (db_blockers d),
    db_tasks := sql_delete (\<lambda>x. t_id x = i) (db_tasks d)\<rparr>)"
  using assms unfolding wf_db_def wf_tasks_def wf_refs_def wf_blockers_def
  by (auto simp: sql_delete_def distinct_map_filterI list_all_iff)

lemma foldTaskRetired_wf [keeps_intros]: "tx_keeps wf_db (foldTaskRetired evt)"
  unfolding foldTaskRetired_def
proof (rule keeps_bind [OF keeps_project_of], rule keeps_read_bind, goal_cases)
  case (1 pid d)
  have counts: "wf_db (snd (exec_chains (sql_update chain_check whr (\<lambda>c. (with_task_counts ts cid c)
      \<lparr>c_last_id := x, c_last_ts := y\<rparr>)) d'))" if d': "wf_db d'" for whr ts cid x y d'
  proof (rule exec_chains_cases)
    fix r assume "sql_update chain_check whr (\<lambda>c. (with_task_counts ts cid c)
      \<lparr>c_last_id := x, c_last_ts := y\<rparr>) (db_chains d') = Some r"
    then show "wf_db (d'\<lparr>db_chains := r\<rparr>)"
      by (rule wf_db_update_chains [OF d']) (simp_all add: chain_key_def with_task_counts_def)
  qed (rule d')
  show ?case
    using 1 counts [OF wf_db_delete_task [OF 1]]
    by (simp add: tx_then_def tx_bind_def tx_apply split: option.split prod.split)
qed

lemma current_tasks_Fold_wf [keeps_intros]: "tx_keeps wf_db (current_tasks_Fold aff evt)"
  unfolding current_tasks_Fold_def foldTaskEdited_def foldTaskTransitioned_def
    foldTaskCompleted_def foldTaskCancelled_def foldTaskStamped_def
  by (intro keeps_intros) (simp_all add: stamp_frame, simp_all add: task_key_def)

section \<open>Blocker folds\<close>

lemma resolve_in_tasks:
  "resolveTaskIDForBlockerFold d pid cs slug = Some i \<Longrightarrow> i \<in> t_id ` set (db_tasks d)"
  by (auto simp: resolveTaskIDForBlockerFold_def task_chain_join_def dest!: sql_first_Some split: if_splits)

lemma wf_db_delete_blockers [keeps_intros]:
  "tx_keeps wf_db (tx_modify (\<lambda>d. d\<lparr>db_blockers := sql_delete whr (db_blockers d)\<rparr>))"
  by (rule keeps_modify)
    (auto simp: wf_db_def wf_blockers_def sql_delete_def distinct_map_filterI list_all_iff)

lemma wf_db_insert_blocker:
  assumes "wf_db d" "k_blocked k \<in> t_id ` set (db_tasks d)" "k_blocker k \<in> t_id ` set (db_tasks d)"
  shows "wf_db (d\<lparr>db_blockers := sql_insert_ignore blocker_key k (db_blockers d)\<rparr>)"
  using assms unfolding wf_db_def wf_blockers_def
  by (auto simp: sql_insert_ignore_distinct sql_insert_ignore_def list_all_iff)

lemma foldTaskBlockersTransitioned_wf [keeps_intros]:
  "tx_keeps wf_db (foldTaskBlockersTransitioned evt)"
  unfolding foldTaskBlockersTransitioned_def
proof (rule keeps_option [OF keeps_fail], rule keeps_bind [OF keeps_payload_of], rule keeps_read_bind, goal_cases)
  case (1 pid p d)
  show ?case
  proof (cases "resolveTaskIDForBlockerFold d pid (tt_chain_slug p) (ev_slug evt)")
    case None
    then show ?thesis using 1 by (simp add: tx_simps)
  next
    case (Some blockedID)
    have blocked: "blockedID \<in> t_id ` set (db_tasks d)" by (rule resolve_in_tasks [OF Some])
    let ?P = "\<lambda>d'. wf_db d' \<and> db_tasks d' = db_tasks d"
    let ?add = "case tt_blocker_slug p of None \<Rightarrow> tx_return ()
      | Some bs \<Rightarrow> tx_bind (tx_read (\<lambda>d. resolveTaskIDForBlockerFold d pid [] bs)) (\<lambda>blocker.
          case blocker of None \<Rightarrow> tx_return ()
          | Some blockerID \<Rightarrow> tx_modify (\<lambda>d. d\<lparr>db_blockers := sql_insert_ignore blocker_key
              \<lparr>k_blocked = blockedID, k_blocker = blockerID, k_reason = [],
               k_created = ev_ts evt, k_last_id = ev_id evt, k_last_ts = ev_ts evt\<rparr> (db_blockers d)\<rparr>))"
    have add: "tx_keeps ?P ?add"
      using blocked by (intro keeps_option keeps_return keeps_read_bind)
        (auto simp: tx_simps intro!: wf_db_insert_blocker dest: resolve_in_tasks split: option.split)
    have del: "tx_keeps ?P (tx_modify (\<lambda>d. d\<lparr>db_blockers := sql_delete whr (db_blockers d)\<rparr>))" for whr
      by (rule keeps_modify) (auto simp: wf_db_def wf_blockers_def sql_delete_def distinct_map_filterI list_all_iff)
    have "tx_keeps ?P (tx_then ?add (case tt_removed_blocker_slug p of None \<Rightarrow> tx_return ()
      | Some rs \<Rightarrow> tx_bind (tx_read (\<lambda>d. resolveTaskIDForBlockerFold d pid [] rs)) (\<lambda>removed.
          case removed of None \<Rightarrow> tx_return ()
          | Some removedID \<Rightarrow> tx_modify (\<lambda>d. d\<lparr>db_blockers := sql_delete
              (\<lambda>k. k_blocked k = blockedID \<and> k_blocker k = removedID) (db_blockers d)\<rparr>))))"
      by (intro keeps_then add keeps_option keeps_return keeps_bind keeps_read del)
    from keepsI [OF this, of d] show ?thesis using 1 Some by simp
  qed
qed

lemma task_blockers_Fold_wf [keeps_intros]: "tx_keeps wf_db (task_blockers_Fold evt)"
  unfolding task_blockers_Fold_def foldTaskBlockersCleanupOnClose_def
  by (intro keeps_intros)

section \<open>Chain folds\<close>

lemma chain_frames:
  "chain_key (recreated_chain new c) = chain_key c" "c_id (recreated_chain new c) = c_id c"
  "chain_key (chain_stamp evt c) = chain_key c" "c_id (chain_stamp evt c) = c_id c"
  "chain_key (set_chain_column col v c) = chain_key c" "c_id (set_chain_column col v c) = c_id c"
  by (simp_all add: recreated_chain_def chain_stamp_def set_chain_column_def chain_key_def)

lemma foldChainCreated_wf [keeps_intros]: "tx_keeps wf_db (foldChainCreated evt)"
  unfolding foldChainCreated_def
proof (rule keeps_option [OF keeps_fail], rule keeps_bind [OF keeps_payload_of], rule keeps_read_bind, goal_cases)
  case (1 pid p d)
  let ?new = "created_chain evt p pid (sql_next_id (map c_id (db_chains d)))"
  have "wf_db (snd (exec_chains (sql_upsert chain_key chain_check ?new (recreated_chain ?new)) d))"
  proof (rule exec_chains_cases)
    fix r assume ups: "sql_upsert chain_key chain_check ?new (recreated_chain ?new) (db_chains d) = Some r"
    have "wf_chains (db_chains d)" using 1 by (simp add: wf_db_def)
    from wf_chains_upsert [OF this ups chain_frames(1,2)] have
      "wf_chains r" "c_id ` set (db_chains d) \<subseteq> c_id ` set r" by (simp_all add: created_chain_def)
    then show "wf_db (d\<lparr>db_chains := r\<rparr>)"
      using 1 by (auto simp: wf_db_def wf_refs_def list_all_iff)
  qed (rule 1)
  then show ?case by (simp add: Let_def)
qed

lemma keeps_update_chains [keeps_intros]:
  assumes "\<And>c. chain_key (upd c) = chain_key c" "\<And>c. c_id (upd c) = c_id c"
  shows "tx_keeps wf_db (exec_chains (sql_update chain_check whr upd))"
  by (rule keeps_exec_tables(2)) (erule (1) wf_db_update_chains; rule assms)

lemma refreshChainTaskCountsByID_wf [keeps_intros]:
  "tx_keeps wf_db (refreshChainTaskCountsByID evt cid)"
  unfolding refreshChainTaskCountsByID_def
  by (rule keeps_exec_chains_at)
    (erule (1) wf_db_update_chains; simp add: chain_frames with_task_counts_frame)

lemma chain_status_Fold_wf [keeps_intros]: "tx_keeps wf_db (chain_status_Fold evt)"
  unfolding chain_status_Fold_def foldChainEdited_def foldChainClosed_def
    refreshChainTaskCountsForTaskEvent_def chainIDsForTaskEvent_def
  by (intro keeps_intros) (simp_all add: chain_frames, simp_all add: chain_key_def)

section \<open>Bug and suggestion folds\<close>

lemma keeps_write_fts [keeps_intros]:
  "tx_keeps wf_db (write_bugs_fts i x y)" "tx_keeps wf_db (write_suggestions_fts i x y)"
  unfolding write_bugs_fts_def write_suggestions_fts_def
  by (intro keeps_then keeps_modify; simp add: wf_db_def)+

lemma bug_frames:
  "bug_key (rereported_bug new b) = bug_key b" "b_id (rereported_bug new b) = b_id b"
  "bug_key (bug_stamp evt b) = bug_key b" "b_id (bug_stamp evt b) = b_id b"
  "bug_key (set_bug_column col v b) = bug_key b" "b_id (set_bug_column col v b) = b_id b"
  by (simp_all add: rereported_bug_def bug_stamp_def set_bug_column_def bug_key_def)

lemma keeps_update_bug [keeps_intros]:
  assumes "\<And>b. bug_key (upd b) = bug_key b" "\<And>b. b_id (upd b) = b_id b"
  shows "tx_keeps wf_db (update_bug evt upd)"
  unfolding update_bug_def
proof (rule keeps_bind [OF keeps_project_of], rule keeps_exec_tables(3))
  fix pid d r
  assume d: "wf_db d" and "sql_update bug_check (\<lambda>b. b_project b = pid \<and> b_slug b = ev_slug evt)
      (\<lambda>b. bug_stamp evt (upd b)) (db_bugs d) = Some r"
  from wf_bugs_update [OF _ this(2)] d show "wf_db (d\<lparr>db_bugs := r\<rparr>)"
    by (simp add: wf_db_def bug_frames assms)
qed

lemma foldBugReported_wf [keeps_intros]: "tx_keeps wf_db (foldBugReported evt)"
  unfolding foldBugReported_def Let_def
proof (rule keeps_bind [OF keeps_payload_of], rule keeps_read_bind,
    rule keeps_project_at, assumption, rule keeps_then_at, goal_cases)
  case (1 p d pid)
  let ?new = "reported_bug evt p pid (sql_next_id (map b_id (db_bugs d)))"
  have "wf_db (d\<lparr>db_bugs := r\<rparr>)"
    if "sql_upsert bug_key bug_check ?new (rereported_bug ?new) (db_bugs d) = Some r" for r
    using 1 wf_bugs_upsert [OF _ that bug_frames(1,2)] by (simp add: wf_db_def reported_bug_def)
  then show ?case using 1 by (auto simp: exec_bugs_def tx_exec_def split: option.split)
qed (rule keeps_write_fts)

lemma current_bugs_Fold_wf [keeps_intros]: "tx_keeps wf_db (current_bugs_Fold evt)"
  unfolding current_bugs_Fold_def foldBugEdited_def foldBugResolved_def foldBugReopened_def
    foldBugStamped_def foldBugTriaged_def refreshBugsFTS_def
  by (intro keeps_intros) (simp_all add: bug_frames, simp_all add: bug_key_def)

lemma suggestion_frames:
  "suggestion_key (rereported_suggestion new g) = suggestion_key g"
  "g_id (rereported_suggestion new g) = g_id g"
  "suggestion_key (set_suggestion_column col v g) = suggestion_key g"
  "g_id (set_suggestion_column col v g) = g_id g"
  by (simp_all add: rereported_suggestion_def set_suggestion_column_def suggestion_key_def)

lemma keeps_update_suggestion [keeps_intros]:
  assumes "\<And>g. suggestion_key (upd g) = suggestion_key g" "\<And>g. g_id (upd g) = g_id g"
  shows "tx_keeps wf_db (update_suggestion evt upd)"
  unfolding update_suggestion_def
proof (rule keeps_bind [OF keeps_project_of], rule keeps_exec_tables(4))
  fix pid d r
  assume d: "wf_db d" and "sql_update (\<lambda>_. True) (\<lambda>g. g_project g = pid \<and> g_slug g = ev_slug evt)
      (\<lambda>g. (upd g)\<lparr>g_updated := ev_ts evt, g_last_id := ev_id evt, g_last_ts := ev_ts evt\<rparr>)
      (db_suggestions d) = Some r"
  from wf_suggestions_update [OF _ this(2)] d assms show "wf_db (d\<lparr>db_suggestions := r\<rparr>)"
    by (simp add: wf_db_def suggestion_key_def)
qed

lemma foldSuggestionReported_wf [keeps_intros]: "tx_keeps wf_db (foldSuggestionReported evt)"
  unfolding foldSuggestionReported_def Let_def
proof (rule keeps_bind [OF keeps_payload_of], rule keeps_read_bind,
    rule keeps_project_at, assumption, rule keeps_then_at, goal_cases)
  case (1 p d pid)
  let ?new = "reported_suggestion evt p pid (sql_next_id (map g_id (db_suggestions d)))"
  have "wf_db (d\<lparr>db_suggestions := r\<rparr>)"
    if "sql_upsert suggestion_key (\<lambda>_. True) ?new (rereported_suggestion ?new) (db_suggestions d) = Some r" for r
    using 1 wf_suggestions_upsert [OF _ that suggestion_frames(1,2)]
    by (simp add: wf_db_def reported_suggestion_def)
  then show ?case using 1 by (auto simp: exec_suggestions_def tx_exec_def split: option.split)
qed (rule keeps_write_fts)

lemma current_suggestions_Fold_wf [keeps_intros]: "tx_keeps wf_db (current_suggestions_Fold evt)"
  unfolding current_suggestions_Fold_def foldSuggestionEdited_def foldSuggestionResolved_def
    foldSuggestionReopened_def foldSuggestionStamped_def refreshSuggestionsFTS_def
  by (intro keeps_intros) (simp_all add: suggestion_frames, simp_all add: suggestion_key_def)

section \<open>Roadmap and memory folds\<close>

lemma keeps_roadmap_update [keeps_intros]:
  assumes "\<And>r. roadmap_key (upd r) = roadmap_key r"
  shows "tx_keeps wf_db (exec_roadmap (sql_update chk whr upd))"
proof (rule keeps_exec_tables(5))
  fix d r assume d: "wf_db d" and upd: "sql_update chk whr upd (db_roadmap d) = Some r"
  have "map roadmap_key r = map roadmap_key (db_roadmap d)"
    by (rule sql_update_keeps_image [OF upd]) (rule assms)
  then show "wf_db (d\<lparr>db_roadmap := r\<rparr>)" using d by (simp add: wf_db_def)
qed

lemma keeps_roadmap_update_key [keeps_intros]:
  "tx_keeps wf_db (exec_roadmap (sql_update_key roadmap_key chk whr upd))"
  by (rule keeps_exec_tables(5))
    (auto simp: wf_db_def sql_update_key_def split: option.splits if_splits)

lemma keeps_roadmap_insert [keeps_intros]:
  "tx_keeps wf_db (exec_roadmap (sql_insert roadmap_key chk row))"
  by (rule keeps_exec_tables(5)) (auto simp: wf_db_def sql_insert_Some)

lemma keeps_roadmap_delete [keeps_intros]:
  "tx_keeps wf_db (tx_modify (\<lambda>d. d\<lparr>db_roadmap := sql_delete whr (db_roadmap d)\<rparr>))"
  by (rule keeps_modify) (simp add: wf_db_def sql_delete_distinct)

lemma roadmap_view_Fold_wf [keeps_intros]: "tx_keeps wf_db (roadmap_view_Fold evt)"
  unfolding roadmap_view_Fold_def foldRoadmapUpdated_def roadmap_set_def roadmap_insert_def
    roadmap_update_def insertRoadmapRow_def refreshRoadmapRowsForRef_def cascadeDeleteRoadmapRows_def
  by (intro keeps_intros) (simp_all add: roadmap_key_def)

lemma memories_Fold_wf [keeps_intros]: "tx_keeps wf_db (memories_Fold evt)"
  unfolding memories_Fold_def foldMemoryWritten_def
proof (intro keeps_if keeps_return keeps_bind keeps_payload_of keeps_let keeps_exec_tables(6))
  fix d r p
  let ?new = "\<lparr>m_name = ev_slug evt, m_kind = mw_kind p, m_description = mw_description p,
      m_body_length = mw_body_length_bytes p, m_vault_path = mw_vault_path p,
      m_project = deref_or [] (ev_project evt), m_filed = ev_ts evt,
      m_last_id = ev_id evt, m_last_ts = ev_ts evt\<rparr>"
  assume d: "wf_db d" and ups: "sql_upsert m_name memory_check ?new
      (\<lambda>old. ?new\<lparr>m_name := m_name old, m_filed := m_filed old\<rparr>) (db_memories d) = Some r"
  then show "wf_db (d\<lparr>db_memories := r\<rparr>)"
    using sql_upsert_distinct [OF ups] list_all_upsert [OF ups] by (simp add: wf_db_def wf_memories_def)
qed

section \<open>Invariants of a registry\<close>

text \<open>
  What an invariant of the tables needs to survive every event: no fold breaks it, and it does
  not depend on the ledger or the watermarks.
\<close>

locale fold_invariant =
  fixes ps :: "projection list" and I :: "db \<Rightarrow> bool"
  assumes folds_keep: "p \<in> set ps \<Longrightarrow> tx_keeps I (p_Fold p evt)"
    and ledger_free: "I (d\<lparr>db_events := E\<rparr>) = I d"
    and watermark_free: "I (d\<lparr>db_watermark := W\<rparr>) = I d"
    and distinct_names: "distinct (map p_Name ps)"
begin

lemma FoldAll_keeps: "tx_keeps I (FoldAll ps evt)"
proof (cases "All ps")
  case (Inl e)
  then show ?thesis by (simp add: FoldAll_def with_All_def keeps_fail)
next
  case (Inr order)
  then have "set order = set ps"
    using topoSort_InrD(1) [OF distinct_names] unfolding All_def by (metis set_mset_mset)
  moreover have "tx_keeps I (WriteWatermark n i t)" for n i t
    unfolding WriteWatermark_def by (rule keeps_modify) (simp add: watermark_free)
  ultimately show ?thesis
    using Inr folds_keep by (auto simp: FoldAll_def with_All_def intro!: keeps_foreach_set keeps_then)
qed

lemma ingest_keeps: "tx_keeps I (ingest ps evt)"
  unfolding ingest_def insert_event_def
  by (intro keeps_then keeps_exec FoldAll_keeps) (auto simp: ledger_free)

lemma run_keeps: "tx_keeps I (tx_foreach (ingest ps) es)"
  by (intro keeps_foreach ingest_keeps)

end

interpretation wf: fold_invariant "work_projections aff" wf_db for aff
proof
  fix p evt assume "p \<in> set (work_projections aff)"
  then show "tx_keeps wf_db (p_Fold p evt)"
    by (auto simp: work_projections_def projection_defs intro: keeps_intros)
qed (simp_all add: wf_db_def work_projections_def projection_defs)

end
