(* ===== verification/Chain_Counters.thy ===== *)
theory Chain_Counters
  imports Work_Invariants
begin

text \<open>
  The agreement invariant of \<open>chain_status\<close>: the six denormalised counters of every chain row
  equal the live \<open>COUNT(*)\<close> over \<open>proj_current_tasks\<close>. The task fold leaves the counters
  of the chains it touches stale; \<open>chain_status\<close>, folded after it, recomputes exactly these.
\<close>

definition counters_agree :: "db \<Rightarrow> bool" where
  "counters_agree d \<longleftrightarrow>
     list_all (\<lambda>c. with_task_counts (db_tasks d) (c_id c) c = c) (db_chains d)"

text \<open>Agreement except on a set of chain ids.\<close>

definition agrees_off :: "int set \<Rightarrow> db \<Rightarrow> bool" where
  "agrees_off S d \<longleftrightarrow>
     (\<forall>c \<in> set (db_chains d). c_id c \<notin> S \<longrightarrow> with_task_counts (db_tasks d) (c_id c) c = c)"

lemma counters_agree_off: "counters_agree d = agrees_off {} d"
  by (simp add: counters_agree_def agrees_off_def list_all_iff)

lemma agrees_off_mono: "agrees_off S d \<Longrightarrow> S \<subseteq> T \<Longrightarrow> agrees_off T d"
  by (auto simp: agrees_off_def)

section \<open>Statements on tasks\<close>

text \<open>The counters of a chain depend on the statuses of its own tasks only.\<close>

lemma with_task_counts_cong:
  assumes "\<And>Q. sql_count (\<lambda>t. t_chain t = cid \<and> Q (t_status t)) ts' = sql_count (\<lambda>t. t_chain t = cid \<and> Q (t_status t)) ts"
  shows "with_task_counts ts' cid c = with_task_counts ts cid c"
  using assms [of "\<lambda>_. True"] assms [of "\<lambda>s. s = ''pending''"] assms [of "\<lambda>s. s = ''active''"]
    assms [of "\<lambda>s. s = ''blocked''"] assms [of "\<lambda>s. s = ''closed''"] assms [of "\<lambda>s. s = ''cancelled''"]
  by (simp add: with_task_counts_def)

lemma agrees_off_tasks:
  assumes "agrees_off S d"
    and "\<And>cid Q. cid \<notin> S \<Longrightarrow> sql_count (\<lambda>t. t_chain t = cid \<and> Q (t_status t)) ts'
      = sql_count (\<lambda>t. t_chain t = cid \<and> Q (t_status t)) (db_tasks d)"
  shows "agrees_off S (d\<lparr>db_tasks := ts'\<rparr>)"
  using assms(1) with_task_counts_cong [OF assms(2)] by (simp add: agrees_off_def)

lemma sql_count_append: "sql_count p (xs @ ys) = sql_count p xs + sql_count p ys"
  by (simp add: sql_count_def)

lemma sql_count_update:
  assumes "\<And>r. r \<in> set rows \<Longrightarrow> whr r \<Longrightarrow> p (upd r) = p r"
  shows "sql_count p (map (\<lambda>r. if whr r then upd r else r) rows) = sql_count p rows"
  using assms by (intro sql_count_map_cong) auto

lemma update_agrees:
  assumes "agrees_off S d" "sql_update task_check whr upd (db_tasks d) = Some r"
    and "\<And>t. t \<in> set (db_tasks d) \<Longrightarrow> whr t \<Longrightarrow>
      t_chain t \<in> S \<and> t_chain (upd t) \<in> S \<or> t_chain (upd t) = t_chain t \<and> t_status (upd t) = t_status t"
  shows "agrees_off S (d\<lparr>db_tasks := r\<rparr>)"
  unfolding sql_update_Some [OF assms(2)]
  using assms(1,3) by (intro agrees_off_tasks sql_count_update) (auto, metis+)

lemma upsert_agrees:
  assumes "agrees_off S d" "sql_upsert task_key task_check new (recreated_row new) (db_tasks d) = Some r"
    and "t_chain new \<in> S"
  shows "agrees_off S (d\<lparr>db_tasks := r\<rparr>)"
  using assms(2)
proof (cases rule: sql_upsert_cases)
  case update
  show ?thesis by (rule update_agrees [OF assms(1) update(2)]) (simp add: recreated_frame)
next
  case insert
  have "sql_count (\<lambda>t. t_chain t = cid \<and> Q (t_status t)) r
      = sql_count (\<lambda>t. t_chain t = cid \<and> Q (t_status t)) (db_tasks d)" if "cid \<notin> S" for cid Q
    using that assms(3) by (auto simp: insert(3) sql_count_def)
  then show ?thesis by (rule agrees_off_tasks [OF assms(1)])
qed

lemma delete_agrees:
  assumes "agrees_off S d" "\<And>t. t \<in> set (db_tasks d) \<Longrightarrow> whr t \<Longrightarrow> t_chain t \<in> S"
  shows "agrees_off S (d\<lparr>db_tasks := sql_delete whr (db_tasks d)\<rparr>)"
proof (rule agrees_off_tasks [OF assms(1)])
  fix cid Q assume "cid \<notin> S"
  then have "filter (\<lambda>t. t_chain t = cid \<and> Q (t_status t)) (filter (\<lambda>t. \<not> whr t) (db_tasks d))
      = filter (\<lambda>t. t_chain t = cid \<and> Q (t_status t)) (db_tasks d)"
    using assms(2) unfolding filter_filter by (intro filter_cong) auto
  then show "sql_count (\<lambda>t. t_chain t = cid \<and> Q (t_status t)) (sql_delete whr (db_tasks d))
      = sql_count (\<lambda>t. t_chain t = cid \<and> Q (t_status t)) (db_tasks d)"
    by (simp only: sql_count_def sql_delete_def)
qed

section \<open>Refreshing\<close>

lemma with_task_counts_stamp:
  "with_task_counts ts i (chain_stamp evt (with_task_counts ts i c)) = chain_stamp evt (with_task_counts ts i c)"
  "with_task_counts ts i (chain_stamp evt c) = chain_stamp evt (with_task_counts ts i c)"
  by (simp_all add: with_task_counts_def chain_stamp_def)

lemma refresh_one:
  assumes "agrees_off S d" "refreshChainTaskCountsByID evt i d = (Inr (), d')"
  shows "agrees_off (S - {i}) d'" "db_tasks d' = db_tasks d"
proof -
  let ?upd = "\<lambda>c. chain_stamp evt (with_task_counts (db_tasks d) i c)"
  obtain r where "sql_update chain_check (\<lambda>c. c_id c = i) ?upd (db_chains d) = Some r"
    and d': "d' = d\<lparr>db_chains := r\<rparr>"
    using assms(2) by (auto simp: refreshChainTaskCountsByID_def tx_simps)
  then have r: "r = map (\<lambda>c. if c_id c = i then ?upd c else c) (db_chains d)"
    by (blast dest: sql_update_Some)
  show "db_tasks d' = db_tasks d" by (simp add: d')
  have "with_task_counts (db_tasks d) (c_id (?upd x)) (?upd x) = ?upd x" if "c_id x = i" for x
    using that by (simp add: chain_frames with_task_counts_frame with_task_counts_stamp(1))
  then show "agrees_off (S - {i}) d'"
    using assms(1) by (fastforce simp: agrees_off_def d' r)
qed

lemma refresh_all:
  assumes "agrees_off S d" "tx_foreach (refreshChainTaskCountsByID evt) is d = (Inr (), d')"
  shows "agrees_off (S - set is) d'"
  using assms
proof (induction "is" arbitrary: S d)
  case Nil
  then show ?case by (simp add: tx_simps)
next
  case (Cons i "is")
  then obtain d1 where d1: "refreshChainTaskCountsByID evt i d = (Inr (), d1)"
    and rest: "tx_foreach (refreshChainTaskCountsByID evt) is d1 = (Inr (), d')"
    by (auto simp: tx_simps)
  have "agrees_off (S - {i}) d1" by (rule refresh_one(1) [OF Cons.prems(1) d1])
  moreover have "S - set (i # is) = S - {i} - set is" by auto
  ultimately show ?case using Cons.IH [OF _ rest] by (simp only:)
qed

section \<open>The task fold\<close>

text \<open>Chains of the project that hold a task of the given slug.\<close>

definition touched :: "db \<Rightarrow> string \<Rightarrow> string \<Rightarrow> int set" where
  "touched d pid slug = {t_chain t | t. t \<in> set (db_tasks d) \<and> t_slug t = slug \<and>
     (\<exists>c \<in> set (db_chains d). c_id c = t_chain t \<and> c_project c = pid)}"

lemma touched_join:
  "set (map (\<lambda>(t, c). t_chain t) (filter (\<lambda>(t, c). t_slug t = slug \<and> c_project c = pid) (task_chain_join d)))
   = touched d pid slug"
  by (force simp: touched_def task_chain_join_def)

lemma touched_map:
  assumes "\<And>t. t_slug (upd t) = t_slug t" "\<And>t. t_chain (upd t) = t_chain t"
  shows "touched (d\<lparr>db_tasks := map (\<lambda>t. if whr t then upd t else t) (db_tasks d)\<rparr>) pid slug = touched d pid slug"
proof -
  have alt: "touched d' pid slug = snd ` {x \<in> (\<lambda>t. (t_slug t, t_chain t)) ` set (db_tasks d').
      fst x = slug \<and> (\<exists>c \<in> set (db_chains d'). c_id c = snd x \<and> c_project c = pid)}" for d'
    by (force simp: touched_def)
  have "map (\<lambda>t. (t_slug t, t_chain t)) (map (\<lambda>t. if whr t then upd t else t) (db_tasks d))
      = map (\<lambda>t. (t_slug t, t_chain t)) (db_tasks d)"
    using assms by simp
  from arg_cong [OF this, of set] show ?thesis unfolding alt set_map by simp
qed

lemma target_touched:
  assumes "taskTargetWhere d cs slug pid t" "t \<in> set (db_tasks d)"
  shows "t_chain t \<in> touched d pid slug"
proof -
  have "\<exists>c \<in> set (db_chains d). c_id c = t_chain t \<and> c_project c = pid"
  proof (cases "cs = []")
    case True
    then show ?thesis using assms(1) by (auto simp: taskTargetWhere_def)
  next
    case False
    then have "chain_id_by_slug d pid cs = Some (t_chain t)"
      using assms(1) by (simp add: taskTargetWhere_def)
    then show ?thesis by (auto dest: chain_id_by_slug_Some)
  qed
  then show ?thesis using assms by (auto simp: touched_def taskTargetWhere_def)
qed

definition stale_at :: "string \<Rightarrow> string \<Rightarrow> int set \<Rightarrow> db \<Rightarrow> bool" where
  "stale_at pid slug T d \<longleftrightarrow> agrees_off T d \<and> touched d pid slug = T"

lemma update_target_stale:
  assumes "ev_project evt = Some pid" "\<And>t. t_slug (upd t) = t_slug t" "\<And>t. t_chain (upd t) = t_chain t"
  shows "tx_keeps (stale_at pid (ev_slug evt) T) (update_target cs evt upd)"
  unfolding tx_keeps_def update_target_def
proof (intro allI impI, rule keeps_project_at)
  fix d pid' assume d: "stale_at pid (ev_slug evt) T d" and "ev_project evt = Some pid'"
  then have pid': "pid' = pid" using assms(1) by simp
  show "stale_at pid (ev_slug evt) T (snd (exec_tasks (sql_update task_check
      (taskTargetWhere d cs (ev_slug evt) pid') upd) d))"
  proof (rule exec_tasks_cases)
    fix r assume upd: "sql_update task_check (taskTargetWhere d cs (ev_slug evt) pid') upd (db_tasks d) = Some r"
    have "agrees_off T (d\<lparr>db_tasks := r\<rparr>)"
      using d target_touched [of d cs "ev_slug evt" pid] assms(3)
      by (intro update_agrees [OF _ upd]) (auto simp: stale_at_def pid')
    moreover have "touched (d\<lparr>db_tasks := r\<rparr>) pid (ev_slug evt) = touched d pid (ev_slug evt)"
      unfolding sql_update_Some [OF upd] by (rule touched_map) (simp_all add: assms)
    ultimately show "stale_at pid (ev_slug evt) T (d\<lparr>db_tasks := r\<rparr>)"
      using d by (simp add: stale_at_def)
  qed (rule d)
qed assumption

lemma counters_agree_stale: "counters_agree d \<Longrightarrow> stale_at pid slug (touched d pid slug) d"
  by (auto simp: counters_agree_off stale_at_def elim: agrees_off_mono)

lemma edits_stale:
  assumes "ev_project evt = Some pid"
    and "m \<in> {foldTaskEdited aff evt, foldTaskTransitioned evt, foldTaskCompleted evt,
      foldTaskCancelled evt, foldTaskStamped evt}"
  shows "tx_keeps (stale_at pid (ev_slug evt) T) m"
  using assms(2) unfolding foldTaskEdited_def foldTaskTransitioned_def foldTaskCompleted_def
    foldTaskCancelled_def foldTaskStamped_def
  by (auto intro!: keeps_bind keeps_payload_of keeps_foreach keeps_option keeps_return
      update_target_stale assms(1) simp: stamp_frame Let_def)

text \<open>A retired task's own chain is recounted by the same fold.\<close>

lemma retired_agrees:
  assumes agree: "counters_agree d" and wf: "wf_db d" and fold: "foldTaskRetired evt d = (Inr (), d')"
  shows "counters_agree d'"
proof -
  obtain pid where pid: "ev_project evt = Some pid" using fold by (auto simp: foldTaskRetired_def tx_simps)
  show ?thesis
  proof (cases "sql_first (\<lambda>(t, c). t_slug t = ev_slug evt \<and> c_project c = pid) (task_chain_join d)")
    case None
    then have "d' = d" using fold pid by (simp add: foldTaskRetired_def tx_simps)
    then show ?thesis using agree by simp
  next
    case (Some tc)
    obtain t c where tc: "tc = (t, c)" by (cases tc)
    then have t: "t \<in> set (db_tasks d)" using sql_first_Some [OF Some] by (auto simp: task_chain_join_def)
    let ?ts = "sql_delete (\<lambda>x. t_id x = t_id t) (db_tasks d)"
    let ?upd = "\<lambda>x. (with_task_counts ?ts (t_chain t) x)\<lparr>c_last_id := ev_id evt, c_last_ts := ev_ts evt\<rparr>"
    have "x = t" if "x \<in> set (db_tasks d)" "t_id x = t_id t" for x
      using that t wf by (metis distinct_map inj_on_eq_iff wf_db_def wf_tasks_def)
    then have del: "agrees_off {t_chain t} (d\<lparr>db_tasks := ?ts\<rparr>)"
      using agree by (intro delete_agrees) (auto simp: counters_agree_off elim: agrees_off_mono)
    obtain r where "sql_update chain_check (\<lambda>x. c_id x = t_chain t) ?upd (db_chains d) = Some r"
      and d': "db_tasks d' = ?ts" "db_chains d' = r"
      using fold pid Some tc by (auto simp: foldTaskRetired_def tx_simps)
    then have r: "r = map (\<lambda>x. if c_id x = t_chain t then ?upd x else x) (db_chains d)"
      by (blast dest: sql_update_Some)
    have "with_task_counts ?ts (c_id (?upd x)) (?upd x) = ?upd x" if "c_id x = t_chain t" for x
      using that by (simp add: with_task_counts_def)
    then show ?thesis
      using del by (auto simp: counters_agree_off agrees_off_def d' r)
  qed
qed

lemma created_stale:
  assumes agree: "counters_agree d" and pid: "ev_project evt = Some pid"
    and p: "decoded unmarshal_TaskCreatedPayload evt = Some p"
    and fold: "foldTaskCreated evt d = (Inr (), d')"
  shows "agrees_off (set (chainIDBySlug d' pid (tc_chain_slug p))) d'"
proof (cases "chain_id_by_slug d pid (tc_chain_slug p)")
  case None
  then have "d' = d" using fold pid p by (simp add: foldTaskCreated_def tx_simps)
  then show ?thesis using agree by (auto simp: counters_agree_off elim: agrees_off_mono)
next
  case (Some cid)
  then obtain new r where "sql_upsert task_key task_check new (recreated_row new) (db_tasks d) = Some r"
    and "t_chain new = cid" and d': "d' = d\<lparr>db_tasks := r\<rparr>"
    using fold pid p by (auto simp: foldTaskCreated_def tx_simps Let_def created_row_def)
  moreover have "agrees_off {cid} d" using agree by (auto simp: counters_agree_off elim: agrees_off_mono)
  ultimately have "agrees_off {cid} d'" using upsert_agrees by auto
  moreover have "chain_id_by_slug d' pid (tc_chain_slug p) = Some cid"
    using Some by (simp add: d' chain_id_by_slug_def)
  ultimately show ?thesis by (simp add: chainIDBySlug_def)
qed

text \<open>
  A move must name the chain the task leaves: then both chains are recounted. The move statement
  selects its tasks by slug alone.
\<close>

definition move_declared :: "db \<Rightarrow> raw_event \<Rightarrow> bool" where
  "move_declared d evt \<longleftrightarrow>
     (ev_kind evt = ''task'' \<and> ev_type evt = ''TaskAssignedToChain'' \<longrightarrow>
      (case (decoded unmarshal_TaskAssignedToChainPayload evt, ev_project evt) of
         (Some p, Some pid) \<Rightarrow>
           (case ta_from_chain_slug p of
              None \<Rightarrow> False
            | Some f \<Rightarrow> f \<noteq> [] \<and>
                list_all (\<lambda>t. t_slug t = ev_slug evt \<longrightarrow> chain_id_by_slug d pid f = Some (t_chain t))
                  (db_tasks d))
       | _ \<Rightarrow> True))"

lemma moved_stale:
  assumes agree: "counters_agree d" and pid: "ev_project evt = Some pid"
    and p: "decoded unmarshal_TaskAssignedToChainPayload evt = Some p"
    and src: "ta_from_chain_slug p = Some f" "f \<noteq> []"
      "\<And>t. t \<in> set (db_tasks d) \<Longrightarrow> t_slug t = ev_slug evt \<Longrightarrow> chain_id_by_slug d pid f = Some (t_chain t)"
    and fold: "foldTaskAssignedToChain evt d = (Inr (), d')"
  shows "agrees_off (set (chainIDBySlug d' pid f @ chainIDBySlug d' pid (ta_to_chain_slug p))) d'"
proof (cases "chain_id_by_slug d pid (ta_to_chain_slug p)")
  case None
  then have "d' = d" using fold pid p by (simp add: foldTaskAssignedToChain_def tx_simps)
  then show ?thesis using agree by (auto simp: counters_agree_off elim: agrees_off_mono)
next
  case (Some cid)
  let ?upd = "\<lambda>t. task_stamp evt (t\<lparr>t_chain := cid, t_position := SqlInt (deref_or 0 (ta_to_position p)),
      t_moved_on := Some (ev_ts evt)\<rparr>)"
  let ?S = "set (chainIDBySlug d pid f @ chainIDBySlug d pid (ta_to_chain_slug p))"
  obtain r where upd: "sql_update task_check (\<lambda>t. t_slug t = ev_slug evt) ?upd (db_tasks d) = Some r"
    and d': "d' = d\<lparr>db_tasks := r\<rparr>"
    using fold pid p Some
    by (auto simp: foldTaskAssignedToChain_def tx_simps sql_update_key_def split: option.splits if_splits)
  have "agrees_off ?S d" using agree by (auto simp: counters_agree_off elim: agrees_off_mono)
  then have "agrees_off ?S d'"
    unfolding d' by (rule update_agrees [OF _ upd]) (simp add: src chainIDBySlug_def Some stamp_frame)
  then show ?thesis by (simp add: d' chainIDBySlug_def chain_id_by_slug_def)
qed

section \<open>The chain fold\<close>

lemma refresh_agrees:
  assumes "ev_project evt = Some pid" "chainIDsForTaskEvent pid evt d = (Inr ids, d)"
    and "agrees_off (set ids) d" "refreshChainTaskCountsForTaskEvent evt d = (Inr (), d')"
  shows "counters_agree d'"
proof -
  have "tx_foreach (refreshChainTaskCountsByID evt) ids d = (Inr (), d')"
    using assms(1,2,4) by (simp add: refreshChainTaskCountsForTaskEvent_def tx_bind_def)
  from refresh_all [OF assms(3) this] show ?thesis by (simp add: counters_agree_off)
qed

lemma chain_update_agrees:
  assumes "counters_agree d" "sql_update chain_check whr upd (db_chains d) = Some r"
    and "\<And>ts i c. with_task_counts ts i (upd c) = upd (with_task_counts ts i c)" "\<And>c. c_id (upd c) = c_id c"
  shows "counters_agree (d\<lparr>db_chains := r\<rparr>)"
  using assms(1) unfolding sql_update_Some [OF assms(2)]
  by (auto simp: counters_agree_def list_all_iff assms(3,4))

lemma set_chain_column_counts:
  "with_task_counts ts i (set_chain_column col v c) = set_chain_column col v (with_task_counts ts i c)"
  by (simp add: with_task_counts_def set_chain_column_def)

lemma close_counts:
  "with_task_counts ts i (c\<lparr>c_status := x, c_closure := y\<rparr>) = (with_task_counts ts i c)\<lparr>c_status := x, c_closure := y\<rparr>"
  by (simp add: with_task_counts_def)

lemma counters_agree_edits:
  "tx_keeps counters_agree (foldChainEdited evt)" "tx_keeps counters_agree (foldChainClosed evt)"
  unfolding foldChainEdited_def foldChainClosed_def
  by (intro keeps_option keeps_fail keeps_bind keeps_payload_of keeps_foreach keeps_return keeps_if
      keeps_exec_tables(2); erule (1) chain_update_agrees;
      simp add: chain_frames with_task_counts_stamp set_chain_column_counts close_counts)+

text \<open>A new chain has no tasks, because its id is fresh and every task refers to an existing chain.\<close>

lemma foldChainCreated_agrees:
  assumes agree: "counters_agree d" and wf: "wf_db d" and fold: "foldChainCreated evt d = (Inr (), d')"
  shows "counters_agree d'"
proof -
  obtain pid p r where ups: "sql_upsert chain_key chain_check
      (created_chain evt p pid (sql_next_id (map c_id (db_chains d))))
      (recreated_chain (created_chain evt p pid (sql_next_id (map c_id (db_chains d))))) (db_chains d) = Some r"
    and d': "d' = d\<lparr>db_chains := r\<rparr>"
    using fold by (auto simp: foldChainCreated_def tx_simps Let_def split: option.splits)
  from ups show ?thesis
  proof (cases rule: sql_upsert_cases)
    case update
    show ?thesis unfolding d'
      by (rule chain_update_agrees [OF agree update(2)])
        (simp_all add: chain_frames, simp add: with_task_counts_def recreated_chain_def)
  next
    case insert
    have "sql_next_id (map c_id (db_chains d)) \<notin> c_id ` set (db_chains d)"
      using sql_next_id_notin [of "map c_id (db_chains d)"] by simp
    then have "\<forall>t \<in> set (db_tasks d). t_chain t \<noteq> sql_next_id (map c_id (db_chains d))"
      using wf unfolding wf_db_def wf_refs_def list_all_iff by metis
    then have "filter (\<lambda>t. t_chain t = sql_next_id (map c_id (db_chains d)) \<and> Q t) (db_tasks d) = []" for Q
      by (auto simp: filter_empty_conv)
    from this this [of "\<lambda>_. True"] show ?thesis
      using agree by (simp add: counters_agree_def d' insert(3) created_chain_def with_task_counts_def sql_count_def)
  qed
qed

section \<open>One event\<close>

lemma task_fold_project:
  "ev_kind evt = ''task'' \<Longrightarrow> current_tasks_Fold aff evt d = (Inr (), d1) \<Longrightarrow> \<exists>pid. ev_project evt = Some pid"
  by (cases "ev_project evt") (simp_all add: current_tasks_Fold_def tx_simps)

lemma default_stale:
  assumes agree: "counters_agree d" and wf: "wf_db d" and pid: "ev_project evt = Some pid"
    and task: "current_tasks_Fold aff evt d = (Inr (), d1)"
    and type: "ev_type evt \<notin> {''TaskCreated'', ''TaskAssignedToChain''}"
  shows "agrees_off (touched d1 pid (ev_slug evt)) d1"
proof -
  consider "d1 = d" | "foldTaskRetired evt d = (Inr (), d1)"
    | m where "m \<in> {foldTaskEdited aff evt, foldTaskTransitioned evt, foldTaskCompleted evt,
        foldTaskCancelled evt, foldTaskStamped evt}" "m d = (Inr (), d1)"
    using task type by (auto simp: current_tasks_Fold_def tx_simps split: if_splits)
  then show ?thesis
  proof cases
    case 1
    then show ?thesis using agree by (auto simp: counters_agree_off elim: agrees_off_mono)
  next
    case 2
    from retired_agrees [OF agree wf 2] show ?thesis
      by (auto simp: counters_agree_off elim: agrees_off_mono)
  next
    case (3 m)
    from keepsD [OF edits_stale [OF pid 3(1)] counters_agree_stale [OF agree] 3(2)]
    show ?thesis by (auto simp: stale_at_def)
  qed
qed

text \<open>After the task fold, exactly the chains the chain fold will recount may be stale.\<close>

lemma task_fold_stale:
  assumes agree: "counters_agree d" and wf: "wf_db d" and kind: "ev_kind evt = ''task''"
    and pid: "ev_project evt = Some pid"
    and task: "current_tasks_Fold aff evt d = (Inr (), d1)" and move: "move_declared d evt"
  shows "\<exists>ids. chainIDsForTaskEvent pid evt d1 = (Inr ids, d1) \<and> agrees_off (set ids) d1"
proof -
  consider (created) "ev_type evt = ''TaskCreated''" | (moved) "ev_type evt = ''TaskAssignedToChain''"
    | (default) "ev_type evt \<notin> {''TaskCreated'', ''TaskAssignedToChain''}" by blast
  then show ?thesis
  proof cases
    case created
    then have fold: "foldTaskCreated evt d = (Inr (), d1)"
      using kind task pid by (simp add: current_tasks_Fold_def)
    then obtain p where p: "decoded unmarshal_TaskCreatedPayload evt = Some p"
      by (auto simp: foldTaskCreated_def tx_simps)
    show ?thesis
      using created_stale [OF agree pid p fold] p created by (simp add: chainIDsForTaskEvent_def tx_simps)
  next
    case moved
    then have fold: "foldTaskAssignedToChain evt d = (Inr (), d1)"
      using kind task pid by (simp add: current_tasks_Fold_def)
    then obtain p where p: "decoded unmarshal_TaskAssignedToChainPayload evt = Some p"
      by (auto simp: foldTaskAssignedToChain_def tx_simps)
    obtain f where f: "ta_from_chain_slug p = Some f" "f \<noteq> []"
      "\<And>t. t \<in> set (db_tasks d) \<Longrightarrow> t_slug t = ev_slug evt \<Longrightarrow> chain_id_by_slug d pid f = Some (t_chain t)"
      using move kind moved p pid by (auto simp: move_declared_def list_all_iff split: option.splits)
    show ?thesis
      using moved_stale [OF agree pid p f fold] p f moved by (simp add: chainIDsForTaskEvent_def tx_simps)
  next
    case default
    then show ?thesis
      using default_stale [OF agree wf pid task default] touched_join [of "ev_slug evt" pid d1]
      by (auto simp: chainIDsForTaskEvent_def tx_simps)
  qed
qed

lemma task_then_chain:
  assumes agree: "counters_agree d" and wf: "wf_db d" and move: "move_declared d evt"
    and task: "current_tasks_Fold aff evt d = (Inr (), d1)" and chain: "chain_status_Fold evt d1 = (Inr (), d2)"
  shows "counters_agree d2"
proof -
  consider (chain) "ev_type evt \<in> {''ChainCreated'', ''ChainEdited'', ''ChainClosed''}"
    | (other) "ev_type evt \<notin> {''ChainCreated'', ''ChainEdited'', ''ChainClosed''}" "ev_kind evt \<noteq> ''task''"
    | (task) "ev_type evt \<notin> {''ChainCreated'', ''ChainEdited'', ''ChainClosed''}" "ev_kind evt = ''task''"
    by blast
  then show ?thesis
  proof cases
    case chain
    then have "d1 = d" using task by (auto simp: current_tasks_Fold_def tx_simps split: if_splits)
    then show ?thesis
      using chain assms(5) agree wf foldChainCreated_agrees [of d evt d2]
        keepsD [OF counters_agree_edits(1) agree, of evt] keepsD [OF counters_agree_edits(2) agree, of evt]
      by (auto simp: chain_status_Fold_def split: if_splits)
  next
    case other
    then have "d2 = d" using assms(4,5) by (simp add: current_tasks_Fold_def chain_status_Fold_def tx_simps)
    then show ?thesis using agree by simp
  next
    case task
    then obtain pid where pid: "ev_project evt = Some pid" using task_fold_project assms(4) by blast
    have "refreshChainTaskCountsForTaskEvent evt d1 = (Inr (), d2)"
      using task chain by (simp add: chain_status_Fold_def)
    then show ?thesis
      using task_fold_stale [OF agree wf task(2) pid assms(4) move] refresh_agrees [OF pid] by blast
  qed
qed

section \<open>Every registered fold\<close>

text \<open>The other projections write neither table.\<close>

definition same_work :: "task_row list \<Rightarrow> chain_row list \<Rightarrow> db \<Rightarrow> bool" where
  "same_work ts cs d \<longleftrightarrow> db_tasks d = ts \<and> db_chains d = cs"

lemma same_work_exec [keeps_intros]:
  "tx_keeps (same_work ts cs) (exec_bugs f3)" "tx_keeps (same_work ts cs) (exec_suggestions f4)"
  "tx_keeps (same_work ts cs) (exec_roadmap f5)" "tx_keeps (same_work ts cs) (exec_memories f6)"
  "tx_keeps (same_work ts cs) (write_bugs_fts i x y)"
  "tx_keeps (same_work ts cs) (write_suggestions_fts i x y)"
  "tx_keeps (same_work ts cs) (tx_modify (\<lambda>d. d\<lparr>db_blockers := g (db_blockers d)\<rparr>))"
  "tx_keeps (same_work ts cs) (tx_modify (\<lambda>d. d\<lparr>db_roadmap := h (db_roadmap d)\<rparr>))"
  unfolding write_bugs_fts_def write_suggestions_fts_def
  by (intro keeps_exec_tables keeps_then keeps_modify; simp add: same_work_def)+

lemma same_work_folds:
  "tx_keeps (same_work ts cs) (current_bugs_Fold evt)"
  "tx_keeps (same_work ts cs) (current_suggestions_Fold evt)"
  "tx_keeps (same_work ts cs) (memories_Fold evt)"
  "tx_keeps (same_work ts cs) (roadmap_view_Fold evt)"
  "tx_keeps (same_work ts cs) (task_blockers_Fold evt)"
  unfolding current_bugs_Fold_def foldBugReported_def foldBugEdited_def foldBugResolved_def
    foldBugReopened_def foldBugStamped_def foldBugTriaged_def refreshBugsFTS_def update_bug_def
    current_suggestions_Fold_def foldSuggestionReported_def foldSuggestionEdited_def
    foldSuggestionResolved_def foldSuggestionReopened_def foldSuggestionStamped_def
    refreshSuggestionsFTS_def update_suggestion_def memories_Fold_def foldMemoryWritten_def
    roadmap_view_Fold_def foldRoadmapUpdated_def roadmap_set_def roadmap_insert_def
    roadmap_update_def insertRoadmapRow_def refreshRoadmapRowsForRef_def cascadeDeleteRoadmapRows_def
    task_blockers_Fold_def foldTaskBlockersTransitioned_def foldTaskBlockersCleanupOnClose_def
  by (intro keeps_intros)+

lemma move_declared_cong:
  assumes "db_tasks d' = db_tasks d" "db_chains d' = db_chains d"
  shows "move_declared d' evt = move_declared d evt"
proof -
  have "chain_id_by_slug d' = chain_id_by_slug d"
    by (simp add: fun_eq_iff chain_id_by_slug_def assms(2))
  then show ?thesis unfolding move_declared_def assms(1) by (rule ssubst) (rule refl)
qed

lemma core_invariants:
  "counters_agree (core d) = counters_agree d" "wf_db (core d) = wf_db d"
  "move_declared (core d) evt = move_declared d evt"
  by (simp_all add: core_eq counters_agree_def wf_db_def)
    (rule move_declared_cong; simp)

lemma frame_fold:
  assumes "\<And>ts cs. tx_keeps (same_work ts cs) m" "m d = (Inr (), d')"
  shows "db_tasks d' = db_tasks d" "db_chains d' = db_chains d"
  using keepsD [OF assms(1) _ assms(2), of "db_tasks d" "db_chains d"] by (simp_all add: same_work_def)

lemma fold_order_agrees:
  assumes agree: "counters_agree d" and wf: "wf_db d" and move: "move_declared d evt"
    and fold: "fold_event [currentBugs, currentSuggestions, currentTasks aff, chainStatus,
      currentMemories, roadmapView, taskBlockers] evt d = (Inr (), d')"
  shows "counters_agree d'"
proof -
  obtain d1 d2 d3 d4 d5 d6 where
    d1: "current_bugs_Fold evt d = (Inr (), d1)" and d2: "current_suggestions_Fold evt d1 = (Inr (), d2)" and
    d3: "current_tasks_Fold aff evt d2 = (Inr (), d3)" and d4: "chain_status_Fold evt d3 = (Inr (), d4)" and
    d5: "memories_Fold evt d4 = (Inr (), d5)" and d6: "roadmap_view_Fold evt d5 = (Inr (), d6)" and
    d7: "task_blockers_Fold evt d6 = (Inr (), d')"
    using fold by (auto simp: tx_simps projection_defs)
  note before = frame_fold [OF same_work_folds(1) d1] frame_fold [OF same_work_folds(2) d2]
  note after = frame_fold [OF same_work_folds(3) d5] frame_fold [OF same_work_folds(4) d6]
    frame_fold [OF same_work_folds(5) d7]
  have "wf_db d2"
    using keepsD [OF current_suggestions_Fold_wf keepsD [OF current_bugs_Fold_wf wf d1] d2] .
  moreover have "counters_agree d2" "move_declared d2 evt"
    using agree move before move_declared_cong [of d2 d] by (simp_all add: counters_agree_def)
  ultimately have "counters_agree d4" using task_then_chain d3 d4 by blast
  then show ?thesis using after by (simp add: counters_agree_def)
qed

lemma work_order: "work.order aff = [currentBugs, currentSuggestions, currentTasks aff, chainStatus,
      currentMemories, roadmapView, taskBlockers]"
  using work.All_order [of aff] by (simp add: work_projections_sorted)

lemma ingest_agrees:
  assumes "counters_agree d" "wf_db d" "move_declared d evt"
    and "ingest (work_projections aff) evt d = (Inr (), d')"
  shows "counters_agree d'"
  using fold_order_agrees [of "core d" evt aff "core d'"] work.ingest_core(1) [OF assms(4)] assms(1-3)
  by (simp add: core_invariants work_order)

lemma run_agrees:
  assumes "counters_agree d" "wf_db d" "list_all (\<lambda>e. ev_type e \<noteq> ''TaskAssignedToChain'') es"
    and "tx_foreach (ingest (work_projections aff)) es d = (Inr (), d')"
  shows "counters_agree d'"
  using assms
proof (induction es arbitrary: d)
  case Nil
  then show ?case by (simp add: tx_simps)
next
  case (Cons e es)
  then obtain d1 where d1: "ingest (work_projections aff) e d = (Inr (), d1)"
    and rest: "tx_foreach (ingest (work_projections aff)) es d1 = (Inr (), d')" by (auto simp: tx_simps)
  have "move_declared d e" using Cons.prems(3) by (simp add: move_declared_def)
  then have "counters_agree d1" using ingest_agrees Cons.prems(1,2) d1 by blast
  moreover have "wf_db d1" by (rule keepsD [OF wf.ingest_keeps Cons.prems(2) d1])
  ultimately show ?case using Cons.IH Cons.prems(3) rest by simp
qed

end
