(* ===== verification/Work_Facts.thy ===== *)
theory Work_Facts
  imports Chain_Counters
begin

text \<open>
  What single folds do to the rows they address: which rows a lifecycle event reaches, the effect
  and the failures of the task, bug and blocker folds, and which folds may be repeated.
\<close>

section \<open>Running a fold forwards\<close>

lemma payload_eval: "decoded dec evt = Some p \<Longrightarrow> payload_of dec evt = tx_return p"
  by (auto simp: decoded_def payload_of_def split: option.splits)

lemma project_eval: "ev_project evt = Some pid \<Longrightarrow> project_of evt = tx_return pid"
  by (simp add: project_of_def)

lemma tx_run:
  "tx_bind (tx_return a) f = f a" "tx_bind (tx_read g) f d = f (g d) d"
  "tx_then (tx_return ()) n = n" "tx_then (tx_modify h) n d = n (h d)"
  by (simp_all add: fun_eq_iff tx_bind_def tx_then_def tx_return_def tx_read_def tx_modify_def)

section \<open>Which rows a lifecycle event reaches\<close>

lemma wf_task_key_inj:
  "wf_db d \<Longrightarrow> s \<in> set (db_tasks d) \<Longrightarrow> t \<in> set (db_tasks d) \<Longrightarrow> task_key s = task_key t \<Longrightarrow> s = t"
  by (metis distinct_map inj_on_eq_iff wf_db_def wf_tasks_def)

lemma target_key:
  assumes "chainSlug \<noteq> []" "chain_id_by_slug d pid chainSlug = Some cid"
  shows "taskTargetWhere d chainSlug slug pid t \<longleftrightarrow> task_key t = (cid, slug)"
  using assms by (auto simp: taskTargetWhere_def task_key_def)

lemma target_unique:
  assumes wf: "wf_db d" and cs: "chainSlug \<noteq> []"
    and "s \<in> set (db_tasks d)" "taskTargetWhere d chainSlug slug pid s"
    and "t \<in> set (db_tasks d)" "taskTargetWhere d chainSlug slug pid t"
  shows "s = t"
proof (rule wf_task_key_inj [OF wf assms(3,5)])
  have "Some (t_chain s) = Some (t_chain t)" using assms(2,4,6) by (simp add: taskTargetWhere_def)
  then show "task_key s = task_key t" using assms(4,6) by (simp add: taskTargetWhere_def task_key_def)
qed

lemma filter_unique_length:
  assumes "distinct xs" "\<And>x y. x \<in> set xs \<Longrightarrow> P x \<Longrightarrow> y \<in> set xs \<Longrightarrow> P y \<Longrightarrow> x = y"
  shows "length (filter P xs) \<le> 1"
proof -
  have "card (set (filter P xs)) \<le> 1"
    using assms(2) by (intro card_le_Suc0_iff_eq [THEN iffD2, unfolded One_nat_def [symmetric]]) auto
  then show ?thesis using assms(1) by (metis distinct_card distinct_filter)
qed

text \<open>An update that targets one row by its key rewrites exactly this row.\<close>

lemma update_target_one:
  assumes wf: "wf_db d" and cs: "chainSlug \<noteq> []" and cid: "chain_id_by_slug d pid chainSlug = Some cid"
    and t: "t \<in> set (db_tasks d)" "task_key t = (cid, ev_slug evt)"
    and pid: "ev_project evt = Some pid"
  shows "update_target chainSlug evt upd d =
    (if task_check (upd t) then (Inr (), d\<lparr>db_tasks := map (\<lambda>x. if x = t then upd t else x) (db_tasks d)\<rparr>)
     else (Inl (ErrConstraint ''proj_current_tasks''), d))"
proof -
  have whr: "taskTargetWhere d chainSlug (ev_slug evt) pid x \<longleftrightarrow> x = t" if "x \<in> set (db_tasks d)" for x
    using that t wf_task_key_inj [OF wf that t(1)] by (auto simp: target_key [OF cs cid])
  have rows: "map (\<lambda>x. if taskTargetWhere d chainSlug (ev_slug evt) pid x then upd x else x) (db_tasks d)
      = map (\<lambda>x. if x = t then upd t else x) (db_tasks d)"
    using whr by (intro map_cong) auto
  have "list_all (\<lambda>x. taskTargetWhere d chainSlug (ev_slug evt) pid x \<longrightarrow> task_check (upd x)) (db_tasks d)
      = task_check (upd t)"
    using whr t(1) by (auto simp: list_all_iff)
  then show ?thesis
    using pid rows by (simp add: update_target_def project_of_def tx_bind_def tx_apply exec_tasks_def
        tx_exec_def sql_update_def)
qed

section \<open>Repeating an update\<close>

lemma target_where_updated:
  assumes "db_chains d' = db_chains d"
  shows "taskTargetWhere d' cs slug pid = taskTargetWhere d cs slug pid"
  using assms by (simp add: fun_eq_iff taskTargetWhere_def chain_id_by_slug_def)

lemma update_target_idem:
  assumes "\<And>t. upd (upd t) = upd t" "\<And>t. t_slug (upd t) = t_slug t" "\<And>t. t_chain (upd t) = t_chain t"
    and "update_target cs evt upd d = (Inr (), d1)"
  shows "update_target cs evt upd d1 = (Inr (), d1)"
proof -
  obtain pid where pid: "ev_project evt = Some pid" using assms(4) by (auto simp: update_target_def tx_simps)
  let ?whr = "taskTargetWhere d cs (ev_slug evt) pid"
  let ?f = "\<lambda>t. if ?whr t then upd t else t"
  have upd: "sql_update task_check ?whr upd (db_tasks d) = Some (map ?f (db_tasks d))"
    and d1: "d1 = d\<lparr>db_tasks := map ?f (db_tasks d)\<rparr>"
    using assms(4) pid by (auto simp: update_target_def tx_simps dest: sql_update_Some)
  have whr: "?whr (upd t) = ?whr t" for t using assms(2,3) by (simp add: taskTargetWhere_def)
  have "list_all (\<lambda>t. ?whr t \<longrightarrow> task_check (upd t)) (db_tasks d)"
    using upd by (simp add: sql_update_def split: if_splits)
  then have "sql_update task_check ?whr upd (map ?f (db_tasks d)) = Some (map ?f (db_tasks d))"
    using assms(1) whr by (auto simp: sql_update_def list_all_iff)
  moreover have "taskTargetWhere d1 cs (ev_slug evt) pid = ?whr" by (rule target_where_updated) (simp add: d1)
  ultimately show ?thesis using pid by (simp add: update_target_def tx_simps) (simp add: d1)
qed

lemma lifecycle_idempotent:
  assumes "ev_type evt \<in> {''TaskTransitioned'', ''TaskCompleted'', ''TaskCancelled'', ''TaskStamped''}"
    and "current_tasks_Fold aff evt d = (Inr (), d1)"
  shows "current_tasks_Fold aff evt d1 = (Inr (), d1)"
  using assms unfolding current_tasks_Fold_def foldTaskTransitioned_def foldTaskCompleted_def
    foldTaskCancelled_def foldTaskStamped_def
  by (auto simp: tx_simps task_stamp_def split: if_splits) (erule update_target_idem [rotated 3]; simp)+

section \<open>Moves\<close>

lemma move_needs_unique_slug:
  assumes wf: "wf_db d" and pid: "ev_project evt = Some pid"
    and p: "decoded unmarshal_TaskAssignedToChainPayload evt = Some p"
    and dest: "chain_id_by_slug d pid (ta_to_chain_slug p) = Some cid"
    and two: "s \<in> set (db_tasks d)" "t \<in> set (db_tasks d)" "s \<noteq> t" "t_slug s = ev_slug evt" "t_slug t = ev_slug evt"
  shows "foldTaskAssignedToChain evt d = (Inl (ErrConstraint ''proj_current_tasks''), d)"
proof -
  let ?upd = "\<lambda>t. task_stamp evt (t\<lparr>t_chain := cid, t_position := SqlInt (deref_or 0 (ta_to_position p)),
      t_moved_on := Some (ev_ts evt)\<rparr>)"
  let ?f = "\<lambda>t. if t_slug t = ev_slug evt then ?upd t else t"
  have "task_key (?f s) = task_key (?f t)" using two by (simp add: task_key_def stamp_frame)
  then have "\<not> inj_on (\<lambda>x. task_key (?f x)) (set (db_tasks d))"
    using two(1,2,3) unfolding inj_on_def by blast
  then have "\<not> distinct (map task_key (map ?f (db_tasks d)))" by (simp add: distinct_map o_def)
  then have "sql_update_key task_key task_check (\<lambda>t. t_slug t = ev_slug evt) ?upd (db_tasks d) = None"
    by (auto simp: sql_update_key_def sql_update_def)
  then show ?thesis
    using pid dest by (simp add: foldTaskAssignedToChain_def payload_eval [OF p] project_eval tx_run
        exec_tasks_def tx_exec_def)
qed

section \<open>Full-text rows of re-reported bugs\<close>

lemma bug_upsert_existing:
  assumes "b \<in> set bs" "bug_key b = bug_key new" "bug_check new" "list_all bug_check bs"
    and "\<And>x. bug_check x \<Longrightarrow> bug_check (upd x)"
  shows "sql_upsert bug_key bug_check new upd bs = Some (map (\<lambda>x. if bug_key x = bug_key new then upd x else x) bs)"
proof -
  have "bug_key new \<in> bug_key ` set bs" using assms(1) by (simp add: assms(2) [symmetric])
  then show ?thesis using assms(3-5) by (auto simp: sql_upsert_def sql_update_def list_all_iff)
qed

lemma rereport_orphans_fts:
  assumes wf: "wf_db d" and pid: "ev_project evt = Some pid"
    and p: "decoded unmarshal_BugReportedPayload evt = Some p"
    and b: "b \<in> set (db_bugs d)" "bug_key b = (pid, ev_slug evt)"
  shows "\<exists>d' j. foldBugReported evt d = (Inr (), d') \<and> map b_id (db_bugs d') = map b_id (db_bugs d) \<and>
     j \<notin> b_id ` set (db_bugs d') \<and> db_bugs_fts d' j = Some (br_title p, br_problem_statement p) \<and>
     db_bugs_fts d' (b_id b) = db_bugs_fts d (b_id b)"
proof -
  let ?j = "sql_next_id (map b_id (db_bugs d))"
  let ?new = "reported_bug evt p pid ?j"
  let ?bs = "map (\<lambda>x. if bug_key x = bug_key ?new then rereported_bug ?new x else x) (db_bugs d)"
  have key: "bug_key b = bug_key ?new" unfolding b(2) by (simp add: bug_key_def reported_bug_def)
  have "sql_upsert bug_key bug_check ?new (rereported_bug ?new) (db_bugs d) = Some ?bs"
    by (rule bug_upsert_existing [OF b(1) key])
      (use wf in \<open>auto simp: wf_db_def wf_bugs_def bug_check_def reported_bug_def rereported_bug_def\<close>)
  then have fold: "foldBugReported evt d = (Inr (), d\<lparr>db_bugs := ?bs,
      db_bugs_fts := (db_bugs_fts d)(?j \<mapsto> (br_title p, br_problem_statement p))\<rparr>)"
    using pid by (simp add: foldBugReported_def payload_eval [OF p] project_eval tx_run Let_def
        tx_then_def tx_bind_def tx_apply exec_bugs_def tx_exec_def write_bugs_fts_def)
  have ids: "map b_id ?bs = map b_id (db_bugs d)" by (simp add: bug_frames)
  have fresh: "?j \<notin> b_id ` set (db_bugs d)" using sql_next_id_notin [of "map b_id (db_bugs d)"] by simp
  have "b_id ` set ?bs = b_id ` set (db_bugs d)" using ids by (metis list.set_map)
  then have "?j \<notin> b_id ` set ?bs" using fresh by (simp only: not_False_eq_True)
  moreover have "b_id b \<noteq> ?j" using fresh b(1) by (metis imageI)
  ultimately show ?thesis
    using fold ids by (intro exI [of _ "d\<lparr>db_bugs := ?bs,
      db_bugs_fts := (db_bugs_fts d)(?j \<mapsto> (br_title p, br_problem_statement p))\<rparr>"] exI [of _ ?j])
      (simp add: fun_upd_other)
qed

section \<open>Re-creation keeps identity\<close>

text \<open>A second \<open>TaskCreated\<close> for an existing key rewrites the text columns of that row only.\<close>

lemma recreate_keeps_identity:
  assumes wf: "wf_db d" and pid: "ev_project evt = Some pid"
    and p: "decoded unmarshal_TaskCreatedPayload evt = Some p"
    and cid: "chain_id_by_slug d pid (tc_chain_slug p) = Some cid"
    and t: "t \<in> set (db_tasks d)" "task_key t = (cid, ev_slug evt)"
  shows "\<exists>d'. foldTaskCreated evt d = (Inr (), d') \<and>
     map (\<lambda>x. (t_id x, t_chain x, t_slug x, t_status x, t_commit x)) (db_tasks d')
       = map (\<lambda>x. (t_id x, t_chain x, t_slug x, t_status x, t_commit x)) (db_tasks d) \<and>
     (\<forall>x \<in> set (db_tasks d). x \<noteq> t \<longrightarrow> x \<in> set (db_tasks d'))"
proof -
  let ?new = "created_row evt p (sql_next_id (map t_id (db_tasks d))) cid
      (case tc_position p of Some n \<Rightarrow> n | None \<Rightarrow> next_position d cid)"
  let ?f = "\<lambda>x. if task_key x = task_key ?new then recreated_row ?new x else x"
  have key: "task_key ?new = task_key t" unfolding t(2) by (simp add: task_key_def created_row_def)
  have "task_key ?new \<in> task_key ` set (db_tasks d)" using t(1) by (simp add: key)
  moreover have "task_check ?new" by (simp add: task_check_def created_row_def task_statuses_def)
  moreover have "list_all (\<lambda>x. task_key x = task_key ?new \<longrightarrow> task_check (recreated_row ?new x)) (db_tasks d)"
    using wf by (auto simp: wf_db_def wf_tasks_def list_all_iff task_check_def recreated_row_def)
  ultimately have ups: "sql_upsert task_key task_check ?new (recreated_row ?new) (db_tasks d) = Some (map ?f (db_tasks d))"
    by (simp add: sql_upsert_def sql_update_def)
  have fold: "foldTaskCreated evt d = (Inr (), d\<lparr>db_tasks := map ?f (db_tasks d)\<rparr>)"
    using pid cid ups by (simp add: foldTaskCreated_def payload_eval [OF p] project_eval tx_run Let_def
        exec_tasks_def tx_exec_def)
  have "x \<in> set (map ?f (db_tasks d))" if "x \<in> set (db_tasks d)" "x \<noteq> t" for x
    using that wf_task_key_inj [OF wf that(1) t(1)] by (force simp: key)
  moreover have "map (\<lambda>x. (t_id x, t_chain x, t_slug x, t_status x, t_commit x)) (map ?f (db_tasks d))
      = map (\<lambda>x. (t_id x, t_chain x, t_slug x, t_status x, t_commit x)) (db_tasks d)"
    by (simp add: recreated_row_def)
  ultimately show ?thesis using fold by fastforce
qed

section \<open>Blocker cleanup\<close>

lemma cleanup_drops_edges:
  assumes "ev_kind evt = ''task''" "ev_type evt \<in> {''TaskCompleted'', ''TaskCancelled''}"
    and "ev_project evt = Some pid"
    and "resolveTaskIDForBlockerFold d pid (close_chain_slug evt) (ev_slug evt) = Some i"
  shows "task_blockers_Fold evt d = (Inr (), d\<lparr>db_blockers :=
    filter (\<lambda>k. k_blocked k \<noteq> i \<and> k_blocker k \<noteq> i) (db_blockers d)\<rparr>)"
  using assms by (auto simp: task_blockers_Fold_def foldTaskBlockersCleanupOnClose_def tx_run tx_apply sql_delete_def)

text \<open>The task a close event names is the one whose edges go, when the payload carries its chain.\<close>

lemma resolve_by_key:
  assumes wf: "wf_db d" and cs: "chainSlug \<noteq> []" and cid: "chain_id_by_slug d pid chainSlug = Some cid"
    and t: "t \<in> set (db_tasks d)" "task_key t = (cid, slug)"
  shows "resolveTaskIDForBlockerFold d pid chainSlug slug = Some (t_id t)"
proof -
  obtain c where c: "c \<in> set (db_chains d)" "c_id c = cid" "c_project c = pid" "c_slug c = chainSlug"
    using chain_id_by_slug_Some [OF cid] by blast
  have "sql_first (\<lambda>(t, c). c_project c = pid \<and> c_slug c = chainSlug \<and> t_slug t = slug) (task_chain_join d) = Some (t, c)"
  proof (rule sql_first_unique)
    show "(t, c) \<in> set (task_chain_join d)" using t c by (force simp: task_chain_join_def task_key_def)
    show "case (t, c) of (t, c) \<Rightarrow> c_project c = pid \<and> c_slug c = chainSlug \<and> t_slug t = slug"
      using t c by (simp add: task_key_def)
  next
    fix x assume x: "x \<in> set (task_chain_join d)"
      "case x of (t, c) \<Rightarrow> c_project c = pid \<and> c_slug c = chainSlug \<and> t_slug t = slug"
    obtain t' c' where x': "x = (t', c')" by (cases x)
    have in': "t' \<in> set (db_tasks d)" "c' \<in> set (db_chains d)" "c_id c' = t_chain t'"
      using x by (auto simp: x' task_chain_join_def)
    have "chain_key c' = chain_key c" using x(2) c by (simp add: x' chain_key_def)
    then have "c' = c" using wf in'(2) c(1) by (metis distinct_map inj_on_eq_iff wf_db_def wf_chains_def)
    moreover have "task_key t' = task_key t" using x(2) in'(3) c(2) t(2) \<open>c' = c\<close> by (simp add: x' task_key_def)
    then have "t' = t" by (rule wf_task_key_inj [OF wf in'(1) t(1)])
    ultimately show "x = (t, c)" by (simp add: x')
  qed
  then show ?thesis using cs by (simp add: resolveTaskIDForBlockerFold_def)
qed

section \<open>Bugs\<close>

lemma wf_bug_key_inj:
  "wf_db d \<Longrightarrow> a \<in> set (db_bugs d) \<Longrightarrow> b \<in> set (db_bugs d) \<Longrightarrow> bug_key a = bug_key b \<Longrightarrow> a = b"
  by (metis distinct_map inj_on_eq_iff wf_db_def wf_bugs_def)

lemma update_bug_one:
  assumes wf: "wf_db d" and b: "b \<in> set (db_bugs d)" "bug_key b = (pid, ev_slug evt)"
    and pid: "ev_project evt = Some pid"
  shows "update_bug evt upd d =
    (if bug_check (bug_stamp evt (upd b))
     then (Inr (), d\<lparr>db_bugs := map (\<lambda>x. if x = b then bug_stamp evt (upd b) else x) (db_bugs d)\<rparr>)
     else (Inl (ErrConstraint ''proj_current_bugs''), d))"
proof -
  have whr: "(b_project x = pid \<and> b_slug x = ev_slug evt) \<longleftrightarrow> x = b" if "x \<in> set (db_bugs d)" for x
    using b wf_bug_key_inj [OF wf that b(1)] by (auto simp: bug_key_def)
  have rows: "map (\<lambda>x. if b_project x = pid \<and> b_slug x = ev_slug evt then bug_stamp evt (upd x) else x) (db_bugs d)
      = map (\<lambda>x. if x = b then bug_stamp evt (upd b) else x) (db_bugs d)"
    using whr by (intro map_cong) auto
  have "list_all (\<lambda>x. b_project x = pid \<and> b_slug x = ev_slug evt \<longrightarrow> bug_check (bug_stamp evt (upd x))) (db_bugs d)
      = bug_check (bug_stamp evt (upd b))"
    using whr b(1) by (auto simp: list_all_iff)
  then show ?thesis
    using pid rows by (simp add: update_bug_def project_eval tx_run exec_bugs_def tx_exec_def sql_update_def)
qed

end
