(* ===== verification/Sample_Runs.thy ===== *)
theory Sample_Runs
  imports Work_Facts
begin

text \<open>
  Concrete ledgers the witnesses run on: a chain with two tasks worked to completion, a bug
  reported and resolved, a task moved between chains.
\<close>

definition mk_event :: "string \<Rightarrow> string \<Rightarrow> string \<Rightarrow> string \<Rightarrow> string \<Rightarrow> (string \<times> json) list \<Rightarrow> raw_event" where
  "mk_event eid ts typ kind slug fs =
     \<lparr>ev_id = eid, ev_ts = ts, ev_actor_kind = ''agent'', ev_actor_id = ''a'', ev_type = typ,
      ev_kind = kind, ev_slug = slug, ev_project = Some ''p'', ev_payload = Some (JObj fs),
      ev_rationale = None, ev_caused_by = None, ev_related = Some (JArr []), ev_span = ''s'',
      ev_schema_version = 1\<rparr>"

definition ex_chain :: raw_event where
  "ex_chain = mk_event ''e1'' ''t1'' ''ChainCreated'' ''chain'' ''c''
     [(''output'', JStr ''o''), (''completion_condition'', JStr ''k'')]"

definition ex_task :: raw_event where
  "ex_task = mk_event ''e2'' ''t2'' ''TaskCreated'' ''task'' ''a''
     [(''chain_slug'', JStr ''c''), (''problem_statement'', JStr ''do'')]"

definition ex_start :: raw_event where
  "ex_start = mk_event ''e3'' ''t3'' ''TaskTransitioned'' ''task'' ''a''
     [(''from_status'', JStr ''pending''), (''to_status'', JStr ''active''), (''chain_slug'', JStr ''c'')]"

definition ex_bug :: raw_event where
  "ex_bug = mk_event ''e4'' ''t4'' ''BugReported'' ''bug'' ''b''
     [(''title'', JStr ''T''), (''problem_statement'', JStr ''P'')]"

definition ex_done :: raw_event where
  "ex_done = mk_event ''e5'' ''t5'' ''TaskCompleted'' ''task'' ''a''
     [(''commit_sha'', JStr ''abc''), (''chain_slug'', JStr ''c'')]"

definition ex_move :: raw_event where
  "ex_move = mk_event ''e6'' ''t6'' ''TaskAssignedToChain'' ''task'' ''a''
     [(''from_chain_slug'', JStr ''c''), (''to_chain_slug'', JStr ''e'')]"

text \<open>The same move without the chain the task leaves.\<close>

definition ex_move_blind :: raw_event where
  "ex_move_blind = mk_event ''e6'' ''t6'' ''TaskAssignedToChain'' ''task'' ''a''
     [(''to_chain_slug'', JStr ''e'')]"

section \<open>A small database\<close>

definition mk_chain :: "int \<Rightarrow> string \<Rightarrow> int \<Rightarrow> int \<Rightarrow> chain_row" where
  "mk_chain i slug tot pend = \<lparr>c_slug = slug, c_project = ''p'', c_id = i, c_status = ''open'',
     c_output = [], c_completion = [], c_closure = [], c_total = tot, c_pending = pend,
     c_active = 0, c_blocked = 0, c_closed = 0, c_cancelled = 0, c_created = ''t0'', c_updated = ''t0'',
     c_last_id = ''e0'', c_last_ts = ''t0''\<rparr>"

definition mk_task :: "int \<Rightarrow> int \<Rightarrow> string \<Rightarrow> task_row" where
  "mk_task i c slug = \<lparr>t_id = i, t_chain = c, t_slug = slug, t_position = SqlInt 1, t_status = ''pending'',
     t_problem = [], t_acceptance = [], t_context = [], t_constraints = [], t_handoff = [],
     t_originated = None, t_moved_on = None, t_commit = None, t_created = ''t0'', t_updated = ''t0'',
     t_last_id = ''e0'', t_last_ts = ''t0''\<rparr>"

definition ex_bug_row :: bug_row where
  "ex_bug_row = \<lparr>b_slug = ''b'', b_project = ''p'', b_id = 7, b_title = ''old'', b_problem = ''old'',
     b_surface = [], b_severity = ''medium'', b_source = [], b_acceptance = [], b_constraints = [],
     b_status = ''open'', b_resolution = None, b_routed_chain = [], b_routed_task = [],
     b_routed_suggestion = [], b_commit = None, b_qwen = None, b_tags = [], b_filed = ''t0'',
     b_resolved_at = None, b_updated = ''t0'', b_last_id = ''e0'', b_last_ts = ''t0''\<rparr>"

text \<open>Chains \<open>c\<close> and \<open>e\<close>; task \<open>a\<close> of \<open>c\<close>, blocked by task \<open>z\<close>; bug \<open>b\<close>.\<close>

definition ex_db :: db where
  "ex_db = empty_db\<lparr>db_chains := [mk_chain 1 ''c'' 2 2, mk_chain 2 ''e'' 0 0],
     db_tasks := [mk_task 1 1 ''a'', mk_task 2 1 ''z''],
     db_blockers := [\<lparr>k_blocked = 1, k_blocker = 2, k_reason = [], k_created = ''t0'',
       k_last_id = ''e0'', k_last_ts = ''t0''\<rparr>],
     db_bugs := [ex_bug_row]\<rparr>"

text \<open>A second task of slug \<open>a\<close>, in the other chain.\<close>

definition ex_db_twin :: db where
  "ex_db_twin = empty_db\<lparr>db_chains := [mk_chain 1 ''c'' 1 1, mk_chain 2 ''e'' 1 1],
     db_tasks := [mk_task 1 1 ''a'', mk_task 2 2 ''a'']\<rparr>"

lemmas ex_rows = ex_db_def ex_db_twin_def mk_chain_def mk_task_def ex_bug_row_def empty_db_def
lemmas ex_events = ex_chain_def ex_task_def ex_start_def ex_bug_def ex_done_def ex_move_def
  ex_move_blind_def mk_event_def

lemma ex_db_wf: "wf_db ex_db" "wf_db ex_db_twin"
  by (simp_all add: ex_rows wf_db_def wf_tasks_def wf_chains_def wf_refs_def wf_blockers_def wf_bugs_def
      wf_suggestions_def wf_memories_def key_defs task_check_def task_statuses_def chain_check_def bug_check_def)

lemma ex_db_agrees: "counters_agree ex_db" "counters_agree ex_db_twin"
  by (simp_all add: ex_rows counters_agree_def with_task_counts_def sql_count_def)

section \<open>Runs\<close>

definition no_affinity :: "string \<Rightarrow> sqlval" where
  "no_affinity s = SqlText s"

lemma work_ingest:
  "ingest (work_projections aff) evt =
     tx_then (insert_event evt) (tx_foreach (\<lambda>p.
       tx_then (p_Fold p evt) (WriteWatermark (p_Name p) (ev_id evt) (ev_ts evt)))
       [currentBugs, currentSuggestions, currentTasks aff, chainStatus,
        currentMemories, roadmapView, taskBlockers])"
  by (simp add: ingest_def FoldAll_def with_All_def work_projections_sorted)

text \<open>Create a chain and a task, start the task, report a bug.\<close>

definition ex_run :: "raw_event list" where
  "ex_run = [ex_chain, ex_task, ex_start, ex_bug]"

lemma ex_run_eval:
  "(case tx_foreach (ingest (work_projections no_affinity)) ex_run empty_db of (r, d) \<Rightarrow>
     r = Inr () \<and> map (\<lambda>c. (c_slug c, c_total c, c_active c)) (db_chains d) = [(''c'', 1, 1)] \<and>
     map t_status (db_tasks d) = [''active''])"
  unfolding ex_run_def tx_foreach.simps work_ingest by code_simp

lemma ex_run_ok:
  obtains d c where "tx_foreach (ingest (work_projections no_affinity)) ex_run empty_db = (Inr (), d)"
    "db_chains d = [c]" "c_total c = 1" "c_active c = 1"
  using ex_run_eval by (auto simp: map_eq_Cons_conv split: prod.splits)

lemma ex_run_sorted: "sorted (map (\<lambda>e. (ev_ts e, ev_id e)) ex_run)"
  unfolding ex_run_def by code_simp

end
