(* ===== verification/Fold_Properties.thy ===== *)
theory Fold_Properties
  imports Sample_Runs
begin

text \<open>
  The properties of the folds and of the ledger replay: consistency of the tables over every run
  of events, the rebuild, and the behaviour of single folds on success and failure.
\<close>

section \<open>Runs of events\<close>

text \<open>C2. A full rebuild gives back the live database. If a ledger was folded event by event from
  an empty database, and its order is the \<open>(ts, event_id)\<close> order the rebuild walks, then
  \<open>RebuildAll\<close> succeeds and leaves every table, the full-text indexes and the watermarks exactly
  as they were.\<close>

theorem rebuild_restores_live_state:
  assumes "tx_foreach (ingest (work_projections aff)) es (empty_db\<lparr>db_watermark := W\<rparr>) = (Inr (), d)"
    and "es \<noteq> []" and "sorted (map (\<lambda>e. (ev_ts e, ev_id e)) es)"
  shows "\<exists>rs. RebuildAll (work_projections aff) [] d = (Inr rs, d) \<and>
    map rr_Name rs = [''current_bugs'', ''current_suggestions'', ''current_tasks'', ''chain_status'',
      ''memories'', ''roadmap_view'', ''task_blockers''] \<and>
    (\<forall>r \<in> set rs. rr_Watermark r = ev_id (last es))"
proof -
  have "core (empty_db\<lparr>db_watermark := W\<rparr>) = empty_db" "db_events (empty_db\<lparr>db_watermark := W\<rparr>) = []"
    by (simp_all add: core_eq empty_db_def)
  from work.rebuild_is_identity [OF assms(1) this assms(2,3)] show ?thesis
    by (auto simp: work_order projection_defs)
qed

theorem rebuild_restores_live_state_witness:
  "\<exists>d rs. tx_foreach (ingest (work_projections no_affinity)) ex_run empty_db = (Inr (), d) \<and>
     RebuildAll (work_projections no_affinity) [] d = (Inr rs, d) \<and> length rs = 7"
proof -
  obtain d c where run: "tx_foreach (ingest (work_projections no_affinity)) ex_run empty_db = (Inr (), d)"
    by (rule ex_run_ok)
  have start: "empty_db\<lparr>db_watermark := Map.empty\<rparr> = empty_db" by (simp add: empty_db_def)
  have "ex_run \<noteq> []" by (simp add: ex_run_def)
  from rebuild_restores_live_state [of no_affinity ex_run Map.empty d, unfolded start, OF run this ex_run_sorted]
  obtain rs where rs: "RebuildAll (work_projections no_affinity) [] d = (Inr rs, d)"
    "map rr_Name rs = [''current_bugs'', ''current_suggestions'', ''current_tasks'', ''chain_status'',
      ''memories'', ''roadmap_view'', ''task_blockers'']" by (elim exE conjE)
  have "length rs = 7" using arg_cong [OF rs(2), of length] by simp
  with run rs(1) show ?thesis by blast
qed

text \<open>C6. Folding keeps the chain counters equal to the task table: after any run of events from an
  empty database that moves no task between chains, the six counters of every chain row equal the
  counts over \<open>proj_current_tasks\<close>.\<close>

theorem chain_counters_match_tasks:
  assumes "tx_foreach (ingest (work_projections aff)) es empty_db = (Inr (), d)"
    and "\<forall>e \<in> set es. ev_type e \<noteq> ''TaskAssignedToChain''" and "c \<in> set (db_chains d)"
  shows "c_total c = int (length (filter (\<lambda>t. t_chain t = c_id c) (db_tasks d))) \<and>
    c_pending c = int (length (filter (\<lambda>t. t_chain t = c_id c \<and> t_status t = ''pending'') (db_tasks d))) \<and>
    c_active c = int (length (filter (\<lambda>t. t_chain t = c_id c \<and> t_status t = ''active'') (db_tasks d))) \<and>
    c_blocked c = int (length (filter (\<lambda>t. t_chain t = c_id c \<and> t_status t = ''blocked'') (db_tasks d))) \<and>
    c_closed c = int (length (filter (\<lambda>t. t_chain t = c_id c \<and> t_status t = ''closed'') (db_tasks d))) \<and>
    c_cancelled c = int (length (filter (\<lambda>t. t_chain t = c_id c \<and> t_status t = ''cancelled'') (db_tasks d)))"
proof -
  have "counters_agree empty_db" by (simp add: counters_agree_def empty_db_def)
  then have "counters_agree d"
    using run_agrees [OF _ wf_empty _ assms(1)] assms(2) by (simp add: list_all_iff)
  then have c: "with_task_counts (db_tasks d) (c_id c) c = c"
    using assms(3) by (simp add: counters_agree_def list_all_iff)
  note sel = arg_cong [OF c, of c_total] arg_cong [OF c, of c_pending] arg_cong [OF c, of c_active]
    arg_cong [OF c, of c_blocked] arg_cong [OF c, of c_closed] arg_cong [OF c, of c_cancelled]
  show ?thesis using sel by (simp add: with_task_counts_def sql_count_def)
qed

theorem chain_counters_match_tasks_witness:
  "\<exists>d c. tx_foreach (ingest (work_projections no_affinity)) ex_run empty_db = (Inr (), d) \<and>
     c \<in> set (db_chains d) \<and> length (filter (\<lambda>t. t_chain t = c_id c) (db_tasks d)) = 1"
proof -
  obtain d c where run: "tx_foreach (ingest (work_projections no_affinity)) ex_run empty_db = (Inr (), d)"
    and c: "db_chains d = [c]" "c_total c = 1" by (rule ex_run_ok)
  have "\<forall>e \<in> set ex_run. ev_type e \<noteq> ''TaskAssignedToChain''" by (simp add: ex_run_def ex_events)
  from chain_counters_match_tasks [OF run this, of c] c run show ?thesis by auto
qed

text \<open>C19. Every run of events, successful or not, leaves the tables well-formed: unique keys and
  ids, all CHECK constraints, every task in an existing chain, every blocker edge between existing
  tasks.\<close>

theorem runs_keep_tables_well_formed:
  "wf_db (snd (tx_foreach (ingest (work_projections aff)) es empty_db))"
  by (rule keepsI [OF wf.run_keeps wf_empty])

section \<open>Task folds\<close>

text \<open>A lifecycle event that carries its chain slug reaches at most one task row.\<close>

theorem chain_scoped_event_hits_one_row:
  assumes "wf_db d" "chainSlug \<noteq> []"
  shows "length (filter (taskTargetWhere d chainSlug slug pid) (db_tasks d)) \<le> 1"
proof (rule filter_unique_length)
  show "distinct (db_tasks d)" using assms(1) by (simp add: wf_db_def wf_tasks_def distinct_map)
qed (use target_unique [OF assms] in blast)

theorem chain_scoped_event_hits_one_row_witness:
  "length (filter (taskTargetWhere ex_db_twin ''c'' ''a'' ''p'') (db_tasks ex_db_twin)) \<le> 1"
  by (rule chain_scoped_event_hits_one_row [OF ex_db_wf(2)]) simp

text \<open>C26. Folding a \<open>TaskCompleted\<close> event for an existing task succeeds, closes exactly that row
  with the event's commit and summary, and changes nothing else.\<close>

theorem completion_closes_the_task:
  assumes "wf_db d" and "ev_kind evt = ''task''" "ev_type evt = ''TaskCompleted''" "ev_project evt = Some pid"
    and "decoded unmarshal_TaskCompletedPayload evt = Some p" "tp_chain_slug p \<noteq> []"
    and "chain_id_by_slug d pid (tp_chain_slug p) = Some cid"
    and "t \<in> set (db_tasks d)" "task_key t = (cid, ev_slug evt)"
  shows "current_tasks_Fold aff evt d = (Inr (), d\<lparr>db_tasks := map (\<lambda>x. if x = t
      then t\<lparr>t_status := ''closed'', t_commit := Some (deref_or [] (tp_commit_sha p)),
             t_handoff := deref_or [] (tp_closure_summary p), t_updated := ev_ts evt,
             t_last_id := ev_id evt, t_last_ts := ev_ts evt\<rparr>
      else x) (db_tasks d)\<rparr>)"
  using assms update_target_one [OF assms(1,6,7,8,9,4)]
  by (simp add: current_tasks_Fold_def foldTaskCompleted_def payload_eval [OF assms(5)] tx_run
      task_check_def task_statuses_def task_stamp_def)

lemma ex_done_decoded:
  "decoded unmarshal_TaskCompletedPayload ex_done
   = Some \<lparr>tp_chain_slug = ''c'', tp_commit_sha = Some ''abc'', tp_closure_summary = None\<rparr>"
  by code_simp

theorem completion_closes_the_task_witness:
  "\<exists>d'. current_tasks_Fold no_affinity ex_done ex_db = (Inr (), d') \<and>
     map t_status (db_tasks d') = [''closed'', ''pending'']"
  using completion_closes_the_task [OF ex_db_wf(1) _ _ _ ex_done_decoded, of "''p''" 1 "mk_task 1 1 ''a''" no_affinity]
  by (simp add: ex_rows ex_events chain_id_by_slug_def sql_first_def task_key_def)

text \<open>A transition to \<open>closed\<close> or to a status outside the CHECK list is refused by the
  table and leaves the database as it was; any other target status is written.\<close>

theorem transition_is_checked:
  assumes "wf_db d" and "ev_kind evt = ''task''" "ev_type evt = ''TaskTransitioned''" "ev_project evt = Some pid"
    and "decoded unmarshal_TaskTransitionedPayload evt = Some p" "tt_chain_slug p \<noteq> []"
    and "chain_id_by_slug d pid (tt_chain_slug p) = Some cid"
    and "t \<in> set (db_tasks d)" "task_key t = (cid, ev_slug evt)"
  shows "current_tasks_Fold aff evt d =
    (if tt_to_status p \<in> {''pending'', ''active'', ''blocked'', ''cancelled''}
     then (Inr (), d\<lparr>db_tasks := map (\<lambda>x. if x = t
             then t\<lparr>t_status := tt_to_status p, t_commit := None, t_updated := ev_ts evt,
                    t_last_id := ev_id evt, t_last_ts := ev_ts evt\<rparr>
             else x) (db_tasks d)\<rparr>)
     else (Inl (ErrConstraint ''proj_current_tasks''), d))"
  using assms update_target_one [OF assms(1,6,7,8,9,4)]
  by (auto simp: current_tasks_Fold_def foldTaskTransitioned_def payload_eval [OF assms(5)] tx_run
      task_check_def task_statuses_def task_stamp_def)

lemma ex_start_decoded:
  "decoded unmarshal_TaskTransitionedPayload ex_start
   = Some \<lparr>tt_chain_slug = ''c'', tt_from_status = ''pending'', tt_to_status = ''active'',
       tt_blocker_slug = None, tt_removed_blocker_slug = None\<rparr>"
  by code_simp

theorem transition_is_checked_witness:
  "\<exists>d'. current_tasks_Fold no_affinity ex_start ex_db = (Inr (), d') \<and>
     map t_status (db_tasks d') = [''active'', ''pending'']"
  using transition_is_checked [OF ex_db_wf(1) _ _ _ ex_start_decoded, of "''p''" 1 "mk_task 1 1 ''a''" no_affinity]
  by (simp add: ex_rows ex_events chain_id_by_slug_def sql_first_def task_key_def)

text \<open>A second \<open>TaskCreated\<close> for an existing \<open>(chain, slug)\<close> succeeds and keeps the id,
  chain, slug, status and commit of every row; rows other than the addressed one do not change.\<close>

theorem recreated_task_keeps_identity:
  assumes "wf_db d" "ev_project evt = Some pid" "decoded unmarshal_TaskCreatedPayload evt = Some p"
    and "chain_id_by_slug d pid (tc_chain_slug p) = Some cid"
    and "t \<in> set (db_tasks d)" "task_key t = (cid, ev_slug evt)"
  shows "\<exists>d'. foldTaskCreated evt d = (Inr (), d') \<and>
     map (\<lambda>x. (t_id x, t_chain x, t_slug x, t_status x, t_commit x)) (db_tasks d')
       = map (\<lambda>x. (t_id x, t_chain x, t_slug x, t_status x, t_commit x)) (db_tasks d) \<and>
     (\<forall>x \<in> set (db_tasks d). x \<noteq> t \<longrightarrow> x \<in> set (db_tasks d'))"
  by (rule recreate_keeps_identity [OF assms])

lemma ex_task_decoded:
  "decoded unmarshal_TaskCreatedPayload ex_task
   = Some \<lparr>tc_chain_slug = ''c'', tc_position = None, tc_problem_statement = ''do'',
       tc_acceptance_criteria = [], tc_context_required = None, tc_constraints = None,
       tc_handoff_output = None\<rparr>"
  by code_simp

theorem recreated_task_keeps_identity_witness:
  "\<exists>d'. foldTaskCreated ex_task ex_db = (Inr (), d') \<and>
     map (\<lambda>x. (t_id x, t_chain x, t_slug x, t_status x, t_commit x)) (db_tasks d')
       = map (\<lambda>x. (t_id x, t_chain x, t_slug x, t_status x, t_commit x)) (db_tasks ex_db)"
proof -
  have facts: "chain_id_by_slug ex_db ''p'' ''c'' = Some 1" "mk_task 1 1 ''a'' \<in> set (db_tasks ex_db)"
    "task_key (mk_task 1 1 ''a'') = (1, ev_slug ex_task)" "ev_project ex_task = Some ''p''"
    by (simp_all add: ex_rows ex_events chain_id_by_slug_def sql_first_def task_key_def)
  have "\<exists>d'. foldTaskCreated ex_task ex_db = (Inr (), d') \<and>
     map (\<lambda>x. (t_id x, t_chain x, t_slug x, t_status x, t_commit x)) (db_tasks d')
       = map (\<lambda>x. (t_id x, t_chain x, t_slug x, t_status x, t_commit x)) (db_tasks ex_db) \<and>
     (\<forall>x \<in> set (db_tasks ex_db). x \<noteq> mk_task 1 1 ''a'' \<longrightarrow> x \<in> set (db_tasks d'))"
    by (rule recreated_task_keeps_identity [OF ex_db_wf(1) facts(4) ex_task_decoded _ facts(2,3)])
      (simp add: facts(1))
  then show ?thesis by (elim exE conjE) (intro exI conjI)
qed

text \<open>Folding the fold's own output again changes nothing for the lifecycle events that set
  columns to values of the event: a repeated \<open>TaskTransitioned\<close>, \<open>TaskCompleted\<close>,
  \<open>TaskCancelled\<close> or \<open>TaskStamped\<close> leaves the state of the first fold.\<close>

theorem lifecycle_folds_are_idempotent:
  assumes "ev_type evt \<in> {''TaskTransitioned'', ''TaskCompleted'', ''TaskCancelled'', ''TaskStamped''}"
    and "current_tasks_Fold aff evt d = (Inr (), d1)"
  shows "current_tasks_Fold aff evt d1 = (Inr (), d1)"
  using lifecycle_idempotent [OF assms] .

theorem lifecycle_folds_are_idempotent_witness:
  "\<exists>d1. current_tasks_Fold no_affinity ex_done ex_db = (Inr (), d1) \<and>
     current_tasks_Fold no_affinity ex_done d1 = (Inr (), d1)"
proof -
  have "fst (current_tasks_Fold no_affinity ex_done ex_db) = Inr ()" by code_simp
  then obtain d1 where "current_tasks_Fold no_affinity ex_done ex_db = (Inr (), d1)" by (metis prod.collapse)
  then show ?thesis
    using lifecycle_folds_are_idempotent [of ex_done no_affinity ex_db d1] by (simp add: ex_events)
qed

text \<open>\<open>TaskCreated\<close> without a position is not idempotent: each fold of the same event moves
  the task behind the last one again.\<close>

theorem created_fold_is_not_idempotent:
  "case foldTaskCreated ex_task ex_db of (r1, d1) \<Rightarrow> case foldTaskCreated ex_task d1 of (r2, d2) \<Rightarrow>
     r1 = Inr () \<and> r2 = Inr () \<and> map t_position (db_tasks d1) = [SqlInt 2, SqlInt 1] \<and>
     map t_position (db_tasks d2) = [SqlInt 3, SqlInt 1]"
  by code_simp

section \<open>Moves between chains\<close>

text \<open>A move recounts both chains when its payload names the chain the task leaves: after any
  event whose move is declared, the counters agree again.\<close>

theorem declared_moves_keep_counters:
  assumes "wf_db d" "counters_agree d" "move_declared d evt"
    and "ingest (work_projections aff) evt d = (Inr (), d')"
  shows "counters_agree d'"
  by (rule ingest_agrees [OF assms(2,1,3,4)])

lemma ex_move_eval:
  "fst (ingest (work_projections no_affinity) ex_move ex_db) = Inr ()"
  "move_declared ex_db ex_move"
  unfolding work_ingest by code_simp+

theorem declared_moves_keep_counters_witness:
  "counters_agree (snd (ingest (work_projections no_affinity) ex_move ex_db))"
proof -
  obtain d' where "ingest (work_projections no_affinity) ex_move ex_db = (Inr (), d')"
    using ex_move_eval(1) by (metis prod.collapse)
  with declared_moves_keep_counters [OF ex_db_wf(1) ex_db_agrees(1) ex_move_eval(2)] show ?thesis by simp
qed

text \<open>Without the chain the task leaves, the same move breaks the agreement: the event folds
  without an error and the left chain still counts the task.\<close>

theorem undeclared_move_breaks_counters:
  "case ingest (work_projections no_affinity) ex_move_blind ex_db of (r, d) \<Rightarrow>
     r = Inr () \<and> \<not> counters_agree d"
  unfolding work_ingest by code_simp

text \<open>C32. A move fails, and changes nothing, whenever two tasks anywhere in the database share the
  moved task's slug: the statement selects by slug alone and the target key collides.\<close>

theorem move_fails_on_shared_slug:
  assumes "wf_db d" "ev_project evt = Some pid"
    and "decoded unmarshal_TaskAssignedToChainPayload evt = Some p"
    and "chain_id_by_slug d pid (ta_to_chain_slug p) = Some cid"
    and "s \<in> set (db_tasks d)" "t \<in> set (db_tasks d)" "s \<noteq> t"
    and "t_slug s = ev_slug evt" "t_slug t = ev_slug evt"
  shows "foldTaskAssignedToChain evt d = (Inl (ErrConstraint ''proj_current_tasks''), d)"
  by (rule move_needs_unique_slug [OF assms])

lemma ex_move_decoded:
  "decoded unmarshal_TaskAssignedToChainPayload ex_move
   = Some \<lparr>ta_from_chain_slug = Some ''c'', ta_to_chain_slug = ''e'', ta_from_position = None,
       ta_to_position = None\<rparr>"
  by code_simp

theorem move_fails_on_shared_slug_witness:
  "foldTaskAssignedToChain ex_move ex_db_twin = (Inl (ErrConstraint ''proj_current_tasks''), ex_db_twin)"
  by (rule move_fails_on_shared_slug [OF ex_db_wf(2) _ ex_move_decoded,
        of "''p''" 2 "mk_task 1 1 ''a''" "mk_task 2 2 ''a''"])
    (simp_all add: ex_rows ex_events chain_id_by_slug_def sql_first_def)

section \<open>Blocker edges\<close>

text \<open>C27. Closing or cancelling a task removes exactly the blocker edges that mention it, in both
  directions, so a finished task neither blocks nor is blocked.\<close>

theorem closing_drops_blocker_edges:
  assumes "wf_db d" and "ev_kind evt = ''task''" "ev_type evt \<in> {''TaskCompleted'', ''TaskCancelled''}"
    and "ev_project evt = Some pid" and "close_chain_slug evt \<noteq> []"
    and "chain_id_by_slug d pid (close_chain_slug evt) = Some cid"
    and "t \<in> set (db_tasks d)" "task_key t = (cid, ev_slug evt)"
  shows "task_blockers_Fold evt d = (Inr (), d\<lparr>db_blockers :=
    filter (\<lambda>k. k_blocked k \<noteq> t_id t \<and> k_blocker k \<noteq> t_id t) (db_blockers d)\<rparr>)"
  by (rule cleanup_drops_edges [OF assms(2,3,4) resolve_by_key [OF assms(1,5,6,7,8)]])

theorem closing_drops_blocker_edges_witness:
  "\<exists>d'. task_blockers_Fold ex_done ex_db = (Inr (), d') \<and> db_blockers d' = []"
proof -
  have slug: "close_chain_slug ex_done = ''c''" by code_simp
  have "task_blockers_Fold ex_done ex_db = (Inr (), ex_db\<lparr>db_blockers := filter
      (\<lambda>k. k_blocked k \<noteq> t_id (mk_task 1 1 ''a'') \<and> k_blocker k \<noteq> t_id (mk_task 1 1 ''a'')) (db_blockers ex_db)\<rparr>)"
    by (rule closing_drops_blocker_edges [OF ex_db_wf(1), of ex_done "''p''" 1])
      (simp_all add: slug, simp_all add: ex_rows ex_events chain_id_by_slug_def sql_first_def task_key_def)
  then show ?thesis by (simp add: ex_rows)
qed

section \<open>Bugs\<close>

text \<open>Resolving a bug is accepted exactly for the five resolution kinds; it records the kind as
  status and resolution and keeps the time of the first resolution.\<close>

theorem bug_resolution_is_checked:
  assumes "wf_db d" and "ev_kind evt = ''bug''" "ev_type evt = ''BugResolved''" "ev_project evt = Some pid"
    and "decoded unmarshal_BugResolvedPayload evt = Some p"
    and "b \<in> set (db_bugs d)" "bug_key b = (pid, ev_slug evt)"
  shows "current_bugs_Fold evt d =
    (if bv_kind p \<in> {''fixed'', ''wontfix'', ''upstream'', ''dup'', ''routed''}
     then (Inr (), d\<lparr>db_bugs := map (\<lambda>x. if x = b
         then b\<lparr>b_status := bv_kind p, b_resolution := Some (bv_kind p),
                b_routed_chain := nullableStringFromPtr (bv_routed_chain_slug p),
                b_routed_task := nullableStringFromPtr (bv_routed_task_slug p),
                b_routed_suggestion := nullableStringFromPtr (bv_routed_suggestion_slug p),
                b_commit := bv_commit_sha p,
                b_resolved_at := Some (deref_or (ev_ts evt) (b_resolved_at b)),
                b_updated := ev_ts evt, b_last_id := ev_id evt, b_last_ts := ev_ts evt\<rparr>
         else x) (db_bugs d)\<rparr>)
     else (Inl (ErrConstraint ''proj_current_bugs''), d))"
  using assms update_bug_one [OF assms(1,6,7,4)]
  by (cases "b_resolved_at b") (auto simp: current_bugs_Fold_def foldBugResolved_def
      payload_eval [OF assms(5)] tx_run bug_check_def bug_stamp_def)

definition ex_fix :: raw_event where
  "ex_fix = mk_event ''e7'' ''t7'' ''BugResolved'' ''bug'' ''b'' [(''kind'', JStr ''fixed'')]"

lemma ex_fix_decoded:
  "decoded unmarshal_BugResolvedPayload ex_fix
   = Some \<lparr>bv_kind = ''fixed'', bv_commit_sha = None, bv_dup_of = None, bv_routed_chain_slug = None,
       bv_routed_task_slug = None, bv_routed_suggestion_slug = None, bv_resolution_note = None\<rparr>"
  by code_simp

theorem bug_resolution_is_checked_witness:
  "\<exists>d'. current_bugs_Fold ex_fix ex_db = (Inr (), d') \<and>
     map (\<lambda>b. (b_status b, b_resolved_at b)) (db_bugs d') = [(''fixed'', Some ''t7'')]"
proof -
  have "ev_kind ex_fix = ''bug''" "ev_type ex_fix = ''BugResolved''" "ev_project ex_fix = Some ''p''"
    "ex_bug_row \<in> set (db_bugs ex_db)" "bug_key ex_bug_row = (''p'', ev_slug ex_fix)"
    by (simp_all add: ex_fix_def mk_event_def ex_rows bug_key_def)
  from bug_resolution_is_checked [OF ex_db_wf(1) this(1-3) ex_fix_decoded this(4,5)]
  show ?thesis by (simp add: ex_rows ex_fix_def mk_event_def)
qed

text \<open>Reopening a resolved bug succeeds and gives back an open row without resolution, resolution
  time or routing; the commit of the resolution stays.\<close>

theorem reopened_bug_is_open:
  assumes "wf_db d" and "ev_kind evt = ''bug''" "ev_type evt = ''BugReopened''" "ev_project evt = Some pid"
    and "b \<in> set (db_bugs d)" "bug_key b = (pid, ev_slug evt)"
  shows "current_bugs_Fold evt d = (Inr (), d\<lparr>db_bugs := map (\<lambda>x. if x = b
      then b\<lparr>b_status := ''open'', b_resolution := None, b_routed_chain := [], b_routed_task := [],
             b_routed_suggestion := [], b_resolved_at := None,
             b_updated := ev_ts evt, b_last_id := ev_id evt, b_last_ts := ev_ts evt\<rparr>
      else x) (db_bugs d)\<rparr>)"
  using assms update_bug_one [OF assms(1,5,6,4)]
  by (simp add: current_bugs_Fold_def foldBugReopened_def bug_check_def bug_stamp_def)

theorem reopened_bug_is_open_witness:
  "\<exists>d'. current_bugs_Fold (ex_fix\<lparr>ev_type := ''BugReopened''\<rparr>) ex_db = (Inr (), d') \<and>
     map b_status (db_bugs d') = [''open'']"
proof -
  let ?e = "ex_fix\<lparr>ev_type := ''BugReopened''\<rparr>"
  have "ev_kind ?e = ''bug''" "ev_type ?e = ''BugReopened''" "ev_project ?e = Some ''p''"
    "ex_bug_row \<in> set (db_bugs ex_db)" "bug_key ex_bug_row = (''p'', ev_slug ?e)"
    by (simp_all add: ex_fix_def mk_event_def ex_rows bug_key_def)
  from reopened_bug_is_open [OF ex_db_wf(1) this(1-3) this(4,5)]
  show ?thesis by (simp add: ex_rows ex_fix_def mk_event_def)
qed

text \<open>C31. A second \<open>BugReported\<close> for an existing bug leaves the search index wrong: the row keeps
  its id, but the new text is indexed under an id no bug has, and the entry of the bug itself stays
  as it was.\<close>

theorem rereported_bug_orphans_search_row:
  assumes "wf_db d" "ev_project evt = Some pid" "decoded unmarshal_BugReportedPayload evt = Some p"
    and "b \<in> set (db_bugs d)" "bug_key b = (pid, ev_slug evt)"
  shows "\<exists>d' j. foldBugReported evt d = (Inr (), d') \<and> map b_id (db_bugs d') = map b_id (db_bugs d) \<and>
     j \<notin> b_id ` set (db_bugs d') \<and> db_bugs_fts d' j = Some (br_title p, br_problem_statement p) \<and>
     db_bugs_fts d' (b_id b) = db_bugs_fts d (b_id b)"
  by (rule rereport_orphans_fts [OF assms])

lemma ex_bug_decoded:
  "decoded unmarshal_BugReportedPayload ex_bug
   = Some \<lparr>br_title = ''T'', br_problem_statement = ''P'', br_surface = None, br_severity = None,
       br_source = None, br_tags = None, br_acceptance_criteria = [], br_constraints = None,
       br_qwen_task_id = None, br_routed_suggestion_slug = None\<rparr>"
  by code_simp

theorem rereported_bug_orphans_search_row_witness:
  "\<exists>d' j. foldBugReported ex_bug ex_db = (Inr (), d') \<and> map b_id (db_bugs d') = map b_id (db_bugs ex_db) \<and>
     j \<notin> b_id ` set (db_bugs d') \<and> db_bugs_fts d' j = Some (''T'', ''P'') \<and>
     db_bugs_fts d' (b_id ex_bug_row) = db_bugs_fts ex_db (b_id ex_bug_row)"
  using rereported_bug_orphans_search_row [OF ex_db_wf(1) _ ex_bug_decoded, of "''p''" ex_bug_row]
  by (simp add: ex_rows ex_events bug_key_def)

end
