(* ===== verification/Event_Ids.thy ===== *)
theory Event_Ids
  imports Toolkit_Prelude "HOL-Library.Word" "HOL-Library.Code_Target_Nat"
begin

text \<open>
  \<open>go/internal/events/events.go\<close>: the generator of event ids. A UUIDv7 is 16 bytes, here a
  list of \<open>8 word\<close>; the increment works at the width of the code (\<open>uint16\<close> sums and
  carries). The clock and the random source are arguments: \<open>ms\<close> is the millisecond clock,
  \<open>rnd\<close> the bytes \<open>rand.Read\<close> delivers, or its error.

  The lemmas show that the increment adds one to the 74 free bits and touches nothing else, that
  ids are strictly increasing while these bits do not run out, and that the printed form orders as
  the bytes do, so that \<open>ORDER BY event_id\<close> is the order of generation.
\<close>

unbundle bit_operations_syntax

section \<open>Definitions\<close>

type_synonym u8 = "8 word"
type_synonym uuid = "u8 list"

text \<open>The generator's package variables.\<close>

record uuid_state =
  uuidv7Last :: uuid
  uuidv7HasLast :: bool

definition uuid_init :: uuid_state where
  "uuid_init = \<lparr>uuidv7Last = replicate 16 0, uuidv7HasLast = False\<rparr>"

text \<open>\<open>binary.BigEndian\<close> on byte strings.\<close>

fun be_nat :: "u8 list \<Rightarrow> nat" where
  "be_nat [] = 0"
| "be_nat (b # bs) = unat b * 256 ^ length bs + be_nat bs"

definition be_uint64 :: "u8 list \<Rightarrow> 64 word" where
  "be_uint64 bs = of_nat (be_nat bs)"

definition put_uint64 :: "64 word \<Rightarrow> u8 list" where
  "put_uint64 v = map (\<lambda>i. ucast (drop_bit (8 * (7 - i)) v)) [0..<8]"

text \<open>\<open>hex.EncodeToString\<close>\<close>

definition hex_digit :: "nat \<Rightarrow> char" where
  "hex_digit n = ''0123456789abcdef'' ! n"

definition hex_byte :: "u8 \<Rightarrow> string" where
  "hex_byte b = [hex_digit (unat b div 16), hex_digit (unat b mod 16)]"

definition formatUUID :: "uuid \<Rightarrow> string" where
  "formatUUID b =
     (let hexStr = concat (map hex_byte b)
      in take 8 hexStr @ ''-'' @ take 4 (drop 8 hexStr) @ ''-'' @ take 4 (drop 12 hexStr) @ ''-''
         @ take 4 (drop 16 hexStr) @ ''-'' @ drop 20 hexStr)"

text \<open>The loop over bytes 15 to 9 of \<open>incrementUUIDv7Tail\<close>.\<close>

fun carry_loop :: "nat list \<Rightarrow> 16 word \<Rightarrow> uuid \<Rightarrow> uuid \<times> 16 word" where
  "carry_loop [] carry b = (b, carry)"
| "carry_loop (i # is) carry b =
     (let s = ucast (b ! i) + carry;
          b' = b[i := ucast (s AND 0xFF)];
          carry' = drop_bit 8 s
      in if carry' = 0 then (b', 0) else carry_loop is carry' b')"

definition incrementUUIDv7Tail :: "u8 list option \<Rightarrow> uuid \<Rightarrow> uuid" where
  "incrementUUIDv7Tail rnd b =
     (let (b1, carry) = carry_loop [15, 14, 13, 12, 11, 10, 9] 1 b
      in if carry = 0 then b1
         else
           let s = ucast (b1 ! 8 AND 0x3F) + carry;
               b2 = b1[8 := (b1 ! 8 AND 0xC0) OR ucast (s AND 0x3F)];
               carry2 = drop_bit 6 s
           in if carry2 = 0 then b2
         else
           let s7 = ucast (b2 ! 7) + carry2;
               b3 = b2[7 := ucast (s7 AND 0xFF)];
               carry3 = drop_bit 8 s7
           in if carry3 = 0 then b3
         else
           let s6 = ucast (b3 ! 6 AND 0x0F) + carry3;
               b4 = b3[6 := (b3 ! 6 AND 0xF0) OR ucast (s6 AND 0x0F)]
           in if drop_bit 4 s6 = (0 :: 16 word) then b4
              else
                let b5 = (case rnd of None \<Rightarrow> b4 | Some r \<Rightarrow> take 7 b4 @ take 9 r);
                    b6 = b5[6 := b5 ! 6 AND 0xF0]
                in b6[8 := (b6 ! 8 AND 0x3F) OR 0x80])"

text \<open>
  \<open>newUUIDv7\<close> at clock \<open>ms\<close>. \<open>rnd\<close> is what the one \<open>rand.Read\<close> of the call
  delivers: ten bytes of a fresh tail, or nine when the increment wraps and drops the error.
\<close>

definition newUUIDv7 ::
  "64 word \<Rightarrow> u8 list option \<Rightarrow> uuid_state \<Rightarrow> (go_error + string) \<times> uuid_state" where
  "newUUIDv7 ms rnd st =
     (if uuidv7HasLast st \<and> ms \<le> drop_bit 16 (be_uint64 (take 8 (uuidv7Last st)))
      then
        let b = incrementUUIDv7Tail rnd (uuidv7Last st)
        in (Inr (formatUUID b), st\<lparr>uuidv7Last := b\<rparr>)
      else
        (case rnd of
           None \<Rightarrow> (Inl (ErrInvalidInput ''rand''), st)
         | Some r \<Rightarrow>
             let b0 = take 6 (put_uint64 (push_bit 16 ms)) @ take 10 r;
                 b1 = b0[6 := (b0 ! 6 AND 0x0F) OR 0x70];
                 b2 = b1[8 := (b1 ! 8 AND 0x3F) OR 0x80]
             in (Inr (formatUUID b2), \<lparr>uuidv7Last = b2, uuidv7HasLast = True\<rparr>)))"

definition newUUIDv4 :: "u8 list option \<Rightarrow> go_error + string" where
  "newUUIDv4 rnd =
     (case rnd of
        None \<Rightarrow> Inl (ErrInvalidInput ''rand'')
      | Some r \<Rightarrow>
          let b = take 16 r;
              b1 = b[6 := (b ! 6 AND 0x0F) OR 0x40]
          in Inr (formatUUID (b1[8 := (b1 ! 8 AND 0x3F) OR 0x80])))"

section \<open>Byte strings as numbers\<close>

lemma be_nat_bound: "be_nat bs < 256 ^ length bs"
proof (induction bs)
  case Nil
  then show ?case by simp
next
  case (Cons b bs)
  have "unat b < 256" using unsigned_less [of b, where 'a = nat] by simp
  then have "(unat b + 1) * 256 ^ length bs \<le> 256 * 256 ^ length bs" by (intro mult_le_mono1) simp
  then have "unat b * 256 ^ length bs + 256 ^ length bs \<le> 256 * 256 ^ length bs"
    by (simp only: add_mult_distrib mult_1)
  then show ?case using Cons by (simp only: be_nat.simps list.size power_Suc add_0_right add_Suc_right)
qed

lemma be_nat_append: "be_nat (xs @ ys) = be_nat xs * 256 ^ length ys + be_nat ys"
  by (induction xs) (simp_all add: power_add algebra_simps)

lemma be_nat_less_iff:
  "length xs = length ys \<Longrightarrow> be_nat xs < be_nat ys \<longleftrightarrow> xs < ys"
proof (induction xs ys rule: list_induct2)
  case Nil
  then show ?case by simp
next
  case (Cons x xs y ys)
  have bx: "be_nat xs < 256 ^ length ys" and b_y: "be_nat ys < 256 ^ length ys"
    using be_nat_bound [of xs] be_nat_bound [of ys] Cons.hyps by simp_all
  consider "unat x < unat y" | "unat x = unat y" | "unat y < unat x" by linarith
  then show ?case
  proof cases
    case 1
    then have "unat x * 256 ^ length ys + 256 ^ length ys \<le> unat y * 256 ^ length ys"
      by (metis Suc_leI add.commute mult_Suc mult_le_mono1)
    then show ?thesis using 1 bx Cons.hyps by (simp add: word_less_nat_alt)
  next
    case 2
    then show ?thesis using Cons by (simp add: word_less_nat_alt word_unat_eq_iff)
  next
    case 3
    then have "unat y * 256 ^ length ys + 256 ^ length ys \<le> unat x * 256 ^ length ys"
      by (metis Suc_leI add.commute mult_Suc mult_le_mono1)
    moreover have "x \<noteq> y" "\<not> x < y" using 3 by (auto simp: word_less_nat_alt)
    ultimately show ?thesis using b_y Cons.hyps by simp
  qed
qed

section \<open>Word arithmetic of the increment\<close>

lemma word8_less: "unat (x :: u8) < 256"
  using unsigned_less [of x, where 'a = nat] by simp

lemma sum16: "unat (ucast (x :: u8) + 1 :: 16 word) = unat x + 1"
proof -
  have "unat (ucast x :: 16 word) = unat x" using word8_less [of x]
    by (simp add: unsigned_ucast_eq take_bit_nat_eq_self_iff)
  then show ?thesis using word8_less [of x] by (simp add: unat_word_ariths)
qed

lemma mask_consts:
  "(0xFF :: 16 word) = mask 8" "(0x3F :: 8 word) = mask 6" "(0x3F :: 16 word) = mask 6"
  "(0x0F :: 8 word) = mask 4" "(0x0F :: 16 word) = mask 4"
  "(0xC0 :: 8 word) = NOT (mask 6)" "(0xF0 :: 8 word) = NOT (mask 4)"
  by (simp_all add: mask_eq_exp_minus_1)

lemma low_byte: "unat (ucast (s AND 0xFF :: 16 word) :: u8) = unat s mod 256"
  unfolding mask_consts(1) take_bit_eq_mask [symmetric]
  by (simp add: unsigned_ucast_eq unsigned_take_bit_eq take_bit_eq_mod [where 'a = nat])

lemma carry_out: "unat (drop_bit n (s :: 16 word)) = unat s div 2 ^ n"
  by (simp add: unat_drop_bit_eq drop_bit_eq_div [where 'a = nat])

lemma low_bits: "unat (x AND 0x3F :: u8) = unat x mod 64" "unat (x AND 0x0F :: u8) = unat x mod 16"
  unfolding mask_consts take_bit_eq_mask [symmetric]
  by (simp_all add: unsigned_take_bit_eq take_bit_eq_mod [where 'a = nat])

text \<open>Replacing the low six, or four, bits of a byte.\<close>

lemma set_low_bits6:
  "((x AND 0xC0) OR ucast (s AND 0x3F :: 16 word)) AND 0x3F = (ucast (s AND 0x3F) :: u8)"
  "((x AND 0xC0) OR ucast (s AND 0x3F :: 16 word)) AND 0xC0 = (x AND 0xC0 :: u8)"
  unfolding mask_consts by (auto intro!: bit_word_eqI simp: bit_simps)

lemma set_low_bits4:
  "((x AND 0xF0) OR ucast (s AND 0x0F :: 16 word)) AND 0x0F = (ucast (s AND 0x0F) :: u8)"
  "((x AND 0xF0) OR ucast (s AND 0x0F :: 16 word)) AND 0xF0 = (x AND 0xF0 :: u8)"
  unfolding mask_consts by (auto intro!: bit_word_eqI simp: bit_simps)

lemma low_bits16:
  "unat (ucast (s AND 0x3F :: 16 word) :: u8) = unat s mod 64"
  "unat (ucast (s AND 0x0F :: 16 word) :: u8) = unat s mod 16"
  unfolding mask_consts take_bit_eq_mask [symmetric]
  by (simp_all add: unsigned_ucast_eq unsigned_take_bit_eq take_bit_eq_mod [where 'a = nat] mod_mod_cancel)

section \<open>The increment adds one\<close>

lemma carry_is_one: "unat (c :: 16 word) \<le> 1 \<Longrightarrow> c \<noteq> 0 \<Longrightarrow> c = 1"
  by (metis One_nat_def le_SucE le_zero_eq unat_1 unat_eq_zero word_unat_eq_iff)

text \<open>One byte with a carry of one.\<close>

lemma carry_step:
  "carry_loop [i] 1 b = (b[i := ucast ((ucast (b ! i) + 1 :: 16 word) AND 0xFF)],
     drop_bit 8 (ucast (b ! i) + 1))"
  by (simp add: Let_def)

lemma carry_loop_snoc:
  "c \<noteq> 0 \<Longrightarrow> carry_loop (is @ [j]) c b =
     (case carry_loop is c b of (b', c') \<Rightarrow> if c' = 0 then (b', 0) else carry_loop [j] c' b')"
  by (induction "is" arbitrary: c b) (simp_all add: Let_def)

lemma be_nat_drop:
  "length b = 16 \<Longrightarrow> j < 16 \<Longrightarrow> be_nat (drop j b) = unat (b ! j) * 256 ^ (15 - j) + be_nat (drop (Suc j) b)"
  by (subst Cons_nth_drop_Suc [symmetric]) simp_all

lemma carry_byte:
  assumes "length b1 = 16" "j < 16"
    and "b1 ! j = b ! j" "be_nat (drop (Suc j) b1) + 256 ^ (15 - j) = be_nat (drop (Suc j) b) + 1"
    and "carry_loop [j] 1 b1 = (b', c)" "length b = 16"
  shows "unat c \<le> 1 \<and> be_nat (drop j b') + unat c * 256 ^ (16 - j) = be_nat (drop j b) + 1"
proof -
  let ?s = "ucast (b ! j) + 1 :: 16 word"
  have b': "b' = b1[j := ucast (?s AND 0xFF)]" and c: "c = drop_bit 8 ?s"
    using assms(3,5) carry_step [of j b1] by simp_all
  have uc: "unat c = (unat (b ! j) + 1) div 256" by (simp add: c carry_out sum16)
  have ub: "unat (b' ! j) = (unat (b ! j) + 1) mod 256" using assms(1,2) by (simp add: b' low_byte sum16)
  have "drop (Suc j) b' = drop (Suc j) b1" by (simp add: b')
  then have d': "be_nat (drop j b') = unat (b' ! j) * 256 ^ (15 - j) + be_nat (drop (Suc j) b1)"
    using be_nat_drop [of b' j] assms(1,2) by (simp add: b')
  have pow: "256 ^ (16 - j) = 256 * (256 :: nat) ^ (15 - j)"
  proof -
    have "16 - j = Suc (15 - j)" using assms(2) by simp
    then show ?thesis by (simp only: power_Suc)
  qed
  have "be_nat (drop j b') + unat c * 256 ^ (16 - j)
      = (unat (b' ! j) + 256 * unat c) * 256 ^ (15 - j) + be_nat (drop (Suc j) b1)"
    by (simp add: d' pow algebra_simps)
  also have "unat (b' ! j) + 256 * unat c = unat (b ! j) + 1" by (simp add: ub uc)
  finally have "be_nat (drop j b') + unat c * 256 ^ (16 - j) = be_nat (drop j b) + 1"
    using assms(4) be_nat_drop [OF assms(6,2)] by simp
  moreover have "unat c \<le> 1" using word8_less [of "b ! j"] by (simp add: uc)
  ultimately show ?thesis by blast
qed

lemma carry_loop_adds_one:
  assumes "length b = 16" "n \<le> 16" "carry_loop (rev [16 - n..<16]) 1 b = (b', c)"
  shows "length b' = 16 \<and> take (16 - n) b' = take (16 - n) b \<and> unat c \<le> 1 \<and>
    be_nat (drop (16 - n) b') + unat c * 256 ^ n = be_nat (drop (16 - n) b) + 1"
  using assms(2,3)
proof (induction n arbitrary: b' c)
  case 0
  then show ?case using assms(1) by simp
next
  case (Suc n)
  let ?j = "16 - Suc n"
  have j: "?j < 16" "Suc ?j = 16 - n" using Suc.prems(1) by simp_all
  have "[?j..<16] = ?j # [16 - n..<16]" using j upt_conv_Cons [of ?j 16] by simp
  then have "rev [?j..<16] = rev [16 - n..<16] @ [?j]" by simp
  moreover obtain b1 c1 where b1: "carry_loop (rev [16 - n..<16]) 1 b = (b1, c1)" by fastforce
  ultimately have res: "(if c1 = 0 then (b1, 0) else carry_loop [?j] c1 b1) = (b', c)"
    using Suc.prems(2) by (auto simp: carry_loop_snoc simp del: carry_loop.simps split: if_splits)
  have IH: "length b1 = 16" "take (Suc ?j) b1 = take (Suc ?j) b" "unat c1 \<le> 1"
    "be_nat (drop (Suc ?j) b1) + unat c1 * 256 ^ n = be_nat (drop (Suc ?j) b) + 1"
    using Suc.IH [OF _ b1] Suc.prems(1) unfolding j(2) by simp_all
  have nth: "b1 ! ?j = b ! ?j" using IH(2) by (metis lessI nth_take)
  have take: "take ?j b1 = take ?j b" using IH(2) by (metis min.absorb1 le_add2 plus_1_eq_Suc take_take)
  show ?case
  proof (cases "c1 = 0")
    case True
    then have "b' = b1" "c = 0" using res by simp_all
    then show ?thesis
      using IH take nth True be_nat_drop [OF IH(1) j(1)] be_nat_drop [OF assms(1) j(1)] by simp
  next
    case False
    then have c1: "c1 = 1" using IH(3) carry_is_one by blast
    then have step: "carry_loop [?j] 1 b1 = (b', c)" using res False by simp
    have "n = 15 - ?j" using Suc.prems(1) by simp
    then have "be_nat (drop (Suc ?j) b1) + 256 ^ (15 - ?j) = be_nat (drop (Suc ?j) b) + 1"
      using IH(4) c1 by simp
    from carry_byte [OF IH(1) j(1) nth this step assms(1)]
    have "unat c \<le> 1 \<and> be_nat (drop ?j b') + unat c * 256 ^ Suc n = be_nat (drop ?j b) + 1"
      using Suc.prems(1) by simp
    moreover have "length b' = 16 \<and> take ?j b' = take ?j b"
      using step carry_step [of ?j b1] IH(1) take by auto
    ultimately show ?thesis by blast
  qed
qed

text \<open>The 74 free bits as a number, and the bits around them.\<close>

definition tail74 :: "uuid \<Rightarrow> nat" where
  "tail74 b = ((unat (b ! 6 AND 0x0F) * 256 + unat (b ! 7)) * 64 + unat (b ! 8 AND 0x3F)) * 256 ^ 7
     + be_nat (drop 9 b)"

definition frame74 :: "uuid \<Rightarrow> u8 list \<times> u8 \<times> u8" where
  "frame74 b = (take 6 b, b ! 6 AND 0xF0, b ! 8 AND 0xC0)"

text \<open>The masked bytes 8, 7 and 6, with a carry of one out of byte 9.\<close>

lemma drop_bit_zero_iff: "drop_bit n (s :: 16 word) = 0 \<longleftrightarrow> unat s div 2 ^ n = 0"
  by (metis carry_out unat_eq_zero)

lemma carry_one:
  fixes s :: "16 word"
  assumes "unat s \<le> 2 ^ n" "drop_bit n s \<noteq> 0"
  shows "drop_bit n s = 1" "unat s = 2 ^ n"
proof -
  have "2 ^ n \<le> unat s" using assms(2) by (simp add: drop_bit_zero_iff div_eq_0_iff)
  then show *: "unat s = 2 ^ n" using assms(1) by simp
  then have "unat (drop_bit n s) = 1" by (simp add: carry_out)
  then show "drop_bit n s = 1" by (simp add: word_unat_eq_iff)
qed

lemma incrementUUIDv7Tail_adds_one:
  assumes len: "length b = 16" and room: "tail74 b < 2 ^ 74 - 1"
  shows "length (incrementUUIDv7Tail rnd b) = 16 \<and> frame74 (incrementUUIDv7Tail rnd b) = frame74 b \<and>
    tail74 (incrementUUIDv7Tail rnd b) = tail74 b + 1"
proof -
  have idx: "[15, 14, 13, 12, 11, 10, 9] = rev [16 - 7..<16 :: nat]" by code_simp
  obtain b1 c where loop: "carry_loop [15, 14, 13, 12, 11, 10, 9] 1 b = (b1, c)" by fastforce
  have b1: "length b1 = 16" "take 9 b1 = take 9 b" "unat c \<le> 1"
    "be_nat (drop 9 b1) + unat c * 256 ^ 7 = be_nat (drop 9 b) + 1"
    using carry_loop_adds_one [OF len, of 7 b1 c] loop unfolding idx by simp_all
  have nth: "b1 ! i = b ! i" if "i < 9" for i using b1(2) that by (metis nth_take)
  have take6: "take 6 b1 = take 6 b"
    using arg_cong [OF b1(2), of "take 6"] by simp
  show ?thesis
  proof (cases "c = 0")
    case True
    then show ?thesis
      using b1 nth take6
      by (simp add: incrementUUIDv7Tail_def loop tail74_def frame74_def del: carry_loop.simps)
  next
    case False
    then have c: "c = 1" using b1(3) carry_is_one by blast
    define s8 where "s8 = (ucast (b1 ! 8 AND 0x3F) + 1 :: 16 word)"
    define b2 where "b2 = b1[8 := (b1 ! 8 AND 0xC0) OR ucast (s8 AND 0x3F)]"
    define s7 where "s7 = (ucast (b2 ! 7) + 1 :: 16 word)"
    define b3 where "b3 = b2[7 := ucast (s7 AND 0xFF)]"
    define s6 where "s6 = (ucast (b3 ! 6 AND 0x0F) + 1 :: 16 word)"
    define b4 where "b4 = b3[6 := (b3 ! 6 AND 0xF0) OR ucast (s6 AND 0x0F)]"
    have u8: "unat s8 = unat (b ! 8) mod 64 + 1" by (simp add: s8_def sum16 low_bits nth)
    have u7: "unat s7 = unat (b ! 7) + 1" by (simp add: s7_def sum16 b2_def nth)
    have u6: "unat s6 = unat (b ! 6) mod 16 + 1"
      by (simp add: s6_def sum16 low_bits b3_def b2_def nth)
    have le: "unat s8 \<le> 2 ^ 6" "unat s7 \<le> 2 ^ 8" "unat s6 \<le> 2 ^ 4"
      using word8_less [of "b ! 7"] unfolding u8 u7 u6 by simp_all
    have t: "be_nat (drop 9 b1) + 256 ^ 7 = be_nat (drop 9 b) + 1" using b1(4) c by simp
    have "drop_bit 4 s6 = 0" if "drop_bit 6 s8 \<noteq> 0" "drop_bit 8 s7 \<noteq> 0"
    proof (rule ccontr)
      assume "drop_bit 4 s6 \<noteq> 0"
      then have "unat (b ! 6) mod 16 = 15" "unat (b ! 7) = 255" "unat (b ! 8) mod 64 = 63"
        using carry_one(2) [OF le(1) that(1)] carry_one(2) [OF le(2) that(2)] carry_one(2) [OF le(3)]
        by (simp_all add: u8 u7 u6)
      then show False using room t by (simp add: tail74_def low_bits)
    qed
    note no_wrap = this
    note fold_defs = s8_def [symmetric] b2_def [symmetric] s7_def [symmetric] b3_def [symmetric]
      s6_def [symmetric] b4_def [symmetric]
    have inc: "incrementUUIDv7Tail rnd b =
      (if drop_bit 6 s8 = 0 then b2 else if drop_bit 8 s7 = 0 then b3 else b4)"
    proof (cases "drop_bit 6 s8 = 0")
      case True
      then show ?thesis unfolding incrementUUIDv7Tail_def loop c by (simp add: Let_def fold_defs)
    next
      case False
      note e8 = carry_one(1) [OF le(1) False]
      show ?thesis
      proof (cases "drop_bit 8 s7 = 0")
        case True
        then show ?thesis unfolding incrementUUIDv7Tail_def loop c by (simp add: Let_def fold_defs e8)
      next
        case f7: False
        note e7 = carry_one(1) [OF le(2) f7]
        show ?thesis using no_wrap [OF False f7] unfolding incrementUUIDv7Tail_def loop c
          by (simp add: Let_def fold_defs e8 e7)
      qed
    qed
    have "tail74 b2 = tail74 b + 1" if "drop_bit 6 s8 = 0"
    proof -
      have "unat (b ! 8) mod 64 + 1 < 64" using that by (simp add: drop_bit_zero_iff div_eq_0_iff u8)
      then show ?thesis using t
        by (simp add: tail74_def b2_def b1 nth set_low_bits6 low_bits low_bits16 u8 algebra_simps)
    qed
    moreover have "tail74 b3 = tail74 b + 1" if "drop_bit 6 s8 \<noteq> 0" "drop_bit 8 s7 = 0"
    proof -
      have "unat (b ! 7) + 1 < 256" using that(2) by (simp add: drop_bit_zero_iff div_eq_0_iff u7)
      moreover have "unat (b ! 8) mod 64 = 63" using carry_one(2) [OF le(1) that(1)] by (simp add: u8)
      ultimately show ?thesis using t
        by (simp add: tail74_def b3_def b2_def b1 nth set_low_bits6 low_bits low_bits16 low_byte u8 u7)
    qed
    moreover have "tail74 b4 = tail74 b + 1"
      if "drop_bit 6 s8 \<noteq> 0" "drop_bit 8 s7 \<noteq> 0" "drop_bit 4 s6 = 0"
    proof -
      have "unat (b ! 6) mod 16 + 1 < 16" using that(3) by (simp add: drop_bit_zero_iff div_eq_0_iff u6)
      moreover have "unat (b ! 7) = 255" "unat (b ! 8) mod 64 = 63"
        using carry_one(2) [OF le(1) that(1)] carry_one(2) [OF le(2) that(2)] by (simp_all add: u8 u7)
      ultimately show ?thesis using t
        by (simp add: tail74_def b4_def b3_def b2_def b1 nth set_low_bits6 set_low_bits4 low_bits
            low_bits16 low_byte u8 u7 u6)
    qed
    moreover have "frame74 b2 = frame74 b" "frame74 b3 = frame74 b" "frame74 b4 = frame74 b"
      using take6 by (simp_all add: frame74_def b4_def b3_def b2_def b1 nth set_low_bits6 set_low_bits4)
    moreover have "length b2 = 16" "length b3 = 16" "length b4 = 16"
      by (simp_all add: b4_def b3_def b2_def b1)
    ultimately show ?thesis using no_wrap unfolding inc by auto
  qed
qed

section \<open>The printed form orders as the bytes do\<close>

text \<open>\<open>formatUUID\<close> byte by byte: a dash goes before bytes 4, 6, 8 and 10.\<close>

fun fmt_from :: "nat \<Rightarrow> u8 list \<Rightarrow> string" where
  "fmt_from i [] = []"
| "fmt_from i (b # bs) = (if i \<in> {4, 6, 8, 10} then ''-'' else []) @ hex_byte b @ fmt_from (Suc i) bs"

lemma length_16_conv:
  "length b = 16 \<Longrightarrow> \<exists>b0 b1 b2 b3 b4 b5 b6 b7 b8 b9 b10 b11 b12 b13 b14 b15.
     b = [b0, b1, b2, b3, b4, b5, b6, b7, b8, b9, b10, b11, b12, b13, b14, b15]"
  by (auto simp: length_Suc_conv numeral_eq_Suc)

lemma formatUUID_fmt: "length b = 16 \<Longrightarrow> formatUUID b = fmt_from 0 b"
  by (drule length_16_conv, elim exE) (simp add: formatUUID_def hex_byte_def)

lemma formatUUID_length: "length b = 16 \<Longrightarrow> length (formatUUID b) = 36"
  by (drule length_16_conv, elim exE) (simp add: formatUUID_def hex_byte_def)

lemma hex_digit_mono: "i < j \<Longrightarrow> j < 16 \<Longrightarrow> hex_digit i < hex_digit j"
proof -
  have "\<forall>j \<in> {0..<16}. \<forall>i \<in> {0..<j}. hex_digit i < hex_digit j" unfolding hex_digit_def by code_simp
  then show "i < j \<Longrightarrow> j < 16 \<Longrightarrow> hex_digit i < hex_digit j" by simp
qed

lemma hex_byte_mono:
  assumes "x < y"
  shows "hex_byte x @ r < hex_byte y @ r'"
proof -
  have u: "unat x < unat y" "unat y < 256" using assms word8_less by (simp_all add: word_less_nat_alt)
  then consider "unat x div 16 < unat y div 16"
    | "unat x div 16 = unat y div 16" "unat x mod 16 < unat y mod 16"
    by (metis div_le_mono div_mult_mod_eq le_neq_implies_less less_imp_le nat_add_left_cancel_less)
  then show ?thesis
  proof cases
    case 1
    then show ?thesis using u hex_digit_mono [OF 1] by (simp add: hex_byte_def)
  next
    case 2
    then show ?thesis using hex_digit_mono [OF 2(2)] by (simp add: hex_byte_def)
  qed
qed

lemma append_less_cancel: "(zs @ xs :: 'a :: linorder list) < zs @ ys \<longleftrightarrow> xs < ys"
  by (induction zs) simp_all

lemma fmt_from_mono: "length xs = length ys \<Longrightarrow> xs < ys \<Longrightarrow> fmt_from i xs < fmt_from i ys"
proof (induction xs ys arbitrary: i rule: list_induct2)
  case Nil
  then show ?case by simp
next
  case (Cons x xs y ys)
  show ?case
  proof (cases "x = y")
    case True
    then show ?thesis using Cons by (simp add: append_less_cancel)
  next
    case False
    then have "x < y" using Cons.prems by simp
    then show ?thesis using hex_byte_mono by (simp add: append_less_cancel)
  qed
qed

lemma formatUUID_less:
  "length a = 16 \<Longrightarrow> length b = 16 \<Longrightarrow> be_nat a < be_nat b \<Longrightarrow> formatUUID a < formatUUID b"
  by (simp add: formatUUID_fmt be_nat_less_iff fmt_from_mono)

section \<open>Ids increase\<close>

lemma unat_mask_split: "unat (x :: u8) = unat (x AND NOT w) + unat (x AND w)"
proof -
  have "(x AND NOT w) + (x AND w) = (x AND NOT w) OR (x AND w)"
    by (rule disjunctive_add_eq_or, rule bit_eqI) (simp add: bit_simps)
  also have "\<dots> = x" by (rule bit_eqI) (auto simp: bit_simps)
  finally show ?thesis by (metis unat_plus_simple word_and_le2)
qed

lemmas byte_split = unat_mask_split [where w = "mask 4", folded mask_consts]
  unat_mask_split [where w = "mask 6", folded mask_consts]

lemma be_nat_parts:
  assumes "length b = 16"
  shows "be_nat b = be_nat (take 6 b) * 256 ^ 10 + unat (b ! 6) * 256 ^ 9 + unat (b ! 7) * 256 ^ 8
    + unat (b ! 8) * 256 ^ 7 + be_nat (drop 9 b)"
proof -
  have "be_nat b = be_nat (take 6 b) * 256 ^ 10 + be_nat (drop 6 b)"
    using be_nat_append [of "take 6 b" "drop 6 b"] assms by simp
  then show ?thesis using be_nat_drop [of b 6] be_nat_drop [of b 7] be_nat_drop [of b 8] assms by simp
qed

lemma head_order:
  assumes "length a = 16" "length b = 16" "be_nat (take 6 a) < be_nat (take 6 b)"
  shows "be_nat a < be_nat b"
proof -
  have "be_nat x = be_nat (take 6 x) * 256 ^ 10 + be_nat (drop 6 x)" if "length x = 16" for x
    using be_nat_append [of "take 6 x" "drop 6 x"] that by simp
  then show ?thesis using assms be_nat_bound [of "drop 6 a"] by simp
qed

lemma tail_order:
  assumes "length a = 16" "length b = 16" "frame74 a = frame74 b" "tail74 a < tail74 b"
  shows "be_nat a < be_nat b"
proof -
  define ua va ub vb where d:
    "ua = unat (a ! 6 AND 0x0F) * 256 + unat (a ! 7)"
    "va = unat (a ! 8 AND 0x3F) * 256 ^ 7 + be_nat (drop 9 a)"
    "ub = unat (b ! 6 AND 0x0F) * 256 + unat (b ! 7)"
    "vb = unat (b ! 8 AND 0x3F) * 256 ^ 7 + be_nat (drop 9 b)"
  have v: "va < 64 * 256 ^ 7" "vb < 64 * 256 ^ 7"
    using be_nat_bound [of "drop 9 a"] be_nat_bound [of "drop 9 b"] assms(1,2)
      mod_less_divisor [of 64 "unat (a ! 8)"] mod_less_divisor [of 64 "unat (b ! 8)"]
    by (simp_all add: d low_bits)
  have t: "tail74 a = ua * (64 * 256 ^ 7) + va" "tail74 b = ub * (64 * 256 ^ 7) + vb"
    by (simp_all add: tail74_def d)
  have f: "take 6 a = take 6 b" "a ! 6 AND 0xF0 = b ! 6 AND 0xF0" "a ! 8 AND 0xC0 = b ! 8 AND 0xC0"
    using assms(3) by (simp_all add: frame74_def)
  define h where "h = be_nat (take 6 b) * 256 ^ 10 + unat (b ! 6 AND 0xF0) * 256 ^ 9
    + unat (b ! 8 AND 0xC0) * 256 ^ 7"
  have n: "be_nat a = h + ua * 256 ^ 8 + va" "be_nat b = h + ub * 256 ^ 8 + vb"
    using be_nat_parts [OF assms(1)] be_nat_parts [OF assms(2)] byte_split(1) [of "a ! 6"]
      byte_split(2) [of "a ! 8"] byte_split(1) [of "b ! 6"] byte_split(2) [of "b ! 8"]
    by (simp_all add: h_def d f)
  have "ua < ub \<or> ua = ub \<and> va < vb"
    using assms(4) v unfolding t by (cases ua ub rule: linorder_cases) simp_all
  then show ?thesis using v unfolding n by auto
qed

text \<open>The timestamp of an id, and the bytes \<open>PutUint64\<close> writes.\<close>

lemma last_ms:
  assumes "length b = 16"
  shows "unat (drop_bit 16 (be_uint64 (take 8 b))) = be_nat (take 6 b)"
proof -
  have "be_nat (take 8 b) < 2 ^ 64" using be_nat_bound [of "take 8 b"] assms by simp
  then have u: "unat (be_uint64 (take 8 b)) = be_nat (take 8 b)"
    by (simp add: be_uint64_def unat_of_nat)
  have "take 8 b = take 6 b @ take 2 (drop 6 b)" by (simp add: take_add [of 6 2, simplified])
  then have "be_nat (take 8 b) = be_nat (take 6 b) * 65536 + be_nat (take 2 (drop 6 b))"
    using be_nat_append [of "take 6 b" "take 2 (drop 6 b)"] assms by simp
  moreover have "be_nat (take 2 (drop 6 b)) < 65536"
    using be_nat_bound [of "take 2 (drop 6 b)"] assms by simp
  ultimately have "be_nat (take 8 b) div 65536 = be_nat (take 6 b)" by simp
  then show ?thesis by (simp add: unat_drop_bit_eq u drop_bit_eq_div [where 'a = nat])
qed

lemma be_nat_digits:
  "be_nat (map (\<lambda>i. of_nat (n div 256 ^ (k - 1 - i))) [0..<k]) = n mod 256 ^ k"
proof (induction k arbitrary: n)
  case 0
  then show ?case by simp
next
  case (Suc k)
  have shift: "map (\<lambda>i. of_nat (n div 256 ^ (Suc k - 1 - i)) :: u8) [0..<Suc k]
      = map (\<lambda>i. of_nat (n div 256 div 256 ^ (k - 1 - i))) [0..<k] @ [of_nat n]"
  proof -
    have "n div 256 ^ (k - i) = n div 256 div 256 ^ (k - 1 - i)" if "i < k" for i
    proof -
      have "k - i = Suc (k - 1 - i)" using that by simp
      then show ?thesis by (simp only: power_Suc div_mult2_eq)
    qed
    then show ?thesis by simp
  qed
  have "be_nat (map (\<lambda>i. of_nat (n div 256 ^ (Suc k - 1 - i)) :: u8) [0..<Suc k])
      = (n div 256 mod 256 ^ k) * 256 + n mod 256"
    using Suc.IH [of "n div 256"] unfolding shift by (simp add: be_nat_append unat_of_nat)
  also have "\<dots> = n mod 256 ^ Suc k" by (simp add: mod_mult2_eq [of n 256 "256 ^ k"] mult.commute)
  finally show ?case .
qed

lemma put_ms:
  assumes m: "unat ms < 2 ^ 48"
  shows "be_nat (take 6 (put_uint64 (push_bit 16 ms))) = unat ms"
proof -
  have "unat (push_bit 16 ms) = unat ms * 2 ^ 16"
    using m by (simp add: push_bit_eq_mult unat_word_ariths)
  then have b: "ucast (drop_bit (8 * (7 - i)) (push_bit 16 ms)) = (of_nat (unat ms div 256 ^ (5 - i)) :: u8)"
    if "i < 6" for i
  proof -
    have e: "(2 :: nat) ^ (8 * (7 - i)) = 2 ^ 16 * 256 ^ (5 - i)"
    proof -
      have "8 * (7 - i) = 16 + 8 * (5 - i)" using that by simp
      then show ?thesis by (simp only: power_add power_mult) simp
    qed
    have "unat (drop_bit (8 * (7 - i)) (push_bit 16 ms)) = unat ms * 2 ^ 16 div 2 ^ (8 * (7 - i))"
      using \<open>unat (push_bit 16 ms) = _\<close> by (simp add: unat_drop_bit_eq drop_bit_eq_div [where 'a = nat])
    also have "\<dots> = unat ms div 256 ^ (5 - i)" unfolding e by simp
    finally show ?thesis by (simp add: word_unat_eq_iff unsigned_ucast_eq unat_of_nat take_bit_eq_mod [where 'a = nat])
  qed
  have "take 6 (put_uint64 (push_bit 16 ms)) = map (\<lambda>i. of_nat (unat ms div 256 ^ (6 - 1 - i))) [0..<6]"
    unfolding put_uint64_def by (simp add: take_map b)
  then show ?thesis using be_nat_digits [of "unat ms" 6] m by simp
qed

text \<open>Version 7 and the RFC 4122 variant.\<close>

definition id_ok :: "uuid \<Rightarrow> bool" where
  "id_ok b \<longleftrightarrow> length b = 16 \<and> b ! 6 AND 0xF0 = 0x70 \<and> b ! 8 AND 0xC0 = 0x80"

definition state_ok :: "uuid_state \<Rightarrow> bool" where
  "state_ok st \<longleftrightarrow> (uuidv7HasLast st \<longrightarrow> id_ok (uuidv7Last st))"

text \<open>\<open>rand.Read\<close> fills the ten bytes it is given, or fails.\<close>

definition rnd_ok :: "u8 list option \<Rightarrow> bool" where
  "rnd_ok rnd \<longleftrightarrow> (case rnd of None \<Rightarrow> True | Some r \<Rightarrow> 10 \<le> length r)"

lemma marker_bits:
  "((x AND 0x0F) OR 0x70) AND 0xF0 = (0x70 :: u8)" "((x AND 0x3F) OR 0x80) AND 0xC0 = (0x80 :: u8)"
  "(0x80 OR ucast (s AND 0x3F :: 16 word)) AND 0xC0 = (0x80 :: u8)"
  "(0x70 OR ucast (s AND 0x0F :: 16 word)) AND 0xF0 = (0x70 :: u8)"
  using set_low_bits6(2) [where x = "0x80" and s = s] set_low_bits4(2) [where x = "0x70" and s = s]
  by (simp_all add: bit.conj_disj_distrib2 and.assoc)

lemma incrementUUIDv7Tail_ok:
  assumes "id_ok b" "rnd_ok rnd"
  shows "id_ok (incrementUUIDv7Tail rnd b)"
proof -
  have idx: "[15, 14, 13, 12, 11, 10, 9] = rev [16 - 7..<16 :: nat]" by code_simp
  obtain b1 c where loop: "carry_loop [15, 14, 13, 12, 11, 10, 9] 1 b = (b1, c)" by fastforce
  have len: "length b = 16" using assms(1) by (simp add: id_ok_def)
  have b1: "length b1 = 16" "take 9 b1 = take 9 b"
    using carry_loop_adds_one [OF len, of 7 b1 c] loop unfolding idx by simp_all
  have "b1 ! i = b ! i" if "i < 9" for i using b1(2) that by (metis nth_take)
  then have ok: "b1 ! 6 AND 0xF0 = 0x70" "b1 ! 8 AND 0xC0 = 0x80"
    using assms(1) by (simp_all add: id_ok_def)
  show ?thesis
    unfolding incrementUUIDv7Tail_def loop using assms(2)
    by (auto simp: Let_def id_ok_def b1(1) ok set_low_bits6 set_low_bits4 marker_bits rnd_ok_def
        nth_append split: option.splits)
qed

text \<open>One call: the id is well formed and, with room in the tail, larger than the last one.\<close>

lemma newUUIDv7_fresh:
  fixes ms :: "64 word" and r :: "u8 list"
  assumes "10 \<le> length r"
  defines "b0 \<equiv> take 6 (put_uint64 (push_bit 16 ms)) @ take 10 r"
  defines "b \<equiv> b0[6 := (b0 ! 6 AND 0x0F) OR 0x70, 8 := (b0 ! 8 AND 0x3F) OR 0x80]"
  shows "id_ok b" "take 6 b = take 6 (put_uint64 (push_bit 16 ms))"
proof -
  have "length (put_uint64 v) = 8" for v by (simp add: put_uint64_def)
  then have "length b0 = 16" using assms(1) by (simp add: b0_def)
  then show "id_ok b" by (simp add: b_def id_ok_def marker_bits)
  show "take 6 b = take 6 (put_uint64 (push_bit 16 ms))"
    using \<open>\<And>v. length (put_uint64 v) = 8\<close> by (simp add: b_def b0_def)
qed

lemma newUUIDv7_ok:
  assumes "state_ok st" "rnd_ok rnd" "newUUIDv7 ms rnd st = (Inr i, st')"
  shows "uuidv7HasLast st' \<and> id_ok (uuidv7Last st') \<and> i = formatUUID (uuidv7Last st')"
  using assms incrementUUIDv7Tail_ok newUUIDv7_fresh(1)
  by (fastforce simp: newUUIDv7_def Let_def state_ok_def rnd_ok_def split: if_splits option.splits)

text \<open>The increment is taken while the clock does not advance; it needs a free value of the tail.\<close>

definition tail_room :: "64 word \<Rightarrow> uuid_state \<Rightarrow> bool" where
  "tail_room ms st \<longleftrightarrow>
     (uuidv7HasLast st \<and> unat ms \<le> be_nat (take 6 (uuidv7Last st)) \<longrightarrow>
        tail74 (uuidv7Last st) < 2 ^ 74 - 1)"

lemma newUUIDv7_less:
  assumes ok: "state_ok st" "rnd_ok rnd" and last: "uuidv7HasLast st"
    and ms: "unat ms < 2 ^ 48" "tail_room ms st" and res: "newUUIDv7 ms rnd st = (Inr i, st')"
  shows "formatUUID (uuidv7Last st) < i"
proof -
  have idok: "id_ok (uuidv7Last st)" "id_ok (uuidv7Last st')" and i: "i = formatUUID (uuidv7Last st')"
    using ok last newUUIDv7_ok [OF ok res] by (simp_all add: state_ok_def)
  then have len: "length (uuidv7Last st) = 16" "length (uuidv7Last st') = 16"
    by (simp_all add: id_ok_def)
  have cond: "ms \<le> drop_bit 16 (be_uint64 (take 8 (uuidv7Last st)))
      \<longleftrightarrow> unat ms \<le> be_nat (take 6 (uuidv7Last st))"
    using last_ms [OF len(1)] by (simp add: word_le_nat_alt)
  have "be_nat (uuidv7Last st) < be_nat (uuidv7Last st')"
  proof (cases "unat ms \<le> be_nat (take 6 (uuidv7Last st))")
    case True
    then have "uuidv7Last st' = incrementUUIDv7Tail rnd (uuidv7Last st)"
      using res last by (auto simp: newUUIDv7_def cond Let_def)
    then show ?thesis
      using True ms(2) last len incrementUUIDv7Tail_adds_one [OF len(1), of rnd]
      by (intro tail_order) (simp_all add: tail_room_def)
  next
    case False
    then obtain r where "rnd = Some r" "take 6 (uuidv7Last st') = take 6 (put_uint64 (push_bit 16 ms))"
      using res last ok(2) newUUIDv7_fresh(2)
      by (fastforce simp: newUUIDv7_def cond Let_def rnd_ok_def split: option.splits)
    then have "be_nat (take 6 (uuidv7Last st)) < be_nat (take 6 (uuidv7Last st'))"
      using put_ms [OF ms(1)] False by simp
    then show ?thesis by (rule head_order [OF len])
  qed
  then show ?thesis unfolding i by (intro formatUUID_less len)
qed

section \<open>Runs of the generator\<close>

text \<open>A sequence of calls, each with its clock and its random bytes; a failed call gives no id.\<close>

fun newUUIDv7s ::
  "(64 word \<times> u8 list option) list \<Rightarrow> uuid_state \<Rightarrow> string list \<times> uuid_state" where
  "newUUIDv7s [] st = ([], st)"
| "newUUIDv7s ((ms, rnd) # calls) st =
     (let (res, st1) = newUUIDv7 ms rnd st;
          (ids, st2) = newUUIDv7s calls st1
      in (case res of Inl e \<Rightarrow> ids | Inr i \<Rightarrow> i # ids, st2))"

fun calls_ok :: "(64 word \<times> u8 list option) list \<Rightarrow> uuid_state \<Rightarrow> bool" where
  "calls_ok [] st \<longleftrightarrow> True"
| "calls_ok ((ms, rnd) # calls) st \<longleftrightarrow>
     unat ms < 2 ^ 48 \<and> rnd_ok rnd \<and> tail_room ms st \<and> calls_ok calls (snd (newUUIDv7 ms rnd st))"

lemma newUUIDv7_error_keeps: "newUUIDv7 ms rnd st = (Inl e, st') \<Longrightarrow> st' = st"
  by (auto simp: newUUIDv7_def Let_def split: if_splits option.splits)

lemma state_ok_init: "state_ok uuid_init"
  by (simp add: state_ok_def uuid_init_def)

lemma run_above_last:
  assumes "state_ok st" "calls_ok calls st"
  shows "sorted_wrt (<) (fst (newUUIDv7s calls st)) \<and>
    (uuidv7HasLast st \<longrightarrow> (\<forall>i \<in> set (fst (newUUIDv7s calls st)). formatUUID (uuidv7Last st) < i))"
  using assms
proof (induction calls arbitrary: st)
  case Nil
  then show ?case by simp
next
  case (Cons call calls)
  obtain ms rnd res st1 where call: "call = (ms, rnd)" and step: "newUUIDv7 ms rnd st = (res, st1)"
    by (metis prod.exhaust)
  have ok: "unat ms < 2 ^ 48" "rnd_ok rnd" "tail_room ms st" "calls_ok calls st1"
    using Cons.prems(2) by (simp_all add: call step)
  show ?case
  proof (cases res)
    case (Inl e)
    then have "st1 = st" using step newUUIDv7_error_keeps by blast
    then show ?thesis using Cons.IH [OF Cons.prems(1)] ok(4)
      by (simp add: call step Inl case_prod_beta)
  next
    case (Inr i)
    have st1: "uuidv7HasLast st1" "state_ok st1" "i = formatUUID (uuidv7Last st1)"
      using newUUIDv7_ok [OF Cons.prems(1) ok(2)] step Inr by (simp_all add: state_ok_def)
    have "formatUUID (uuidv7Last st) < i" if "uuidv7HasLast st"
      using newUUIDv7_less [OF Cons.prems(1) ok(2) that ok(1,3)] step Inr by blast
    then show ?thesis using Cons.IH [OF st1(2) ok(4)] st1
      by (fastforce simp: call step Inr case_prod_beta)
  qed
qed

lemma version_digit:
  assumes "id_ok b"
  shows "formatUUID b ! 14 = CHR ''7'' \<and> formatUUID b ! 19 \<in> set ''89ab''"
proof -
  have "unat (b ! 6) = 0x70 + unat (b ! 6) mod 16" "unat (b ! 8) = 0x80 + unat (b ! 8) mod 64"
    using assms byte_split(1) [of "b ! 6"] byte_split(2) [of "b ! 8"]
    by (simp_all add: id_ok_def low_bits)
  moreover have "n div 16 = 7" if "n = 0x70 + m" "m < 16" for n m :: nat using that by simp
  moreover have "n div 16 \<in> {8, 9, 10, 11}" if "n = 0x80 + m" "m < 64" for n m :: nat
  proof -
    have "8 \<le> n div 16" "n div 16 < 12"
      using that by (simp_all add: less_eq_div_iff_mult_less_eq div_less_iff_less_mult)
    then show ?thesis by auto
  qed
  ultimately have d: "unat (b ! 6) div 16 = 7" "unat (b ! 8) div 16 \<in> {8, 9, 10, 11}"
    by (metis mod_less_divisor zero_less_numeral)+
  have len: "length b = 16" using assms by (simp add: id_ok_def)
  have "formatUUID b ! 14 = hex_digit (unat (b ! 6) div 16)"
    "formatUUID b ! 19 = hex_digit (unat (b ! 8) div 16)"
    using length_16_conv [OF len] by (elim exE, simp add: formatUUID_def hex_byte_def)+
  then show ?thesis using d by (auto simp: hex_digit_def)
qed

section \<open>Properties\<close>

text \<open>C10. Event ids sort in the order in which they are generated: in every sequence of calls of
  \<open>newUUIDv7\<close>, whatever the clock does between them (stand still, jump back or forth) and with
  failed calls in between, the printed ids are strictly increasing as strings, and all above the
  last id issued before. It needs a clock below \<open>2^48\<close> milliseconds and, in each call that finds the
  clock not advanced, one free value in the 74-bit tail.\<close>

theorem event_ids_increase:
  assumes "state_ok st" "calls_ok calls st"
  shows "sorted_wrt (<) (fst (newUUIDv7s calls st)) \<and>
    (uuidv7HasLast st \<longrightarrow> (\<forall>i \<in> set (fst (newUUIDv7s calls st)). formatUUID (uuidv7Last st) < i))"
  using run_above_last [OF assms] .

definition ex_calls :: "(64 word \<times> u8 list option) list" where
  "ex_calls = [(5, None), (9, None), (2, Some (replicate 10 1))]"

definition ex_state :: uuid_state where
  "ex_state = \<lparr>uuidv7Last = [0, 0, 0, 0, 0, 5, 0x7F, 3, 0xBF] @ replicate 7 255, uuidv7HasLast = True\<rparr>"

theorem event_ids_increase_witness:
  "state_ok ex_state \<and> calls_ok ex_calls ex_state \<and> length (fst (newUUIDv7s ex_calls ex_state)) = 2 \<and>
   sorted_wrt (<) (fst (newUUIDv7s ex_calls ex_state))"
proof -
  have ok: "state_ok ex_state" "calls_ok ex_calls ex_state" by code_simp+
  moreover have "length (fst (newUUIDv7s ex_calls ex_state)) = 2" by code_simp
  ultimately show ?thesis using event_ids_increase [OF ok] by blast
qed

text \<open>C33. The increment of the last id, on bytes with carries, is the successor on the 74 free bits:
  timestamp, version nibble and variant bits stay, and the number the free bits spell grows by one,
  as long as it is not the largest one.\<close>

theorem increment_is_successor:
  assumes "length b = 16" "tail74 b < 2 ^ 74 - 1"
  shows "tail74 (incrementUUIDv7Tail rnd b) = tail74 b + 1 \<and>
    frame74 (incrementUUIDv7Tail rnd b) = frame74 b \<and> length (incrementUUIDv7Tail rnd b) = 16"
  using incrementUUIDv7Tail_adds_one [OF assms] by simp

theorem increment_is_successor_witness:
  "let b = [0, 0, 0, 0, 0, 5, 0x70, 255, 0xBF, 255, 255, 255, 255, 255, 255, 255]
   in incrementUUIDv7Tail None b = [0, 0, 0, 0, 0, 5, 0x71, 0, 0x80, 0, 0, 0, 0, 0, 0, 0] \<and>
      tail74 (incrementUUIDv7Tail None b) = tail74 b + 1"
proof -
  let ?b = "[0, 0, 0, 0, 0, 5, 0x70, 255, 0xBF, 255, 255, 255, 255, 255, 255, 255] :: uuid"
  have "length ?b = 16" "tail74 ?b < 2 ^ 74 - 1" by code_simp+
  from increment_is_successor [OF this, of None]
  have "tail74 (incrementUUIDv7Tail None ?b) = tail74 ?b + 1" by blast
  moreover have "incrementUUIDv7Tail None ?b = [0, 0, 0, 0, 0, 5, 0x71, 0, 0x80, 0, 0, 0, 0, 0, 0, 0]"
    by code_simp
  ultimately show ?thesis unfolding Let_def by blast
qed

text \<open>C34. Every id the generator returns, also after a wrap of the tail, is the canonical 36
  characters of a UUID of version 7 with the RFC 4122 variant, and it is the id of the state kept
  for the next call.\<close>

theorem event_ids_well_formed:
  assumes "state_ok st" "rnd_ok rnd" "newUUIDv7 ms rnd st = (Inr i, st')"
  shows "state_ok st' \<and> i = formatUUID (uuidv7Last st') \<and> length i = 36 \<and>
    i ! 14 = CHR ''7'' \<and> i ! 19 \<in> set ''89ab''"
proof -
  have st': "id_ok (uuidv7Last st')" "i = formatUUID (uuidv7Last st')"
    using newUUIDv7_ok [OF assms] by simp_all
  then show ?thesis using version_digit formatUUID_length by (simp add: state_ok_def id_ok_def)
qed

definition wrap_state :: uuid_state where
  "wrap_state = \<lparr>uuidv7Last = [0, 0, 0, 0, 0, 5, 0x7F, 255, 0xBF] @ replicate 7 255, uuidv7HasLast = True\<rparr>"

theorem event_ids_well_formed_witness:
  "\<exists>i st'. newUUIDv7 5 (Some (replicate 10 255)) wrap_state = (Inr i, st') \<and> length i = 36 \<and>
     i ! 14 = CHR ''7'' \<and> i ! 19 \<in> set ''89ab''"
proof -
  have ok: "state_ok wrap_state" "rnd_ok (Some (replicate 10 255))" by code_simp+
  have "isl (fst (newUUIDv7 5 (Some (replicate 10 255)) wrap_state)) = False" by code_simp
  then obtain i st' where "newUUIDv7 5 (Some (replicate 10 255)) wrap_state = (Inr i, st')"
    by (metis isl_def prod.exhaust_sel sum.exhaust)
  from event_ids_well_formed [OF ok this] this show ?thesis by blast
qed

end
