(* ===== verification/Provenance.thy ===== *)
theory Provenance
  imports Event_Payloads "HOL-Library.Code_Target_Nat"
begin

text \<open>
  \<open>go/internal/events/provenance.go\<close>: the guard that rejects a payload whose text attributes a
  scope decision to the user without citing the user. The four regular expressions of the file are
  values of \<open>rx\<close>, matched on the runes of the text as Go's \<open>regexp\<close> does:
  \<open>ends r t i\<close> lists the positions at which a match of \<open>r\<close> that starts at position
  \<open>i\<close> of \<open>t\<close> can end. The error text is not modelled; an error carries the path of the
  offending field.
\<close>

section \<open>Runes\<close>

text \<open>UTF-8 decoding, with U+FFFD for a byte that starts no sequence.\<close>

definition is_cont :: "char \<Rightarrow> bool" where
  "is_cont c \<longleftrightarrow> 0x80 \<le> (of_char c :: nat) \<and> (of_char c :: nat) < 0xC0"

text \<open>The narrower range of the second byte: no overlong form, no surrogate, nothing above U+10FFFF.\<close>

definition second_ok :: "nat \<Rightarrow> nat \<Rightarrow> bool" where
  "second_ok b c \<longleftrightarrow> (b = 0xE0 \<longrightarrow> 0xA0 \<le> c) \<and> (b = 0xED \<longrightarrow> c < 0xA0) \<and>
     (b = 0xF0 \<longrightarrow> 0x90 \<le> c) \<and> (b = 0xF4 \<longrightarrow> c < 0x90)"

function runes :: "string \<Rightarrow> nat list" where
  "runes [] = []"
| "runes (c # cs) =
     (let b = (of_char c :: nat);
          n = (if 0xC2 \<le> b \<and> b < 0xE0 then 1 else if 0xE0 \<le> b \<and> b < 0xF0 then 2
               else if 0xF0 \<le> b \<and> b < 0xF5 then 3 else 0);
          more = take n cs
      in if b < 0x80 then b # runes cs
         else if n = 0 \<or> length more < n \<or> \<not> list_all is_cont more \<or> \<not> second_ok b (of_char (hd more))
         then 0xFFFD # runes cs
         else foldl (\<lambda>acc d. acc * 64 + (of_char d mod 64)) (b mod (2 ^ (6 - n))) more # runes (drop n cs))"
  by pat_completeness auto
termination
  by (relation "measure length") auto

definition word_rune :: "nat \<Rightarrow> bool" where
  "word_rune r \<longleftrightarrow> 48 \<le> r \<and> r \<le> 57 \<or> 65 \<le> r \<and> r \<le> 90 \<or> r = 95 \<or> 97 \<le> r \<and> r \<le> 122"

text \<open>The lower-case ASCII letter a rune folds to under \<open>(?i)\<close>.\<close>

definition fold_rune :: "nat \<Rightarrow> nat" where
  "fold_rune r =
     (if 65 \<le> r \<and> r \<le> 90 then r + 32
      else if r = 0x17F then 115 else if r = 0x212A then 107 else r)"

section \<open>Regular expressions\<close>

datatype rx =
    RLit string            \<comment> \<open>a literal under \<open>(?i)\<close>\<close>
  | RSeq rx rx
  | RAlt rx rx
  | RFail
  | ROpt rx                \<comment> \<open>\<open>r?\<close>\<close>
  | RNotUpTo string nat    \<comment> \<open>\<open>[^cs]{0,n}\<close>\<close>
  | RNotAtLeast string nat \<comment> \<open>\<open>[^cs]{n,}\<close>\<close>
  | RBound                 \<comment> \<open>the assertion \<open>\b\<close>\<close>

definition code :: "char \<Rightarrow> nat" where
  "code c = of_char c"

definition run_outside :: "string \<Rightarrow> nat list \<Rightarrow> nat \<Rightarrow> nat" where
  "run_outside cs t i = length (takeWhile (\<lambda>r. r \<notin> set (map code cs)) (drop i t))"

definition boundary :: "nat list \<Rightarrow> nat \<Rightarrow> bool" where
  "boundary t i \<longleftrightarrow>
     (0 < i \<and> list_all word_rune (take 1 (drop (i - 1) t))) \<noteq>
     (i < length t \<and> list_all word_rune (take 1 (drop i t)))"

primrec ends :: "rx \<Rightarrow> nat list \<Rightarrow> nat \<Rightarrow> nat list" where
  "ends (RLit s) t i =
     (if map fold_rune (take (length s) (drop i t)) = map code s then [i + length s] else [])"
| "ends (RSeq r s) t i = concat (map (ends s t) (ends r t i))"
| "ends (RAlt r s) t i = ends r t i @ ends s t i"
| "ends RFail t i = []"
| "ends (ROpt r) t i = ends r t i @ [i]"
| "ends (RNotUpTo cs n) t i = [i ..< Suc (i + min n (run_outside cs t i))]"
| "ends (RNotAtLeast cs n) t i = [i + n ..< Suc (i + run_outside cs t i)]"
| "ends RBound t i = (if boundary t i then [i] else [])"

definition MatchString :: "rx \<Rightarrow> string \<Rightarrow> bool" where
  "MatchString r s = (let t = runes s in list_ex (\<lambda>i. ends r t i \<noteq> []) [0 ..< Suc (length t)])"

definition rseq :: "rx list \<Rightarrow> rx" where
  "rseq rs = foldr RSeq rs (RLit [])"

definition rwords :: "string list \<Rightarrow> rx" where
  "rwords ws = foldr (\<lambda>w. RAlt (RLit w)) ws RFail"

definition rword :: "rx \<Rightarrow> rx" where
  "rword r = rseq [RBound, r, RBound]"

definition sentence_gap :: "nat \<Rightarrow> rx" where
  "sentence_gap n = RNotUpTo [CHR ''.'', CHR ''!'', CHR ''?'', CHR 0x0A] n"

section \<open>The guard\<close>

definition userScopeDecisionRX :: rx where
  "userScopeDecisionRX = rseq
     [rword (rwords [''the user'', ''you'']), sentence_gap 40,
      rword (rwords [''chose'', ''picked'', ''selected'', ''decided'', ''elected'', ''opted'',
        ''agreed'', ''approved'']), sentence_gap 45,
      rword (RAlt (rwords [''defer'', ''skip'', ''cut'']) (RAlt
        (rseq [RLit ''de'', ROpt (RLit ''-''), RLit ''scope'']) (RAlt
        (rseq [RLit ''scope'', ROpt (RLit ''d'')]) (RAlt
        (RLit ''scoping'') (RAlt
        (rseq [RLit ''drop'', ROpt (RLit ''p''), RLit ''e'', ROpt (RLit ''d'')])
        (rwords [''drop'', ''leave'', ''hide'', ''minimal'', ''partial'', ''stop'', ''punt'',
           ''postpone'', ''narrow'', ''less'']))))))]"

definition perUserDecisionRX :: rx where
  "perUserDecisionRX = rseq
     [RBound, RLit ''per '', ROpt (RLit ''the ''), RLit ''user'', ROpt (RLit [CHR 0x27]),
      RLit ''s'', RBound, sentence_gap 60, rword (RLit ''decision'')]"

definition userApprovedScopeRX :: rx where
  "userApprovedScopeRX = rseq
     [RBound, RLit ''user'', ROpt (RLit ''-''), RLit ''approved'', RBound, sentence_gap 45,
      rword (rwords [''scope'', ''defer'', ''cut'', ''skip'', ''minimal'', ''narrow'', ''partial'',
        ''drop''])]"

definition quoted :: "char \<Rightarrow> rx" where
  "quoted q = rseq [RLit [q], RNotAtLeast [q] 6, RLit [q]]"

definition citationRX :: rx where
  "citationRX =
     RAlt (quoted (CHR 0x22)) (RAlt (quoted (CHR 0x27)) (RAlt
       (rseq [RBound, RLit ''you '', rwords [''said'', ''wrote'', ''told'', ''asked'', ''requested'',
          ''directed'', ''instructed''], RBound])
       (rseq [RBound, RLit ''your '', rwords [''message'', ''words'', ''directive'', ''prompt'',
          ''reply'', ''request''], RBound])))"

definition attributesUserScopeDecision :: "string \<Rightarrow> bool" where
  "attributesUserScopeDecision s \<longleftrightarrow>
     MatchString userScopeDecisionRX s \<or> MatchString perUserDecisionRX s \<or>
     MatchString userApprovedScopeRX s"

definition provenanceCited :: "string \<Rightarrow> bool" where
  "provenanceCited s \<longleftrightarrow> MatchString citationRX s"

definition checkProvenanceText :: "string \<Rightarrow> string \<Rightarrow> go_error option" where
  "checkProvenanceText field text =
     (if attributesUserScopeDecision text \<and> \<not> provenanceCited text
      then Some (ErrInvalidInput field) else None)"

text \<open>\<open>json.Unmarshal\<close> into a \<open>map[string]any\<close>: the last member of a name counts.\<close>

definition obj_members :: "(string \<times> json) list \<Rightarrow> (string \<times> json) list" where
  "obj_members fs = map (\<lambda>k. (k, the (map_of (rev fs) k))) (sort (remdups (map fst fs)))"

fun itoa :: "nat \<Rightarrow> string" where
  "itoa n = (if n < 10 then [char_of (48 + n)] else itoa (n div 10) @ [char_of (48 + n mod 10)])"

declare itoa.simps [simp del]

fun first_err :: "('a \<Rightarrow> go_error option) \<Rightarrow> 'a list \<Rightarrow> go_error option" where
  "first_err f [] = None"
| "first_err f (x # xs) = (case f x of None \<Rightarrow> first_err f xs | Some e \<Rightarrow> Some e)"

lemma first_err_cong [fundef_cong]:
  "xs = ys \<Longrightarrow> (\<And>x. x \<in> set ys \<Longrightarrow> f x = g x) \<Longrightarrow> first_err f xs = first_err g ys"
  by (induction xs arbitrary: ys) (auto split: option.splits)

lemma obj_members_sound: "(k, v) \<in> set (obj_members fs) \<Longrightarrow> (k, v) \<in> set fs"
proof -
  assume "(k, v) \<in> set (obj_members fs)"
  then have "k \<in> fst ` set fs" and v: "v = the (map_of (rev fs) k)" by (auto simp: obj_members_def)
  then have "k \<in> dom (map_of (rev fs))" by (simp add: dom_map_of_conv_image_fst)
  then have "map_of (rev fs) k = Some v" unfolding v by auto
  then show ?thesis using map_of_SomeD by fastforce
qed

lemma obj_member_size:
  assumes "kv \<in> set (obj_members fs)"
  shows "size (snd kv) < Suc (size_list (size_prod (\<lambda>x. 0) size) fs)"
proof -
  have "kv \<in> set fs" using obj_members_sound [of "fst kv" "snd kv"] assms by simp
  then have "size_prod (\<lambda>x. 0) size kv \<le> size_list (size_prod (\<lambda>x. 0) size) fs"
    by (rule size_list_estimation') simp
  then show ?thesis by (simp add: size_prod_simp)
qed

function walkProvenance :: "string \<Rightarrow> json \<Rightarrow> go_error option" where
  "walkProvenance path v =
     (case v of
        JStr s \<Rightarrow> checkProvenanceText path s
      | JObj fs \<Rightarrow> first_err (\<lambda>kv. walkProvenance (path @ ''.'' @ fst kv) (snd kv)) (obj_members fs)
      | JArr js \<Rightarrow>
          first_err (\<lambda>ij. walkProvenance (path @ ''['' @ itoa (fst ij) @ '']'') (snd ij))
            (enumerate 0 js)
      | _ \<Rightarrow> None)"
  by pat_completeness auto
termination
proof (relation "measure (size \<circ> snd)", goal_cases)
  case 1
  then show ?case by simp
next
  case (2 path v js ij)
  then have "snd ij \<in> set js" by (cases ij) (auto simp: enumerate_eq_zip dest: set_zip_rightD)
  then have "size (snd ij) < Suc (size_list size js)" by (induction js) auto
  then show ?case using 2 by simp
next
  case (3 path v fs kv)
  then show ?case using obj_member_size [of kv fs] by simp
qed

declare walkProvenance.simps [simp del]

text \<open>A payload that is not JSON is left to the schema validator.\<close>

definition checkPayloadProvenance :: "json option \<Rightarrow> go_error option" where
  "checkPayloadProvenance payload =
     (case payload of None \<Rightarrow> None | Some v \<Rightarrow> walkProvenance ''payload'' v)"

section \<open>What the guard accepts\<close>

text \<open>The texts of a document that a reader of it sees.\<close>

inductive text_of :: "json \<Rightarrow> string \<Rightarrow> bool" where
  "text_of (JStr s) s"
| "j \<in> set js \<Longrightarrow> text_of j s \<Longrightarrow> text_of (JArr js) s"
| "map_of (rev fs) k = Some j \<Longrightarrow> text_of j s \<Longrightarrow> text_of (JObj fs) s"

inductive_simps text_of_simps:
  "text_of JNull s" "text_of (JBool b) s" "text_of (JInt n) s" "text_of (JFrac x) s"
  "text_of (JStr x) s" "text_of (JArr js) s" "text_of (JObj fs) s"

definition laundered :: "string \<Rightarrow> bool" where
  "laundered s \<longleftrightarrow> attributesUserScopeDecision s \<and> \<not> provenanceCited s"

lemma first_err_None: "first_err f xs = None \<longleftrightarrow> (\<forall>x \<in> set xs. f x = None)"
  by (induction xs) (auto split: option.splits)

lemma set_obj_members: "(k, j) \<in> set (obj_members fs) \<longleftrightarrow> map_of (rev fs) k = Some j"
proof
  assume "map_of (rev fs) k = Some j"
  moreover from this have "k \<in> fst ` set fs"
    by (metis dom_map_of_conv_image_fst domI set_rev)
  ultimately show "(k, j) \<in> set (obj_members fs)" by (force simp: obj_members_def)
next
  assume a: "(k, j) \<in> set (obj_members fs)"
  then have "k \<in> fst ` set fs" and j: "j = the (map_of (rev fs) k)" by (auto simp: obj_members_def)
  then have "k \<in> dom (map_of (rev fs))" by (simp add: dom_map_of_conv_image_fst)
  then show "map_of (rev fs) k = Some j" unfolding j by auto
qed

lemma walkProvenance_None: "walkProvenance path v = None \<longleftrightarrow> (\<forall>s. text_of v s \<longrightarrow> \<not> laundered s)"
proof (induction path v rule: walkProvenance.induct)
  case (1 path v)
  show ?case
  proof (cases v)
    case (JStr s)
    then show ?thesis
      by (simp add: walkProvenance.simps text_of_simps checkProvenanceText_def laundered_def)
  next
    case (JArr js)
    have "walkProvenance path v = None \<longleftrightarrow>
        (\<forall>ij \<in> set (enumerate 0 js). \<forall>s. text_of (snd ij) s \<longrightarrow> \<not> laundered s)"
      using 1(1) [OF JArr] by (simp add: walkProvenance.simps [of path "JArr js"] JArr first_err_None)
    also have "\<dots> \<longleftrightarrow> (\<forall>j \<in> snd ` set (enumerate 0 js). \<forall>s. text_of j s \<longrightarrow> \<not> laundered s)" by blast
    also have "snd ` set (enumerate 0 js) = set js"
      by (metis list.set_map map_snd_enumerate)
    finally have "walkProvenance path v = None \<longleftrightarrow> (\<forall>j \<in> set js. \<forall>s. text_of j s \<longrightarrow> \<not> laundered s)" .
    then show ?thesis by (auto simp: JArr text_of_simps)
  next
    case (JObj fs)
    have "walkProvenance path v = None \<longleftrightarrow>
        (\<forall>kv \<in> set (obj_members fs). \<forall>s. text_of (snd kv) s \<longrightarrow> \<not> laundered s)"
      using 1(2) [OF JObj] by (simp add: walkProvenance.simps [of path "JObj fs"] JObj first_err_None)
    also have "\<dots> \<longleftrightarrow> (\<forall>k j. map_of (rev fs) k = Some j \<longrightarrow> (\<forall>s. text_of j s \<longrightarrow> \<not> laundered s))"
      unfolding set_obj_members [symmetric] by force
    finally have "walkProvenance path v = None \<longleftrightarrow>
        (\<forall>k j. map_of (rev fs) k = Some j \<longrightarrow> (\<forall>s. text_of j s \<longrightarrow> \<not> laundered s))" .
    then show ?thesis by (auto simp: JObj text_of_simps)
  qed (simp_all add: walkProvenance.simps text_of_simps)
qed

text \<open>C20. The provenance guard accepts a payload exactly when none of the texts in it, at any depth of
  objects and lists, attributes a scope decision to the user without citing the user.\<close>

theorem provenance_guard_is_complete:
  "checkPayloadProvenance (Some v) = None \<longleftrightarrow> (\<forall>s. text_of v s \<longrightarrow> \<not> laundered s)"
  by (simp add: checkPayloadProvenance_def walkProvenance_None)

text \<open>A request is not a decision.\<close>

lemma laundered_examples:
  "laundered ''You opted less''" "\<not> laundered ''You asked less''"
  by code_simp+

theorem provenance_guard_is_complete_witness:
  "checkPayloadProvenance (Some (JObj [(''note'', JArr [JStr ''You opted less''])])) \<noteq> None \<and>
   checkPayloadProvenance (Some (JObj [(''note'', JArr [JStr ''You asked less''])])) = None"
proof
  have "text_of (JObj [(''note'', JArr [JStr ''You opted less''])]) ''You opted less''"
    by (simp add: text_of_simps)
  then show "checkPayloadProvenance (Some (JObj [(''note'', JArr [JStr ''You opted less''])])) \<noteq> None"
    using provenance_guard_is_complete laundered_examples(1) by blast
  have "s = ''You asked less''" if "text_of (JObj [(''note'', JArr [JStr ''You asked less''])]) s" for s
    using that by (auto simp: text_of_simps split: if_splits)
  then show "checkPayloadProvenance (Some (JObj [(''note'', JArr [JStr ''You asked less''])])) = None"
    using provenance_guard_is_complete laundered_examples(2) by metis
qed

end
