(* ===== verification/Event_Emit.thy ===== *)
theory Event_Emit
  imports Work_Invariants Rebuild_Live Event_Ids Provenance
begin

text \<open>
  \<open>go/internal/events\<close> (context.go, validator.go, emit.go) and \<open>Pool.WithWrite\<close> of
  \<open>go/internal/db/db.go\<close>: recording one event. A handler runs in a \<open>world\<close>: the
  database with the tables written directly beside it, the id generator, the owner of the write mutex
  and a counter that numbers the reads of the clock. What the process takes from outside is the record \<open>emit_env\<close>: the clock and the
  random source at each count, the compiled JSON schemas (\<open>github.com/google/jsonschema-go\<close>, so
  two predicates), the installed fold hook, and the faults of \<open>BEGIN\<close> and \<open>COMMIT\<close>.
\<close>

section \<open>Worlds\<close>

record schemas =
  sch_envelope :: "json \<Rightarrow> bool"
  sch_payloads :: "(string \<times> (json \<Rightarrow> bool)) list"

record emit_env =
  em_ms :: "nat \<Rightarrow> 64 word"
  em_ts :: "nat \<Rightarrow> string"
  em_rand_id :: "nat \<Rightarrow> u8 list option"
  em_rand_span :: "nat \<Rightarrow> u8 list option"
  em_schemas :: "go_error + schemas"
  em_hook :: "(raw_event \<Rightarrow> unit dbtx) option"
  em_begin :: "nat \<Rightarrow> string option"      \<comment> \<open>the driver's error text\<close>
  em_commit :: "nat \<Rightarrow> string option"

record world =
  w_db :: db
  w_ids :: uuid_state
  w_count :: nat
  w_owner :: int
  w_direct :: direct_tables

type_synonym 'a wtx = "(world, 'a) tx"

definition on_db :: "'a dbtx \<Rightarrow> 'a wtx" where
  "on_db m = (\<lambda>w. case m (w_db w) of (r, d) \<Rightarrow> (r, w\<lparr>w_db := d\<rparr>))"

definition tx_of :: "go_error + 'a \<Rightarrow> ('s, 'a) tx" where
  "tx_of r = (case r of Inl e \<Rightarrow> tx_fail e | Inr a \<Rightarrow> tx_return a)"

definition tx_check :: "go_error option \<Rightarrow> ('s, unit) tx" where
  "tx_check r = (case r of Some e \<Rightarrow> tx_fail e | None \<Rightarrow> tx_return ())"

text \<open>\<open>fmt.Errorf("fold hook: %w", err)\<close>\<close>

definition tx_wrap :: "(go_error \<Rightarrow> go_error) \<Rightarrow> ('s, 'a) tx \<Rightarrow> ('s, 'a) tx" where
  "tx_wrap f m = (\<lambda>s. case m s of (Inl e, s') \<Rightarrow> (Inl (f e), s') | (Inr a, s') \<Rightarrow> (Inr a, s'))"

section \<open>Request context\<close>

record Actor =
  ac_kind :: string
  ac_id :: string

record ctx =
  cx_actor :: "Actor option"
  cx_span :: "string option"
  cx_rationale :: "string option"
  cx_session :: "string option"
  cx_gid :: int     \<comment> \<open>the goroutine the code runs on\<close>

definition WithActor :: "ctx \<Rightarrow> Actor \<Rightarrow> ctx" where
  "WithActor c a = c\<lparr>cx_actor := Some a\<rparr>"

definition ActorFromContext :: "ctx \<Rightarrow> Actor" where
  "ActorFromContext c =
     (case cx_actor c of Some a \<Rightarrow> a | None \<Rightarrow> \<lparr>ac_kind = ''system'', ac_id = ''unattributed''\<rparr>)"

definition WithSpanID :: "ctx \<Rightarrow> string \<Rightarrow> ctx" where
  "WithSpanID c s = c\<lparr>cx_span := Some s\<rparr>"

definition SpanIDFromContext :: "u8 list option \<Rightarrow> ctx \<Rightarrow> go_error + string" where
  "SpanIDFromContext rnd c =
     (case cx_span c of
        Some s \<Rightarrow> if s \<noteq> [] then Inr s else newUUIDv4 rnd
      | None \<Rightarrow> newUUIDv4 rnd)"

definition WithRationale :: "ctx \<Rightarrow> string \<Rightarrow> ctx" where
  "WithRationale c r = c\<lparr>cx_rationale := Some r\<rparr>"

definition RationaleFromContext :: "ctx \<Rightarrow> string" where
  "RationaleFromContext c = (case cx_rationale c of Some r \<Rightarrow> r | None \<Rightarrow> [])"

definition WithMCPSessionID :: "ctx \<Rightarrow> string \<Rightarrow> ctx" where
  "WithMCPSessionID c s = c\<lparr>cx_session := Some s\<rparr>"

definition MCPSessionIDFromContext :: "ctx \<Rightarrow> string" where
  "MCPSessionIDFromContext c = (case cx_session c of Some s \<Rightarrow> s | None \<Rightarrow> [])"

section \<open>Payloads\<close>

text \<open>The payload of \<open>work.batch\<close>, which no projection of the work tables folds.\<close>

record BatchOpResult =
  bo_position :: int
  bo_action :: string
  bo_ok :: bool
  bo_rationale :: string
  bo_event_id :: "string option"
  bo_error_kind :: "string option"
  bo_error_message :: "string option"

record BatchExecutedPayload =
  bx_op_count :: int
  bx_succeeded :: int
  bx_failed :: int
  bx_continue_on_error :: bool
  bx_rolled_back :: bool
  bx_batch_rationale :: "string option"
  bx_ops :: "BatchOpResult list"

definition marshal_BatchOpResult :: "BatchOpResult \<Rightarrow> json" where
  "marshal_BatchOpResult r = JObj
     ([(''position'', JInt (bo_position r)), (''action'', JStr (bo_action r)), (''ok'', JBool (bo_ok r)),
       (''rationale'', JStr (bo_rationale r))] @
      enc_str_ptr ''event_id'' (bo_event_id r) @ enc_str_ptr ''error_kind'' (bo_error_kind r) @
      enc_str_ptr ''error_message'' (bo_error_message r))"

definition marshal_BatchExecutedPayload :: "BatchExecutedPayload \<Rightarrow> json" where
  "marshal_BatchExecutedPayload p = JObj
     ([(''op_count'', JInt (bx_op_count p)), (''succeeded'', JInt (bx_succeeded p)),
       (''failed'', JInt (bx_failed p)), (''continue_on_error'', JBool (bx_continue_on_error p)),
       (''rolled_back'', JBool (bx_rolled_back p))] @
      enc_str_ptr ''batch_rationale'' (bx_batch_rationale p) @
      [(''ops'', JArr (map marshal_BatchOpResult (bx_ops p)))])"

record TaskHandoffClosed =
  hc_task_slug :: string
  hc_commit_sha :: "string option"
  hc_handoff_output :: "string option"
  hc_rationale :: string
  hc_event_id :: "string option"

record TaskHandoffStarted =
  hs_task_slug :: string
  hs_rationale :: string
  hs_event_id :: "string option"

record TaskHandoffPayload =
  ho_chain_slug :: string
  ho_closed :: TaskHandoffClosed
  ho_started :: TaskHandoffStarted

definition marshal_TaskHandoffPayload :: "TaskHandoffPayload \<Rightarrow> json" where
  "marshal_TaskHandoffPayload p = JObj
     [(''chain_slug'', JStr (ho_chain_slug p)),
      (''closed'', JObj ([(''task_slug'', JStr (hc_task_slug (ho_closed p)))] @
         enc_str_ptr ''commit_sha'' (hc_commit_sha (ho_closed p)) @
         enc_str_ptr ''handoff_output'' (hc_handoff_output (ho_closed p)) @
         [(''rationale'', JStr (hc_rationale (ho_closed p)))] @ enc_str_ptr ''event_id'' (hc_event_id (ho_closed p)))),
      (''started'', JObj ([(''task_slug'', JStr (hs_task_slug (ho_started p))),
         (''rationale'', JStr (hs_rationale (ho_started p)))] @ enc_str_ptr ''event_id'' (hs_event_id (ho_started p))))]"

text \<open>The \<open>Payload\<close> interface: a type of event and its JSON.\<close>

datatype payload =
    PTaskCreated TaskCreatedPayload
  | PTaskAssignedToChain TaskAssignedToChainPayload
  | PTaskCompleted TaskCompletedPayload
  | PTaskCancelled TaskCancelledPayload
  | PTaskRetired "string option"
  | PTaskTransitioned TaskTransitionedPayload
  | PTaskEdited TaskEditedPayload
  | PTaskStamped TaskStampedPayload
  | PChainCreated ChainCreatedPayload
  | PChainClosed ChainClosedPayload
  | PChainEdited ChainEditedPayload
  | PBugReported BugReportedPayload
  | PBugTriaged BugTriagedPayload
  | PBugResolved BugResolvedPayload
  | PBugReopened BugResolvedPayload
  | PBugEdited BugEditedPayload
  | PBugStamped BugStampedPayload
  | PSuggestionReported SuggestionReportedPayload
  | PSuggestionResolved SuggestionResolvedPayload
  | PSuggestionReopened SuggestionResolvedPayload
  | PSuggestionEdited SuggestionEditedPayload
  | PSuggestionStamped SuggestionStampedPayload
  | PMemoryWritten MemoryWrittenPayload
  | PRoadmapUpdated RoadmapUpdatedPayload
  | PBatchExecuted BatchExecutedPayload
  | PTaskHandoff TaskHandoffPayload

fun EventType :: "payload \<Rightarrow> string" where
  "EventType (PTaskCreated _) = ''TaskCreated''"
| "EventType (PTaskAssignedToChain _) = ''TaskAssignedToChain''"
| "EventType (PTaskCompleted _) = ''TaskCompleted''"
| "EventType (PTaskCancelled _) = ''TaskCancelled''"
| "EventType (PTaskRetired _) = ''TaskRetired''"
| "EventType (PTaskTransitioned _) = ''TaskTransitioned''"
| "EventType (PTaskEdited _) = ''TaskEdited''"
| "EventType (PTaskStamped _) = ''TaskStamped''"
| "EventType (PChainCreated _) = ''ChainCreated''"
| "EventType (PChainClosed _) = ''ChainClosed''"
| "EventType (PChainEdited _) = ''ChainEdited''"
| "EventType (PBugReported _) = ''BugReported''"
| "EventType (PBugTriaged _) = ''BugTriaged''"
| "EventType (PBugResolved _) = ''BugResolved''"
| "EventType (PBugReopened _) = ''BugReopened''"
| "EventType (PBugEdited _) = ''BugEdited''"
| "EventType (PBugStamped _) = ''BugStamped''"
| "EventType (PSuggestionReported _) = ''SuggestionReported''"
| "EventType (PSuggestionResolved _) = ''SuggestionResolved''"
| "EventType (PSuggestionReopened _) = ''SuggestionReopened''"
| "EventType (PSuggestionEdited _) = ''SuggestionEdited''"
| "EventType (PSuggestionStamped _) = ''SuggestionStamped''"
| "EventType (PMemoryWritten _) = ''MemoryWritten''"
| "EventType (PRoadmapUpdated _) = ''RoadmapUpdated''"
| "EventType (PBatchExecuted _) = ''BatchExecuted''"
| "EventType (PTaskHandoff _) = ''TaskHandoff''"

text \<open>\<open>json.Marshal(args.Payload)\<close>\<close>

fun marshal_payload :: "payload \<Rightarrow> json" where
  "marshal_payload (PTaskCreated p) = marshal_TaskCreatedPayload p"
| "marshal_payload (PTaskAssignedToChain p) = marshal_TaskAssignedToChainPayload p"
| "marshal_payload (PTaskCompleted p) = marshal_TaskCompletedPayload p"
| "marshal_payload (PTaskCancelled p) = marshal_TaskCancelledPayload p"
| "marshal_payload (PTaskRetired r) = JObj (enc_str_ptr ''reason'' r)"
| "marshal_payload (PTaskTransitioned p) = marshal_TaskTransitionedPayload p"
| "marshal_payload (PTaskEdited p) = marshal_TaskEditedPayload p"
| "marshal_payload (PTaskStamped p) = marshal_TaskStampedPayload p"
| "marshal_payload (PChainCreated p) = marshal_ChainCreatedPayload p"
| "marshal_payload (PChainClosed p) = marshal_ChainClosedPayload p"
| "marshal_payload (PChainEdited p) = marshal_ChainEditedPayload p"
| "marshal_payload (PBugReported p) = marshal_BugReportedPayload p"
| "marshal_payload (PBugTriaged p) = marshal_BugTriagedPayload p"
| "marshal_payload (PBugResolved p) = marshal_BugResolvedPayload p"
| "marshal_payload (PBugReopened p) = JObj [(''previous_resolution'', marshal_BugResolvedPayload p)]"
| "marshal_payload (PBugEdited p) = marshal_BugEditedPayload p"
| "marshal_payload (PBugStamped p) = marshal_BugStampedPayload p"
| "marshal_payload (PSuggestionReported p) = marshal_SuggestionReportedPayload p"
| "marshal_payload (PSuggestionResolved p) = marshal_SuggestionResolvedPayload p"
| "marshal_payload (PSuggestionReopened p) =
     JObj [(''previous_resolution'', marshal_SuggestionResolvedPayload p)]"
| "marshal_payload (PSuggestionEdited p) = marshal_SuggestionEditedPayload p"
| "marshal_payload (PSuggestionStamped p) = marshal_SuggestionStampedPayload p"
| "marshal_payload (PMemoryWritten p) = marshal_MemoryWrittenPayload p"
| "marshal_payload (PRoadmapUpdated p) = marshal_RoadmapUpdatedPayload p"
| "marshal_payload (PBatchExecuted p) = marshal_BatchExecutedPayload p"
| "marshal_payload (PTaskHandoff p) = marshal_TaskHandoffPayload p"

section \<open>Envelopes\<close>

record EntityRef =
  er_kind :: string
  er_slug :: string
  er_project :: "string option"

definition NewEntityRef :: "string \<Rightarrow> string \<Rightarrow> string \<Rightarrow> EntityRef" where
  "NewEntityRef kind slug projectID = \<lparr>er_kind = kind, er_slug = slug, er_project = Some projectID\<rparr>"

definition NewCrossCuttingEntityRef :: "string \<Rightarrow> string \<Rightarrow> EntityRef" where
  "NewCrossCuttingEntityRef kind slug = \<lparr>er_kind = kind, er_slug = slug, er_project = None\<rparr>"

record Refs =
  rf_caused_by :: "string option"
  rf_related :: "EntityRef list"     \<comment> \<open>a nil slice is the empty list\<close>

definition no_refs :: Refs where
  "no_refs = \<lparr>rf_caused_by = None, rf_related = []\<rparr>"

record EmitArgs =
  ea_entity :: EntityRef
  ea_payload :: "payload option"
  ea_rationale :: "string option"
  ea_refs :: Refs

definition json_ptr :: "string option \<Rightarrow> json" where
  "json_ptr p = (case p of None \<Rightarrow> JNull | Some s \<Rightarrow> JStr s)"

definition marshal_EntityRef :: "EntityRef \<Rightarrow> json" where
  "marshal_EntityRef e = JObj [(''kind'', JStr (er_kind e)), (''slug'', JStr (er_slug e)),
     (''project_id'', json_ptr (er_project e))]"

text \<open>\<open>relatedSlice\<close> and its \<open>json.Marshal\<close>: an array, never null.\<close>

definition relatedSlice :: "EntityRef list \<Rightarrow> json" where
  "relatedSlice refs = JArr (map marshal_EntityRef refs)"

definition SchemaVersion :: int where
  "SchemaVersion = 1"

record envelope =
  nv_id :: string
  nv_ts :: string
  nv_actor :: Actor
  nv_type :: string
  nv_entity :: EntityRef
  nv_payload :: json
  nv_rationale :: "string option"
  nv_refs :: Refs
  nv_span :: string
  nv_version :: int

definition marshal_envelope :: "envelope \<Rightarrow> json" where
  "marshal_envelope v = JObj
     [(''event_id'', JStr (nv_id v)), (''ts'', JStr (nv_ts v)),
      (''actor'', JObj [(''kind'', JStr (ac_kind (nv_actor v))), (''id'', JStr (ac_id (nv_actor v)))]),
      (''type'', JStr (nv_type v)), (''entity'', marshal_EntityRef (nv_entity v)),
      (''payload'', nv_payload v), (''rationale'', json_ptr (nv_rationale v)),
      (''refs'', JObj [(''caused_by_event_id'', json_ptr (rf_caused_by (nv_refs v))),
         (''related_entities'', relatedSlice (rf_related (nv_refs v)))]),
      (''span_id'', JStr (nv_span v)), (''schema_version'', JInt (nv_version v))]"

definition IsRegisteredType :: "go_error + schemas \<Rightarrow> string \<Rightarrow> bool" where
  "IsRegisteredType loaded typ =
     (case loaded of Inl e \<Rightarrow> False | Inr sch \<Rightarrow> map_of (sch_payloads sch) typ \<noteq> None)"

definition RegisteredTypes :: "go_error + schemas \<Rightarrow> string list" where
  "RegisteredTypes loaded =
     (case loaded of Inl e \<Rightarrow> [] | Inr sch \<Rightarrow> sort (remdups (map fst (sch_payloads sch))))"

definition validateEnvelope :: "go_error + schemas \<Rightarrow> envelope \<Rightarrow> go_error option" where
  "validateEnvelope loaded v =
     (case loaded of
        Inl e \<Rightarrow> Some e
      | Inr sch \<Rightarrow>
          (case map_of (sch_payloads sch) (nv_type v) of
             None \<Rightarrow> Some (ErrInvalidInput ''type'')
           | Some payloadSchema \<Rightarrow>
               if \<not> sch_envelope sch (marshal_envelope v) then Some (ErrInvalidInput ''envelope'')
               else if \<not> payloadSchema (nv_payload v) then Some (ErrInvalidInput ''payload'')
               else None))"

section \<open>Emit\<close>

definition next_event_id :: "emit_env \<Rightarrow> string wtx" where
  "next_event_id E = (\<lambda>w.
     case newUUIDv7 (em_ms E (w_count w)) (em_rand_id E (w_count w)) (w_ids w) of
       (r, st) \<Rightarrow> (r, w\<lparr>w_ids := st\<rparr>))"

definition read_clock :: "emit_env \<Rightarrow> string wtx" where
  "read_clock E = (\<lambda>w. (Inr (em_ts E (w_count w)), w\<lparr>w_count := Suc (w_count w)\<rparr>))"

definition emit_rationale :: "ctx \<Rightarrow> string option \<Rightarrow> string option" where
  "emit_rationale c r =
     (case r of
        Some x \<Rightarrow> Some x
      | None \<Rightarrow> if RationaleFromContext c \<noteq> [] then Some (RationaleFromContext c) else None)"

definition event_of_envelope :: "envelope \<Rightarrow> raw_event" where
  "event_of_envelope v =
     \<lparr>ev_id = nv_id v, ev_ts = nv_ts v, ev_actor_kind = ac_kind (nv_actor v),
      ev_actor_id = ac_id (nv_actor v), ev_type = nv_type v, ev_kind = er_kind (nv_entity v),
      ev_slug = er_slug (nv_entity v), ev_project = er_project (nv_entity v),
      ev_payload = Some (nv_payload v), ev_rationale = nv_rationale v,
      ev_caused_by = rf_caused_by (nv_refs v), ev_related = Some (relatedSlice (rf_related (nv_refs v))),
      ev_span = nv_span v, ev_schema_version = nv_version v\<rparr>"

definition SetFoldHook :: "(raw_event \<Rightarrow> unit dbtx) \<Rightarrow> emit_env \<Rightarrow> emit_env" where
  "SetFoldHook hook E = E\<lparr>em_hook := Some hook\<rparr>"

definition CurrentFoldHook :: "emit_env \<Rightarrow> (raw_event \<Rightarrow> unit dbtx) option" where
  "CurrentFoldHook E = em_hook E"

definition run_hook :: "emit_env \<Rightarrow> raw_event \<Rightarrow> unit dbtx" where
  "run_hook E evt =
     (case em_hook E of None \<Rightarrow> tx_return () | Some hook \<Rightarrow> tx_wrap ErrHook (hook evt))"

text \<open>\<open>Emit\<close> up to the INSERT: the checks, the ids, the envelope and its validation.\<close>

definition emit_prepare :: "emit_env \<Rightarrow> ctx \<Rightarrow> EmitArgs \<Rightarrow> raw_event wtx" where
  "emit_prepare E c args =
     (case ea_payload args of
        None \<Rightarrow> tx_fail (ErrInvalidInput ''payload'')
      | Some p \<Rightarrow>
          if er_kind (ea_entity args) = [] then tx_fail (ErrInvalidInput ''entity.kind'')
          else if er_slug (ea_entity args) = [] then tx_fail (ErrInvalidInput ''entity.slug'')
          else
            tx_bind (next_event_id E) (\<lambda>eventID.
            tx_bind (\<lambda>w. tx_of (SpanIDFromContext (em_rand_span E (w_count w)) c) w) (\<lambda>spanID.
            tx_bind (read_clock E) (\<lambda>ts.
            let v = \<lparr>nv_id = eventID, nv_ts = ts, nv_actor = ActorFromContext c, nv_type = EventType p,
                     nv_entity = ea_entity args, nv_payload = marshal_payload p,
                     nv_rationale = emit_rationale c (ea_rationale args), nv_refs = ea_refs args,
                     nv_span = spanID, nv_version = SchemaVersion\<rparr>
            in tx_then (tx_check (validateEnvelope (em_schemas E) v))
              (tx_then (tx_check (checkPayloadProvenance (Some (nv_payload v))))
                (tx_return (event_of_envelope v)))))))"

definition Emit :: "emit_env \<Rightarrow> ctx \<Rightarrow> EmitArgs \<Rightarrow> string wtx" where
  "Emit E c args =
     tx_bind (emit_prepare E c args) (\<lambda>raw.
     tx_then (on_db (insert_event raw))
    (tx_then (on_db (run_hook E raw))
      (tx_return (ev_id raw))))"

text \<open>The call of the work handlers: an event on an entity of a project, with no references.\<close>

definition emit_entity :: "emit_env \<Rightarrow> ctx \<Rightarrow> string \<Rightarrow> string \<Rightarrow> string \<Rightarrow> payload \<Rightarrow> string wtx" where
  "emit_entity E c kind slug projectID p =
     Emit E c \<lparr>ea_entity = NewEntityRef kind slug projectID, ea_payload = Some p,
       ea_rationale = None, ea_refs = no_refs\<rparr>"

section \<open>WithWrite\<close>

text \<open>
  \<open>WithWrite\<close> with a closure that ends in an error or in a value. The mutex is free or held by
  the calling goroutine; waiting for another holder is not modelled. A rollback restores the
  tables, and nothing else of the world.
\<close>

definition nested_write :: "ctx \<Rightarrow> world \<Rightarrow> bool" where
  "nested_write c w \<longleftrightarrow> 0 < cx_gid c \<and> w_owner w = cx_gid c"

definition WithWrite :: "emit_env \<Rightarrow> ctx \<Rightarrow> 'a wtx \<Rightarrow> 'a wtx" where
  "WithWrite E c fn w =
     (if nested_write c w then (Inl ErrNestedWrite, w)
      else
        case em_begin E (w_count w) of
          Some e \<Rightarrow> (Inl (ErrMessage (''begin tx: '' @ e)), w\<lparr>w_owner := 0\<rparr>)
        | None \<Rightarrow>
            (case fn (w\<lparr>w_owner := cx_gid c\<rparr>) of
               (Inl e, w2) \<Rightarrow> (Inl e, w2\<lparr>w_db := w_db w, w_direct := w_direct w, w_owner := 0\<rparr>)
             | (Inr a, w2) \<Rightarrow>
                 (case em_commit E (w_count w2) of
                    Some e \<Rightarrow> (Inl (ErrMessage (''commit: '' @ e)), w2\<lparr>w_db := w_db w, w_direct := w_direct w, w_owner := 0\<rparr>)
                  | None \<Rightarrow> (Inr a, w2\<lparr>w_owner := 0\<rparr>))))"

text \<open>
  The same with the closure's value left in a variable of the caller, who sees it also when the
  commit fails: the error of \<open>WithWrite\<close> and the captured value.
\<close>

definition WithWrite_capture ::
  "emit_env \<Rightarrow> ctx \<Rightarrow> 'r wtx \<Rightarrow> world \<Rightarrow> (go_error option \<times> 'r option) \<times> world" where
  "WithWrite_capture E c fn w =
     (case WithWrite E c fn w of
        (Inr r, w') \<Rightarrow> ((None, Some r), w')
      | (Inl e, w') \<Rightarrow>
          ((Some e,
            if nested_write c w \<or> em_begin E (w_count w) \<noteq> None then None
            else case fn (w\<lparr>w_owner := cx_gid c\<rparr>) of (Inr r, _) \<Rightarrow> Some r | (Inl _, _) \<Rightarrow> None), w'))"

section \<open>Lemmas on the pieces\<close>

lemma on_db_Inr [tx_simps]:
  "on_db m w = (Inr a, w') \<longleftrightarrow> (\<exists>d. m (w_db w) = (Inr a, d) \<and> w' = w\<lparr>w_db := d\<rparr>)"
  by (auto simp: on_db_def split: prod.splits)

lemma tx_of_Inr [tx_simps]: "tx_of r s = (Inr a, s') \<longleftrightarrow> r = Inr a \<and> s' = s"
  by (auto simp: tx_of_def tx_apply split: sum.splits)

lemma tx_check_Inr [tx_simps]: "tx_check r s = (Inr u, s') \<longleftrightarrow> r = None \<and> s' = s"
  by (auto simp: tx_check_def tx_apply split: option.splits)

lemma tx_wrap_Inr [tx_simps]: "tx_wrap f m s = (Inr a, s') \<longleftrightarrow> m s = (Inr a, s')"
  by (auto simp: tx_wrap_def split: prod.splits sum.splits)

text \<open>
  The envelope \<open>Emit\<close> builds in world \<open>w\<close>, given the id and the span.
\<close>

definition emit_envelope :: "emit_env \<Rightarrow> ctx \<Rightarrow> EmitArgs \<Rightarrow> payload \<Rightarrow> world \<Rightarrow> string \<Rightarrow> string \<Rightarrow> envelope" where
  "emit_envelope E c args p w eventID spanID =
     \<lparr>nv_id = eventID, nv_ts = em_ts E (w_count w), nv_actor = ActorFromContext c, nv_type = EventType p,
      nv_entity = ea_entity args, nv_payload = marshal_payload p,
      nv_rationale = emit_rationale c (ea_rationale args), nv_refs = ea_refs args,
      nv_span = spanID, nv_version = SchemaVersion\<rparr>"

lemma emit_prepare_Inr:
  "emit_prepare E c args w = (Inr raw, w') \<longleftrightarrow>
   (\<exists>p i st spanID. ea_payload args = Some p \<and> er_kind (ea_entity args) \<noteq> [] \<and>
      er_slug (ea_entity args) \<noteq> [] \<and>
      newUUIDv7 (em_ms E (w_count w)) (em_rand_id E (w_count w)) (w_ids w) = (Inr i, st) \<and>
      SpanIDFromContext (em_rand_span E (w_count w)) c = Inr spanID \<and>
      validateEnvelope (em_schemas E) (emit_envelope E c args p w i spanID) = None \<and>
      checkPayloadProvenance (Some (marshal_payload p)) = None \<and>
      raw = event_of_envelope (emit_envelope E c args p w i spanID) \<and>
      w' = w\<lparr>w_ids := st, w_count := Suc (w_count w)\<rparr>)"
proof (cases "ea_payload args")
  case None
  then show ?thesis by (simp add: emit_prepare_def tx_simps)
next
  case (Some p)
  obtain r st where id: "newUUIDv7 (em_ms E (w_count w)) (em_rand_id E (w_count w)) (w_ids w) = (r, st)"
    by fastforce
  show ?thesis
    by (auto simp: emit_prepare_def Some tx_simps next_event_id_def read_clock_def id Let_def
        emit_envelope_def)
qed

lemma emit_prepare_db:
  "w_db (snd (emit_prepare E c args w)) = w_db w" "w_direct (snd (emit_prepare E c args w)) = w_direct w"
proof -
  have "tx_keeps (\<lambda>w'. w_db w' = w_db w \<and> w_direct w' = w_direct w) (emit_prepare E c args)"
    by (auto simp: emit_prepare_def next_event_id_def read_clock_def tx_keeps_def Let_def tx_of_def
        tx_check_def tx_bind_def tx_then_def tx_apply split: option.splits prod.splits sum.splits)
  then show "w_db (snd (emit_prepare E c args w)) = w_db w"
    "w_direct (snd (emit_prepare E c args w)) = w_direct w" by (simp_all add: tx_keeps_def)
qed

text \<open>Recording an event never touches the tables outside the ledger.\<close>

lemma Emit_direct: "w_direct (snd (Emit E c args w)) = w_direct w"
proof -
  have db: "w_direct (snd (on_db m w')) = w_direct w'" for m :: "unit dbtx" and w'
    by (simp add: on_db_def split: prod.splits)
  have tail: "w_direct (snd (tx_then (on_db m) (tx_then (on_db n) (tx_return i)) w')) = w_direct w'"
    for m n :: "unit dbtx" and i :: string and w'
    using db [of m w'] db [of n "snd (on_db m w')"]
    by (auto simp: tx_then_def tx_bind_def tx_apply split: prod.splits sum.splits)
  show ?thesis
    using emit_prepare_db(2) [of E c args w] tail
    by (auto simp: Emit_def tx_bind_def split: prod.splits sum.splits)
qed

lemma Emit_cases:
  obtains (refused) e where "Emit E c args w = (Inl e, snd (emit_prepare E c args w))"
    | (written) raw w1 where "emit_prepare E c args w = (Inr raw, w1)"
      "Emit E c args w = (tx_then (on_db (insert_event raw))
         (tx_then (on_db (run_hook E raw)) (tx_return (ev_id raw)))) w1"
proof (cases "emit_prepare E c args w")
  case (Pair r w1)
  then show ?thesis using that by (cases r) (auto simp: Emit_def tx_bind_def)
qed

end
