(* ===== verification/Work_Params.thy ===== *)
theory Work_Params
  imports Event_Emit
begin

text \<open>
  Parameters of the work handlers: \<open>go/internal/work\<close> helpers.go, sha.go, stamp_validate.go
  and the parameter structs of task.go with their decoding by \<open>encoding/json\<close>. The text of an
  error message is not modelled; an error is a constructor of \<open>go_error\<close> with the values the
  message names.
\<close>

section \<open>Shared helpers\<close>

fun firstNonEmpty :: "string list \<Rightarrow> string" where
  "firstNonEmpty [] = []"
| "firstNonEmpty (v # s) = (if v \<noteq> [] then v else firstNonEmpty s)"

definition firstNonZeroInt64 :: "int list \<Rightarrow> int" where
  "firstNonZeroInt64 s =
     (if s = [] then 0
      else case find (\<lambda>v. 0 < v) (butlast s) of Some v \<Rightarrow> v | None \<Rightarrow> last s)"

definition normalizeLimitOffset :: "int \<Rightarrow> int \<Rightarrow> int \<Rightarrow> int \<times> int" where
  "normalizeLimitOffset limit offset def =
     (if limit = 0 then def else limit, if offset < 0 then 0 else offset)"

section \<open>Commit SHAs\<close>

definition unversionedSentinel :: string where
  "unversionedSentinel = ''unversioned''"

definition isHex :: "char \<Rightarrow> bool" where
  "isHex c \<longleftrightarrow>
     (let n = (of_char c :: nat)
      in 48 \<le> n \<and> n \<le> 57 \<or> 97 \<le> n \<and> n \<le> 102 \<or> 65 \<le> n \<and> n \<le> 70)"

definition isValidCommitSHA :: "string \<Rightarrow> bool" where
  "isValidCommitSHA s \<longleftrightarrow> 7 \<le> length s \<and> length s \<le> 40 \<and> list_all isHex s"

definition isValidCommitSHAOrSentinel :: "string \<Rightarrow> bool" where
  "isValidCommitSHAOrSentinel s \<longleftrightarrow> s = unversionedSentinel \<or> isValidCommitSHA s"

section \<open>The stamp guard\<close>

text \<open>\<open>strings.Contains\<close>\<close>

definition contains :: "string \<Rightarrow> string \<Rightarrow> bool" where
  "contains s sub \<longleftrightarrow> list_ex (\<lambda>i. take (length sub) (drop i s) = sub) [0 ..< Suc (length s)]"

text \<open>The class \<open>\s\<close> of Go's regexp.\<close>

definition rx_space :: "char \<Rightarrow> bool" where
  "rx_space c \<longleftrightarrow> c \<in> {CHR 0x09, CHR 0x0A, CHR 0x0C, CHR 0x0D, CHR 0x20}"

text \<open>\<open>\s*chain\(([^)\s]+)\)\<close> at the start of a string.\<close>

definition chain_prefix_at :: "string \<Rightarrow> string option" where
  "chain_prefix_at s =
     (let t = dropWhile rx_space s
      in if take 6 t = ''chain('' then
           let slug = takeWhile (\<lambda>c. c \<noteq> CHR '')'' \<and> \<not> rx_space c) (drop 6 t);
               rest = drop (6 + length slug) t
           in if slug \<noteq> [] \<and> take 1 rest = '')'' then Some slug else None
         else None)"

text \<open>The leftmost match at the beginning of a line, as \<open>(?m)^\<close> asks.\<close>

fun chain_prefix_from :: "bool \<Rightarrow> string \<Rightarrow> string option" where
  "chain_prefix_from at_bol [] = None"
| "chain_prefix_from at_bol (c # cs) =
     (case (if at_bol then chain_prefix_at (c # cs) else None) of
        Some slug \<Rightarrow> Some slug
      | None \<Rightarrow> chain_prefix_from (c = CHR 0x0A) cs)"

definition chainPrefixSlug :: "string \<Rightarrow> string" where
  "chainPrefixSlug body = (case chain_prefix_from True body of Some slug \<Rightarrow> slug | None \<Rightarrow> [])"

definition commitChainMismatch :: "string \<Rightarrow> string \<Rightarrow> string \<Rightarrow> go_error option" where
  "commitChainMismatch body chainSlug taskSlug =
     (if body = [] then None
      else if chainSlug \<noteq> [] \<and> contains body chainSlug then None
      else if taskSlug \<noteq> [] \<and> contains body taskSlug then None
      else
        let other = chainPrefixSlug body
        in if other = [] \<or> other = chainSlug then None else Some (ErrForeignCommit other))"

section \<open>Decoding parameters\<close>

text \<open>A \<open>json.RawMessage\<close>: empty, bytes that are not JSON, or a JSON value.\<close>

datatype raw_params = RawEmpty | RawBad | RawJson json

definition decode_params :: "(json \<Rightarrow> 'p option) \<Rightarrow> raw_params \<Rightarrow> go_error + 'p" where
  "decode_params dec raw =
     (case raw of
        RawEmpty \<Rightarrow> (case dec JNull of Some p \<Rightarrow> Inr p | None \<Rightarrow> Inl ErrParams)
      | RawBad \<Rightarrow> Inl ErrParams
      | RawJson j \<Rightarrow> (case dec j of Some p \<Rightarrow> Inr p | None \<Rightarrow> Inl ErrParams))"

text \<open>\<open>taskReadParams\<close>, \<open>taskTransitionParams\<close> and \<open>taskBlockersParams\<close> have the
  same fields.\<close>

record taskTransitionParams =
  tq_slug :: string
  tq_task_slug :: string
  tq_id :: int
  tq_task_id :: int
  tq_chain_slug :: string
  tq_chain :: string

definition unmarshal_taskTransitionParams :: "json \<Rightarrow> taskTransitionParams option" where
  "unmarshal_taskTransitionParams j = do {
     fs \<leftarrow> struct_fields j;
     x0 \<leftarrow> dec_str (vals fs ''slug'');
     x1 \<leftarrow> dec_str (vals fs ''task_slug'');
     x2 \<leftarrow> dec_int (vals fs ''id'');
     x3 \<leftarrow> dec_int (vals fs ''task_id'');
     x4 \<leftarrow> dec_str (vals fs ''chain_slug'');
     x5 \<leftarrow> dec_str (vals fs ''chain'');
     Some \<lparr>tq_slug = x0, tq_task_slug = x1, tq_id = x2, tq_task_id = x3, tq_chain_slug = x4,
       tq_chain = x5\<rparr> }"

definition resolvedSlug :: "taskTransitionParams \<Rightarrow> string" where
  "resolvedSlug p = firstNonEmpty [tq_slug p, tq_task_slug p]"

definition resolvedID :: "taskTransitionParams \<Rightarrow> int" where
  "resolvedID p = (if tq_id p \<noteq> 0 then tq_id p else tq_task_id p)"

definition resolvedChain :: "taskTransitionParams \<Rightarrow> string" where
  "resolvedChain p = firstNonEmpty [tq_chain_slug p, tq_chain p]"

text \<open>\<open>taskCompleteParams\<close> and \<open>taskStampParams\<close>: an identifier, a SHA and a note.\<close>

record taskCompleteParams = taskTransitionParams +
  tq_handoff :: "string option"
  tq_commit_sha :: string
  tq_sha :: string

definition unmarshal_taskCompleteParams :: "json \<Rightarrow> taskCompleteParams option" where
  "unmarshal_taskCompleteParams j = do {
     fs \<leftarrow> struct_fields j;
     p \<leftarrow> unmarshal_taskTransitionParams j;
     x0 \<leftarrow> dec_str_ptr (vals fs ''handoff_output'');
     x1 \<leftarrow> dec_str (vals fs ''commit_sha'');
     x2 \<leftarrow> dec_str (vals fs ''sha'');
     Some \<lparr>tq_slug = tq_slug p, tq_task_slug = tq_task_slug p, tq_id = tq_id p,
       tq_task_id = tq_task_id p, tq_chain_slug = tq_chain_slug p, tq_chain = tq_chain p,
       tq_handoff = x0, tq_commit_sha = x1, tq_sha = x2\<rparr> }"

record taskBlockParams =
  tb_slug :: string
  tb_task_slug :: string
  tb_id :: int
  tb_task_id :: int
  tb_chain_slug :: string
  tb_blocker_slug :: string
  tb_blocked_by :: string
  tb_blocker_id :: int
  tb_blocker_chain_slug :: string
  tb_blocked_by_chain :: string
  tb_reason :: string

definition unmarshal_taskBlockParams :: "json \<Rightarrow> taskBlockParams option" where
  "unmarshal_taskBlockParams j = do {
     fs \<leftarrow> struct_fields j;
     x0 \<leftarrow> dec_str (vals fs ''slug'');
     x1 \<leftarrow> dec_str (vals fs ''task_slug'');
     x2 \<leftarrow> dec_int (vals fs ''id'');
     x3 \<leftarrow> dec_int (vals fs ''task_id'');
     x4 \<leftarrow> dec_str (vals fs ''chain_slug'');
     x5 \<leftarrow> dec_str (vals fs ''blocker_slug'');
     x6 \<leftarrow> dec_str (vals fs ''blocked_by'');
     x7 \<leftarrow> dec_int (vals fs ''blocker_id'');
     x8 \<leftarrow> dec_str (vals fs ''blocker_chain_slug'');
     x9 \<leftarrow> dec_str (vals fs ''blocked_by_chain'');
     x10 \<leftarrow> dec_str (vals fs ''reason'');
     Some \<lparr>tb_slug = x0, tb_task_slug = x1, tb_id = x2, tb_task_id = x3, tb_chain_slug = x4,
       tb_blocker_slug = x5, tb_blocked_by = x6, tb_blocker_id = x7, tb_blocker_chain_slug = x8,
       tb_blocked_by_chain = x9, tb_reason = x10\<rparr> }"

definition normalizeAliases :: "taskBlockParams \<Rightarrow> taskBlockParams" where
  "normalizeAliases p =
     (let p1 = (if tb_blocker_slug p = [] \<and> tb_blocked_by p \<noteq> []
                then p\<lparr>tb_blocker_slug := tb_blocked_by p\<rparr> else p)
      in if tb_blocker_chain_slug p1 = [] \<and> tb_blocked_by_chain p1 \<noteq> []
         then p1\<lparr>tb_blocker_chain_slug := tb_blocked_by_chain p1\<rparr> else p1)"

end
