(* ===== verification/Work_Tasks.thy ===== *)
theory Work_Tasks
  imports Work_Params
begin

text \<open>
  The task lifecycle of \<open>go/internal/work/task.go\<close>: resolution of identifiers, the state
  machine, the emit of a transition with its sweep, and the handlers \<open>task_start\<close>,
  \<open>task_complete\<close>, \<open>task_cancel\<close>, \<open>task_unstart\<close>, \<open>task_reopen\<close> and
  \<open>task_stamp_sha\<close>. A handler is a transaction on a world; \<open>Inl\<close> is the Go error it
  returns, and an error it reports in its result is a result. Code that runs inside
  \<open>WithWrite\<close> but reads through \<open>pool.DB()\<close> sees the committed database, which is then
  an argument.
\<close>

section \<open>Resolution\<close>

definition resolveTaskChainOn :: "db \<Rightarrow> string \<Rightarrow> string \<Rightarrow> go_error + int \<times> string" where
  "resolveTaskChainOn d slug chainSlug =
     (if chainSlug \<noteq> [] then
        (case sql_first (\<lambda>(t, c). t_slug t = slug \<and> c_slug c = chainSlug) (task_chain_join d) of
           None \<Rightarrow> Inl (ErrTaskNotFound slug chainSlug)
         | Some (t, c) \<Rightarrow> Inr (t_chain t, t_status t))
      else
        let all = sort_key (\<lambda>(t, c). c_slug c) (filter (\<lambda>(t, c). t_slug t = slug) (task_chain_join d))
        in case all of
             [] \<Rightarrow> Inl (ErrTaskNotFound slug [])
           | [(t, c)] \<Rightarrow> Inr (t_chain t, t_status t)
           | _ \<Rightarrow>
               (case filter (\<lambda>(t, c). t_status t \<noteq> ''cancelled'') all of
                  [(t, c)] \<Rightarrow> Inr (t_chain t, t_status t)
                | _ \<Rightarrow> Inl (ErrAmbiguousSlug slug (map (\<lambda>(t, c). c_slug c) all))))"

definition lookupChainProjectOn :: "db \<Rightarrow> int \<Rightarrow> go_error + string" where
  "lookupChainProjectOn d chainID =
     (case sql_first (\<lambda>c. c_id c = chainID) (db_chains d) of
        None \<Rightarrow> Inl ErrNoRows | Some c \<Rightarrow> Inr (c_project c))"

definition lookupChainSlug :: "db \<Rightarrow> int \<Rightarrow> string" where
  "lookupChainSlug d chainID =
     (case sql_first (\<lambda>c. c_id c = chainID) (db_chains d) of None \<Rightarrow> [] | Some c \<Rightarrow> c_slug c)"

text \<open>\<open>resolveTransitionIdentifier\<close>: the id wins; else the pair is passed through.\<close>

definition resolveTransitionIdentifier ::
  "db \<Rightarrow> string \<Rightarrow> int \<Rightarrow> string \<Rightarrow> go_error + string \<times> string" where
  "resolveTransitionIdentifier d slug ident chain =
     (if 0 < ident then
        (case sql_first (\<lambda>(t, c). t_id t = ident) (task_chain_join d) of
           None \<Rightarrow> Inl (ErrTaskIdNotFound ident)
         | Some (t, c) \<Rightarrow> Inr (t_slug t, c_slug c))
      else Inr (slug, chain))"

section \<open>The state machine\<close>

definition taskTransitions :: "(string \<times> string \<times> string) list" where
  "taskTransitions =
     [(''pending'', ''active'', []), (''pending'', ''blocked'', []), (''pending'', ''cancelled'', []),
      (''pending'', ''closed'', ''handoff_output''), (''active'', ''blocked'', []),
      (''active'', ''closed'', []), (''active'', ''cancelled'', []), (''active'', ''pending'', []),
      (''blocked'', ''pending'', []), (''blocked'', ''cancelled'', []), (''closed'', ''pending'', []),
      (''cancelled'', ''pending'', [])]"

fun check_transition_rows ::
  "(string \<times> string \<times> string) list \<Rightarrow> string \<Rightarrow> string \<Rightarrow> string \<Rightarrow> string option \<Rightarrow> go_error option" where
  "check_transition_rows [] slug f t handoff = Some (ErrTransition slug f t)"
| "check_transition_rows ((f', t', gate) # rows) slug f t handoff =
     (if f' \<noteq> f \<or> t' \<noteq> t then check_transition_rows rows slug f t handoff
      else if gate = [] then None
      else if gate = ''handoff_output'' then
        (if handoff \<noteq> None \<and> handoff \<noteq> Some [] then None else Some (ErrGate slug f t))
      else check_transition_rows rows slug f t handoff)"

definition checkTaskTransition :: "string \<Rightarrow> string \<Rightarrow> string \<Rightarrow> string option \<Rightarrow> go_error option" where
  "checkTaskTransition slug f t handoff = check_transition_rows taskTransitions slug f t handoff"

section \<open>Emitting a transition\<close>

definition emit_task :: "emit_env \<Rightarrow> ctx \<Rightarrow> string \<Rightarrow> string \<Rightarrow> payload \<Rightarrow> string wtx" where
  "emit_task E c slug projectID p = emit_entity E c ''task'' slug projectID p"

definition nonempty_ptr :: "string \<Rightarrow> string option" where
  "nonempty_ptr s = (if s \<noteq> [] then Some s else None)"

definition buildTaskTransitionPayload ::
  "string \<Rightarrow> string \<Rightarrow> string \<Rightarrow> string option \<Rightarrow> string option \<Rightarrow> string \<Rightarrow> string \<Rightarrow> payload" where
  "buildTaskTransitionPayload chainSlug fromStatus toStatus handoff sha added removed =
     (if toStatus = ''closed'' then
        PTaskCompleted \<lparr>tp_chain_slug = chainSlug, tp_commit_sha = sha, tp_closure_summary = handoff\<rparr>
      else if toStatus = ''cancelled'' then
        PTaskCancelled \<lparr>tn_chain_slug = chainSlug, tn_reason = None\<rparr>
      else
        PTaskTransitioned \<lparr>tt_chain_slug = chainSlug, tt_from_status = fromStatus,
          tt_to_status = toStatus, tt_blocker_slug = nonempty_ptr added,
          tt_removed_blocker_slug = nonempty_ptr removed\<rparr>)"

text \<open>
  \<open>cleanupBlockersAfterClose\<close> reads the edges of the closing task and writes nothing; a task
  that is not there is no error.
\<close>

definition cleanupBlockersAfterClose :: "int \<Rightarrow> string \<Rightarrow> unit wtx" where
  "cleanupBlockersAfterClose chainID slug =
     tx_bind (tx_read (\<lambda>w. sql_first (\<lambda>t. t_slug t = slug \<and> t_chain t = chainID) (db_tasks (w_db w))))
       (\<lambda>found. case found of
          None \<Rightarrow> tx_return ()
        | Some t \<Rightarrow> tx_bind (tx_read (\<lambda>w. map k_blocked
              (filter (\<lambda>k. k_blocker k = t_id t) (db_blockers (w_db w))))) (\<lambda>formerly. tx_return ()))"

text \<open>\<open>ORDER BY\<close> one column of SQLite values, ties in storage order.\<close>

fun insort_by :: "('r \<Rightarrow> sqlval) \<Rightarrow> 'r \<Rightarrow> 'r list \<Rightarrow> 'r list" where
  "insort_by key r [] = [r]"
| "insort_by key r (x # xs) =
     (if sqlval_less (key x) (key r) then x # insort_by key r xs else r # x # xs)"

definition order_by :: "('r \<Rightarrow> sqlval) \<Rightarrow> 'r list \<Rightarrow> 'r list" where
  "order_by key rows = foldr (insort_by key) rows []"

definition sweep_slugs :: "db \<Rightarrow> int \<Rightarrow> string \<Rightarrow> string list" where
  "sweep_slugs d chainID justClosed =
     map t_slug (order_by t_position
       (filter (\<lambda>t. t_chain t = chainID \<and> t_status t = ''blocked'' \<and> t_slug t \<noteq> justClosed \<and>
          \<not> list_ex (\<lambda>k. k_blocked k = t_id t) (db_blockers d)) (db_tasks d)))"

definition sweepProseOnlyBlockedAfterClose ::
  "emit_env \<Rightarrow> ctx \<Rightarrow> int \<Rightarrow> string \<Rightarrow> string \<Rightarrow> unit wtx" where
  "sweepProseOnlyBlockedAfterClose E c chainID projectID justClosed =
     tx_bind (tx_read (\<lambda>w. sweep_slugs (w_db w) chainID justClosed)) (\<lambda>slugs.
     if slugs = [] then tx_return ()
     else tx_bind (tx_read (\<lambda>w. lookupChainSlug (w_db w) chainID)) (\<lambda>canonical.
       tx_foreach (\<lambda>slug. tx_bind
         (emit_task E c slug projectID (PTaskTransitioned
            \<lparr>tt_chain_slug = canonical, tt_from_status = ''blocked'', tt_to_status = ''pending'',
             tt_blocker_slug = None, tt_removed_blocker_slug = None\<rparr>)) (\<lambda>_. tx_return ())) slugs))"

definition transitionTaskWithBlockerEdgesInTx ::
  "emit_env \<Rightarrow> ctx \<Rightarrow> string \<Rightarrow> string \<Rightarrow> string \<Rightarrow> string option \<Rightarrow> string option \<Rightarrow> string \<Rightarrow> string \<Rightarrow>
   string wtx" where
  "transitionTaskWithBlockerEdgesInTx E c slug toStatus chainSlug handoff sha added removed =
     tx_bind (\<lambda>w. tx_of (resolveTaskChainOn (w_db w) slug chainSlug) w) (\<lambda>(chainID, fromStatus).
     tx_then (tx_check (checkTaskTransition slug fromStatus toStatus handoff))
    (tx_bind (\<lambda>w. tx_of (lookupChainProjectOn (w_db w) chainID) w) (\<lambda>projectID.
     tx_bind (tx_read (\<lambda>w. if chainSlug = [] then lookupChainSlug (w_db w) chainID else chainSlug))
       (\<lambda>canonical.
     let payload = buildTaskTransitionPayload canonical fromStatus toStatus handoff sha added removed
     in tx_then (if toStatus = ''closed'' \<or> toStatus = ''cancelled''
                 then cleanupBlockersAfterClose chainID slug else tx_return ())
       (tx_bind (emit_task E c slug projectID payload) (\<lambda>eventID.
        tx_then (if toStatus = ''closed''
                 then sweepProseOnlyBlockedAfterClose E c chainID projectID slug else tx_return ())
          (tx_return eventID)))))))"

definition transitionTaskWithBlockerEdges ::
  "emit_env \<Rightarrow> ctx \<Rightarrow> string \<Rightarrow> string \<Rightarrow> string \<Rightarrow> string option \<Rightarrow> string option \<Rightarrow> string \<Rightarrow> string \<Rightarrow>
   unit wtx" where
  "transitionTaskWithBlockerEdges E c slug toStatus chainSlug handoff sha added removed =
     WithWrite E c (tx_bind
       (transitionTaskWithBlockerEdgesInTx E c slug toStatus chainSlug handoff sha added removed)
       (\<lambda>_. tx_return ()))"

definition transitionTask ::
  "emit_env \<Rightarrow> ctx \<Rightarrow> string \<Rightarrow> string \<Rightarrow> string \<Rightarrow> string option \<Rightarrow> string option \<Rightarrow> unit wtx" where
  "transitionTask E c slug toStatus chainSlug handoff sha =
     transitionTaskWithBlockerEdges E c slug toStatus chainSlug handoff sha [] []"

section \<open>Results\<close>

record TaskTransitionResult =
  tr_ok :: bool
  tr_slug :: string
  tr_status :: string
  tr_commit :: string
  tr_error :: "go_error option"
  tr_action :: string

definition zero_result :: TaskTransitionResult where
  "zero_result = \<lparr>tr_ok = False, tr_slug = [], tr_status = [], tr_commit = [], tr_error = None,
     tr_action = []\<rparr>"

definition error_result :: "go_error \<Rightarrow> TaskTransitionResult" where
  "error_result e = zero_result\<lparr>tr_error := Some e\<rparr>"

definition ok_result :: "string \<Rightarrow> string \<Rightarrow> TaskTransitionResult" where
  "ok_result slug status = zero_result\<lparr>tr_ok := True, tr_slug := slug, tr_status := status\<rparr>"

text \<open>\<open>return TaskTransitionResult{Error: err.Error()}, nil\<close>: an error becomes a result.\<close>

definition report :: "(go_error \<Rightarrow> 'a) \<Rightarrow> ('s, 'a) tx \<Rightarrow> ('s, 'a) tx" where
  "report f m = (\<lambda>s. case m s of (Inl e, s') \<Rightarrow> (Inr (f e), s') | (Inr a, s') \<Rightarrow> (Inr a, s'))"

section \<open>task\_start and task\_complete\<close>

definition taskHasStructuralBlockersOn :: "db \<Rightarrow> string \<Rightarrow> string \<Rightarrow> bool" where
  "taskHasStructuralBlockersOn d slug chainSlug \<longleftrightarrow>
     (if chainSlug = [] then
        list_ex (\<lambda>k. list_ex (\<lambda>t. t_id t = k_blocked k \<and> t_slug t = slug) (db_tasks d)) (db_blockers d)
      else
        list_ex (\<lambda>k. list_ex (\<lambda>(t, c). t_id t = k_blocked k \<and> t_slug t = slug \<and> c_slug c = chainSlug)
          (task_chain_join d)) (db_blockers d))"

definition autoClearStatusOnlyBlockedIfNeededInTx ::
  "emit_env \<Rightarrow> ctx \<Rightarrow> string \<Rightarrow> string \<Rightarrow> unit wtx" where
  "autoClearStatusOnlyBlockedIfNeededInTx E c slug chainSlug =
     tx_bind (\<lambda>w. tx_of (resolveTaskChainOn (w_db w) slug chainSlug) w) (\<lambda>(chainID, fromStatus).
     if fromStatus \<noteq> ''blocked'' then tx_return ()
     else tx_bind (tx_read (\<lambda>w. taskHasStructuralBlockersOn (w_db w) slug chainSlug)) (\<lambda>hasEdges.
       if hasEdges then tx_return ()
       else tx_bind (transitionTaskWithBlockerEdgesInTx E c slug ''pending'' chainSlug None None [] [])
              (\<lambda>_. tx_return ())))"

definition HandleTaskStartInTx ::
  "emit_env \<Rightarrow> ctx \<Rightarrow> db \<Rightarrow> raw_params \<Rightarrow> (TaskTransitionResult \<times> string) wtx" where
  "HandleTaskStartInTx E c committed params =
     tx_bind (tx_of (decode_params unmarshal_taskTransitionParams params)) (\<lambda>p.
     if resolvedID p = 0 \<and> resolvedSlug p = [] then
       tx_return (error_result (ErrIdentifierRequired ''task_start''), [])
     else report (\<lambda>e. (error_result e, []))
      (tx_bind (tx_of (resolveTransitionIdentifier committed (resolvedSlug p) (resolvedID p)
          (resolvedChain p))) (\<lambda>(slug, chainSlug).
       tx_then (autoClearStatusOnlyBlockedIfNeededInTx E c slug chainSlug)
      (tx_bind (transitionTaskWithBlockerEdgesInTx E c slug ''active'' chainSlug None None [] [])
        (\<lambda>eventID. tx_return (ok_result slug ''active'', eventID))))))"

text \<open>
  The end of \<open>HandleTaskStart\<close> and \<open>HandleTaskComplete\<close>: an error of \<open>WithWrite\<close> is
  returned unless the captured result already reports one.
\<close>

definition run_captured ::
  "emit_env \<Rightarrow> ctx \<Rightarrow> (TaskTransitionResult \<times> string) wtx \<Rightarrow> TaskTransitionResult wtx" where
  "run_captured E c fn w =
     (case WithWrite_capture E c fn w of
        ((None, r), w') \<Rightarrow> (Inr (case r of Some (res, _) \<Rightarrow> res | None \<Rightarrow> zero_result), w')
      | ((Some e, r), w') \<Rightarrow>
          (case r of
             Some (res, _) \<Rightarrow> if tr_error res = None then (Inl e, w') else (Inr res, w')
           | None \<Rightarrow> (Inl e, w')))"

definition HandleTaskStart :: "emit_env \<Rightarrow> ctx \<Rightarrow> raw_params \<Rightarrow> TaskTransitionResult wtx" where
  "HandleTaskStart E c params = (\<lambda>w. run_captured E c (HandleTaskStartInTx E c (w_db w) params) w)"

definition HandleTaskCompleteInTx ::
  "emit_env \<Rightarrow> ctx \<Rightarrow> db \<Rightarrow> raw_params \<Rightarrow> (TaskTransitionResult \<times> string) wtx" where
  "HandleTaskCompleteInTx E c committed params =
     tx_bind (tx_of (decode_params unmarshal_taskCompleteParams params)) (\<lambda>p.
     let q = taskTransitionParams.truncate p; sha = firstNonEmpty [tq_commit_sha p, tq_sha p] in
     if resolvedID q = 0 \<and> resolvedSlug q = [] then
       tx_return (error_result (ErrIdentifierRequired ''task_complete''), [])
     else report (\<lambda>e. (error_result e, []))
      (tx_bind (tx_of (resolveTransitionIdentifier committed (resolvedSlug q) (resolvedID q)
          (resolvedChain q))) (\<lambda>(slug, chainSlug).
       if sha \<noteq> [] \<and> \<not> isValidCommitSHAOrSentinel sha then
         tx_return ((error_result (ErrBadSHA sha))\<lparr>tr_action := ''task_complete''\<rparr>, [])
       else
         tx_bind (transitionTaskWithBlockerEdgesInTx E c slug ''closed'' chainSlug (tq_handoff p)
             (nonempty_ptr sha) [] [])
           (\<lambda>eventID. tx_return ((ok_result slug ''closed'')\<lparr>tr_commit := sha\<rparr>, eventID)))))"

definition HandleTaskComplete :: "emit_env \<Rightarrow> ctx \<Rightarrow> raw_params \<Rightarrow> TaskTransitionResult wtx" where
  "HandleTaskComplete E c params = (\<lambda>w. run_captured E c (HandleTaskCompleteInTx E c (w_db w) params) w)"

section \<open>task\_cancel, task\_unstart and task\_reopen\<close>

definition handle_transition ::
  "string \<Rightarrow> string \<Rightarrow> emit_env \<Rightarrow> ctx \<Rightarrow> raw_params \<Rightarrow> TaskTransitionResult wtx" where
  "handle_transition action toStatus E c params =
     tx_bind (tx_of (decode_params unmarshal_taskTransitionParams params)) (\<lambda>p.
     if resolvedID p = 0 \<and> resolvedSlug p = [] then
       tx_return (error_result (ErrIdentifierRequired action))
     else report error_result
      (tx_bind (\<lambda>w. tx_of (resolveTransitionIdentifier (w_db w) (resolvedSlug p) (resolvedID p)
          (resolvedChain p)) w) (\<lambda>(slug, chainSlug).
       tx_then (transitionTask E c slug toStatus chainSlug None None)
         (tx_return (ok_result slug toStatus)))))"

definition HandleTaskCancel :: "emit_env \<Rightarrow> ctx \<Rightarrow> raw_params \<Rightarrow> TaskTransitionResult wtx" where
  "HandleTaskCancel = handle_transition ''task_cancel'' ''cancelled''"

definition HandleTaskUnstart :: "emit_env \<Rightarrow> ctx \<Rightarrow> raw_params \<Rightarrow> TaskTransitionResult wtx" where
  "HandleTaskUnstart = handle_transition ''task_unstart'' ''pending''"

definition HandleTaskReopen :: "emit_env \<Rightarrow> ctx \<Rightarrow> raw_params \<Rightarrow> TaskTransitionResult wtx" where
  "HandleTaskReopen = handle_transition ''task_reopen'' ''pending''"

end
