(* ===== verification/Work_Blockers.thy ===== *)
theory Work_Blockers
  imports Work_Tasks
begin

text \<open>
  The rest of \<open>go/internal/work/task.go\<close>: \<open>task_stamp_sha\<close>, \<open>task_block\<close>,
  \<open>task_unblock\<close>, \<open>task_blockers\<close>, \<open>task_read\<close> and \<open>task_edit\<close>. These handlers
  read the committed database first and write in a \<open>WithWrite\<close> of their own. The registered path
  of a project and the message of a commit (\<open>git show\<close>) come from outside and are arguments.
\<close>

section \<open>task\_stamp\_sha\<close>

record ShaStampResult =
  ss_ok :: bool
  ss_slug :: string
  ss_commit :: string
  ss_error :: "go_error option"
  ss_action :: string

definition stamp_error :: "go_error \<Rightarrow> ShaStampResult" where
  "stamp_error e = \<lparr>ss_ok = False, ss_slug = [], ss_commit = [], ss_error = Some e, ss_action = []\<rparr>"

record stamp_env =
  st_project_path :: "string \<Rightarrow> string"                    \<comment> \<open>\<open>projects.path\<close>, empty when unset\<close>
  st_git_message :: "string \<Rightarrow> string \<Rightarrow> string option"     \<comment> \<open>repository and SHA\<close>

definition stamp_guard :: "stamp_env \<Rightarrow> string \<Rightarrow> string \<Rightarrow> string \<Rightarrow> string \<Rightarrow> go_error option" where
  "stamp_guard S projectID sha canonical slug =
     (if sha = unversionedSentinel then None
      else
        let repoPath = st_project_path S projectID
        in if repoPath = [] then None
           else case st_git_message S repoPath sha of
                  None \<Rightarrow> None
                | Some body \<Rightarrow> commitChainMismatch body canonical slug)"

definition stamp_write ::
  "emit_env \<Rightarrow> ctx \<Rightarrow> int \<Rightarrow> string \<Rightarrow> string \<Rightarrow> string \<Rightarrow> string \<Rightarrow> string option \<Rightarrow> string \<Rightarrow> unit wtx" where
  "stamp_write E c chainID projectID canonical slug status handoff sha =
     (if status = ''closed'' then
        WithWrite E c (tx_bind (emit_task E c slug projectID
          (PTaskStamped \<lparr>ts_chain_slug = canonical, ts_commit_sha = sha\<rparr>)) (\<lambda>_. tx_return ()))
      else
        WithWrite E c (tx_then (cleanupBlockersAfterClose chainID slug)
         (tx_bind (emit_task E c slug projectID (PTaskCompleted
            \<lparr>tp_chain_slug = canonical, tp_commit_sha = Some sha, tp_closure_summary = handoff\<rparr>))
            (\<lambda>_. sweepProseOnlyBlockedAfterClose E c chainID projectID slug))))"

definition HandleTaskStampSHA ::
  "emit_env \<Rightarrow> stamp_env \<Rightarrow> ctx \<Rightarrow> raw_params \<Rightarrow> ShaStampResult wtx" where
  "HandleTaskStampSHA E S c params =
     tx_bind (tx_of (decode_params unmarshal_taskCompleteParams params)) (\<lambda>p.
     let q = taskTransitionParams.truncate p; sha = firstNonEmpty [tq_commit_sha p, tq_sha p] in
     if resolvedID q = 0 \<and> resolvedSlug q = [] \<or> sha = [] then
       tx_return (stamp_error (ErrIdentifierRequired ''task_stamp_sha''))
     else if \<not> isValidCommitSHAOrSentinel sha then
       tx_return ((stamp_error (ErrBadSHA sha))\<lparr>ss_action := ''task_stamp_sha''\<rparr>)
     else (\<lambda>w. let d = w_db w in
       case resolveTransitionIdentifier d (resolvedSlug q) (resolvedID q) (resolvedChain q) of
         Inl e \<Rightarrow> (Inr (stamp_error e), w)
       | Inr (slug, chainSlug) \<Rightarrow>
       (case resolveTaskChainOn d slug chainSlug of
         Inl e \<Rightarrow> (Inr (stamp_error e), w)
       | Inr (chainID, status) \<Rightarrow>
       (case lookupChainProjectOn d chainID of
         Inl e \<Rightarrow> (Inl e, w)
       | Inr projectID \<Rightarrow>
           let canonical = firstNonEmpty [lookupChainSlug d chainID, chainSlug] in
           case stamp_guard S projectID sha canonical slug of
             Some e \<Rightarrow> (Inr ((stamp_error e)\<lparr>ss_action := ''task_stamp_sha''\<rparr>), w)
           | None \<Rightarrow>
               if status = ''closed'' \<and> tq_handoff p \<noteq> None \<and> tq_handoff p \<noteq> Some [] then
                 (Inr ((stamp_error (ErrStampHandoff slug))\<lparr>ss_action := ''task_stamp_sha''\<rparr>), w)
               else if status \<in> {''closed'', ''pending'', ''active''} then
                 tx_then (stamp_write E c chainID projectID canonical slug status (tq_handoff p) sha)
                   (tx_return \<lparr>ss_ok = True, ss_slug = slug, ss_commit = sha, ss_error = None,
                      ss_action = []\<rparr>) w
               else (Inr (stamp_error (ErrStampState slug status)), w)))))"

section \<open>Blocker edges\<close>

definition resolveTaskBySlugOrID ::
  "db \<Rightarrow> string \<Rightarrow> int \<Rightarrow> string \<Rightarrow> go_error + int \<times> int \<times> string" where
  "resolveTaskBySlugOrID d slug ident chainSlug =
     (if 0 < ident then
        (case sql_first (\<lambda>t. t_id t = ident) (db_tasks d) of
           None \<Rightarrow> Inl (ErrTaskIdNotFound ident)
         | Some t \<Rightarrow> Inr (ident, t_chain t, t_status t))
      else
        (case resolveTaskChainOn d slug chainSlug of
           Inl e \<Rightarrow> Inl e
         | Inr (chainID, status) \<Rightarrow>
             (case sql_first (\<lambda>t. t_slug t = slug \<and> t_chain t = chainID) (db_tasks d) of
                None \<Rightarrow> Inl ErrNoRows
              | Some t \<Rightarrow> Inr (t_id t, chainID, status))))"

definition task_slug_by_id :: "db \<Rightarrow> int \<Rightarrow> string option" where
  "task_slug_by_id d ident = map_option t_slug (sql_first (\<lambda>t. t_id t = ident) (db_tasks d))"

text \<open>
  The project and the chain slug an edge event is stamped with; a failed lookup leaves the zero
  value.
\<close>

definition edge_scope :: "db \<Rightarrow> int \<Rightarrow> string \<times> string" where
  "edge_scope d blockedID =
     (let chainID = (case sql_first (\<lambda>t. t_id t = blockedID) (db_tasks d) of
                       Some t \<Rightarrow> t_chain t | None \<Rightarrow> 0);
          projectID = (case sql_first (\<lambda>t. t_id t = blockedID) (db_tasks d) of
                         None \<Rightarrow> []
                       | Some t \<Rightarrow> (case lookupChainProjectOn d chainID of Inl e \<Rightarrow> [] | Inr pid \<Rightarrow> pid))
      in (projectID, lookupChainSlug d chainID))"

definition edge_count :: "db \<Rightarrow> int \<Rightarrow> int \<Rightarrow> nat" where
  "edge_count d blockedID blockerID =
     length (filter (\<lambda>k. k_blocked k = blockedID \<and> k_blocker k = blockerID) (db_blockers d))"

definition emit_edge ::
  "emit_env \<Rightarrow> ctx \<Rightarrow> string \<Rightarrow> string \<times> string \<Rightarrow> string option \<Rightarrow> string option \<Rightarrow> unit wtx" where
  "emit_edge E c slug scope added removed =
     WithWrite E c (tx_bind (emit_task E c slug (fst scope) (PTaskTransitioned
       \<lparr>tt_chain_slug = snd scope, tt_from_status = ''blocked'', tt_to_status = ''blocked'',
        tt_blocker_slug = added, tt_removed_blocker_slug = removed\<rparr>)) (\<lambda>_. tx_return ()))"

text \<open>The blocker a call names, with its chain defaulting to the chain of the blocked task.\<close>

definition named_blocker :: "db \<Rightarrow> taskBlockParams \<Rightarrow> go_error + int \<times> int \<times> string" where
  "named_blocker d p = resolveTaskBySlugOrID d (tb_blocker_slug p) (tb_blocker_id p)
     (if tb_blocker_chain_slug p = [] then tb_chain_slug p else tb_blocker_chain_slug p)"

definition blocker_slug_for_emit :: "db \<Rightarrow> taskBlockParams \<Rightarrow> int \<Rightarrow> string" where
  "blocker_slug_for_emit d p blockerID =
     (if tb_blocker_slug p \<noteq> [] then tb_blocker_slug p else deref_or [] (task_slug_by_id d blockerID))"

definition block_transition ::
  "emit_env \<Rightarrow> ctx \<Rightarrow> taskBlockParams \<Rightarrow> string \<Rightarrow> string \<Rightarrow> TaskTransitionResult wtx" where
  "block_transition E c p slug current = (\<lambda>w.
     if current \<noteq> ''blocked'' then
       report error_result (tx_then
         (transitionTaskWithBlockerEdges E c slug ''blocked'' (tb_chain_slug p) None None
            (if tb_blocker_slug p = [] \<and> 0 < tb_blocker_id p
             then deref_or [] (task_slug_by_id (w_db w) (tb_blocker_id p)) else tb_blocker_slug p) [])
         (tx_return (ok_result slug ''blocked''))) w
     else (Inr (ok_result slug ''blocked''), w))"

definition HandleTaskBlock :: "emit_env \<Rightarrow> ctx \<Rightarrow> raw_params \<Rightarrow> TaskTransitionResult wtx" where
  "HandleTaskBlock E c params =
     tx_bind (tx_of (decode_params unmarshal_taskBlockParams params)) (\<lambda>p0. (\<lambda>w.
     let p = normalizeAliases p0; d = w_db w;
         slug0 = firstNonEmpty [tb_slug p, tb_task_slug p];
         ident = (if tb_id p = 0 then tb_task_id p else tb_id p)
     in
     if slug0 = [] \<and> ident = 0 then (Inr (error_result (ErrIdentifierRequired ''task_block'')), w)
     else
       case resolveTaskBySlugOrID d slug0 ident (tb_chain_slug p) of
         Inl e \<Rightarrow> (Inr (error_result e), w)
       | Inr (blockedID, _, current) \<Rightarrow>
       (case (if slug0 = [] then task_slug_by_id d blockedID else Some slug0) of
         None \<Rightarrow> (Inl ErrNoRows, w)
       | Some slug \<Rightarrow>
           if tb_blocker_slug p \<noteq> [] \<or> 0 < tb_blocker_id p then
             (case named_blocker d p of
                Inl e \<Rightarrow> (Inr (error_result e), w)
              | Inr (blockerID, _, blockerStatus) \<Rightarrow>
                  if blockerID = blockedID then (Inr (error_result (ErrSelfBlock slug)), w)
                  else if blockerStatus = ''closed'' \<or> blockerStatus = ''cancelled'' then
                    (Inr (error_result (ErrTerminalBlocker (tb_blocker_slug p) blockerStatus)), w)
                  else if current = ''blocked'' \<and> edge_count d blockedID blockerID = 0 then
                    tx_then (emit_edge E c slug (edge_scope d blockedID)
                        (Some (blocker_slug_for_emit d p blockerID)) None)
                      (tx_return (ok_result slug ''blocked'')) w
                  else block_transition E c p slug current w)
           else block_transition E c p slug current w)))"

text \<open>
  \<open>task_unblock\<close>: the slugs of the edges to remove, in the order of the query. One event per
  edge; when no edge remains and the task is blocked, the last one moves it to pending.
\<close>

definition edges_of :: "db \<Rightarrow> int \<Rightarrow> blocker_row list" where
  "edges_of d blockedID =
     sort_key (\<lambda>k. (k_created k, k_blocker k)) (filter (\<lambda>k. k_blocked k = blockedID) (db_blockers d))"

definition all_blocker_slugs :: "db \<Rightarrow> int \<Rightarrow> string list" where
  "all_blocker_slugs d blockedID = concat (map (\<lambda>k.
     map t_slug (filter (\<lambda>t. t_id t = k_blocker k) (db_tasks d))) (edges_of d blockedID))"

fun unblock_loop ::
  "emit_env \<Rightarrow> ctx \<Rightarrow> string \<Rightarrow> string \<Rightarrow> string \<times> string \<Rightarrow> bool \<Rightarrow> string list \<Rightarrow>
   (go_error option) wtx" where
  "unblock_loop E c slug chainSlug scope terminal [] = tx_return None"
| "unblock_loop E c slug chainSlug scope terminal (bs # rest) =
     (if terminal \<and> rest = [] then
        report Some (tx_then (transitionTaskWithBlockerEdges E c slug ''pending'' chainSlug None None [] bs)
          (tx_return None))
      else tx_then (emit_edge E c slug scope None (Some bs))
             (unblock_loop E c slug chainSlug scope terminal rest))"

definition HandleTaskUnblock :: "emit_env \<Rightarrow> ctx \<Rightarrow> raw_params \<Rightarrow> TaskTransitionResult wtx" where
  "HandleTaskUnblock E c params =
     tx_bind (tx_of (decode_params unmarshal_taskBlockParams params)) (\<lambda>p0. (\<lambda>w.
     let p = normalizeAliases p0; d = w_db w;
         slug0 = firstNonEmpty [tb_slug p, tb_task_slug p];
         ident = (if tb_id p = 0 then tb_task_id p else tb_id p)
     in
     if slug0 = [] \<and> ident = 0 then (Inr (error_result (ErrIdentifierRequired ''task_unblock'')), w)
     else
       case resolveTaskBySlugOrID d slug0 ident (tb_chain_slug p) of
         Inl e \<Rightarrow> (Inr (error_result e), w)
       | Inr (blockedID, _, _) \<Rightarrow>
       (case (if slug0 = [] then task_slug_by_id d blockedID else Some slug0) of
         None \<Rightarrow> (Inl ErrNoRows, w)
       | Some slug \<Rightarrow>
       (case (if tb_blocker_slug p \<noteq> [] \<or> 0 < tb_blocker_id p then
                (case named_blocker d p of
                   Inl e \<Rightarrow> Inl e
                 | Inr (blockerID, _, _) \<Rightarrow>
                     if edge_count d blockedID blockerID = 0
                     then Inl (ErrNotBlockedBy slug (tb_blocker_slug p))
                     else Inr [blocker_slug_for_emit d p blockerID])
              else Inr (all_blocker_slugs d blockedID)) of
         Inl e \<Rightarrow> (Inr (error_result e), w)
       | Inr removed \<Rightarrow>
       (case sql_first (\<lambda>t. t_id t = blockedID) (db_tasks d) of
         None \<Rightarrow> (Inl ErrNoRows, w)
       | Some t \<Rightarrow>
           let remaining = length (edges_of d blockedID) - length removed;
               blocked = (t_status t = ''blocked'');
               done = (zero_result\<lparr>tr_ok := True, tr_slug := slug\<rparr>)
           in if removed \<noteq> [] then
                tx_bind (unblock_loop E c slug (tb_chain_slug p) (edge_scope d blockedID)
                    (remaining = 0 \<and> blocked) removed)
                  (\<lambda>err. tx_return (case err of Some e \<Rightarrow> error_result e | None \<Rightarrow> done)) w
              else if blocked then
                report error_result (tx_then
                  (transitionTaskWithBlockerEdges E c slug ''pending'' (tb_chain_slug p) None None [] [])
                  (tx_return done)) w
              else (Inr done, w))))))"

section \<open>task\_blockers and task\_read\<close>

record BlockerEntry =
  be_slug_of :: string
  be_chain_of :: string
  be_reason :: string
  be_created :: string
  be_kind :: string

text \<open>A list or an error envelope.\<close>

definition HandleTaskBlockers :: "db \<Rightarrow> raw_params \<Rightarrow> go_error + (go_error + BlockerEntry list)" where
  "HandleTaskBlockers d params =
     (case decode_params unmarshal_taskTransitionParams params of
        Inl e \<Rightarrow> Inl e
      | Inr p \<Rightarrow>
          if resolvedSlug p = [] \<and> resolvedID p = 0 then Inr (Inl (ErrIdentifierRequired ''task_blockers''))
          else
            case resolveTaskBySlugOrID d (resolvedSlug p) (resolvedID p) (resolvedChain p) of
              Inl e \<Rightarrow> Inr (Inl e)
            | Inr (blockedID, _, _) \<Rightarrow>
            (case sql_first (\<lambda>t. t_id t = blockedID) (db_tasks d) of
               None \<Rightarrow> Inl ErrNoRows
             | Some t \<Rightarrow>
                 let out = concat (map (\<lambda>k.
                       map (\<lambda>(bt, bc). \<lparr>be_slug_of = t_slug bt, be_chain_of = c_slug bc,
                              be_reason = k_reason k, be_created = k_created k, be_kind = []\<rparr>)
                         (filter (\<lambda>(bt, bc). t_id bt = k_blocker k) (task_chain_join d)))
                       (edges_of d blockedID))
                 in Inr (Inr (if out = [] \<and> t_status t = ''blocked'' then
                      [\<lparr>be_slug_of = [], be_chain_of = [], be_reason = ''task has status=blocked'',
                        be_created = [], be_kind = ''status_only''\<rparr>]
                    else out))))"

text \<open>\<open>rows.Scan\<close> of a task row into a \<open>Task\<close>: the position must be an integer.\<close>

record Task =
  tk_row :: task_row
  tk_position :: int
  tk_commit_sha :: string

definition scan_task :: "task_row \<Rightarrow> go_error + Task" where
  "scan_task t =
     (case scan_int64 (t_position t) of
        None \<Rightarrow> Inl (ErrScan ''position'')
      | Some n \<Rightarrow> Inr \<lparr>tk_row = t, tk_position = n, tk_commit_sha = deref_or [] (t_commit t)\<rparr>)"

definition readTaskByID :: "db \<Rightarrow> int \<Rightarrow> go_error + (go_error + Task)" where
  "readTaskByID d ident =
     (case sql_first (\<lambda>t. t_id t = ident) (db_tasks d) of
        None \<Rightarrow> Inr (Inl (ErrTaskIdNotFound ident))
      | Some t \<Rightarrow> map_sum id Inr (scan_task t))"

definition readTaskBySlug :: "db \<Rightarrow> string \<Rightarrow> string \<Rightarrow> go_error + (go_error + Task)" where
  "readTaskBySlug d slug chainSlug =
     (case resolveTaskChainOn d slug chainSlug of
        Inl e \<Rightarrow> Inr (Inl e)
      | Inr (chainID, _) \<Rightarrow>
          (case sql_first (\<lambda>t. t_slug t = slug \<and> t_chain t = chainID) (db_tasks d) of
             None \<Rightarrow> Inl ErrNoRows
           | Some t \<Rightarrow> map_sum id Inr (scan_task t)))"

definition HandleTaskRead :: "db \<Rightarrow> raw_params \<Rightarrow> go_error + (go_error + Task)" where
  "HandleTaskRead d params =
     (case decode_params unmarshal_taskTransitionParams params of
        Inl e \<Rightarrow> Inl e
      | Inr p \<Rightarrow>
          if 0 < resolvedID p then readTaskByID d (resolvedID p)
          else if resolvedSlug p = [] then Inr (Inl (ErrIdentifierRequired ''task_read''))
          else readTaskBySlug d (resolvedSlug p) (resolvedChain p))"

end
