(* ===== verification/Work_Task_Edit.thy ===== *)
theory Work_Task_Edit
  imports Work_Blockers
begin

text \<open>
  \<open>task_edit\<close> of \<open>go/internal/work/task.go\<close>: field shapes, the aggregated envelope errors,
  the append variant of \<open>handoff_output\<close>, and the emit of \<open>TaskEdited\<close>. \<open>raw_text\<close> is
  the source text of a JSON value, which \<open>jsonutil.ScalarToString\<close> falls back to for a list item
  that is no scalar; \<open>ScalarToString\<close> prints numbers and booleans.
\<close>

section \<open>Fields\<close>

datatype taskEditFieldShape = taskEditShapeString | taskEditShapeStringOrList
datatype taskEditOp = opSet | opAppend

record edit_spec =
  es_name :: string
  es_column :: string
  es_shape :: taskEditFieldShape
  es_op :: taskEditOp

definition taskEditFieldSpec :: "edit_spec list" where
  "taskEditFieldSpec =
     [\<lparr>es_name = ''problem_statement'', es_column = ''problem_statement'',
       es_shape = taskEditShapeString, es_op = opSet\<rparr>,
      \<lparr>es_name = ''acceptance_criteria'', es_column = ''acceptance_criteria'',
       es_shape = taskEditShapeStringOrList, es_op = opSet\<rparr>,
      \<lparr>es_name = ''context_required'', es_column = ''context_required'',
       es_shape = taskEditShapeStringOrList, es_op = opSet\<rparr>,
      \<lparr>es_name = ''constraints'', es_column = ''constraints'',
       es_shape = taskEditShapeString, es_op = opSet\<rparr>,
      \<lparr>es_name = ''handoff_output'', es_column = ''handoff_output'',
       es_shape = taskEditShapeString, es_op = opSet\<rparr>,
      \<lparr>es_name = ''handoff_output_append'', es_column = ''handoff_output'',
       es_shape = taskEditShapeString, es_op = opAppend\<rparr>]"

definition taskEditableFields :: "string list" where
  "taskEditableFields = map es_name taskEditFieldSpec"

definition taskEditRoutingKeys :: "string list" where
  "taskEditRoutingKeys =
     [''slug'', ''task_slug'', ''chain_slug'', ''chain'', ''id'', ''task_id'', ''rationale'']"

definition itoa_int :: "int \<Rightarrow> string" where
  "itoa_int n = (if n < 0 then CHR ''-'' # itoa (nat (- n)) else itoa (nat n))"

fun ScalarToString :: "(json \<Rightarrow> string) \<Rightarrow> json \<Rightarrow> string" where
  "ScalarToString raw_text JNull = []"
| "ScalarToString raw_text (JStr s) = s"
| "ScalarToString raw_text (JInt n) = itoa_int n"
| "ScalarToString raw_text (JFrac x) = x"
| "ScalarToString raw_text (JBool b) = (if b then ''true'' else ''false'')"
| "ScalarToString raw_text j = raw_text j"

fun decodeTaskEditField :: "(json \<Rightarrow> string) \<Rightarrow> json \<Rightarrow> taskEditFieldShape \<Rightarrow> string option" where
  "decodeTaskEditField raw_text JNull shape = Some []"
| "decodeTaskEditField raw_text (JStr s) shape = Some s"
| "decodeTaskEditField raw_text (JArr js) taskEditShapeStringOrList =
     (case dec_all (str_val []) js of
        Some xs \<Rightarrow> Some (acceptanceCriteriaJoined xs)
      | None \<Rightarrow> Some (acceptanceCriteriaJoined (map (ScalarToString raw_text) js)))"
| "decodeTaskEditField raw_text _ _ = None"

section \<open>The handler\<close>

record TaskEditResult =
  ed_ok :: bool
  ed_slug :: string
  ed_written :: "string list"
  ed_error :: "go_error option"
  ed_errors :: "go_error list"
  ed_field_errors :: "string list"      \<comment> \<open>the keys of \<open>field_errors\<close>\<close>
  ed_editable :: "string list"

definition edit_error :: "go_error \<Rightarrow> TaskEditResult" where
  "edit_error e = \<lparr>ed_ok = False, ed_slug = [], ed_written = [], ed_error = Some e, ed_errors = [],
     ed_field_errors = [], ed_editable = []\<rparr>"

text \<open>\<open>json.Unmarshal\<close> into a \<open>map[string]json.RawMessage\<close>.\<close>

definition unmarshal_obj :: "json \<Rightarrow> (string \<times> json) list option" where
  "unmarshal_obj j = (case j of JNull \<Rightarrow> Some [] | JObj fs \<Rightarrow> Some (obj_members fs) | _ \<Rightarrow> None)"

text \<open>One member read into a string or an int64, with the error dropped.\<close>

definition obj_str :: "(string \<times> json) list \<Rightarrow> string \<Rightarrow> string \<Rightarrow> string" where
  "obj_str obj k dflt = (case map_of obj k of None \<Rightarrow> dflt | Some j \<Rightarrow> deref_or dflt (str_val dflt j))"

definition obj_int :: "(string \<times> json) list \<Rightarrow> string \<Rightarrow> int \<Rightarrow> int" where
  "obj_int obj k dflt = (case map_of obj k of None \<Rightarrow> dflt | Some j \<Rightarrow> deref_or dflt (int_val dflt j))"

definition edit_env_errors :: "(string \<times> json) list \<Rightarrow> string \<Rightarrow> go_error list" where
  "edit_env_errors obj slug =
     (if slug = [] then [ErrIdentifierRequired ''task_edit''] else []) @
     map ErrUnknownField (filter (\<lambda>k. k \<notin> set taskEditRoutingKeys \<and> k \<notin> set taskEditableFields)
       (sort (map fst obj))) @
     (if map_of obj ''handoff_output'' \<noteq> None \<and> map_of obj ''handoff_output_append'' \<noteq> None
      then [ErrExclusiveFields ''handoff_output'' ''handoff_output_append''] else [])"

text \<open>The supplied fields in the order of the table, decoded or not.\<close>

definition edit_fields ::
  "(json \<Rightarrow> string) \<Rightarrow> (string \<times> json) list \<Rightarrow> (edit_spec \<times> string option) list" where
  "edit_fields raw_text obj = map (\<lambda>s. (s, decodeTaskEditField raw_text (the (map_of obj (es_name s))) (es_shape s)))
     (filter (\<lambda>s. map_of obj (es_name s) \<noteq> None) taskEditFieldSpec)"

definition task_column :: "task_row \<Rightarrow> string \<Rightarrow> string" where
  "task_column t column =
     (if column = ''problem_statement'' then t_problem t
      else if column = ''acceptance_criteria'' then t_acceptance t
      else if column = ''context_required'' then t_context t
      else if column = ''constraints'' then t_constraints t
      else if column = ''handoff_output'' then t_handoff t
      else [])"

definition edit_value :: "db \<Rightarrow> int \<Rightarrow> string \<Rightarrow> edit_spec \<Rightarrow> string \<Rightarrow> string" where
  "edit_value d chainID slug s v =
     (if es_op s = opAppend then
        (case sql_first (\<lambda>t. t_slug t = slug \<and> t_chain t = chainID) (db_tasks d) of
           None \<Rightarrow> v | Some t \<Rightarrow> task_column t (es_column s) @ v)
      else v)"

definition updated_values :: "db \<Rightarrow> int \<Rightarrow> string \<Rightarrow> (edit_spec \<times> string) list \<Rightarrow> go_map" where
  "updated_values d chainID slug pendings =
     foldl (\<lambda>m (s, v). gm_put (es_name s) (edit_value d chainID slug s v)
              (gm_put (es_column s) (edit_value d chainID slug s v) m)) [] pendings"

definition edit_write ::
  "emit_env \<Rightarrow> ctx \<Rightarrow> string \<Rightarrow> string \<Rightarrow> (edit_spec \<times> string) list \<Rightarrow> string list \<Rightarrow> TaskEditResult wtx" where
  "edit_write E c slug chainSlug pendings bad = (\<lambda>w. let d = w_db w in
     case resolveTaskChainOn d slug chainSlug of
       Inl e \<Rightarrow> (Inr (edit_error e), w)
     | Inr (chainID, _) \<Rightarrow>
         let written = map (es_name \<circ> fst) pendings
         in case lookupChainProjectOn d chainID of
              Inl e \<Rightarrow> (Inl e, w)
            | Inr projectID \<Rightarrow>
                tx_then (WithWrite E c (tx_bind (emit_task E c slug projectID (PTaskEdited
                   \<lparr>te_chain_slug = lookupChainSlug d chainID, te_updated_fields = written,
                    te_updated_values = updated_values d chainID slug pendings\<rparr>)) (\<lambda>_. tx_return ())))
                 (tx_return \<lparr>ed_ok = True, ed_slug = slug, ed_written = written, ed_error = None,
                    ed_errors = [], ed_field_errors = bad, ed_editable = []\<rparr>) w)"

definition HandleTaskEdit ::
  "(json \<Rightarrow> string) \<Rightarrow> emit_env \<Rightarrow> ctx \<Rightarrow> raw_params \<Rightarrow> TaskEditResult wtx" where
  "HandleTaskEdit raw_text E c params =
     tx_bind (tx_of (decode_params unmarshal_obj params)) (\<lambda>obj. (\<lambda>w.
     let slug0 = (let s = obj_str obj ''slug'' [] in if s = [] then obj_str obj ''task_slug'' s else s);
         chain0 = (let s = obj_str obj ''chain_slug'' [] in if s = [] then obj_str obj ''chain'' s else s);
         ident = (let i = obj_int obj ''id'' 0 in if i = 0 then obj_int obj ''task_id'' i else i);
         found = (if slug0 = [] \<and> 0 < ident
                  then Some (sql_first (\<lambda>(t, k). t_id t = ident) (task_chain_join (w_db w))) else None)
     in
     if found = Some None then (Inr (edit_error (ErrTaskIdNotFound ident)), w)
     else
       let (slug, chainSlug) = (case found of
              Some (Some (t, k)) \<Rightarrow> (t_slug t, if chain0 = [] then c_slug k else chain0)
            | _ \<Rightarrow> (slug0, chain0));
           envErrors = edit_env_errors obj slug;
           fs = edit_fields raw_text obj;
           pendings = map (\<lambda>(s, v). (s, the v)) (filter (\<lambda>(s, v). v \<noteq> None) fs);
           bad = map (\<lambda>(s, v). es_name s) (filter (\<lambda>(s, v). v = None) fs)
       in
       if envErrors \<noteq> [] then
         (Inr ((edit_error ErrValidationFailed)\<lparr>ed_errors := envErrors, ed_editable := taskEditableFields\<rparr>), w)
       else if pendings = [] \<and> bad = [] then
         (Inr ((edit_error ErrNoFields)\<lparr>ed_editable := taskEditableFields\<rparr>), w)
       else if pendings = [] then
         (Inr ((edit_error ErrNoParsedFields)\<lparr>ed_field_errors := bad, ed_editable := taskEditableFields\<rparr>), w)
       else edit_write E c slug chainSlug pendings bad w))"

end
