(* ===== verification/Work_Bugs.thy ===== *)
theory Work_Bugs
  imports Work_Task_Edit
begin

text \<open>
  \<open>go/internal/work/bug.go\<close> and \<open>suggestion.go\<close>: reading, resolving, reopening and stamping
  bugs and suggestions. Both read the committed tables and write one event each. The two list actions
  are queries and are left out.
\<close>

section \<open>Parameters\<close>

text \<open>\<open>bugReadParams\<close> and \<open>bugReopenParams\<close>; the suggestion side has the same fields under its
  own keys, so the keys are an argument.\<close>

record entityParams =
  ep_slug :: string
  ep_alias_slug :: string
  ep_id :: int
  ep_alias_id :: int

definition unmarshal_entityParams :: "string \<Rightarrow> string \<Rightarrow> json \<Rightarrow> entityParams option" where
  "unmarshal_entityParams slugKey idKey j = do {
     fs \<leftarrow> struct_fields j;
     x0 \<leftarrow> dec_str (vals fs ''slug'');
     x1 \<leftarrow> dec_str (vals fs slugKey);
     x2 \<leftarrow> dec_int (vals fs ''id'');
     x3 \<leftarrow> dec_int (vals fs idKey);
     Some \<lparr>ep_slug = x0, ep_alias_slug = x1, ep_id = x2, ep_alias_id = x3\<rparr> }"

definition entity_slug :: "('a entityParams_scheme) \<Rightarrow> string" where
  "entity_slug p = firstNonEmpty [ep_slug p, ep_alias_slug p]"

definition entity_id :: "('a entityParams_scheme) \<Rightarrow> int" where
  "entity_id p = (if ep_id p \<noteq> 0 then ep_id p else ep_alias_id p)"

text \<open>\<open>bugStampParams\<close> and \<open>suggestionStampParams\<close>\<close>

record stampParams = entityParams +
  ep_commit_sha :: string
  ep_sha :: string

definition unmarshal_stampParams :: "string \<Rightarrow> string \<Rightarrow> json \<Rightarrow> stampParams option" where
  "unmarshal_stampParams slugKey idKey j = do {
     fs \<leftarrow> struct_fields j;
     p \<leftarrow> unmarshal_entityParams slugKey idKey j;
     x0 \<leftarrow> dec_str (vals fs ''commit_sha'');
     x1 \<leftarrow> dec_str (vals fs ''sha'');
     Some \<lparr>ep_slug = ep_slug p, ep_alias_slug = ep_alias_slug p, ep_id = ep_id p,
       ep_alias_id = ep_alias_id p, ep_commit_sha = x0, ep_sha = x1\<rparr> }"

text \<open>\<open>bugResolveParams\<close> and \<open>suggestionResolveParams\<close>; the third routing key differs.\<close>

record resolveParams = stampParams +
  ep_resolution_kind :: string
  ep_kind :: string
  ep_note :: string
  ep_notes :: string
  ep_resolution_summary :: string
  ep_summary :: string
  ep_routed_chain :: string
  ep_routed_task :: string
  ep_routed_other :: string

definition unmarshal_resolveParams :: "string \<Rightarrow> string \<Rightarrow> string \<Rightarrow> json \<Rightarrow> resolveParams option" where
  "unmarshal_resolveParams slugKey idKey otherKey j = do {
     fs \<leftarrow> struct_fields j;
     p \<leftarrow> unmarshal_stampParams slugKey idKey j;
     x0 \<leftarrow> dec_str (vals fs ''resolution_kind'');
     x1 \<leftarrow> dec_str (vals fs ''kind'');
     x2 \<leftarrow> dec_str (vals fs ''resolution_note'');
     x3 \<leftarrow> dec_str (vals fs ''notes'');
     x4 \<leftarrow> dec_str (vals fs ''resolution_summary'');
     x5 \<leftarrow> dec_str (vals fs ''summary'');
     x6 \<leftarrow> dec_str (vals fs ''routed_chain_slug'');
     x7 \<leftarrow> dec_str (vals fs ''routed_task_slug'');
     x8 \<leftarrow> dec_str (vals fs otherKey);
     Some \<lparr>ep_slug = ep_slug p, ep_alias_slug = ep_alias_slug p, ep_id = ep_id p,
       ep_alias_id = ep_alias_id p, ep_commit_sha = ep_commit_sha p, ep_sha = ep_sha p,
       ep_resolution_kind = x0, ep_kind = x1, ep_note = x2, ep_notes = x3, ep_resolution_summary = x4,
       ep_summary = x5, ep_routed_chain = x6, ep_routed_task = x7, ep_routed_other = x8\<rparr> }"

definition strPtr :: "string \<Rightarrow> string option" where
  "strPtr s = (if s = [] then None else Some s)"

text \<open>The beginning of every handler but the read: the slug, or the slug of the row with the id.\<close>

definition named_slug ::
  "string \<Rightarrow> (int \<Rightarrow> go_error + string) \<Rightarrow> ('a entityParams_scheme) \<Rightarrow> go_error + string" where
  "named_slug action lookup p =
     (case (if entity_slug p = [] \<and> 0 < entity_id p then lookup (entity_id p) else Inr (entity_slug p)) of
        Inl e \<Rightarrow> Inl e
      | Inr slug \<Rightarrow> if slug = [] then Inl (ErrIdentifierRequired action) else Inr slug)"

section \<open>Bugs\<close>

definition normalizeResolutionKind :: "string \<Rightarrow> string" where
  "normalizeResolutionKind k =
     (if k = ''fix'' then ''fixed''
      else if k = ''route'' then ''routed''
      else if k = ''wont_fix'' then ''wontfix''
      else if k = ''duplicate'' then ''dup''
      else if k = ''external'' \<or> k = ''externalized'' \<or> k = ''upstreamed'' then ''upstream''
      else k)"

definition bugTransitions :: "(string \<times> string \<times> string) list" where
  "bugTransitions =
     [(''open'', ''fixed'', []), (''open'', ''wontfix'', []), (''open'', ''upstream'', []),
      (''open'', ''dup'', []), (''open'', ''routed'', []), (''routed'', ''routed'', []),
      (''routed'', ''fixed'', ''commit_sha'')]"

fun check_bug_rows ::
  "(string \<times> string \<times> string) list \<Rightarrow> string \<Rightarrow> string \<Rightarrow> string \<Rightarrow> string \<Rightarrow> go_error option" where
  "check_bug_rows [] slug f t sha =
     (if f \<noteq> ''open'' then Some (ErrMessage ''cannot resolve a non-open bug'') else Some (ErrTransition slug f t))"
| "check_bug_rows ((f', t', gate) # rows) slug f t sha =
     (if f' \<noteq> f \<or> t' \<noteq> t then check_bug_rows rows slug f t sha
      else if gate = [] then None
      else if gate = ''commit_sha'' then (if sha \<noteq> [] then None else Some (ErrGate slug f t))
      else check_bug_rows rows slug f t sha)"

definition checkBugTransition :: "string \<Rightarrow> string \<Rightarrow> string \<Rightarrow> string \<Rightarrow> go_error option" where
  "checkBugTransition slug f t sha = check_bug_rows bugTransitions slug f t sha"

definition fetchBugStatusAndProject :: "db \<Rightarrow> string \<Rightarrow> go_error + string \<times> string" where
  "fetchBugStatusAndProject d slug =
     (case sql_first (\<lambda>b. b_slug b = slug) (db_bugs d) of
        None \<Rightarrow> Inl (ErrNotFound ''bug'' slug)
      | Some b \<Rightarrow> Inr (b_status b, b_project b))"

definition lookupBugSlugByID :: "db \<Rightarrow> int \<Rightarrow> go_error + string" where
  "lookupBugSlugByID d ident =
     (case sql_first (\<lambda>b. b_id b = ident) (db_bugs d) of
        None \<Rightarrow> Inl (ErrNotFound ''bug id'' (itoa_int ident))
      | Some b \<Rightarrow> Inr (b_slug b))"

definition fetchBugResolutionSnapshot :: "db \<Rightarrow> string \<Rightarrow> go_error + BugResolvedPayload \<times> string" where
  "fetchBugResolutionSnapshot d slug =
     (case sql_first (\<lambda>b. b_slug b = slug) (db_bugs d) of
        None \<Rightarrow> Inl (ErrNotFound ''bug'' slug)
      | Some b \<Rightarrow>
          Inr (\<lparr>bv_kind = (if deref_or [] (b_resolution b) = [] then b_status b else deref_or [] (b_resolution b)),
                bv_commit_sha = strPtr (deref_or [] (b_commit b)), bv_dup_of = None,
                bv_routed_chain_slug = strPtr (b_routed_chain b),
                bv_routed_task_slug = strPtr (b_routed_task b),
                bv_routed_suggestion_slug = None, bv_resolution_note = None\<rparr>, b_project b))"

text \<open>\<open>BugResolveResult\<close> and \<open>SuggestionResolveResult\<close> have the fields of
  \<open>TaskTransitionResult\<close>.\<close>

definition resolve_bug ::
  "emit_env \<Rightarrow> ctx \<Rightarrow> db \<Rightarrow> string \<Rightarrow> BugResolvedPayload \<Rightarrow> string \<Rightarrow> (TaskTransitionResult \<times> string) wtx" where
  "resolve_bug E c committed slug payload sha =
     (case fetchBugStatusAndProject committed slug of
        Inl e \<Rightarrow> tx_return (error_result e, [])
      | Inr (current, projectID) \<Rightarrow>
          (case checkBugTransition slug current (bv_kind payload) sha of
             Some e \<Rightarrow> tx_return (error_result e, [])
           | None \<Rightarrow>
               tx_bind (emit_entity E c ''bug'' slug projectID (PBugResolved payload))
                 (\<lambda>eventID. tx_return (ok_result slug (bv_kind payload), eventID))))"

definition HandleBugResolveInTx ::
  "emit_env \<Rightarrow> ctx \<Rightarrow> db \<Rightarrow> raw_params \<Rightarrow> (TaskTransitionResult \<times> string) wtx" where
  "HandleBugResolveInTx E c committed params =
     tx_bind (tx_of (decode_params
       (unmarshal_resolveParams ''bug_slug'' ''bug_id'' ''routed_suggestion_slug'') params)) (\<lambda>p.
     case named_slug ''bug_resolve'' (lookupBugSlugByID committed) p of
       Inl e \<Rightarrow> tx_return (error_result e, [])
     | Inr slug \<Rightarrow>
         let sha = firstNonEmpty [ep_commit_sha p, ep_sha p];
             named = firstNonEmpty [ep_resolution_kind p, ep_kind p];
             rawKind = (if named = [] \<and> sha \<noteq> [] then ''fixed'' else named);
             kind = normalizeResolutionKind rawKind
         in
         if rawKind = [] then tx_return (error_result (ErrMessage ''bug_resolve requires resolution_kind''), [])
         else if kind \<notin> {''fixed'', ''wontfix'', ''upstream'', ''dup'', ''routed''} then
           tx_return (error_result (ErrMessage ''invalid resolution_kind''), [])
         else if sha \<noteq> [] \<and> \<not> isValidCommitSHAOrSentinel sha then
           tx_return ((error_result (ErrBadSHA sha))\<lparr>tr_action := ''bug_resolve''\<rparr>, [])
         else resolve_bug E c committed slug
           \<lparr>bv_kind = kind, bv_commit_sha = strPtr sha, bv_dup_of = None,
            bv_routed_chain_slug = strPtr (ep_routed_chain p), bv_routed_task_slug = strPtr (ep_routed_task p),
            bv_routed_suggestion_slug = strPtr (ep_routed_other p),
            bv_resolution_note = strPtr (firstNonEmpty
              [ep_note p, ep_notes p, ep_resolution_summary p, ep_summary p])\<rparr> sha)"

definition HandleBugResolve :: "emit_env \<Rightarrow> ctx \<Rightarrow> raw_params \<Rightarrow> TaskTransitionResult wtx" where
  "HandleBugResolve E c params = (\<lambda>w. run_captured E c (HandleBugResolveInTx E c (w_db w) params) w)"

definition HandleBugReopen :: "emit_env \<Rightarrow> ctx \<Rightarrow> raw_params \<Rightarrow> TaskTransitionResult wtx" where
  "HandleBugReopen E c params =
     tx_bind (tx_of (decode_params (unmarshal_entityParams ''bug_slug'' ''bug_id'') params)) (\<lambda>p. (\<lambda>w.
     case named_slug ''bug_reopen'' (lookupBugSlugByID (w_db w)) p of
       Inl e \<Rightarrow> (Inr (error_result e), w)
     | Inr slug \<Rightarrow>
         (case fetchBugResolutionSnapshot (w_db w) slug of
            Inl e \<Rightarrow> (Inr (error_result e), w)
          | Inr (previous, projectID) \<Rightarrow>
              if bv_kind previous = ''open'' then
                (Inr (error_result (ErrMessage ''bug is already open'')), w)
              else tx_bind (WithWrite E c (emit_entity E c ''bug'' slug projectID (PBugReopened previous)))
                (\<lambda>_. tx_return (ok_result slug ''open'')) w)))"

definition HandleBugStampSHA :: "emit_env \<Rightarrow> ctx \<Rightarrow> raw_params \<Rightarrow> ShaStampResult wtx" where
  "HandleBugStampSHA E c params =
     tx_bind (tx_of (decode_params (unmarshal_stampParams ''bug_slug'' ''bug_id'') params)) (\<lambda>p. (\<lambda>w.
     let sha = firstNonEmpty [ep_commit_sha p, ep_sha p] in
     case named_slug ''bug_stamp_sha'' (lookupBugSlugByID (w_db w)) p of
       Inl e \<Rightarrow> (Inr (stamp_error e), w)
     | Inr slug \<Rightarrow>
         if sha = [] then (Inr (stamp_error (ErrMessage ''commit_sha must not be empty'')), w)
         else if \<not> isValidCommitSHAOrSentinel sha then
           (Inr ((stamp_error (ErrBadSHA sha))\<lparr>ss_action := ''bug_stamp_sha''\<rparr>), w)
         else
           (case fetchBugStatusAndProject (w_db w) slug of
              Inl e \<Rightarrow> (Inr (stamp_error e), w)
            | Inr (current, projectID) \<Rightarrow>
                if current = ''open'' then (Inr (stamp_error (ErrMessage ''bug is still open'')), w)
                else tx_bind (WithWrite E c (emit_entity E c ''bug'' slug projectID
                    (PBugStamped \<lparr>bs_commit_sha = sha\<rparr>)))
                  (\<lambda>_. tx_return \<lparr>ss_ok = True, ss_slug = slug, ss_commit = sha, ss_error = None,
                     ss_action = []\<rparr>) w)))"

text \<open>\<open>scanOneBug\<close>: NULL columns read as empty strings.\<close>

record Bug =
  bug_cols :: bug_row
  bug_resolution_kind :: string
  bug_resolved_commit :: string
  bug_qwen_task :: string
  bug_resolved_at :: string

definition scanOneBug :: "bug_row \<Rightarrow> Bug" where
  "scanOneBug b = \<lparr>bug_cols = b, bug_resolution_kind = deref_or [] (b_resolution b),
     bug_resolved_commit = deref_or [] (b_commit b), bug_qwen_task = deref_or [] (b_qwen b),
     bug_resolved_at = deref_or [] (b_resolved_at b)\<rparr>"

definition HandleBugRead :: "db \<Rightarrow> raw_params \<Rightarrow> go_error + (go_error + Bug)" where
  "HandleBugRead d params =
     (case decode_params (unmarshal_entityParams ''bug_slug'' ''bug_id'') params of
        Inl e \<Rightarrow> Inl e
      | Inr p \<Rightarrow>
          if 0 < entity_id p then
            (case sql_first (\<lambda>b. b_id b = entity_id p) (db_bugs d) of
               None \<Rightarrow> Inr (Inl (ErrNotFound ''bug id'' (itoa_int (entity_id p)))) | Some b \<Rightarrow> Inr (Inr (scanOneBug b)))
          else if entity_slug p = [] then Inr (Inl (ErrIdentifierRequired ''bug_read''))
          else
            (case sql_first (\<lambda>b. b_slug b = entity_slug p) (db_bugs d) of
               None \<Rightarrow> Inr (Inl (ErrNotFound ''bug'' (entity_slug p))) | Some b \<Rightarrow> Inr (Inr (scanOneBug b))))"

section \<open>Suggestions\<close>

definition normalizeSuggestionResolutionKind :: "string \<Rightarrow> string" where
  "normalizeSuggestionResolutionKind k =
     (if k = ''adopt'' then ''adopted''
      else if k = ''defer'' then ''deferred''
      else if k = ''reject'' then ''rejected''
      else k)"

definition fetchSuggestionStatusAndProject :: "db \<Rightarrow> string \<Rightarrow> go_error + string \<times> string" where
  "fetchSuggestionStatusAndProject d slug =
     (case sql_first (\<lambda>g. g_slug g = slug) (db_suggestions d) of
        None \<Rightarrow> Inl (ErrNotFound ''suggestion'' slug)
      | Some g \<Rightarrow> Inr (g_status g, g_project g))"

definition lookupSuggestionSlugByID :: "db \<Rightarrow> int \<Rightarrow> go_error + string" where
  "lookupSuggestionSlugByID d ident =
     (case sql_first (\<lambda>g. g_id g = ident) (db_suggestions d) of
        None \<Rightarrow> Inl (ErrNotFound ''suggestion id'' (itoa_int ident))
      | Some g \<Rightarrow> Inr (g_slug g))"

definition fetchSuggestionResolutionSnapshot ::
  "db \<Rightarrow> string \<Rightarrow> go_error + SuggestionResolvedPayload \<times> string" where
  "fetchSuggestionResolutionSnapshot d slug =
     (case sql_first (\<lambda>g. g_slug g = slug) (db_suggestions d) of
        None \<Rightarrow> Inl (ErrNotFound ''suggestion'' slug)
      | Some g \<Rightarrow>
          Inr (\<lparr>sv_kind = (if deref_or [] (g_resolution g) = [] then g_status g else deref_or [] (g_resolution g)),
                sv_commit_sha = strPtr (deref_or [] (g_commit g)),
                sv_routed_chain_slug = strPtr (g_routed_chain g),
                sv_routed_task_slug = strPtr (g_routed_task g),
                sv_routed_bug_slug = strPtr (g_routed_bug g), sv_resolution_note = None\<rparr>, g_project g))"

definition HandleSuggestionResolve :: "emit_env \<Rightarrow> ctx \<Rightarrow> raw_params \<Rightarrow> TaskTransitionResult wtx" where
  "HandleSuggestionResolve E c params =
     tx_bind (tx_of (decode_params
       (unmarshal_resolveParams ''suggestion_slug'' ''suggestion_id'' ''routed_bug_slug'') params)) (\<lambda>p. (\<lambda>w.
     case named_slug ''suggestion_resolve'' (lookupSuggestionSlugByID (w_db w)) p of
       Inl e \<Rightarrow> (Inr (error_result e), w)
     | Inr slug \<Rightarrow>
         let sha = firstNonEmpty [ep_commit_sha p, ep_sha p];
             named = firstNonEmpty [ep_resolution_kind p, ep_kind p];
             rawKind = (if named = [] \<and> sha \<noteq> [] then ''adopted'' else named);
             kind = normalizeSuggestionResolutionKind rawKind
         in
         if rawKind = [] then
           (Inr (error_result (ErrMessage ''suggestion_resolve requires resolution_kind'')), w)
         else if kind \<notin> {''adopted'', ''deferred'', ''rejected''} then
           (Inr (error_result (ErrMessage ''invalid resolution_kind'')), w)
         else if sha \<noteq> [] \<and> \<not> isValidCommitSHAOrSentinel sha then
           (Inr ((error_result (ErrBadSHA sha))\<lparr>tr_action := ''suggestion_resolve''\<rparr>), w)
         else
           (case fetchSuggestionStatusAndProject (w_db w) slug of
              Inl e \<Rightarrow> (Inr (error_result e), w)
            | Inr (current, projectID) \<Rightarrow>
                if current \<noteq> ''open'' then
                  (Inr (error_result (ErrMessage ''only open suggestions can be resolved'')), w)
                else tx_bind (WithWrite E c (emit_entity E c ''suggestion'' slug projectID (PSuggestionResolved
                    \<lparr>sv_kind = kind, sv_commit_sha = strPtr sha,
                     sv_routed_chain_slug = strPtr (ep_routed_chain p),
                     sv_routed_task_slug = strPtr (ep_routed_task p),
                     sv_routed_bug_slug = strPtr (ep_routed_other p),
                     sv_resolution_note = strPtr (firstNonEmpty
                       [ep_note p, ep_notes p, ep_resolution_summary p, ep_summary p])\<rparr>)))
                  (\<lambda>_. tx_return (ok_result slug kind)) w)))"

definition HandleSuggestionReopen :: "emit_env \<Rightarrow> ctx \<Rightarrow> raw_params \<Rightarrow> TaskTransitionResult wtx" where
  "HandleSuggestionReopen E c params =
     tx_bind (tx_of (decode_params (unmarshal_entityParams ''suggestion_slug'' ''suggestion_id'') params))
       (\<lambda>p. (\<lambda>w.
     case named_slug ''suggestion_reopen'' (lookupSuggestionSlugByID (w_db w)) p of
       Inl e \<Rightarrow> (Inr (error_result e), w)
     | Inr slug \<Rightarrow>
         (case fetchSuggestionResolutionSnapshot (w_db w) slug of
            Inl e \<Rightarrow> (Inr (error_result e), w)
          | Inr (previous, projectID) \<Rightarrow>
              if sv_kind previous = ''open'' then
                (Inr (error_result (ErrMessage ''suggestion is already open'')), w)
              else tx_bind (WithWrite E c
                  (emit_entity E c ''suggestion'' slug projectID (PSuggestionReopened previous)))
                (\<lambda>_. tx_return (ok_result slug ''open'')) w)))"

definition HandleSuggestionStampSHA :: "emit_env \<Rightarrow> ctx \<Rightarrow> raw_params \<Rightarrow> ShaStampResult wtx" where
  "HandleSuggestionStampSHA E c params =
     tx_bind (tx_of (decode_params (unmarshal_stampParams ''suggestion_slug'' ''suggestion_id'') params))
       (\<lambda>p. (\<lambda>w.
     let sha = firstNonEmpty [ep_commit_sha p, ep_sha p] in
     case named_slug ''suggestion_stamp_sha'' (lookupSuggestionSlugByID (w_db w)) p of
       Inl e \<Rightarrow> (Inr (stamp_error e), w)
     | Inr slug \<Rightarrow>
         if sha = [] then (Inr (stamp_error (ErrMessage ''commit_sha must not be empty'')), w)
         else if \<not> isValidCommitSHAOrSentinel sha then
           (Inr ((stamp_error (ErrBadSHA sha))\<lparr>ss_action := ''suggestion_stamp_sha''\<rparr>), w)
         else
           (case fetchSuggestionStatusAndProject (w_db w) slug of
              Inl e \<Rightarrow> (Inr (stamp_error e), w)
            | Inr (current, projectID) \<Rightarrow>
                if current = ''open'' then (Inr (stamp_error (ErrMessage ''suggestion is still open'')), w)
                else tx_bind (WithWrite E c (emit_entity E c ''suggestion'' slug projectID
                    (PSuggestionStamped \<lparr>ss_commit_sha = sha\<rparr>)))
                  (\<lambda>_. tx_return \<lparr>ss_ok = True, ss_slug = slug, ss_commit = sha, ss_error = None,
                     ss_action = []\<rparr>) w)))"

record Suggestion =
  sug_cols :: suggestion_row
  sug_resolution_kind :: string
  sug_resolved_commit :: string
  sug_resolved_at :: string

definition scanOneSuggestion :: "suggestion_row \<Rightarrow> Suggestion" where
  "scanOneSuggestion g = \<lparr>sug_cols = g, sug_resolution_kind = deref_or [] (g_resolution g),
     sug_resolved_commit = deref_or [] (g_commit g), sug_resolved_at = deref_or [] (g_resolved_at g)\<rparr>"

definition HandleSuggestionRead :: "db \<Rightarrow> raw_params \<Rightarrow> go_error + (go_error + Suggestion)" where
  "HandleSuggestionRead d params =
     (case decode_params (unmarshal_entityParams ''suggestion_slug'' ''suggestion_id'') params of
        Inl e \<Rightarrow> Inl e
      | Inr p \<Rightarrow>
          if 0 < entity_id p then
            (case sql_first (\<lambda>g. g_id g = entity_id p) (db_suggestions d) of
               None \<Rightarrow> Inr (Inl (ErrNotFound ''suggestion id'' (itoa_int (entity_id p)))) | Some g \<Rightarrow> Inr (Inr (scanOneSuggestion g)))
          else if entity_slug p = [] then Inr (Inl (ErrIdentifierRequired ''suggestion_read''))
          else
            (case sql_first (\<lambda>g. g_slug g = entity_slug p) (db_suggestions d) of
               None \<Rightarrow> Inr (Inl (ErrNotFound ''suggestion'' (entity_slug p))) | Some g \<Rightarrow> Inr (Inr (scanOneSuggestion g))))"

end
