(* ===== verification/Work_Chains.thy ===== *)
theory Work_Chains
  imports Work_Bugs
begin

text \<open>
  \<open>go/internal/work/chain.go\<close>: reading a chain, the list of open chains, and closing a chain, alone
  and inside a transaction of the caller. The other reads of the file are in \<open>Work_Reads\<close>.
\<close>

section \<open>Identifiers\<close>

text \<open>\<open>unicode.IsSpace\<close> and \<open>strings.TrimSpace\<close>, on bytes for what is ASCII.\<close>

definition rune_space :: "nat \<Rightarrow> bool" where
  "rune_space r \<longleftrightarrow> 9 \<le> r \<and> r \<le> 13 \<or> r = 32 \<or> r = 0x85 \<or> r = 0xA0 \<or> r = 0x1680 \<or>
     0x2000 \<le> r \<and> r \<le> 0x200A \<or> r \<in> {0x2028, 0x2029, 0x202F, 0x205F, 0x3000}"

text \<open>\<open>strings.TrimSpace(s) == ""\<close>\<close>

definition is_blank :: "string \<Rightarrow> bool" where
  "is_blank s \<longleftrightarrow> list_all rune_space (runes s)"

section \<open>Reading\<close>

record ChainSummary =
  cs_chain :: chain_row
  cs_total :: int
  cs_pending :: int
  cs_active :: int
  cs_blocked :: int
  cs_closed :: int
  cs_cancelled :: int

definition chainSummarySelect :: "db \<Rightarrow> chain_row \<Rightarrow> ChainSummary" where
  "chainSummarySelect d c =
     (let n = (\<lambda>st. sql_count (\<lambda>t. t_chain t = c_id c \<and> t_status t = st) (db_tasks d))
      in \<lparr>cs_chain = c, cs_total = sql_count (\<lambda>t. t_chain t = c_id c) (db_tasks d),
          cs_pending = n ''pending'', cs_active = n ''active'', cs_blocked = n ''blocked'',
          cs_closed = n ''closed'', cs_cancelled = n ''cancelled''\<rparr>)"

definition listChains :: "db \<Rightarrow> string \<Rightarrow> ChainSummary list" where
  "listChains d project =
     sort_key (\<lambda>s. - cs_pending s) (map (chainSummarySelect d)
       (filter (\<lambda>c. (project = [] \<or> c_project c = project) \<and> c_status c \<notin> {''closed'', ''cancelled''})
          (db_chains d)))"

definition find_chain :: "db \<Rightarrow> string \<Rightarrow> (chain_row \<Rightarrow> bool) \<Rightarrow> chain_row option" where
  "find_chain d project whr =
     sql_first (\<lambda>c. (project = [] \<or> c_project c = project) \<and> whr c) (db_chains d)"

text \<open>\<open>ChainDetail\<close> is the row without its counters.\<close>

definition getChain :: "db \<Rightarrow> string \<Rightarrow> string \<Rightarrow> go_error + chain_row" where
  "getChain d project slug =
     (case find_chain d project (\<lambda>c. c_slug c = slug) of
        None \<Rightarrow> Inl (ErrChainNotFound slug) | Some c \<Rightarrow> Inr c)"

definition getChainByID :: "db \<Rightarrow> string \<Rightarrow> int \<Rightarrow> go_error + chain_row" where
  "getChainByID d project ident =
     (case find_chain d project (\<lambda>c. c_id c = ident) of
        None \<Rightarrow> Inl (ErrChainIdNotFound ident) | Some c \<Rightarrow> Inr c)"

definition lookupChainSlugByID :: "db \<Rightarrow> int \<Rightarrow> go_error + string" where
  "lookupChainSlugByID d ident =
     (case sql_first (\<lambda>c. c_id c = ident) (db_chains d) of
        None \<Rightarrow> Inl (ErrChainIdNotFound ident) | Some c \<Rightarrow> Inr (c_slug c))"

section \<open>Closing\<close>

record chainCloseParams =
  cq_slug :: string
  cq_chain :: string
  cq_chain_slug :: string
  cq_id :: int
  cq_chain_id :: int
  cq_summary :: "string option"     \<comment> \<open>\<open>Summary\<close> when \<open>SummarySupplied\<close>\<close>

text \<open>A \<open>*json.RawMessage\<close> field: the last value of the key, nil for null.\<close>

definition raw_ptr :: "json list \<Rightarrow> json option" where
  "raw_ptr js = (if js = [] \<or> last js = JNull then None else Some (last js))"

definition unmarshal_chainCloseParams :: "json \<Rightarrow> chainCloseParams option" where
  "unmarshal_chainCloseParams j = do {
     fs \<leftarrow> struct_fields j;
     x0 \<leftarrow> dec_str (vals fs ''slug'');
     x1 \<leftarrow> dec_str (vals fs ''chain'');
     x2 \<leftarrow> dec_str (vals fs ''chain_slug'');
     x3 \<leftarrow> dec_int (vals fs ''id'');
     x4 \<leftarrow> dec_int (vals fs ''chain_id'');
     summary \<leftarrow> (case (case raw_ptr (vals fs ''closure_summary'') of
                          None \<Rightarrow> raw_ptr (vals fs ''summary'') | Some v \<Rightarrow> Some v) of
                    None \<Rightarrow> Some None
                  | Some v \<Rightarrow> map_option Some (dec_str [v]));
     Some \<lparr>cq_slug = x0, cq_chain = x1, cq_chain_slug = x2, cq_id = x3, cq_chain_id = x4,
       cq_summary = summary\<rparr> }"

definition chainClose_slug :: "db \<Rightarrow> chainCloseParams \<Rightarrow> go_error + string" where
  "chainClose_slug committed p =
     (let slug = firstNonEmpty [cq_slug p, cq_chain p, cq_chain_slug p];
          ident = (if cq_id p \<noteq> 0 then cq_id p else cq_chain_id p)
      in case (if slug = [] \<and> 0 < ident then lookupChainSlugByID committed ident else Inr slug) of
           Inl e \<Rightarrow> Inl e
         | Inr s \<Rightarrow> if s = [] then Inl (ErrIdentifierRequired ''chain_close'') else Inr s)"

text \<open>The lookup and the count that come before the event, on one state of the tables.\<close>

definition close_precheck :: "db \<Rightarrow> string \<Rightarrow> string \<Rightarrow> go_error + string" where
  "close_precheck d project slug =
     (case find_chain d project (\<lambda>c. c_slug c = slug) of
        None \<Rightarrow> Inl (ErrChainNotFound slug)
      | Some c \<Rightarrow>
          let nonTerminal = sql_count (\<lambda>t. t_chain t = c_id c \<and> t_status t \<notin> {''closed'', ''cancelled''}) (db_tasks d)
          in if 0 < nonTerminal then Inl (ErrChainHasOpenTasks slug nonTerminal) else Inr (c_project c))"

definition close_event :: "emit_env \<Rightarrow> ctx \<Rightarrow> string \<Rightarrow> string \<Rightarrow> string option \<Rightarrow> string wtx" where
  "close_event E c slug projectID summary =
     emit_entity E c ''chain'' slug projectID (PChainClosed \<lparr>cl_closure_summary = summary\<rparr>)"

text \<open>\<open>closeChain\<close> checks the committed tables and then opens its transaction.\<close>

definition closeChain :: "emit_env \<Rightarrow> ctx \<Rightarrow> string \<Rightarrow> string \<Rightarrow> string option \<Rightarrow> string wtx" where
  "closeChain E c project slug summary = (\<lambda>w.
     case close_precheck (w_db w) project slug of
       Inl e \<Rightarrow> (Inl e, w)
     | Inr projectID \<Rightarrow> WithWrite E c (close_event E c slug projectID summary) w)"

text \<open>\<open>closeChainInTx\<close> does both in the transaction of the caller.\<close>

definition closeChainInTx :: "emit_env \<Rightarrow> ctx \<Rightarrow> string \<Rightarrow> string \<Rightarrow> string option \<Rightarrow> string wtx" where
  "closeChainInTx E c project slug summary =
     tx_bind (\<lambda>w. tx_of (close_precheck (w_db w) project slug) w)
       (\<lambda>projectID. close_event E c slug projectID summary)"

record ChainCloseResult =
  cc_ok :: bool
  cc_slug :: string
  cc_chars :: "nat option"
  cc_error :: "go_error option"

definition close_error :: "go_error \<Rightarrow> ChainCloseResult" where
  "close_error e = \<lparr>cc_ok = False, cc_slug = [], cc_chars = None, cc_error = Some e\<rparr>"

definition stringCharCount :: "string \<Rightarrow> nat" where
  "stringCharCount s = length (runes s)"

definition close_ok :: "string \<Rightarrow> string option \<Rightarrow> ChainCloseResult" where
  "close_ok slug summary =
     \<lparr>cc_ok = True, cc_slug = slug, cc_chars = map_option stringCharCount summary, cc_error = None\<rparr>"

text \<open>The two errors of a close that become results; any other is returned.\<close>

fun close_reported :: "go_error \<Rightarrow> bool" where
  "close_reported (ErrChainHasOpenTasks _ _) \<longleftrightarrow> True"
| "close_reported (ErrChainNotFound _) \<longleftrightarrow> True"
| "close_reported _ \<longleftrightarrow> False"

definition report_close :: "('s, ChainCloseResult \<times> string) tx \<Rightarrow> ('s, ChainCloseResult \<times> string) tx" where
  "report_close m = (\<lambda>s. case m s of
     (Inl e, s') \<Rightarrow> (if close_reported e then Inr (close_error e, []) else Inl e, s')
   | (Inr a, s') \<Rightarrow> (Inr a, s'))"

definition HandleChainCloseInTx ::
  "emit_env \<Rightarrow> ctx \<Rightarrow> db \<Rightarrow> string \<Rightarrow> raw_params \<Rightarrow> (ChainCloseResult \<times> string) wtx" where
  "HandleChainCloseInTx E c committed project params =
     tx_bind (tx_of (decode_params unmarshal_chainCloseParams params)) (\<lambda>p.
     case chainClose_slug committed p of
       Inl e \<Rightarrow> tx_return (close_error e, [])
     | Inr slug \<Rightarrow> report_close (tx_bind (closeChainInTx E c project slug (cq_summary p))
         (\<lambda>eventID. tx_return (close_ok slug (cq_summary p), eventID))))"

definition HandleChainClose :: "emit_env \<Rightarrow> ctx \<Rightarrow> string \<Rightarrow> raw_params \<Rightarrow> ChainCloseResult wtx" where
  "HandleChainClose E c project params =
     tx_bind (tx_of (decode_params unmarshal_chainCloseParams params)) (\<lambda>p. (\<lambda>w.
     case chainClose_slug (w_db w) p of
       Inl e \<Rightarrow> (Inr (close_error e), w)
     | Inr slug \<Rightarrow> tx_bind (report_close (tx_bind (closeChain E c project slug (cq_summary p))
           (\<lambda>eventID. tx_return (close_ok slug (cq_summary p), eventID)))) (\<lambda>r. tx_return (fst r)) w))"

end
