(* ===== verification/Work_Batch.thy ===== *)
theory Work_Batch
  imports Work_Chains
begin

text \<open>
  \<open>go/internal/work/batch.go\<close>: \<open>work.batch\<close> runs a list of operations in one write transaction.
  The two operations that go through the construct package are the function fields of \<open>TableDeps\<close>,
  so arguments here, and so is the text of an error, which the result of an operation carries.
\<close>

section \<open>Parameters\<close>

record BatchOp =
  bp_op :: string
  bp_params :: raw_params
  bp_rationale :: string

record BatchParams =
  bq_ops :: "BatchOp list"
  bq_continue :: bool
  bq_rationale :: string

fun bool_val :: "bool \<Rightarrow> json \<Rightarrow> bool option" where
  "bool_val a JNull = Some a"
| "bool_val a (JBool b) = Some b"
| "bool_val a _ = None"

text \<open>A \<open>json.RawMessage\<close> field keeps the bytes of the last value, also those of null.\<close>

definition raw_field :: "json list \<Rightarrow> raw_params" where
  "raw_field js = (if js = [] then RawEmpty else RawJson (last js))"

definition unmarshal_BatchOp :: "json \<Rightarrow> BatchOp option" where
  "unmarshal_BatchOp j = do {
     fs \<leftarrow> struct_fields j;
     x0 \<leftarrow> dec_str (vals fs ''op'');
     x1 \<leftarrow> dec_str (vals fs ''rationale'');
     Some \<lparr>bp_op = x0, bp_params = raw_field (vals fs ''params''), bp_rationale = x1\<rparr> }"

definition unmarshal_BatchParams :: "json \<Rightarrow> BatchParams option" where
  "unmarshal_BatchParams j = do {
     fs \<leftarrow> struct_fields j;
     x0 \<leftarrow> dec_step (arr_val unmarshal_BatchOp) [] (vals fs ''ops'');
     x1 \<leftarrow> dec_step bool_val False (vals fs ''continue_on_error'');
     x2 \<leftarrow> dec_str (vals fs ''batch_rationale'');
     Some \<lparr>bq_ops = x0, bq_continue = x1, bq_rationale = x2\<rparr> }"

definition batchAllowlist :: "string list" where
  "batchAllowlist = [''task_complete'', ''task_start'', ''bug_resolve'', ''forge_edit'', ''chain_close'', ''forge'']"

definition AllowedBatchOps :: "string list" where
  "AllowedBatchOps = sort batchAllowlist"

text \<open>The checks before the transaction: the first operation that fails one.\<close>

definition op_error :: "BatchOp \<Rightarrow> go_error option" where
  "op_error p =
     (if is_blank (bp_op p) then Some (ErrMessage ''missing op name'')
      else if is_blank (bp_rationale p) then Some (ErrMessage ''per-op rationale required'')
      else if bp_op p \<notin> set batchAllowlist then Some (ErrMessage ''not batch-allowlisted'')
      else None)"

fun first_op_error :: "BatchOp list \<Rightarrow> go_error option" where
  "first_op_error [] = None"
| "first_op_error (p # ps) = (case op_error p of Some e \<Rightarrow> Some e | None \<Rightarrow> first_op_error ps)"

section \<open>Running the operations\<close>

type_synonym seam = "ctx \<Rightarrow> string \<Rightarrow> raw_params \<Rightarrow> string wtx"

record TableDeps =
  dp_has_pool :: bool
  dp_has_schemas :: bool
  dp_ForgeEditInTx :: "seam option"
  dp_ForgeCreateInTx :: "seam option"

text \<open>\<open>errors.New(res.Error)\<close>: a result that carries an error fails the operation.\<close>

definition op_result :: "('r \<Rightarrow> go_error option) \<Rightarrow> ('r \<times> string) wtx \<Rightarrow> string wtx" where
  "op_result err m = tx_bind m (\<lambda>(res, eventID). case err res of Some e \<Rightarrow> tx_fail e | None \<Rightarrow> tx_return eventID)"

definition run_seam :: "TableDeps \<Rightarrow> seam option \<Rightarrow> ctx \<Rightarrow> string \<Rightarrow> raw_params \<Rightarrow> string wtx" where
  "run_seam deps s c project params =
     (if \<not> dp_has_schemas deps then tx_fail (ErrMessage ''schemas registry not configured'')
      else case s of None \<Rightarrow> tx_fail (ErrMessage ''construct in-tx seam not wired'') | Some f \<Rightarrow> f c project params)"

definition batchDispatchInTx ::
  "emit_env \<Rightarrow> TableDeps \<Rightarrow> ctx \<Rightarrow> db \<Rightarrow> string \<Rightarrow> BatchOp \<Rightarrow> string wtx" where
  "batchDispatchInTx E deps c committed project p =
     (if bp_op p = ''task_complete'' then op_result tr_error (HandleTaskCompleteInTx E c committed (bp_params p))
      else if bp_op p = ''task_start'' then op_result tr_error (HandleTaskStartInTx E c committed (bp_params p))
      else if bp_op p = ''bug_resolve'' then op_result tr_error (HandleBugResolveInTx E c committed (bp_params p))
      else if bp_op p = ''forge_edit'' then run_seam deps (dp_ForgeEditInTx deps) c project (bp_params p)
      else if bp_op p = ''chain_close'' then op_result cc_error (HandleChainCloseInTx E c committed project (bp_params p))
      else if bp_op p = ''forge'' then run_seam deps (dp_ForgeCreateInTx deps) c project (bp_params p)
      else tx_fail (ErrMessage ''no tx-aware dispatch entry''))"

definition classifyBatchError :: "string \<Rightarrow> string" where
  "classifyBatchError msg =
     (if contains msg ''not found'' \<or> contains msg ''no rows'' then ''NotFound''
      else if contains msg ''requires'' \<or> contains msg ''missing'' then ''MissingParam''
      else if contains msg ''invalid transition'' \<or> contains msg ''cannot transition'' then ''InvalidTransition''
      else if contains msg ''schema_not_found'' \<or> contains msg ''unknown param'' then ''SchemaError''
      else ''HandlerError'')"

definition op_outcome :: "(go_error \<Rightarrow> string) \<Rightarrow> nat \<Rightarrow> BatchOp \<Rightarrow> go_error + string \<Rightarrow> BatchOpResult" where
  "op_outcome err_text i p r =
     (case r of
        Inl e \<Rightarrow> \<lparr>bo_position = int i, bo_action = bp_op p, bo_ok = False, bo_rationale = bp_rationale p,
           bo_event_id = None, bo_error_kind = Some (classifyBatchError (err_text e)),
           bo_error_message = Some (err_text e)\<rparr>
      | Inr eventID \<Rightarrow> \<lparr>bo_position = int i, bo_action = bp_op p, bo_ok = True, bo_rationale = bp_rationale p,
           bo_event_id = strPtr eventID, bo_error_kind = None, bo_error_message = None\<rparr>)"

text \<open>
  The loop: the outcomes so far and whether it stopped at a failure. An operation not reached keeps
  the zero value of its result.
\<close>

definition zero_outcome :: BatchOpResult where
  "zero_outcome = \<lparr>bo_position = 0, bo_action = [], bo_ok = False, bo_rationale = [], bo_event_id = None,
     bo_error_kind = None, bo_error_message = None\<rparr>"

fun run_ops ::
  "emit_env \<Rightarrow> TableDeps \<Rightarrow> (go_error \<Rightarrow> string) \<Rightarrow> ctx \<Rightarrow> db \<Rightarrow> string \<Rightarrow> bool \<Rightarrow> nat \<Rightarrow> BatchOp list \<Rightarrow> world \<Rightarrow>
   (BatchOpResult list \<times> bool) \<times> world" where
  "run_ops E deps err_text c committed project cont i [] w = (([], False), w)"
| "run_ops E deps err_text c committed project cont i (p # ps) w =
     (case batchDispatchInTx E deps (WithRationale c (bp_rationale p)) committed project p w of (r, w1) \<Rightarrow>
        let res = op_outcome err_text i p r
        in if \<not> bo_ok res \<and> \<not> cont then ((res # map (\<lambda>_. zero_outcome) ps, True), w1)
           else (case run_ops E deps err_text c committed project cont (Suc i) ps w1 of
                   ((rest, stopped), w2) \<Rightarrow> ((res # rest, stopped), w2)))"

text \<open>The closure: it fails with the sentinel when it stopped, and leaves its outcomes with the caller.\<close>

definition batch_body ::
  "emit_env \<Rightarrow> TableDeps \<Rightarrow> (go_error \<Rightarrow> string) \<Rightarrow> ctx \<Rightarrow> db \<Rightarrow> string \<Rightarrow> BatchParams \<Rightarrow> unit wtx" where
  "batch_body E deps err_text c committed project p w =
     (case run_ops E deps err_text c committed project (bq_continue p) 0 (bq_ops p) w of
        ((_, stopped), w') \<Rightarrow> (if stopped then Inl ErrBatchAborted else Inr (), w'))"

record BatchResult =
  br_ok :: bool
  br_op_count :: int
  br_succeeded :: int
  br_failed :: int
  br_continue :: bool
  br_rolled_back :: bool
  br_event_id :: string
  br_ops :: "BatchOpResult list"
  br_error :: "go_error option"

definition batch_error :: "go_error \<Rightarrow> BatchResult" where
  "batch_error e = \<lparr>br_ok = False, br_op_count = 0, br_succeeded = 0, br_failed = 0, br_continue = False,
     br_rolled_back = False, br_event_id = [], br_ops = [], br_error = Some e\<rparr>"

definition batchSlug :: "string \<Rightarrow> nat \<Rightarrow> string" where
  "batchSlug project n = (if project = [] then ''unscoped'' else project) @ ''-batch-'' @ itoa n @ ''ops''"

definition failed_ops :: "BatchOpResult list \<Rightarrow> int" where
  "failed_ops results = int (length (filter (\<lambda>r. \<not> bo_ok r \<and> bo_error_kind r \<noteq> None) results))"

definition batch_record :: "emit_env \<Rightarrow> ctx \<Rightarrow> string \<Rightarrow> BatchParams \<Rightarrow> BatchOpResult list \<Rightarrow> string wtx" where
  "batch_record E c project p results =
     Emit E c \<lparr>ea_entity = NewCrossCuttingEntityRef ''batch'' (batchSlug project (length (bq_ops p))),
       ea_payload = Some (PBatchExecuted
         \<lparr>bx_op_count = int (length (bq_ops p)), bx_succeeded = int (length (filter bo_ok results)),
          bx_failed = failed_ops results, bx_continue_on_error = bq_continue p,
          bx_rolled_back = False, bx_batch_rationale = strPtr (bq_rationale p), bx_ops = results\<rparr>),
       ea_rationale = None, ea_refs = no_refs\<rparr>"

text \<open>The variables the closure leaves: nothing is written to them when it does not run.\<close>

definition batch_results ::
  "emit_env \<Rightarrow> TableDeps \<Rightarrow> (go_error \<Rightarrow> string) \<Rightarrow> ctx \<Rightarrow> string \<Rightarrow> BatchParams \<Rightarrow> world \<Rightarrow>
   BatchOpResult list \<times> bool" where
  "batch_results E deps err_text c project p w =
     (if nested_write c w \<or> em_begin E (w_count w) \<noteq> None then (map (\<lambda>_. zero_outcome) (bq_ops p), False)
      else fst (run_ops E deps err_text c (w_db w) project (bq_continue p) 0 (bq_ops p) (w\<lparr>w_owner := cx_gid c\<rparr>)))"

definition batch_answer ::
  "BatchParams \<Rightarrow> BatchOpResult list \<Rightarrow> bool \<Rightarrow> bool \<Rightarrow> string \<Rightarrow> BatchResult" where
  "batch_answer p results rolledBack ok eventID =
     \<lparr>br_ok = ok, br_op_count = int (length (bq_ops p)), br_succeeded = int (length (filter bo_ok results)),
      br_failed = failed_ops results, br_continue = bq_continue p, br_rolled_back = rolledBack,
      br_event_id = eventID,
      br_ops = (if rolledBack then map (\<lambda>r. if bo_ok r then r\<lparr>bo_event_id := None\<rparr> else r) results else results),
      br_error = None\<rparr>"

definition HandleBatch ::
  "emit_env \<Rightarrow> TableDeps \<Rightarrow> (go_error \<Rightarrow> string) \<Rightarrow> ctx \<Rightarrow> string \<Rightarrow> raw_params \<Rightarrow> BatchResult wtx" where
  "HandleBatch E deps err_text c project params =
     tx_bind (tx_of (decode_params unmarshal_BatchParams params)) (\<lambda>p. (\<lambda>w.
     if bq_ops p = [] then (Inr (batch_error (ErrMessage ''batch requires a non-empty ops list'')), w)
     else case first_op_error (bq_ops p) of
       Some e \<Rightarrow> (Inr (batch_error e), w)
     | None \<Rightarrow>
         if \<not> dp_has_pool deps then (Inr (batch_error (ErrMessage ''batch requires a DB pool'')), w) else
         (case batch_results E deps err_text c project p w of (results, rolledBack) \<Rightarrow>
          case WithWrite E c (batch_body E deps err_text c (w_db w) project p) w of
            (Inl e, w1) \<Rightarrow>
              (if e = ErrBatchAborted then Inr (batch_answer p results rolledBack False []) else Inl e, w1)
          | (Inr _, w1) \<Rightarrow>
              if rolledBack then (Inr (batch_answer p results rolledBack False []), w1)
              else (case WithWrite_capture E c (batch_record E c project p results) w1 of
                      ((_, recorded), w2) \<Rightarrow>
                        (Inr (batch_answer p results rolledBack True (deref_or [] recorded)), w2)))))"

end
