(* ===== verification/Task_Facts.thy ===== *)
theory Task_Facts
  imports Work_Batch Work_Facts
begin

text \<open>
  Facts the handler properties rest on: the folds of the events the handlers emit never fail on
  well-formed tables.
\<close>

section \<open>Transactions that succeed\<close>

definition tx_total :: "('s \<Rightarrow> bool) \<Rightarrow> ('s, 'a) tx \<Rightarrow> bool" where
  "tx_total P m \<longleftrightarrow> (\<forall>s. P s \<longrightarrow> (\<exists>a. fst (m s) = Inr a))"

named_theorems total_intros \<open>introduction rules for transactions that succeed\<close>

lemma total_base [total_intros]:
  "tx_total P (tx_return a)" "tx_total P (tx_read f)" "tx_total P (tx_modify h)"
  by (simp_all add: tx_total_def tx_apply)

lemma total_bind [total_intros]:
  assumes "tx_total P m" "tx_keeps P m" "\<And>a. tx_total P (f a)"
  shows "tx_total P (tx_bind m f)"
  unfolding tx_total_def
proof (intro allI impI)
  fix s assume s: "P s"
  then obtain a s' where m: "m s = (Inr a, s')" using assms(1) by (metis tx_total_def prod.collapse)
  then have "P s'" using assms(2) s by (metis keepsD)
  then show "\<exists>b. fst (tx_bind m f s) = Inr b" using assms(3) m by (simp add: tx_bind_def tx_total_def)
qed

lemma total_then [total_intros]:
  "tx_total P m \<Longrightarrow> tx_keeps P m \<Longrightarrow> tx_total P n \<Longrightarrow> tx_total P (tx_then m n)"
  by (simp add: tx_then_def total_bind)

lemma total_foreach [total_intros]:
  "(\<And>x. tx_total P (f x)) \<Longrightarrow> (\<And>x. tx_keeps P (f x)) \<Longrightarrow> tx_total P (tx_foreach f xs)"
  by (induction xs) (auto intro: total_intros)

lemma total_option [total_intros]:
  "tx_total P n \<Longrightarrow> (\<And>x. tx_total P (s x)) \<Longrightarrow> tx_total P (case v of None \<Rightarrow> n | Some x \<Rightarrow> s x)"
  by (cases v) simp_all

lemma total_if [total_intros]:
  "(b \<Longrightarrow> tx_total P m) \<Longrightarrow> (\<not> b \<Longrightarrow> tx_total P n) \<Longrightarrow> tx_total P (if b then m else n)"
  by simp

lemma total_let [total_intros]: "tx_total P (f v) \<Longrightarrow> tx_total P (let x = v in f x)"
  by simp

lemma totalD: "tx_total P m \<Longrightarrow> P s \<Longrightarrow> \<exists>a s'. m s = (Inr a, s')"
  by (metis tx_total_def prod.collapse)

section \<open>Lifecycle folds succeed\<close>

text \<open>The payloads the handlers emit, and the kind of entity each is about.\<close>

fun handler_payload :: "payload \<Rightarrow> bool" where
  "handler_payload (PTaskTransitioned p) \<longleftrightarrow> tt_to_status p \<in> {''pending'', ''active'', ''blocked''}"
| "handler_payload (PTaskCompleted p) \<longleftrightarrow> True"
| "handler_payload (PTaskCancelled p) \<longleftrightarrow> True"
| "handler_payload (PTaskStamped p) \<longleftrightarrow> True"
| "handler_payload (PTaskHandoff p) \<longleftrightarrow> True"
| "handler_payload (PTaskEdited p) \<longleftrightarrow> gm_sorted (te_updated_values p)"
| "handler_payload (PBugResolved p) \<longleftrightarrow> bv_kind p \<in> {''fixed'', ''wontfix'', ''upstream'', ''dup'', ''routed''}"
| "handler_payload (PBugReopened p) \<longleftrightarrow> True"
| "handler_payload (PBugStamped p) \<longleftrightarrow> True"
| "handler_payload (PSuggestionResolved p) \<longleftrightarrow> sv_kind p \<in> {''adopted'', ''deferred'', ''rejected''}"
| "handler_payload (PSuggestionReopened p) \<longleftrightarrow> True"
| "handler_payload (PSuggestionStamped p) \<longleftrightarrow> True"
| "handler_payload (PChainClosed p) \<longleftrightarrow> True"
| "handler_payload _ \<longleftrightarrow> False"

fun payload_kind :: "payload \<Rightarrow> string" where
  "payload_kind (PBugResolved p) = ''bug''"
| "payload_kind (PBugReopened p) = ''bug''"
| "payload_kind (PBugStamped p) = ''bug''"
| "payload_kind (PSuggestionResolved p) = ''suggestion''"
| "payload_kind (PSuggestionReopened p) = ''suggestion''"
| "payload_kind (PSuggestionStamped p) = ''suggestion''"
| "payload_kind (PChainClosed p) = ''chain''"
| "payload_kind _ = ''task''"

definition carries :: "raw_event \<Rightarrow> string \<Rightarrow> payload \<Rightarrow> bool" where
  "carries evt pid p \<longleftrightarrow> ev_kind evt = payload_kind p \<and> ev_project evt = Some pid \<and>
     ev_type evt = EventType p \<and> ev_payload evt = Some (marshal_payload p)"

lemma carries_decoded:
  "carries evt pid (PTaskTransitioned pt) \<Longrightarrow> decoded unmarshal_TaskTransitionedPayload evt = Some pt"
  "carries evt pid (PTaskCompleted pc) \<Longrightarrow> decoded unmarshal_TaskCompletedPayload evt = Some pc"
  "carries evt pid (PTaskCancelled pn) \<Longrightarrow> decoded unmarshal_TaskCancelledPayload evt = Some pn"
  "carries evt pid (PTaskStamped ps) \<Longrightarrow> decoded unmarshal_TaskStampedPayload evt = Some ps"
  "carries evt pid (PTaskEdited pe) \<Longrightarrow> gm_sorted (te_updated_values pe) \<Longrightarrow>
     decoded unmarshal_TaskEditedPayload evt = Some pe"
  "carries evt pid (PBugResolved pb) \<Longrightarrow> decoded unmarshal_BugResolvedPayload evt = Some pb"
  "carries evt pid (PBugStamped pp) \<Longrightarrow> decoded unmarshal_BugStampedPayload evt = Some pp"
  "carries evt pid (PSuggestionResolved pg) \<Longrightarrow> decoded unmarshal_SuggestionResolvedPayload evt = Some pg"
  "carries evt pid (PSuggestionStamped pq) \<Longrightarrow> decoded unmarshal_SuggestionStampedPayload evt = Some pq"
  "carries evt pid (PChainClosed pl) \<Longrightarrow> decoded unmarshal_ChainClosedPayload evt = Some pl"
  by (simp_all add: carries_def decoded_def roundtrip TaskEditedPayload_ok_def)

text \<open>The events the handlers emit: one of these, or the record of a batch.\<close>

definition work_event :: "raw_event \<Rightarrow> bool" where
  "work_event e \<longleftrightarrow> (\<exists>pid p. carries e pid p \<and> handler_payload p) \<or>
     ev_kind e = ''batch'' \<and> ev_type e = ''BatchExecuted''"

text \<open>
  The events of the construct package (\<open>go/internal/construct/event_sourced.go\<close>), which the forge
  operations of a batch run.
\<close>

definition construct_event :: "raw_event \<Rightarrow> bool" where
  "construct_event e \<longleftrightarrow> ev_type e \<in> {''BugReported'', ''SuggestionReported'', ''ChainCreated'', ''TaskCreated'',
     ''ChainAndTasksForged'', ''BugEdited'', ''SuggestionEdited'', ''ChainEdited'', ''TaskEdited''}"

text \<open>The events of the roadmap handlers: a layout event gives each item its own position.\<close>

definition roadmap_event :: "raw_event \<Rightarrow> bool" where
  "roadmap_event e \<longleftrightarrow> ev_kind e = ''roadmap'' \<and> ev_type e = ''RoadmapUpdated'' \<and>
     (\<exists>p. ev_payload e = Some (marshal_payload (PRoadmapUpdated p)) \<and> RoadmapUpdatedPayload_ok p \<and>
        distinct (map ri_position (ru_items (legacy_items p))))"

definition service_event :: "raw_event \<Rightarrow> bool" where
  "service_event e \<longleftrightarrow> work_event e \<or> construct_event e \<or> roadmap_event e"

lemma total_update_target:
  assumes "ev_project evt = Some pid" "\<And>t. task_check t \<Longrightarrow> task_check (upd t)"
  shows "tx_total wf_db (update_target chainSlug evt upd)"
  using assms
  by (auto simp: tx_total_def update_target_def project_eval tx_run exec_tasks_def tx_exec_def
      sql_update_def list_all_iff wf_db_def wf_tasks_def split: option.splits)

lemma stamp_check: "task_check (task_stamp evt t) = task_check t"
  by (simp add: task_stamp_def task_check_def)

lemma set_column_check: "task_check (set_task_column aff col v t) = task_check t"
  by (simp add: set_task_column_def task_check_def)

lemma total_update_bug:
  assumes "ev_project evt = Some pid" "\<And>b. bug_check b \<Longrightarrow> bug_check (upd b)"
  shows "tx_total wf_db (update_bug evt upd)"
proof -
  have "bug_check (bug_stamp evt b) = bug_check b" for b by (simp add: bug_stamp_def bug_check_def)
  then show ?thesis
    using assms
    by (auto simp: tx_total_def update_bug_def project_eval tx_run exec_bugs_def tx_exec_def
        sql_update_def list_all_iff wf_db_def wf_bugs_def split: option.splits)
qed

lemma total_update_suggestion:
  "ev_project evt = Some pid \<Longrightarrow> tx_total P (update_suggestion evt upd)"
  by (auto simp: tx_total_def update_suggestion_def project_eval tx_run exec_suggestions_def tx_exec_def
      sql_update_def list_all_iff split: option.splits)

lemma total_current_tasks:
  assumes "carries evt pid p" "handler_payload p"
  shows "tx_total wf_db (current_tasks_Fold aff evt)"
proof -
  have pid: "ev_project evt = Some pid" using assms(1) by (simp add: carries_def)
  have status: "task_check t \<Longrightarrow> s \<in> {''pending'', ''active'', ''blocked''} \<Longrightarrow>
      task_check (t\<lparr>t_status := s, t_commit := None\<rparr>)" for s t
    by (auto simp: task_check_def task_statuses_def)
  have "task_check (t\<lparr>t_status := ''closed'', t_commit := Some x, t_handoff := h\<rparr>)"
    "task_check (t\<lparr>t_status := ''cancelled''\<rparr>)" "task_check t \<Longrightarrow> task_check (t\<lparr>t_commit := Some x\<rparr>)" for t x h
    by (auto simp: task_check_def task_statuses_def)
  note checks = status this stamp_check set_column_check
  show ?thesis
    using assms carries_decoded(1-5) [of evt pid]
    by (cases p) (auto simp: current_tasks_Fold_def carries_def pid foldTaskTransitioned_def
        foldTaskCompleted_def foldTaskCancelled_def foldTaskStamped_def foldTaskEdited_def payload_eval
        tx_run checks stamp_frame
        intro!: total_update_target [OF pid] total_intros keeps_intros split: option.splits)
qed

lemma total_current_bugs:
  assumes "carries evt pid p" "handler_payload p"
  shows "tx_total wf_db (current_bugs_Fold evt)"
proof -
  have pid: "ev_project evt = Some pid" using assms(1) by (simp add: carries_def)
  show ?thesis
    using assms carries_decoded(6,7) [of evt pid]
    by (cases p) (auto simp: current_bugs_Fold_def carries_def pid foldBugResolved_def foldBugReopened_def
        foldBugStamped_def payload_eval tx_run bug_check_def
        intro!: total_update_bug [OF pid] total_intros split: option.splits)
qed

lemma total_current_suggestions:
  assumes "carries evt pid p" "handler_payload p"
  shows "tx_total P (current_suggestions_Fold evt)"
proof -
  have pid: "ev_project evt = Some pid" using assms(1) by (simp add: carries_def)
  show ?thesis
    using assms carries_decoded(8,9) [of evt pid]
    by (cases p) (auto simp: current_suggestions_Fold_def carries_def pid foldSuggestionResolved_def
        foldSuggestionReopened_def foldSuggestionStamped_def payload_eval tx_run
        intro!: total_update_suggestion [OF pid] total_intros)
qed

text \<open>The other folds.\<close>

lemma total_exec_chains_at:
  assumes "\<And>d c. wf_db d \<Longrightarrow> chain_check c \<Longrightarrow> chain_check (upd d c)"
  shows "tx_total wf_db (\<lambda>d. exec_chains (sql_update chain_check whr (upd d)) d)"
  using assms
  by (auto simp: tx_total_def exec_chains_def tx_exec_def sql_update_def list_all_iff wf_db_def
      wf_chains_def split: option.splits)

lemma total_chain_status:
  assumes "carries evt pid p" "handler_payload p"
  shows "tx_total wf_db (chain_status_Fold evt)"
proof -
  have "tx_total wf_db (refreshChainTaskCountsByID evt cid)" for cid
    unfolding refreshChainTaskCountsByID_def
    by (rule total_exec_chains_at) (simp add: chain_check_def chain_stamp_def with_task_counts_def)
  then have "tx_total wf_db (refreshChainTaskCountsForTaskEvent evt)" if "ev_kind evt = ''task''"
    using assms that
    by (cases p) (auto simp: refreshChainTaskCountsForTaskEvent_def chainIDsForTaskEvent_def carries_def
        intro!: total_intros keeps_intros)
  moreover have "tx_total wf_db (foldChainClosed evt)" if "p = PChainClosed q" for q
    using assms that carries_decoded(10) [of evt pid q]
      total_exec_chains_at [of "\<lambda>_ c. chain_stamp evt (c\<lparr>c_status := ''closed'', c_closure := deref_or [] (cl_closure_summary q)\<rparr>)"]
    by (auto simp: foldChainClosed_def carries_def payload_eval tx_run chain_check_def chain_stamp_def)
  ultimately show ?thesis using assms by (cases p) (auto simp: chain_status_Fold_def carries_def intro: total_intros)
qed

lemma keeps_true: "tx_keeps (\<lambda>_. True) m"
  by (simp add: tx_keeps_def)

lemma total_anywhere: "tx_total (\<lambda>_. True) m \<Longrightarrow> tx_total P m"
  by (simp add: tx_total_def)

lemma total_task_blockers:
  assumes "carries evt pid p" "handler_payload p"
  shows "tx_total P (task_blockers_Fold evt)"
proof (rule total_anywhere)
  show "tx_total (\<lambda>_. True) (task_blockers_Fold evt)"
    using assms carries_decoded(1) [of evt pid]
    by (cases p) (auto simp: task_blockers_Fold_def carries_def foldTaskBlockersTransitioned_def
        foldTaskBlockersCleanupOnClose_def payload_eval tx_run(1,3) intro!: total_intros keeps_true)
qed

lemma total_roadmap_view:
  assumes "carries evt pid p" "handler_payload p"
  shows "tx_total P (roadmap_view_Fold evt)"
proof (rule total_anywhere)
  have "tx_total (\<lambda>_. True) (refreshRoadmapRowsForRef k s evt)" for k s
    by (auto simp: tx_total_def refreshRoadmapRowsForRef_def tx_run exec_roadmap_def tx_exec_def
        sql_update_def list_all_iff split: option.splits)
  then show "tx_total (\<lambda>_. True) (roadmap_view_Fold evt)"
    using assms
    by (cases p) (auto simp: roadmap_view_Fold_def carries_def cascadeDeleteRoadmapRows_def
        intro!: total_intros)
qed

text \<open>Of a batch record the projections fold nothing.\<close>

lemma batch_folds:
  assumes "ev_kind evt = ''batch''" "ev_type evt = ''BatchExecuted''"
  shows "q \<in> set (work.order aff) \<Longrightarrow> p_Fold q evt = tx_return ()"
  using assms
  by (auto simp: work_order projection_defs current_tasks_Fold_def current_bugs_Fold_def
      current_suggestions_Fold_def chain_status_Fold_def task_blockers_Fold_def roadmap_view_Fold_def
      memories_Fold_def)

lemma total_Fold:
  assumes "work_event evt" "q \<in> set (work.order aff)"
  shows "tx_total wf_db (p_Fold q evt)"
  using assms(1) unfolding work_event_def
proof
  assume "\<exists>pid p. carries evt pid p \<and> handler_payload p"
  then obtain pid p where evt: "carries evt pid p" "handler_payload p" by blast
  have "memories_Fold evt = tx_return ()" using evt by (cases p) (auto simp: memories_Fold_def carries_def)
  then show ?thesis
    using assms(2) total_current_tasks [OF evt] total_chain_status [OF evt] total_task_blockers [OF evt]
      total_roadmap_view [OF evt] total_current_bugs [OF evt] total_current_suggestions [OF evt]
    by (auto simp: work_order projection_defs intro: total_intros)
next
  assume "ev_kind evt = ''batch'' \<and> ev_type evt = ''BatchExecuted''"
  then show ?thesis using batch_folds assms(2) by (auto intro: total_intros)
qed

lemma total_FoldAll:
  assumes "work_event evt"
  shows "tx_total wf_db (FoldAll (work_projections aff) evt)"
proof -
  have wm: "tx_total wf_db (WriteWatermark n i t)" "tx_keeps wf_db (WriteWatermark n i t)" for n i t
    by (simp_all add: WriteWatermark_def total_intros, rule keeps_modify, simp add: wf_db_def)
  have keeps: "tx_keeps wf_db (p_Fold q evt)" if "q \<in> set (work.order aff)" for q
    using that keeps_intros by (auto simp: work_order projection_defs)
  have each: "tx_total wf_db (tx_foreach (\<lambda>q. tx_then (p_Fold q evt)
      (WriteWatermark (p_Name q) (ev_id evt) (ev_ts evt))) qs)" if "set qs \<subseteq> set (work.order aff)" for qs
    using that total_Fold [OF assms] keeps by (induction qs) (auto intro!: total_intros keeps_intros wm)
  show ?thesis unfolding FoldAll_def work.with_All_order using each by blast
qed

end
