(* ===== verification/Handler_Refinement.thy ===== *)
theory Handler_Refinement
  imports Task_Facts
begin

text \<open>
  The handlers against the ledger. An abstract write is a sequence of events, each appended to the
  ledger and folded by every projection (\<open>ingest\<close>); \<open>tx_evolves\<close> says that a transaction
  changes the database by such a sequence, in success and in failure. Every task handler does.
\<close>

section \<open>Databases an ingest run leads to\<close>

definition runs_to :: "(string \<Rightarrow> sqlval) \<Rightarrow> db \<Rightarrow> db \<Rightarrow> raw_event list \<Rightarrow> bool" where
  "runs_to aff d d' es \<longleftrightarrow> tx_foreach (ingest (work_projections aff)) es d = (Inr (), d')"

lemma runs_to_refl: "runs_to aff d d []"
  by (simp add: runs_to_def tx_apply)

lemma runs_to_trans: "runs_to aff d d1 es \<Longrightarrow> runs_to aff d1 d2 fs \<Longrightarrow> runs_to aff d d2 (es @ fs)"
  by (simp add: runs_to_def tx_foreach_append tx_simps)

lemma runs_to_wf: "runs_to aff d d' es \<Longrightarrow> wf_db d \<Longrightarrow> wf_db d'"
  unfolding runs_to_def using wf.run_keeps keepsD by metis

lemma runs_to_ledger: "runs_to aff d d' es \<Longrightarrow> db_events d' = db_events d @ es"
  unfolding runs_to_def using work.live_core by blast

definition evolves_at :: "(string \<Rightarrow> sqlval) \<Rightarrow> world \<Rightarrow> world \<Rightarrow> bool" where
  "evolves_at aff w w' \<longleftrightarrow> w_direct w' = w_direct w \<and> (wf_db (w_db w) \<longrightarrow>
     (\<exists>es. runs_to aff (w_db w) (w_db w') es \<and> list_all service_event es))"

definition tx_evolves :: "(string \<Rightarrow> sqlval) \<Rightarrow> 'a wtx \<Rightarrow> bool" where
  "tx_evolves aff m \<longleftrightarrow> (\<forall>w. evolves_at aff w (snd (m w)))"

lemma evolves_atD:
  "evolves_at aff w w' \<Longrightarrow> wf_db (w_db w) \<Longrightarrow> \<exists>es. runs_to aff (w_db w) (w_db w') es \<and> list_all service_event es"
  "evolves_at aff w w' \<Longrightarrow> w_direct w' = w_direct w"
  by (simp_all add: evolves_at_def)

lemma evolves_at_same: "w_db w' = w_db w \<Longrightarrow> w_direct w' = w_direct w \<Longrightarrow> evolves_at aff w w'"
  unfolding evolves_at_def using runs_to_refl by (intro conjI impI exI [of _ "[]"]) simp_all

lemma evolves_at_trans: "evolves_at aff w w1 \<Longrightarrow> evolves_at aff w1 w2 \<Longrightarrow> evolves_at aff w w2"
proof -
  assume one: "evolves_at aff w w1" and two: "evolves_at aff w1 w2"
  have "\<exists>es. runs_to aff (w_db w) (w_db w2) es \<and> list_all service_event es" if wf: "wf_db (w_db w)"
  proof -
    obtain es where es: "runs_to aff (w_db w) (w_db w1) es" "list_all service_event es"
      using evolves_atD(1) [OF one wf] by blast
    obtain fs where "runs_to aff (w_db w1) (w_db w2) fs" "list_all service_event fs"
      using evolves_atD(1) [OF two runs_to_wf [OF es(1) wf]] by blast
    then show ?thesis using runs_to_trans [OF es(1)] es(2) by (intro exI [of _ "es @ fs"]) simp
  qed
  then show ?thesis using evolves_atD(2) [OF one] evolves_atD(2) [OF two] by (simp add: evolves_at_def)
qed

lemma evolvesD: "tx_evolves aff m \<Longrightarrow> evolves_at aff w (snd (m w))"
  by (simp add: tx_evolves_def)

lemma evolvesI: "(\<And>w. evolves_at aff w (snd (m w))) \<Longrightarrow> tx_evolves aff m"
  by (simp add: tx_evolves_def)

text \<open>Handlers that look at the world before they choose what to run.\<close>

lemma evolves_at_cases:
  "evolves_at aff w (snd (r, w))"
  "(\<And>e. evolves_at aff w (snd (f e))) \<Longrightarrow> (\<And>a. evolves_at aff w (snd (g a))) \<Longrightarrow>
   evolves_at aff w (snd (case x of Inl e \<Rightarrow> f e | Inr a \<Rightarrow> g a))"
  "evolves_at aff w (snd n) \<Longrightarrow> (\<And>a. evolves_at aff w (snd (g a))) \<Longrightarrow>
   evolves_at aff w (snd (case y of None \<Rightarrow> n | Some a \<Rightarrow> g a))"
  "(\<And>a b. evolves_at aff w (snd (h a b))) \<Longrightarrow> evolves_at aff w (snd (case q of (a, b) \<Rightarrow> h a b))"
  "evolves_at aff w (snd m) \<Longrightarrow> evolves_at aff w (snd n) \<Longrightarrow> evolves_at aff w (snd (if b then m else n))"
  by (auto simp: evolves_at_same split: sum.splits option.splits prod.splits)

named_theorems evolves_intros \<open>introduction rules for transactions that ingest events\<close>

lemma evolves_same:
  "(\<And>w. w_db (snd (m w)) = w_db w) \<Longrightarrow> (\<And>w. w_direct (snd (m w)) = w_direct w) \<Longrightarrow> tx_evolves aff m"
  by (simp add: tx_evolves_def evolves_at_same)

lemma evolves_base [evolves_intros]:
  "tx_evolves aff (tx_return a)" "tx_evolves aff (tx_fail e)" "tx_evolves aff (tx_read f)"
  "tx_evolves aff (tx_of r)" "tx_evolves aff (tx_check q)" "tx_evolves aff (\<lambda>w. tx_of (f' w) w)"
  by (rule evolves_same, auto simp: tx_apply tx_of_def tx_check_def split: sum.splits option.splits)+

lemma evolves_bind [evolves_intros]:
  assumes "tx_evolves aff m" "\<And>a. tx_evolves aff (f a)"
  shows "tx_evolves aff (tx_bind m f)"
proof (rule evolvesI)
  fix w
  obtain r w1 where m: "m w = (r, w1)" by fastforce
  have one: "evolves_at aff w w1" using evolvesD [OF assms(1)] m by (metis snd_conv)
  show "evolves_at aff w (snd (tx_bind m f w))"
  proof (cases r)
    case (Inl e)
    then show ?thesis using one m by (simp add: tx_bind_def)
  next
    case (Inr a)
    then show ?thesis using evolves_at_trans [OF one evolvesD [OF assms(2)]] m by (simp add: tx_bind_def)
  qed
qed

lemma evolves_then [evolves_intros]:
  "tx_evolves aff m \<Longrightarrow> tx_evolves aff n \<Longrightarrow> tx_evolves aff (tx_then m n)"
  by (simp add: tx_then_def evolves_bind)

lemma evolves_foreach [evolves_intros]:
  "(\<And>x. tx_evolves aff (f x)) \<Longrightarrow> tx_evolves aff (tx_foreach f xs)"
  by (induction xs) (auto intro: evolves_intros)

lemma evolves_cases [evolves_intros]:
  "(b \<Longrightarrow> tx_evolves aff m) \<Longrightarrow> (\<not> b \<Longrightarrow> tx_evolves aff n) \<Longrightarrow> tx_evolves aff (if b then m else n)"
  "tx_evolves aff n \<Longrightarrow> (\<And>x. tx_evolves aff (s x)) \<Longrightarrow> tx_evolves aff (case v of None \<Rightarrow> n | Some x \<Rightarrow> s x)"
  "(\<And>x y. tx_evolves aff (h x y)) \<Longrightarrow> tx_evolves aff (case q of (x, y) \<Rightarrow> h x y)"
  by (auto split: option.splits prod.splits)

lemma evolves_report [evolves_intros]: "tx_evolves aff m \<Longrightarrow> tx_evolves aff (report f m)"
proof -
  have "snd (report f m w) = snd (m w)" for w by (auto simp: report_def split: prod.splits sum.splits)
  then show "tx_evolves aff m \<Longrightarrow> tx_evolves aff (report f m)" by (simp add: tx_evolves_def)
qed

section \<open>Emitting\<close>

text \<open>Environments whose fold hook is the fold of the work projections.\<close>

definition folds_work :: "(string \<Rightarrow> sqlval) \<Rightarrow> emit_env \<Rightarrow> bool" where
  "folds_work aff E \<longleftrightarrow> em_hook E = Some (FoldAll (work_projections aff))"

lemma write_event_ingest:
  assumes "folds_work aff E"
  shows "tx_then (on_db (insert_event raw)) (tx_then (on_db (run_hook E raw)) (tx_return i)) w = (Inr j, w')
    \<longleftrightarrow> j = i \<and> (\<exists>d. ingest (work_projections aff) raw (w_db w) = (Inr (), d) \<and> w' = w\<lparr>w_db := d\<rparr>)"
  using assms by (auto simp: ingest_def run_hook_def folds_work_def tx_simps)

lemma Emit_refines_ingest:
  assumes "folds_work aff E"
  shows "Emit E c args w = (Inr i, w') \<longleftrightarrow>
    (\<exists>raw w1 d. emit_prepare E c args w = (Inr raw, w1) \<and> i = ev_id raw \<and>
       ingest (work_projections aff) raw (w_db w) = (Inr (), d) \<and> w' = w1\<lparr>w_db := d\<rparr>)"
  using emit_prepare_db(1) [of E c args w] assms
  by (fastforce simp: Emit_def tx_bind_Inr write_event_ingest)

text \<open>A failed \<open>INSERT\<close> changes nothing, and the folds of a handler's event do not fail.\<close>

lemma write_event_fails:
  assumes "folds_work aff E" "wf_db (w_db w)" "work_event raw"
    and "tx_then (on_db (insert_event raw)) (tx_then (on_db (run_hook E raw)) (tx_return i)) w = (Inl e, w')"
  shows "w_db w' = w_db w"
proof (cases "insert_event raw (w_db w)")
  case (Pair r d1)
  show ?thesis
  proof (cases r)
    case (Inl e')
    then have "d1 = w_db w"
      using Pair by (auto simp: insert_event_def tx_exec_def split: option.splits)
    then show ?thesis using assms(4) Pair Inl by (auto simp: tx_then_def tx_bind_def on_db_def)
  next
    case (Inr u)
    then have "wf_db d1" using Pair assms(2) by (auto simp: insert_event_def tx_simps wf_db_def)
    then obtain u' d2 where "FoldAll (work_projections aff) raw d1 = (Inr u', d2)"
      using totalD [OF total_FoldAll [OF assms(3)]] by blast
    then show ?thesis
      using assms(1,4) Pair Inr
      by (auto simp: tx_then_def tx_bind_def on_db_def run_hook_def folds_work_def tx_wrap_def tx_apply)
  qed
qed

lemma prepared_event:
  assumes "emit_prepare E c \<lparr>ea_entity = NewEntityRef (payload_kind p) slug pid, ea_payload = Some p,
      ea_rationale = rat, ea_refs = refs\<rparr> w = (Inr raw, w1)" "handler_payload p"
  shows "carries raw pid p" "ev_slug raw = slug" "work_event raw"
  using assms by (auto simp: emit_prepare_Inr event_of_envelope_def emit_envelope_def NewEntityRef_def
      carries_def work_event_def)

lemma evolves_Emit:
  assumes "folds_work aff E" "\<And>w raw w1. emit_prepare E c args w = (Inr raw, w1) \<Longrightarrow> work_event raw"
  shows "tx_evolves aff (Emit E c args)"
proof (rule evolvesI)
  fix w :: world
  have "\<exists>es. runs_to aff (w_db w) (w_db (snd (Emit E c args w))) es \<and> list_all service_event es"
    if wf: "wf_db (w_db w)"
  proof (cases rule: Emit_cases [of E c args w])
    case (refused e)
    then show ?thesis using emit_prepare_db(1) runs_to_refl by (intro exI [of _ "[]"]) simp
  next
    case (written raw w1)
    have ev: "work_event raw" by (rule assms(2) [OF written(1)])
    have same: "w_db w1 = w_db w" using emit_prepare_db(1) [of E c args w] written(1) by simp
    obtain r w' where run: "Emit E c args w = (r, w')" by fastforce
    show ?thesis
    proof (cases r)
      case (Inl e)
      then have "w_db w' = w_db w1"
        using write_event_fails [OF assms(1) _ ev] written(2) run wf same by metis
      then show ?thesis using run same runs_to_refl by (intro exI [of _ "[]"]) simp
    next
      case (Inr i)
      then obtain d where "ingest (work_projections aff) raw (w_db w) = (Inr (), d)" "w_db w' = d"
        using run written(2) same by (auto simp: write_event_ingest [OF assms(1)])
      then show ?thesis
        using run ev by (intro exI [of _ "[raw]"]) (simp add: runs_to_def tx_simps service_event_def)
    qed
  qed
  then show "evolves_at aff w (snd (Emit E c args w))" by (simp add: evolves_at_def Emit_direct)
qed

lemma evolves_emit_entity [evolves_intros]:
  "folds_work aff E \<Longrightarrow> handler_payload p \<Longrightarrow> kind = payload_kind p \<Longrightarrow>
   tx_evolves aff (emit_entity E c kind slug pid p)"
  unfolding emit_entity_def using prepared_event(3) by (intro evolves_Emit) auto

lemma evolves_emit_task [evolves_intros]:
  "folds_work aff E \<Longrightarrow> handler_payload p \<Longrightarrow> payload_kind p = ''task'' \<Longrightarrow>
   tx_evolves aff (emit_task E c slug pid p)"
  unfolding emit_task_def by (rule evolves_emit_entity) simp_all

section \<open>Write transactions\<close>

text \<open>A write transaction is rolled back with an error, or runs its closure and commits.\<close>

lemma WithWrite_cases:
  obtains (rolled_back) e where "fst (WithWrite E c fn w) = Inl e" "w_db (snd (WithWrite E c fn w)) = w_db w"
      "w_direct (snd (WithWrite E c fn w)) = w_direct w"
    | (committed) a w2 where "\<not> nested_write c w" "em_begin E (w_count w) = None"
      "fn (w\<lparr>w_owner := cx_gid c\<rparr>) = (Inr a, w2)" "em_commit E (w_count w2) = None"
      "WithWrite E c fn w = (Inr a, w2\<lparr>w_owner := 0\<rparr>)"
proof (cases "nested_write c w \<or> em_begin E (w_count w) \<noteq> None")
  case True
  then have "\<exists>e. fst (WithWrite E c fn w) = Inl e" "w_db (snd (WithWrite E c fn w)) = w_db w"
    "w_direct (snd (WithWrite E c fn w)) = w_direct w"
    by (auto simp: WithWrite_def split: option.splits)
  then show ?thesis using rolled_back by blast
next
  case False
  obtain r w2 where fn: "fn (w\<lparr>w_owner := cx_gid c\<rparr>) = (r, w2)" by fastforce
  show ?thesis
  proof (cases r)
    case (Inl e)
    then show ?thesis using False fn by (intro rolled_back) (auto simp: WithWrite_def)
  next
    case (Inr a)
    show ?thesis
    proof (cases "em_commit E (w_count w2)")
      case None
      then show ?thesis using Inr False fn by (intro committed) (simp_all add: WithWrite_def)
    next
      case (Some e)
      then show ?thesis using Inr False fn by (intro rolled_back) (auto simp: WithWrite_def)
    qed
  qed
qed

lemma evolves_WithWrite [evolves_intros]:
  assumes "tx_evolves aff fn"
  shows "tx_evolves aff (WithWrite E c fn)"
proof (rule evolvesI)
  fix w
  show "evolves_at aff w (snd (WithWrite E c fn w))"
  proof (cases rule: WithWrite_cases [of E c fn w])
    case (rolled_back e)
    then show ?thesis by (intro evolves_at_same)
  next
    case (committed a w2)
    have "evolves_at aff (w\<lparr>w_owner := cx_gid c\<rparr>) w2"
      using evolvesD [OF assms, of "w\<lparr>w_owner := cx_gid c\<rparr>"] committed(3) by simp
    then show ?thesis using committed(5) by (simp add: evolves_at_def)
  qed
qed

section \<open>The handlers\<close>

lemma evolves_cleanup [evolves_intros]: "tx_evolves aff (cleanupBlockersAfterClose chainID slug)"
  unfolding cleanupBlockersAfterClose_def by (intro evolves_intros)

lemma evolves_sweep [evolves_intros]:
  "folds_work aff E \<Longrightarrow> tx_evolves aff (sweepProseOnlyBlockedAfterClose E c chainID pid slug)"
  unfolding sweepProseOnlyBlockedAfterClose_def by (intro evolves_intros) simp_all

lemma build_payload:
  "toStatus \<in> {''pending'', ''active'', ''blocked'', ''closed'', ''cancelled''} \<Longrightarrow>
   handler_payload (buildTaskTransitionPayload cs from_st toStatus h sha added removed)"
  "payload_kind (buildTaskTransitionPayload cs from_st toStatus h sha added removed) = ''task''"
  by (auto simp: buildTaskTransitionPayload_def)

lemma evolves_transition [evolves_intros]:
  assumes "folds_work aff E" "toStatus \<in> {''pending'', ''active'', ''blocked'', ''closed'', ''cancelled''}"
  shows "tx_evolves aff (transitionTaskWithBlockerEdgesInTx E c slug toStatus cs h sha added removed)"
  unfolding transitionTaskWithBlockerEdgesInTx_def Let_def
  by (intro evolves_intros) (use assms build_payload in auto)

lemma evolves_transition_outer [evolves_intros]:
  assumes "folds_work aff E" "toStatus \<in> {''pending'', ''active'', ''blocked'', ''closed'', ''cancelled''}"
  shows "tx_evolves aff (transitionTaskWithBlockerEdges E c slug toStatus cs h sha added removed)"
    "tx_evolves aff (transitionTask E c slug toStatus cs h sha)"
  unfolding transitionTask_def transitionTaskWithBlockerEdges_def
  by (intro evolves_intros assms)+

lemma evolves_captured [evolves_intros]:
  assumes "tx_evolves aff fn"
  shows "tx_evolves aff (run_captured E c fn)"
proof -
  have "snd (run_captured E c fn w) = snd (WithWrite E c fn w)" for w
    by (auto simp: run_captured_def WithWrite_capture_def split: prod.splits sum.splits option.splits)
  then show ?thesis using evolves_WithWrite [OF assms] by (simp add: tx_evolves_def)
qed

lemma evolves_InTx:
  "folds_work aff E \<Longrightarrow> tx_evolves aff (HandleTaskStartInTx E c d params)"
  "folds_work aff E \<Longrightarrow> tx_evolves aff (HandleTaskCompleteInTx E c d params)"
  unfolding HandleTaskStartInTx_def HandleTaskCompleteInTx_def autoClearStatusOnlyBlockedIfNeededInTx_def Let_def
  by (intro evolves_intros; simp)+

lemma evolves_start: "folds_work aff E \<Longrightarrow> tx_evolves aff (HandleTaskStart E c params)"
  using evolves_captured [OF evolves_InTx(1)] by (simp add: HandleTaskStart_def tx_evolves_def)

lemma evolves_complete: "folds_work aff E \<Longrightarrow> tx_evolves aff (HandleTaskComplete E c params)"
  using evolves_captured [OF evolves_InTx(2)] by (simp add: HandleTaskComplete_def tx_evolves_def)

lemma evolves_handle_transition:
  "folds_work aff E \<Longrightarrow> toStatus \<in> {''pending'', ''active'', ''blocked'', ''closed'', ''cancelled''} \<Longrightarrow>
   tx_evolves aff (handle_transition action toStatus E c params)"
  unfolding handle_transition_def by (intro evolves_intros; simp)

lemma evolves_stamp_write [evolves_intros]:
  "folds_work aff E \<Longrightarrow> tx_evolves aff (stamp_write E c chainID pid canonical slug status h sha)"
  unfolding stamp_write_def by (intro evolves_intros; simp)

lemma evolves_stamp: "folds_work aff E \<Longrightarrow> tx_evolves aff (HandleTaskStampSHA E S c params)"
  unfolding HandleTaskStampSHA_def Let_def
  by (intro evolves_intros; (rule evolvesI, intro evolves_at_cases evolvesD evolves_intros)?)

lemma evolves_edge [evolves_intros]:
  "folds_work aff E \<Longrightarrow> tx_evolves aff (emit_edge E c slug scope added removed)"
  unfolding emit_edge_def by (intro evolves_intros; simp)

lemma evolves_block_transition:
  assumes "folds_work aff E"
  shows "evolves_at aff w (snd (block_transition E c p slug current w))"
  unfolding block_transition_def
  by (intro evolves_at_cases; (rule evolvesD, intro evolves_intros assms; simp)?)

lemma evolves_block:
  assumes "folds_work aff E"
  shows "tx_evolves aff (HandleTaskBlock E c params)"
  unfolding HandleTaskBlock_def Let_def
  by (intro evolves_intros; (rule evolvesI, intro evolves_at_cases evolves_block_transition assms
        evolvesD evolves_intros)?)

lemma evolves_unblock_loop [evolves_intros]:
  "folds_work aff E \<Longrightarrow> tx_evolves aff (unblock_loop E c slug cs scope terminal xs)"
  by (induction xs) (auto intro!: evolves_intros)

lemma evolves_unblock:
  assumes "folds_work aff E"
  shows "tx_evolves aff (HandleTaskUnblock E c params)"
  unfolding HandleTaskUnblock_def Let_def
  by (intro evolves_intros; (rule evolvesI, (intro evolves_at_cases evolvesD evolves_intros assms; simp)?)?)

lemma gm_put_keys: "fst ` set (gm_put k v m) \<subseteq> insert k (fst ` set m)"
  by (induction k v m rule: gm_put.induct) auto

lemma gm_put_sorted: "gm_sorted m \<Longrightarrow> gm_sorted (gm_put k v m)"
proof (induction k v m rule: gm_put.induct)
  case (1 k v)
  then show ?case by (simp add: gm_sorted_def)
next
  case (2 k v k' v' m)
  have "k' < fst y" if "k' < k" "y \<in> set (gm_put k v m)" for y
  proof -
    have "fst y \<in> insert k (fst ` set m)" using gm_put_keys [of k v m] that(2) by blast
    moreover have "k' < x" if "x \<in> fst ` set m" for x using 2(2) that by (auto simp: gm_sorted_def)
    ultimately show ?thesis using that(1) by blast
  qed
  then show ?case using 2 by (auto simp: gm_sorted_def)
qed

lemma updated_values_sorted: "gm_sorted (updated_values d chainID slug pendings)"
proof -
  have "gm_sorted (foldl (\<lambda>m (s, v). gm_put (es_name s) (edit_value d chainID slug s v)
      (gm_put (es_column s) (edit_value d chainID slug s v) m)) m0 pendings)" if "gm_sorted m0" for m0
    using that by (induction pendings arbitrary: m0) (auto intro: gm_put_sorted)
  moreover have "gm_sorted []" by (simp add: gm_sorted_def)
  ultimately show ?thesis unfolding updated_values_def by blast
qed

lemma evolves_edit:
  assumes "folds_work aff E"
  shows "tx_evolves aff (HandleTaskEdit raw_text E c params)"
proof -
  have w: "evolves_at aff w (snd (edit_write E c slug cs pendings bad w))" for slug cs pendings bad w
    unfolding edit_write_def Let_def
    by (intro evolves_at_cases evolvesD evolves_intros assms) (simp_all add: updated_values_sorted)
  show ?thesis
    unfolding HandleTaskEdit_def Let_def
    by (intro evolves_intros; (rule evolvesI, intro evolves_at_cases w)?)
qed

end
