(* ===== verification/Chain_Deps.thy ===== *)
theory Chain_Deps
  imports Work_Chains "HOL-Library.Product_Lexorder"
begin

text \<open>
  \<open>go/internal/work/chain_deps.go\<close>: edges between chains, written directly to \<open>chain_deps\<close>, and
  \<open>roadmap_plan\<close>, which orders the open chains by them with Kahn's algorithm.
\<close>

section \<open>Edges\<close>

definition dep_key :: "dep_row \<Rightarrow> int \<times> int" where
  "dep_key e = (d_dependent e, d_prerequisite e)"

definition dep_check :: "dep_row \<Rightarrow> bool" where
  "dep_check e \<longleftrightarrow> d_dependent e \<noteq> d_prerequisite e"

abbreviation w_deps :: "world \<Rightarrow> dep_row list" where
  "w_deps w \<equiv> dt_chain_deps (w_direct w)"

definition exec_deps :: "(dep_row list \<Rightarrow> dep_row list option) \<Rightarrow> unit wtx" where
  "exec_deps f = tx_exec ''chain_deps''
     (\<lambda>w. map_option (\<lambda>rows. w\<lparr>w_direct := (w_direct w)\<lparr>dt_chain_deps := rows\<rparr>\<rparr>) (f (w_deps w)))"

record chainRef =
  cr_id :: int
  cr_project :: string
  cr_status :: string

definition resolveChain :: "db \<Rightarrow> string \<Rightarrow> go_error + chainRef" where
  "resolveChain d slug =
     (case sql_first (\<lambda>c. c_slug c = slug) (db_chains d) of
        None \<Rightarrow> Inl (ErrNotFound ''chain'' slug)
      | Some c \<Rightarrow> Inr \<lparr>cr_id = c_id c, cr_project = c_project c, cr_status = c_status c\<rparr>)"

record chainDepAddParams =
  da_dependent_chain :: string
  da_prerequisite_chain :: string
  da_dependent_alt :: string
  da_prerequisite_alt :: string
  da_depends_on :: string
  da_reason :: string

definition unmarshal_chainDepAddParams :: "json \<Rightarrow> chainDepAddParams option" where
  "unmarshal_chainDepAddParams j = do {
     fs \<leftarrow> struct_fields j;
     x0 \<leftarrow> dec_str (vals fs ''dependent_chain'');
     x1 \<leftarrow> dec_str (vals fs ''prerequisite_chain'');
     x2 \<leftarrow> dec_str (vals fs ''dependent'');
     x3 \<leftarrow> dec_str (vals fs ''prerequisite'');
     x4 \<leftarrow> dec_str (vals fs ''depends_on'');
     x5 \<leftarrow> dec_str (vals fs ''reason'');
     Some \<lparr>da_dependent_chain = x0, da_prerequisite_chain = x1, da_dependent_alt = x2,
       da_prerequisite_alt = x3, da_depends_on = x4, da_reason = x5\<rparr> }"

definition da_dependent :: "chainDepAddParams \<Rightarrow> string" where
  "da_dependent p = firstNonEmpty [da_dependent_chain p, da_dependent_alt p]"

definition da_prerequisite :: "chainDepAddParams \<Rightarrow> string" where
  "da_prerequisite p = firstNonEmpty [da_prerequisite_chain p, da_prerequisite_alt p, da_depends_on p]"

record ChainDepResult =
  cd_ok :: bool
  cd_dependent :: string
  cd_prerequisite :: string
  cd_reason :: string
  cd_error :: "go_error option"

definition dep_error :: "go_error \<Rightarrow> ChainDepResult" where
  "dep_error e = \<lparr>cd_ok = False, cd_dependent = [], cd_prerequisite = [], cd_reason = [], cd_error = Some e\<rparr>"

definition dep_ok :: "string \<Rightarrow> string \<Rightarrow> string \<Rightarrow> ChainDepResult" where
  "dep_ok dep prereq reason =
     \<lparr>cd_ok = True, cd_dependent = dep, cd_prerequisite = prereq, cd_reason = reason, cd_error = None\<rparr>"

text \<open>The two chains of a call, or the error that answers it.\<close>

definition dep_ends :: "db \<Rightarrow> string \<Rightarrow> string \<Rightarrow> go_error + chainRef \<times> chainRef" where
  "dep_ends d dep prereq =
     (case resolveChain d dep of
        Inl e \<Rightarrow> Inl e
      | Inr depRef \<Rightarrow>
          (case resolveChain d prereq of Inl e \<Rightarrow> Inl e | Inr prereqRef \<Rightarrow> Inr (depRef, prereqRef)))"

definition insert_dep :: "dep_row \<Rightarrow> unit wtx" where
  "insert_dep e =
     tx_bind (tx_read (\<lambda>w. list_ex (\<lambda>x. dep_key x = dep_key e) (w_deps w))) (\<lambda>exists.
     if exists then tx_fail (ErrMessage ''dependency already exists'')
     else exec_deps (sql_insert dep_key dep_check e))"

definition HandleChainDepAdd :: "emit_env \<Rightarrow> ctx \<Rightarrow> string \<Rightarrow> raw_params \<Rightarrow> ChainDepResult wtx" where
  "HandleChainDepAdd E c project params =
     tx_bind (tx_of (decode_params unmarshal_chainDepAddParams params)) (\<lambda>p. (\<lambda>w.
     let dep = da_dependent p; prereq = da_prerequisite p in
     if dep = [] \<or> prereq = [] then
       (Inr (dep_error (ErrMessage ''chain_dep_add requires dependent_chain and prerequisite_chain'')), w)
     else if dep = prereq then (Inr (dep_error (ErrMessage ''chain cannot depend on itself'')), w)
     else case dep_ends (w_db w) dep prereq of
       Inl e \<Rightarrow> (Inr (dep_error e), w)
     | Inr (depRef, prereqRef) \<Rightarrow>
         if cr_project depRef \<noteq> cr_project prereqRef then
           (Inr (dep_error (ErrMessage ''cross-project dependency rejected'')), w)
         else if project \<noteq> [] \<and> project \<noteq> cr_project depRef then
           (Inr (dep_error (ErrMessage ''project hint does not match'')), w)
         else report dep_error (tx_then
           (WithWrite E c (insert_dep
             \<lparr>d_dependent = cr_id depRef, d_prerequisite = cr_id prereqRef, d_reason = da_reason p\<rparr>))
           (tx_return (dep_ok dep prereq (da_reason p)))) w))"

text \<open>The DELETE, and whether it found a row.\<close>

definition delete_dep :: "int \<Rightarrow> int \<Rightarrow> bool wtx" where
  "delete_dep i j =
     tx_bind (tx_read (\<lambda>w. list_ex (\<lambda>x. dep_key x = (i, j)) (w_deps w))) (\<lambda>removed.
     tx_then (exec_deps (\<lambda>rows. Some (sql_delete (\<lambda>x. dep_key x = (i, j)) rows)))
       (tx_return removed))"

definition HandleChainDepRemove :: "emit_env \<Rightarrow> ctx \<Rightarrow> raw_params \<Rightarrow> ChainDepResult wtx" where
  "HandleChainDepRemove E c params =
     tx_bind (tx_of (decode_params unmarshal_chainDepAddParams params)) (\<lambda>p. (\<lambda>w.
     let dep = da_dependent p; prereq = da_prerequisite p in
     if dep = [] \<or> prereq = [] then
       (Inr (dep_error (ErrMessage ''chain_dep_remove requires dependent_chain and prerequisite_chain'')), w)
     else case dep_ends (w_db w) dep prereq of
       Inl e \<Rightarrow> (Inr (dep_error e), w)
     | Inr (depRef, prereqRef) \<Rightarrow>
         report dep_error (tx_bind (WithWrite E c (delete_dep (cr_id depRef) (cr_id prereqRef)))
           (\<lambda>removed. tx_return
              (if removed then dep_ok dep prereq [] else dep_error (ErrMessage ''no dependency to remove'')))) w))"

section \<open>Listing\<close>

definition unmarshal_chainDepListParams :: "json \<Rightarrow> string option" where
  "unmarshal_chainDepListParams j = do {
     fs \<leftarrow> struct_fields j;
     x0 \<leftarrow> dec_str (vals fs ''chain'');
     x1 \<leftarrow> dec_str (vals fs ''chain_slug'');
     Some (firstNonEmpty [x0, x1]) }"

record ChainDepListResult =
  cl_chain :: string
  cl_prerequisites :: "(string \<times> string) list"     \<comment> \<open>\<open>ChainDepEdge\<close>: slug and reason\<close>
  cl_dependents :: "(string \<times> string) list"

definition dep_join :: "db \<Rightarrow> dep_row list \<Rightarrow> (dep_row \<Rightarrow> int) \<Rightarrow> (dep_row \<Rightarrow> int) \<Rightarrow> int \<Rightarrow> (string \<times> string) list" where
  "dep_join d deps this other ident =
     sort_key fst (concat (map (\<lambda>e. map (\<lambda>c. (c_slug c, d_reason e))
       (filter (\<lambda>c. c_id c = other e) (db_chains d))) (filter (\<lambda>e. this e = ident) deps)))"

definition HandleChainDepList :: "db \<Rightarrow> dep_row list \<Rightarrow> raw_params \<Rightarrow> go_error + (go_error + ChainDepListResult)" where
  "HandleChainDepList d deps params =
     (case decode_params unmarshal_chainDepListParams params of
        Inl e \<Rightarrow> Inl e
      | Inr slug \<Rightarrow>
          if slug = [] then Inr (Inl (ErrMessage ''chain_dep_list requires chain''))
          else case resolveChain d slug of
            Inl e \<Rightarrow> Inr (Inl e)
          | Inr r \<Rightarrow> Inr (Inr \<lparr>cl_chain = slug,
              cl_prerequisites = dep_join d deps d_dependent d_prerequisite (cr_id r),
              cl_dependents = dep_join d deps d_prerequisite d_dependent (cr_id r)\<rparr>))"

section \<open>The computed roadmap\<close>

record planNode =
  pn_id :: int
  pn_slug :: string
  pn_project :: string
  pn_position :: "int option"
  pn_created :: string

text \<open>The LEFT JOIN of the open chains in scope with their roadmap rows.\<close>

definition plan_row :: "db \<Rightarrow> chain_row \<Rightarrow> planNode list" where
  "plan_row d c =
     (let node = (\<lambda>pos. \<lparr>pn_id = c_id c, pn_slug = c_slug c, pn_project = c_project c, pn_position = pos,
            pn_created = c_created c\<rparr>);
          rs = filter (\<lambda>r. r_ref_kind r = ''chain'' \<and> r_ref_slug r = c_slug c) (db_roadmap d)
      in if rs = [] then [node None] else map (\<lambda>r. node (Some (r_position r))) rs)"

definition plan_rows :: "db \<Rightarrow> string \<Rightarrow> planNode list" where
  "plan_rows d project = concat (map (plan_row d)
     (filter (\<lambda>c. c_status c = ''open'' \<and> (project = [] \<or> c_project c = project)) (db_chains d)))"

text \<open>\<open>nodes[n.id] = &n\<close>: the map of nodes, as the list of its values.\<close>

definition put_node :: "planNode list \<Rightarrow> planNode \<Rightarrow> planNode list" where
  "put_node nodes n =
     (if list_ex (\<lambda>x. pn_id x = pn_id n) nodes then map (\<lambda>x. if pn_id x = pn_id n then n else x) nodes
      else nodes @ [n])"

definition plan_nodes :: "db \<Rightarrow> string \<Rightarrow> planNode list" where
  "plan_nodes d project = foldl put_node [] (plan_rows d project)"

definition plan_edges :: "planNode list \<Rightarrow> dep_row list \<Rightarrow> dep_row list" where
  "plan_edges nodes rows =
     filter (\<lambda>e. list_ex (\<lambda>n. pn_id n = d_dependent e) nodes \<and> list_ex (\<lambda>n. pn_id n = d_prerequisite e) nodes) rows"

definition adj :: "dep_row list \<Rightarrow> int \<Rightarrow> int list" where
  "adj edges i = map d_dependent (filter (\<lambda>e. d_prerequisite e = i) edges)"

definition indeg :: "dep_row list \<Rightarrow> int \<Rightarrow> int" where
  "indeg edges i = int (length (filter (\<lambda>e. d_dependent e = i) edges))"

definition plan_less :: "planNode \<Rightarrow> planNode \<Rightarrow> bool" where
  "plan_less na nb \<longleftrightarrow>
     (if (pn_position na \<noteq> None) \<noteq> (pn_position nb \<noteq> None) then pn_position na \<noteq> None
      else if pn_position na \<noteq> None \<and> pn_position nb \<noteq> None \<and> the (pn_position na) \<noteq> the (pn_position nb)
      then the (pn_position na) < the (pn_position nb)
      else if pn_created na \<noteq> pn_created nb then pn_created na < pn_created nb
      else pn_slug na < pn_slug nb)"

text \<open>
  \<open>sort.Slice\<close>, as the insertion sort it is on short slices; on longer ones the order of equal
  elements is not specified.
\<close>

fun insert_by :: "('a \<Rightarrow> 'a \<Rightarrow> bool) \<Rightarrow> 'a \<Rightarrow> 'a list \<Rightarrow> 'a list" where
  "insert_by lt x [] = [x]"
| "insert_by lt x (y # ys) = (if lt y x then y # insert_by lt x ys else x # y # ys)"

definition slice_sort :: "('a \<Rightarrow> 'a \<Rightarrow> bool) \<Rightarrow> 'a list \<Rightarrow> 'a list" where
  "slice_sort lt xs = foldr (insert_by lt) xs []"

definition node_of :: "planNode list \<Rightarrow> int \<Rightarrow> planNode" where
  "node_of nodes i = (case find (\<lambda>n. pn_id n = i) nodes of Some n \<Rightarrow> n
     | None \<Rightarrow> \<lparr>pn_id = i, pn_slug = [], pn_project = [], pn_position = None, pn_created = []\<rparr>)"

definition id_less :: "planNode list \<Rightarrow> int \<Rightarrow> int \<Rightarrow> bool" where
  "id_less nodes a b \<longleftrightarrow> plan_less (node_of nodes a) (node_of nodes b)"

text \<open>The inner loop: the degrees after it and the nodes that became ready.\<close>

fun release :: "(int \<Rightarrow> int) \<Rightarrow> int list \<Rightarrow> (int \<Rightarrow> int) \<times> int list" where
  "release deg [] = (deg, [])"
| "release deg (dep # deps) =
     (let deg' = deg(dep := deg dep - 1)
      in case release deg' deps of (deg'', newlyReady) \<Rightarrow>
           (deg'', if deg' dep = 0 then dep # newlyReady else newlyReady))"

lemma length_insert_by: "length (insert_by lt x xs) = Suc (length xs)"
  by (induction xs) auto

lemma set_insert_by: "set (insert_by lt x xs) = insert x (set xs)"
  by (induction xs) auto

lemma slice_sort_simps: "slice_sort lt [] = []" "slice_sort lt (x # xs) = insert_by lt x (slice_sort lt xs)"
  by (simp_all add: slice_sort_def)

lemma slice_sort_facts:
  "length (slice_sort lt xs) = length xs" "set (slice_sort lt xs) = set xs"
  by (induction xs) (simp_all add: slice_sort_simps length_insert_by set_insert_by)

lemma release_facts:
  assumes "release deg deps = (deg', newly)"
  shows "deg' m = deg m - int (count_list deps m)" "distinct newly"
    "m \<in> set newly \<longleftrightarrow> 1 \<le> deg m \<and> deg m \<le> int (count_list deps m)"
proof -
  have "deg' m = deg m - int (count_list deps m) \<and> distinct newly \<and>
      (\<forall>m. m \<in> set newly \<longleftrightarrow> 1 \<le> deg m \<and> deg m \<le> int (count_list deps m))"
    using assms
  proof (induction deps arbitrary: deg newly)
    case (Cons x xs)
    obtain new where rest: "release (deg(x := deg x - 1)) xs = (deg', new)"
      and newly: "newly = (if deg x = 1 then x # new else new)"
      using Cons.prems by (auto simp: Let_def split: prod.splits)
    show ?case using Cons.IH [OF rest] by (auto simp: newly)
  qed (auto simp: not_le)
  then show "deg' m = deg m - int (count_list deps m)" "distinct newly"
    "m \<in> set newly \<longleftrightarrow> 1 \<le> deg m \<and> deg m \<le> int (count_list deps m)" by blast+
qed

text \<open>The outer loop. Every node enters the list of ready nodes at most once, when its degree reaches zero.\<close>

function kahn_loop :: "planNode list \<Rightarrow> dep_row list \<Rightarrow> int list \<Rightarrow> (int \<Rightarrow> int) \<Rightarrow> int list \<Rightarrow> int list" where
  "kahn_loop nodes edges [] deg order = order"
| "kahn_loop nodes edges (i # ready) deg order =
     (case release deg (adj edges i) of (deg', newlyReady) \<Rightarrow>
        kahn_loop nodes edges
          (if newlyReady = [] then ready else slice_sort (id_less nodes) (ready @ newlyReady)) deg' (order @ [i]))"
  by pat_completeness auto
termination
proof (relation "measure (\<lambda>(nodes, edges, ready, deg, order).
    length ready + card {m \<in> d_dependent ` set edges. 0 < deg m})", goal_cases)
  case (2 nodes edges i ready deg order deg' newly)
  then have rel: "release deg (adj edges i) = (deg', newly)" by simp
  let ?T = "d_dependent ` set edges"
  have new: "set newly \<subseteq> {m \<in> ?T. 0 < deg m}"
  proof
    fix m assume "m \<in> set newly"
    then have "1 \<le> deg m" "count_list (adj edges i) m \<noteq> 0" using release_facts(3) [OF rel, of m] by auto
    then show "m \<in> {m \<in> ?T. 0 < deg m}" by (auto simp: count_list_0_iff adj_def)
  qed
  have "{m \<in> ?T. 0 < deg' m} \<subseteq> {m \<in> ?T. 0 < deg m} - set newly"
    using release_facts(1,3) [OF rel] by force
  then have "card {m \<in> ?T. 0 < deg' m} \<le> card ({m \<in> ?T. 0 < deg m} - set newly)" by (intro card_mono) auto
  also have "\<dots> = card {m \<in> ?T. 0 < deg m} - length newly"
    using new distinct_card [OF release_facts(2) [OF rel]] by (subst card_Diff_subset) auto
  finally have "card {m \<in> ?T. 0 < deg' m} + length newly \<le> card {m \<in> ?T. 0 < deg m}"
    using card_mono [OF _ new] distinct_card [OF release_facts(2) [OF rel]] by simp
  then show ?case by (simp add: slice_sort_facts)
qed simp

definition kahnSort :: "planNode list \<Rightarrow> dep_row list \<Rightarrow> int list" where
  "kahnSort nodes edges =
     kahn_loop nodes edges
       (slice_sort (id_less nodes) (filter (\<lambda>i. indeg edges i = 0) (map pn_id nodes))) (indeg edges) []"

record RoadmapPlanEntry =
  pe_position :: nat
  pe_chain :: string
  pe_project :: string
  pe_status :: string
  pe_depends_on :: "(string \<times> string) list"

record RoadmapPlanResult =
  rp_scope :: string
  rp_order :: "RoadmapPlanEntry list"
  rp_cycle :: "string list"
  rp_error :: "go_error option"

definition plan_entry :: "planNode list \<Rightarrow> dep_row list \<Rightarrow> nat \<times> int \<Rightarrow> RoadmapPlanEntry" where
  "plan_entry nodes edges q =
     (let n = node_of nodes (snd q); mine = filter (\<lambda>e. d_dependent e = snd q) edges
      in \<lparr>pe_position = fst q, pe_chain = pn_slug n, pe_project = pn_project n,
          pe_status = (if mine = [] then ''ready'' else ''blocked''),
          pe_depends_on = slice_sort (\<lambda>a b. fst a < fst b)
            (map (\<lambda>e. (pn_slug (node_of nodes (d_prerequisite e)), d_reason e)) mine)\<rparr>)"

definition HandleRoadmapPlan :: "db \<Rightarrow> dep_row list \<Rightarrow> string \<Rightarrow> RoadmapPlanResult" where
  "HandleRoadmapPlan d deps project =
     (let nodes = plan_nodes d project; edges = plan_edges nodes deps; order = kahnSort nodes edges;
          stuck = length order < length nodes
      in \<lparr>rp_scope = (if project \<noteq> [] then project else ''cross-project''),
          rp_order = map (plan_entry nodes edges) (zip [1 ..< Suc (length order)] order),
          rp_cycle = (if stuck then sort (map pn_slug (filter (\<lambda>n. 0 < indeg edges (pn_id n)) nodes)) else []),
          rp_error = (if stuck then Some (ErrMessage ''dependency cycle detected'') else None)\<rparr>)"

section \<open>The order is topological\<close>

definition kahn_inv :: "int set \<Rightarrow> dep_row list \<Rightarrow> int list \<Rightarrow> (int \<Rightarrow> int) \<Rightarrow> int list \<Rightarrow> bool" where
  "kahn_inv N edges ready deg order \<longleftrightarrow>
     distinct (order @ ready) \<and>
     (\<forall>m. deg m = int (length (filter (\<lambda>e. d_dependent e = m \<and> d_prerequisite e \<notin> set order) edges))) \<and>
     (\<forall>m. m \<in> set (order @ ready) \<longleftrightarrow> m \<in> N \<and> deg m = 0) \<and>
     (\<forall>k < length order. \<forall>e \<in> set edges. d_dependent e = order ! k \<longrightarrow> d_prerequisite e \<in> set (take k order))"

lemma adj_count:
  "i \<notin> set order \<Longrightarrow>
   length (filter (\<lambda>e. d_dependent e = m \<and> d_prerequisite e \<notin> set order) edges) =
   count_list (adj edges i) m +
   length (filter (\<lambda>e. d_dependent e = m \<and> d_prerequisite e \<notin> set (order @ [i])) edges)"
  by (induction edges) (auto simp: adj_def)

lemma distinct_insert_by: "distinct (insert_by lt x xs) \<longleftrightarrow> x \<notin> set xs \<and> distinct xs"
  by (induction xs) (auto simp: set_insert_by)

lemma distinct_slice_sort: "distinct (slice_sort lt xs) \<longleftrightarrow> distinct xs"
  by (induction xs) (simp_all add: slice_sort_simps distinct_insert_by slice_sort_facts)

lemma kahn_inv_step:
  assumes inv: "kahn_inv N edges (i # ready) deg order" and rel: "release deg (adj edges i) = (deg', newly)"
    and ends: "d_dependent ` set edges \<subseteq> N"
  shows "kahn_inv N edges (if newly = [] then ready else slice_sort (id_less nodes) (ready @ newly)) deg' (order @ [i])"
proof -
  let ?rem = "\<lambda>m. int (length (filter (\<lambda>e. d_dependent e = m \<and> d_prerequisite e \<notin> set (order @ [i])) edges))"
  have dist: "distinct (order @ i # ready)" and i: "i \<notin> set order"
    and deg: "\<And>m. deg m = int (length (filter (\<lambda>e. d_dependent e = m \<and> d_prerequisite e \<notin> set order) edges))"
    and mem: "\<And>m. m \<in> set (order @ i # ready) \<longleftrightarrow> m \<in> N \<and> deg m = 0"
    and ord: "\<And>k e. k < length order \<Longrightarrow> e \<in> set edges \<Longrightarrow> d_dependent e = order ! k \<Longrightarrow> d_prerequisite e \<in> set (take k order)"
    using inv by (auto simp: kahn_inv_def)
  have split: "deg m = int (count_list (adj edges i) m) + ?rem m" for m
    unfolding deg adj_count [OF i] by simp
  have deg': "deg' m = ?rem m" for m using release_facts(1) [OF rel, of m] split [of m] by simp
  have new: "m \<in> set newly \<longleftrightarrow> 1 \<le> deg m \<and> ?rem m = 0" for m
    using release_facts(3) [OF rel, of m] split [of m] by auto
  have newN: "m \<in> N" if "m \<in> set newly" for m
  proof -
    have "count_list (adj edges i) m \<noteq> 0" using that release_facts(3) [OF rel, of m] by auto
    then show ?thesis using ends by (auto simp: count_list_0_iff adj_def)
  qed
  have fresh: "set newly \<inter> set (order @ i # ready) = {}"
  proof -
    have "m \<notin> set (order @ i # ready)" if "m \<in> set newly" for m
      using that new [of m] mem [of m] by linarith
    then show ?thesis by blast
  qed
  have le: "?rem m \<le> deg m" for m using split [of m] by simp
  have mem': "m \<in> set (order @ [i]) \<union> set ready \<union> set newly \<longleftrightarrow> m \<in> N \<and> deg' m = 0" for m
  proof -
    have "0 \<le> ?rem m" "0 \<le> deg m" by (simp_all add: deg)
    then show ?thesis using mem [of m] new [of m] newN [of m] le [of m] deg' [of m] by (auto simp: )
  qed
  have prec: "d_prerequisite e \<in> set order" if "e \<in> set edges" "d_dependent e = i" for e
  proof -
    have "deg i = 0" using mem [of i] by simp
    then have "filter (\<lambda>e. d_dependent e = i \<and> d_prerequisite e \<notin> set order) edges = []" by (simp add: deg)
    then show ?thesis using that by (auto simp: filter_empty_conv)
  qed
  have ord': "d_prerequisite e \<in> set (take k (order @ [i]))"
    if "k < length (order @ [i])" "e \<in> set edges" "d_dependent e = (order @ [i]) ! k" for k e
    using that ord prec by (cases "k = length order") (auto simp: nth_append)
  have sets: "set (if newly = [] then ready else slice_sort (id_less nodes) (ready @ newly)) = set ready \<union> set newly"
    by (simp add: slice_sort_facts)
  have "distinct (if newly = [] then ready else slice_sort (id_less nodes) (ready @ newly))"
    using dist fresh release_facts(2) [OF rel] by (auto simp: distinct_slice_sort)
  then have dist': "distinct ((order @ [i]) @ (if newly = [] then ready else slice_sort (id_less nodes) (ready @ newly)))"
    using dist fresh sets by auto
  show ?thesis
    unfolding kahn_inv_def set_append [of "order @ [i]"] sets
    using dist' deg' mem' ord' by (intro conjI allI ballI impI) auto
qed

lemma kahn_loop_inv:
  assumes "kahn_inv N edges ready deg order" "d_dependent ` set edges \<subseteq> N"
  shows "\<exists>deg'. kahn_inv N edges [] deg' (kahn_loop nodes edges ready deg order)"
  using assms
proof (induction nodes edges ready deg order rule: kahn_loop.induct)
  case (1 nodes edges deg order)
  then show ?case by auto
next
  case (2 nodes edges i ready deg order)
  obtain deg' newly where rel: "release deg (adj edges i) = (deg', newly)" by fastforce
  have "kahn_inv N edges (if newly = [] then ready else slice_sort (id_less nodes) (ready @ newly)) deg' (order @ [i])"
    by (rule kahn_inv_step [OF "2.prems"(1) rel "2.prems"(2)])
  from "2.IH" [OF rel [symmetric] this "2.prems"(2)] show ?case by (simp add: rel)
qed

lemma kahnSort_inv:
  assumes "distinct (map pn_id nodes)" "d_dependent ` set edges \<subseteq> pn_id ` set nodes"
  shows "\<exists>deg. kahn_inv (pn_id ` set nodes) edges [] deg (kahnSort nodes edges)"
proof -
  let ?ready = "slice_sort (id_less nodes) (filter (\<lambda>i. indeg edges i = 0) (map pn_id nodes))"
  have "kahn_inv (pn_id ` set nodes) edges ?ready (indeg edges) []"
    using assms(1) by (auto simp: kahn_inv_def distinct_slice_sort slice_sort_facts indeg_def)
  then show ?thesis unfolding kahnSort_def using kahn_loop_inv assms(2) by blast
qed

text \<open>The prerequisite relation, and the chains in or behind a cycle of it.\<close>

abbreviation dep_rel :: "dep_row list \<Rightarrow> (int \<times> int) set" where
  "dep_rel edges \<equiv> (\<lambda>e. (d_prerequisite e, d_dependent e)) ` set edges"

definition behind_cycle :: "dep_row list \<Rightarrow> int \<Rightarrow> bool" where
  "behind_cycle edges m \<longleftrightarrow> (\<exists>c. (c, c) \<in> (dep_rel edges)\<^sup>+ \<and> (c, m) \<in> (dep_rel edges)\<^sup>*)"

lemma kahn_invD:
  assumes "kahn_inv N edges [] deg order"
  shows "distinct order"
    and "deg m = int (length (filter (\<lambda>e. d_dependent e = m \<and> d_prerequisite e \<notin> set order) edges))"
    and "m \<in> set order \<longleftrightarrow> m \<in> N \<and> deg m = 0"
    and "k < length order \<Longrightarrow> e \<in> set edges \<Longrightarrow> d_dependent e = order ! k \<Longrightarrow> d_prerequisite e \<in> set (take k order)"
  using assms unfolding kahn_inv_def append_Nil2 by blast+

lemma kahn_inv_pred:
  assumes inv: "kahn_inv N edges [] deg order"
  shows "x \<in> set order \<longleftrightarrow> x \<in> N \<and> (\<forall>y. (y, x) \<in> dep_rel edges \<longrightarrow> y \<in> set order)"
  unfolding kahn_invD(3) [OF inv, of x] unfolding kahn_invD(2) [OF inv] by (auto simp: filter_empty_conv)

lemma placed_not_behind_cycle:
  assumes inv: "kahn_inv N edges [] deg order" and m: "m \<in> set order"
  shows "\<not> behind_cycle edges m"
proof
  let ?r = "dep_rel edges"
  note pred = kahn_inv_pred [OF inv]
  assume "behind_cycle edges m"
  then obtain c where c: "(c, c) \<in> ?r\<^sup>+" "(c, m) \<in> ?r\<^sup>*" by (auto simp: behind_cycle_def)
  let ?q = "{x \<in> ?r. snd x \<in> set order}"
  have "acyclic ?q"
  proof (rule ordered_acyclic)
    show "distinct order" by (rule kahn_invD(1) [OF inv])
    fix k x assume k: "k < length order" and x: "x \<in> ?q" "snd x = order ! k"
    from x(1) obtain e where "e \<in> set edges" "x = (d_prerequisite e, d_dependent e)" by auto
    then show "fst x \<in> set (take k order)" using kahn_invD(4) [OF inv k] x(2) by simp
  qed blast
  moreover have "(c, y) \<in> ?q\<^sup>+" if "(c, y) \<in> ?r\<^sup>+" "y \<in> set order" for y
    using that
  proof (induction rule: trancl_induct)
    case (step y z)
    have "y \<in> set order" using step.hyps(2) step.prems pred [of z] by blast
    moreover have "(y, z) \<in> ?q" using step.hyps(2) step.prems by simp
    ultimately show ?case using step.IH by (meson trancl.trancl_into_trancl)
  qed auto
  ultimately have "(c, c) \<notin> ?r\<^sup>+" if "c \<in> set order" using that unfolding acyclic_def by blast
  moreover have "c \<in> set order"
    using c(2) m by (induction rule: converse_rtrancl_induct) (use pred in blast)+
  ultimately show False using c(1) by blast
qed

lemma kahn_inv_placed:
  assumes inv: "kahn_inv N edges [] deg order" and ends: "d_prerequisite ` set edges \<subseteq> N"
  shows "m \<in> set order \<longleftrightarrow> m \<in> N \<and> \<not> behind_cycle edges m"
proof
  let ?r = "dep_rel edges"
  note pred = kahn_inv_pred [OF inv]
  show "m \<in> N \<and> \<not> behind_cycle edges m" if "m \<in> set order"
    using that placed_not_behind_cycle [OF inv] pred by blast
  show "m \<in> set order" if m: "m \<in> N \<and> \<not> behind_cycle edges m"
  proof (rule ccontr)
    assume out: "m \<notin> set order"
    let ?q = "{x \<in> ?r. (snd x, m) \<in> ?r\<^sup>*}"
    have sub: "?q\<^sup>+ \<subseteq> ?r\<^sup>+" by (rule trancl_mono_subset) blast
    have "acyclic ?q" unfolding acyclic_def
    proof (intro allI notI)
      fix x assume x: "(x, x) \<in> ?q\<^sup>+"
      with sub have "(x, x) \<in> ?r\<^sup>+" by blast
      moreover from x have "(x, m) \<in> ?r\<^sup>*" by (cases rule: tranclE) auto
      ultimately show False using m by (auto simp: behind_cycle_def)
    qed
    then have "wf ?q" by (intro finite_acyclic_wf) simp_all
    moreover have "m \<in> {x \<in> N - set order. (x, m) \<in> ?r\<^sup>*}" using m out by simp
    ultimately obtain z where z: "z \<in> N - set order" "(z, m) \<in> ?r\<^sup>*"
      and least: "\<And>y. (y, z) \<in> ?q \<Longrightarrow> y \<notin> {x \<in> N - set order. (x, m) \<in> ?r\<^sup>*}"
      by (rule wfE_min) blast
    from z pred obtain y where y: "(y, z) \<in> ?r" "y \<notin> set order" by blast
    moreover have "y \<in> N" using y(1) ends by auto
    moreover have "(y, m) \<in> ?r\<^sup>*" using y(1) z(2) by (rule converse_rtrancl_into_rtrancl)
    ultimately show False using least [of y] z(2) by simp
  qed
qed

lemma kahnSort_complete:
  assumes inv: "kahn_inv N edges [] deg order" and ends: "d_prerequisite ` set edges \<subseteq> N"
  shows "set order = N \<longleftrightarrow> acyclic (dep_rel edges)"
proof -
  have "c \<in> N" if "(c, c) \<in> (dep_rel edges)\<^sup>+" for c using tranclD [OF that] ends by auto
  then show ?thesis using kahn_inv_placed [OF inv ends] unfolding behind_cycle_def acyclic_def by blast
qed

lemma put_node_ids:
  assumes "distinct (map pn_id nodes)"
  shows "distinct (map pn_id (put_node nodes n))"
    "pn_id ` set (put_node nodes n) = insert (pn_id n) (pn_id ` set nodes)"
proof -
  have "map (\<lambda>x. pn_id (if pn_id x = pn_id n then n else x)) nodes = map pn_id nodes" by (intro map_cong) auto
  then have "map pn_id (put_node nodes n) =
      (if list_ex (\<lambda>x. pn_id x = pn_id n) nodes then map pn_id nodes else map pn_id nodes @ [pn_id n])"
    by (simp add: put_node_def comp_def)
  moreover have "list_ex (\<lambda>x. pn_id x = pn_id n) nodes \<longleftrightarrow> pn_id n \<in> set (map pn_id nodes)"
    by (auto simp: list_ex_iff) (metis imageI)
  ultimately show "distinct (map pn_id (put_node nodes n))"
    "pn_id ` set (put_node nodes n) = insert (pn_id n) (pn_id ` set nodes)"
    using assms by (simp_all flip: set_map add: insert_absorb)
qed

lemma plan_nodes_ids:
  "distinct (map pn_id (plan_nodes d project))" "pn_id ` set (plan_nodes d project) = pn_id ` set (plan_rows d project)"
proof -
  have "distinct (map pn_id (foldl put_node ns rows)) \<and> pn_id ` set (foldl put_node ns rows) = pn_id ` set ns \<union> pn_id ` set rows"
    if "distinct (map pn_id ns)" for ns rows
    using that by (induction rows arbitrary: ns) (simp_all add: put_node_ids)
  from this [of "[]" "plan_rows d project"] show
    "distinct (map pn_id (plan_nodes d project))" "pn_id ` set (plan_nodes d project) = pn_id ` set (plan_rows d project)"
    by (simp_all add: plan_nodes_def)
qed

lemma plan_row_ids: "pn_id ` set (plan_row d c) = {c_id c}"
  unfolding plan_row_def Let_def by (simp add: image_image image_constant_conv del: set_filter)

lemma plan_rows_ids:
  "pn_id ` set (plan_rows d project) =
   c_id ` {c \<in> set (db_chains d). c_status c = ''open'' \<and> (project = [] \<or> c_project c = project)}"
  by (simp add: plan_rows_def image_UN plan_row_ids UNION_singleton_eq_range)

lemma plan_edges_ends:
  "d_dependent ` set (plan_edges nodes rows) \<subseteq> pn_id ` set nodes"
  "d_prerequisite ` set (plan_edges nodes rows) \<subseteq> pn_id ` set nodes"
  by (auto simp: plan_edges_def list_ex_iff) (metis imageI)+

section \<open>What the handlers write\<close>

lemma WithWrite_Inr:
  "WithWrite E c fn w = (Inr a, w') \<longleftrightarrow>
   \<not> nested_write c w \<and> em_begin E (w_count w) = None \<and>
   (\<exists>w2. fn (w\<lparr>w_owner := cx_gid c\<rparr>) = (Inr a, w2) \<and> em_commit E (w_count w2) = None \<and> w' = w2\<lparr>w_owner := 0\<rparr>)"
  by (auto simp: WithWrite_def split: option.splits prod.splits sum.splits)

lemma report_Inr:
  "report f m s = (Inr a, s') \<longleftrightarrow> m s = (Inr a, s') \<or> (\<exists>e. m s = (Inl e, s') \<and> a = f e)"
  by (auto simp: report_def split: prod.splits sum.splits)

lemma resolveChain_Inr:
  "resolveChain d slug = Inr r \<Longrightarrow> \<exists>c \<in> set (db_chains d). c_slug c = slug \<and> c_id c = cr_id r \<and> c_project c = cr_project r"
  by (auto simp: resolveChain_def sql_first_def find_Some_iff split: option.splits)

lemma dep_ends_Inr:
  "dep_ends d dep prereq = Inr (x, y) \<longleftrightarrow> resolveChain d dep = Inr x \<and> resolveChain d prereq = Inr y"
  by (auto simp: dep_ends_def split: sum.splits)

lemma dep_ok_simps [simp]: "cd_ok (dep_ok a b s)" "\<not> cd_ok (dep_error e)" "cd_error (dep_ok a b s) = None"
  by (simp_all add: dep_ok_def dep_error_def)

lemma insert_dep_Inr:
  "insert_dep e w = (Inr (), w') \<longleftrightarrow>
   dep_key e \<notin> dep_key ` set (w_deps w) \<and> dep_check e \<and>
   w' = w\<lparr>w_direct := (w_direct w)\<lparr>dt_chain_deps := w_deps w @ [e]\<rparr>\<rparr>"
  by (auto simp: insert_dep_def exec_deps_def tx_simps sql_insert_def list_ex_iff image_iff split: if_splits)

lemma delete_dep_run:
  "delete_dep i j w = (Inr (\<exists>e \<in> set (w_deps w). dep_key e = (i, j)),
     w\<lparr>w_direct := (w_direct w)\<lparr>dt_chain_deps := filter (\<lambda>e. dep_key e \<noteq> (i, j)) (w_deps w)\<rparr>\<rparr>)"
  by (simp add: delete_dep_def exec_deps_def tx_bind_def tx_then_def tx_read_def tx_exec_def tx_return_def
      sql_delete_def list_ex_iff)

lemma HandleChainDepAdd_ok:
  assumes "HandleChainDepAdd E c project params w = (Inr r, w')" "cd_ok r"
  obtains p x y e where "decode_params unmarshal_chainDepAddParams params = Inr p"
    "da_dependent p \<noteq> []" "da_prerequisite p \<noteq> []" "da_dependent p \<noteq> da_prerequisite p"
    "dep_ends (w_db w) (da_dependent p) (da_prerequisite p) = Inr (x, y)" "cr_project x = cr_project y"
    "project = [] \<or> project = cr_project x"
    "r = dep_ok (da_dependent p) (da_prerequisite p) (da_reason p)"
    "e = \<lparr>d_dependent = cr_id x, d_prerequisite = cr_id y, d_reason = da_reason p\<rparr>"
    "dep_key e \<notin> dep_key ` set (w_deps w)" "dep_check e"
    "w' = w\<lparr>w_direct := (w_direct w)\<lparr>dt_chain_deps := w_deps w @ [e]\<rparr>, w_owner := 0\<rparr>"
proof -
  obtain p where p: "decode_params unmarshal_chainDepAddParams params = Inr p"
    using assms(1) by (auto simp: HandleChainDepAdd_def tx_simps)
  note run = assms(1) [unfolded HandleChainDepAdd_def tx_bind_Inr tx_of_Inr p Let_def]
  have named: "\<not> (da_dependent p = [] \<or> da_prerequisite p = [])" "da_dependent p \<noteq> da_prerequisite p"
    using run assms(2) by (auto split: if_splits)
  obtain x y where xy: "dep_ends (w_db w) (da_dependent p) (da_prerequisite p) = Inr (x, y)"
    using run assms(2) named by (auto split: sum.splits)
  have proj: "cr_project x = cr_project y" "\<not> (project \<noteq> [] \<and> project \<noteq> cr_project x)"
    using run assms(2) named by (auto simp: xy split: if_splits)
  show ?thesis
    using run assms(2) named proj that [OF p _ _ _ xy]
    by (auto simp: xy report_Inr tx_then_Inr WithWrite_Inr insert_dep_Inr tx_apply)
qed

end
