(* ===== verification/Work_Roadmap.thy ===== *)
theory Work_Roadmap
  imports Chain_Deps
begin

text \<open>
  \<open>go/internal/work/roadmap.go\<close>: the handlers that read and write a project's roadmap. A write
  emits one \<open>RoadmapUpdated\<close> event, whose fold changes \<open>proj_roadmap_view\<close>;
  \<open>roadmap_mark_reassessed\<close> also writes \<open>roadmap_meta\<close> directly.
\<close>

section \<open>Items and positions\<close>

text \<open>A value of Go's 64-bit \<open>int\<close> and \<open>int64\<close>.\<close>

definition wrap64 :: "int \<Rightarrow> int" where
  "wrap64 n = (n + 2 ^ 63) mod 2 ^ 64 - 2 ^ 63"

record RoadmapSetInput =
  si_ref_kind :: string
  si_ref_slug :: string
  si_note :: string
  si_position :: "int option"

definition unmarshal_RoadmapSetInput :: "json \<Rightarrow> RoadmapSetInput option" where
  "unmarshal_RoadmapSetInput j = do {
     fs \<leftarrow> struct_fields j;
     x0 \<leftarrow> dec_str (vals fs ''ref_kind'');
     x1 \<leftarrow> dec_str (vals fs ''ref_slug'');
     x2 \<leftarrow> dec_str (vals fs ''note'');
     x3 \<leftarrow> dec_int_ptr (vals fs ''position'');
     Some \<lparr>si_ref_kind = x0, si_ref_slug = x1, si_note = x2, si_position = x3\<rparr> }"

fun positions_from :: "nat \<Rightarrow> int list \<Rightarrow> RoadmapSetInput list \<Rightarrow> go_error + int list" where
  "positions_from i seen [] = Inr []"
| "positions_from i seen (it # items) =
     (let pos = (case si_position it of Some p \<Rightarrow> p | None \<Rightarrow> wrap64 (int (i + 1)))
      in if pos \<in> set seen then Inl (ErrMessage ''duplicate position'')
         else case positions_from (Suc i) (pos # seen) items of
                Inl e \<Rightarrow> Inl e | Inr out \<Rightarrow> Inr (pos # out))"

definition effectivePositions :: "RoadmapSetInput list \<Rightarrow> go_error + int list" where
  "effectivePositions items = positions_from 0 [] items"

section \<open>References\<close>

text \<open>The project of an item's target and, for a task, the slug of its chain.\<close>

definition resolveRef :: "db \<Rightarrow> string \<Rightarrow> string \<Rightarrow> go_error + string \<times> string" where
  "resolveRef d refKind refSlug =
     (if refKind = ''chain'' then
        (case sql_first (\<lambda>c. c_slug c = refSlug) (db_chains d) of
           None \<Rightarrow> Inl (ErrNotFound ''chain'' refSlug)
         | Some c \<Rightarrow> if c_status c \<noteq> ''open'' then Inl (ErrMessage ''only open chains can be roadmapped'')
                     else Inr (c_project c, []))
      else if refKind = ''task'' then
        (case sql_first (\<lambda>(t, c). t_slug t = refSlug) (task_chain_join d) of
           None \<Rightarrow> Inl (ErrNotFound ''task'' refSlug)
         | Some (t, c) \<Rightarrow>
             if t_status t \<noteq> ''pending'' \<and> t_status t \<noteq> ''active''
             then Inl (ErrMessage ''only pending/active tasks can be roadmapped'')
             else Inr (c_project c, c_slug c))
      else Inl (ErrMessage ''ref_kind must be chain or task''))"

fun resolve_items :: "db \<Rightarrow> RoadmapSetInput list \<Rightarrow> go_error + (string \<times> string) list" where
  "resolve_items d [] = Inr []"
| "resolve_items d (it # items) =
     (case resolveRef d (si_ref_kind it) (si_ref_slug it) of
        Inl e \<Rightarrow> Inl e
      | Inr r \<Rightarrow> (case resolve_items d items of Inl e \<Rightarrow> Inl e | Inr rs \<Rightarrow> Inr (r # rs)))"

definition resolveProjectScope :: "string \<Rightarrow> string list \<Rightarrow> go_error + string" where
  "resolveProjectScope hint projects =
     (case projects of
        scope # rest \<Rightarrow>
          if list_ex (\<lambda>p. p \<noteq> scope) rest then Inl (ErrMessage ''mixed projects in roadmap items'')
          else if hint \<noteq> [] \<and> hint \<noteq> scope then Inl (ErrMessage ''project hint does not match'')
          else Inr scope
      | [] \<Rightarrow> if hint = [] then Inl (ErrMessage ''no items and no project'') else Inr hint)"

section \<open>roadmap\_set and roadmap\_preview\_set\<close>

definition unmarshal_roadmapSetParams :: "json \<Rightarrow> RoadmapSetInput list option" where
  "unmarshal_roadmapSetParams j = do {
     fs \<leftarrow> struct_fields j;
     dec_step (arr_val unmarshal_RoadmapSetInput) [] (vals fs ''items'') }"

text \<open>The validation the two handlers share: the targets, the scope and the positions.\<close>

definition validate_items ::
  "db \<Rightarrow> string \<Rightarrow> RoadmapSetInput list \<Rightarrow> go_error + (string \<times> string) list \<times> string \<times> int list" where
  "validate_items d project items =
     (case resolve_items d items of
        Inl e \<Rightarrow> Inl e
      | Inr resolved \<Rightarrow>
          (case resolveProjectScope project (map fst resolved) of
             Inl e \<Rightarrow> Inl e
           | Inr scope \<Rightarrow>
               (case effectivePositions items of
                  Inl e \<Rightarrow> Inl e | Inr positions \<Rightarrow> Inr (resolved, scope, positions))))"

record RoadmapSetResult =
  rs_ok :: bool
  rs_count :: nat
  rs_project :: string
  rs_error :: "go_error option"

definition set_error :: "go_error \<Rightarrow> RoadmapSetResult" where
  "set_error e = \<lparr>rs_ok = False, rs_count = 0, rs_project = [], rs_error = Some e\<rparr>"

definition item_payload :: "RoadmapSetInput \<Rightarrow> string \<Rightarrow> int \<Rightarrow> RoadmapItemPayload" where
  "item_payload it chain pos =
     \<lparr>ri_position = pos, ri_ref_kind = si_ref_kind it, ri_ref_slug = si_ref_slug it,
      ri_chain_slug = nonempty_ptr chain, ri_note = nonempty_ptr (si_note it)\<rparr>"

definition set_payload ::
  "RoadmapSetInput list \<Rightarrow> (string \<times> string) list \<Rightarrow> int list \<Rightarrow> RoadmapUpdatedPayload" where
  "set_payload items resolved positions =
     \<lparr>ru_action_kind = ''set'', ru_positions = positions, ru_ref_kind = None, ru_ref_slug = None,
      ru_item_count = Some (wrap64 (int (length items))),
      ru_items = map (\<lambda>(it, r, pos). item_payload it (snd r) pos) (zip items (zip resolved positions))\<rparr>"

definition emit_roadmap :: "emit_env \<Rightarrow> ctx \<Rightarrow> string \<Rightarrow> RoadmapUpdatedPayload \<Rightarrow> string wtx" where
  "emit_roadmap E c scope p = emit_entity E c ''roadmap'' ''main'' scope (PRoadmapUpdated p)"

definition HandleRoadmapSet :: "emit_env \<Rightarrow> ctx \<Rightarrow> string \<Rightarrow> raw_params \<Rightarrow> RoadmapSetResult wtx" where
  "HandleRoadmapSet E c project params = (\<lambda>w.
     case decode_params unmarshal_roadmapSetParams params of
       Inl e \<Rightarrow> (Inr (set_error e), w)
     | Inr items \<Rightarrow>
         (case validate_items (w_db w) project items of
            Inl e \<Rightarrow> (Inr (set_error e), w)
          | Inr (resolved, scope, positions) \<Rightarrow>
              tx_bind (WithWrite E c (emit_roadmap E c scope (set_payload items resolved positions)))
                (\<lambda>_. tx_return \<lparr>rs_ok = True, rs_count = length items, rs_project = scope, rs_error = None\<rparr>) w))"

record RoadmapPreview =
  pv_removed :: "(string \<times> string \<times> int) list"
  pv_added :: "(string \<times> string \<times> int) list"
  pv_repositioned :: "(string \<times> string \<times> int \<times> int) list"
  pv_unchanged :: "(string \<times> string \<times> int) list"

text \<open>The rows of a project in the order of their positions, and a Go map filled in order.\<close>

definition scope_rows :: "db \<Rightarrow> string \<Rightarrow> roadmap_row list" where
  "scope_rows d scope = sort_key r_position (filter (\<lambda>r. r_project r = scope) (db_roadmap d))"

definition go_map :: "('k \<times> 'v) list \<Rightarrow> 'k \<rightharpoonup> 'v" where
  "go_map kvs = map_of (rev kvs)"

definition preview_of :: "db \<Rightarrow> string \<Rightarrow> RoadmapSetInput list \<Rightarrow> int list \<Rightarrow> RoadmapPreview" where
  "preview_of d scope items positions =
     (let cur = scope_rows d scope;
          currentMap = go_map (map (\<lambda>r. ((r_ref_kind r, r_ref_slug r), r_position r)) cur);
          props = zip (map (\<lambda>it. (si_ref_kind it, si_ref_slug it)) items) positions;
          proposedMap = go_map props
      in \<lparr>pv_removed = map (\<lambda>r. (r_ref_kind r, r_ref_slug r, r_position r))
            (filter (\<lambda>r. proposedMap (r_ref_kind r, r_ref_slug r) = None) cur),
          pv_added = map (\<lambda>((k, s), pos). (k, s, pos)) (filter (\<lambda>(ks, pos). currentMap ks = None) props),
          pv_repositioned = concat (map (\<lambda>((k, s), pos). case currentMap (k, s) of
              None \<Rightarrow> [] | Some before \<Rightarrow> if before \<noteq> pos then [(k, s, before, pos)] else []) props),
          pv_unchanged = map (\<lambda>((k, s), pos). (k, s, pos)) (filter (\<lambda>(ks, pos). currentMap ks = Some pos) props)\<rparr>)"

definition HandleRoadmapPreviewSet :: "db \<Rightarrow> string \<Rightarrow> raw_params \<Rightarrow> go_error + RoadmapPreview" where
  "HandleRoadmapPreviewSet d project params =
     (case decode_params unmarshal_roadmapSetParams params of
        Inl e \<Rightarrow> Inl e
      | Inr items \<Rightarrow>
          (case validate_items d project items of
             Inl e \<Rightarrow> Inl e
           | Inr (resolved, scope, positions) \<Rightarrow> Inr (preview_of d scope items positions)))"

section \<open>roadmap\_insert\<close>

text \<open>\<open>roadmapInsertParams\<close> has the fields of \<open>RoadmapSetInput\<close>.\<close>

record RoadmapInsertResult =
  rn_ok :: bool
  rn_position :: int
  rn_ref_kind :: string
  rn_ref_slug :: string
  rn_error :: "go_error option"

definition insert_error :: "go_error \<Rightarrow> RoadmapInsertResult" where
  "insert_error e = \<lparr>rn_ok = False, rn_position = 0, rn_ref_kind = [], rn_ref_slug = [], rn_error = Some e\<rparr>"

text \<open>\<open>SELECT MAX(position)\<close>, zero when there is no row.\<close>

definition current_max :: "db \<Rightarrow> string \<Rightarrow> int" where
  "current_max d scope =
     (case map r_position (filter (\<lambda>r. r_project r = scope) (db_roadmap d)) of
        [] \<Rightarrow> 0 | p # ps \<Rightarrow> fold max ps p)"

definition insert_target :: "int \<Rightarrow> int option \<Rightarrow> int" where
  "insert_target currentMax position =
     (case position of
        None \<Rightarrow> wrap64 (currentMax + 1)
      | Some p \<Rightarrow> if p < 1 then 1 else if p > currentMax then wrap64 (currentMax + 1) else p)"

definition insert_payload :: "RoadmapSetInput \<Rightarrow> string \<Rightarrow> int \<Rightarrow> RoadmapUpdatedPayload" where
  "insert_payload it chain target =
     \<lparr>ru_action_kind = ''insert'', ru_positions = [target], ru_ref_kind = Some (si_ref_kind it),
      ru_ref_slug = Some (si_ref_slug it), ru_item_count = None, ru_items = [item_payload it chain target]\<rparr>"

text \<open>The closure of the write, with the position it chose.\<close>

definition insert_body :: "emit_env \<Rightarrow> ctx \<Rightarrow> string \<Rightarrow> string \<Rightarrow> RoadmapSetInput \<Rightarrow> int wtx" where
  "insert_body E c projID chain it =
     tx_bind (tx_read (\<lambda>w. list_ex (\<lambda>r. roadmap_key r = (projID, si_ref_kind it, si_ref_slug it))
       (db_roadmap (w_db w)))) (\<lambda>existing.
     if existing then tx_fail (ErrMessage ''already on the roadmap'')
     else tx_bind (tx_read (\<lambda>w. insert_target (current_max (w_db w) projID) (si_position it))) (\<lambda>target.
       tx_bind (emit_roadmap E c projID (insert_payload it chain target)) (\<lambda>_. tx_return target)))"

definition HandleRoadmapInsert :: "emit_env \<Rightarrow> ctx \<Rightarrow> string \<Rightarrow> raw_params \<Rightarrow> RoadmapInsertResult wtx" where
  "HandleRoadmapInsert E c project params = (\<lambda>w.
     case decode_params unmarshal_RoadmapSetInput params of
       Inl e \<Rightarrow> (Inr (insert_error e), w)
     | Inr it \<Rightarrow>
         if si_ref_kind it = [] \<or> si_ref_slug it = []
         then (Inr (insert_error (ErrMessage ''roadmap_insert requires ref_kind and ref_slug'')), w)
         else case resolveRef (w_db w) (si_ref_kind it) (si_ref_slug it) of
           Inl e \<Rightarrow> (Inr (insert_error e), w)
         | Inr (projID, chain) \<Rightarrow>
             if project \<noteq> [] \<and> project \<noteq> projID
             then (Inr (insert_error (ErrMessage ''project hint does not match'')), w)
             else report insert_error (tx_bind (WithWrite E c (insert_body E c projID chain it))
               (\<lambda>actualPos. tx_return \<lparr>rn_ok = True, rn_position = actualPos, rn_ref_kind = si_ref_kind it,
                  rn_ref_slug = si_ref_slug it, rn_error = None\<rparr>)) w)"

section \<open>roadmap\_update\<close>

record roadmapUpdateParams =
  up_position :: int
  up_note :: "string option"
  up_ref_kind :: "string option"
  up_ref_slug :: "string option"

definition unmarshal_roadmapUpdateParams :: "json \<Rightarrow> roadmapUpdateParams option" where
  "unmarshal_roadmapUpdateParams j = do {
     fs \<leftarrow> struct_fields j;
     x0 \<leftarrow> dec_int (vals fs ''position'');
     x1 \<leftarrow> dec_str_ptr (vals fs ''note'');
     x2 \<leftarrow> dec_str_ptr (vals fs ''ref_kind'');
     x3 \<leftarrow> dec_str_ptr (vals fs ''ref_slug'');
     Some \<lparr>up_position = x0, up_note = x1, up_ref_kind = x2, up_ref_slug = x3\<rparr> }"

record RoadmapUpdateResult =
  ur_ok :: bool
  ur_position :: int
  ur_ref_kind :: string
  ur_ref_slug :: string
  ur_project :: string
  ur_error :: "go_error option"

definition update_error :: "go_error \<Rightarrow> RoadmapUpdateResult" where
  "update_error e =
     \<lparr>ur_ok = False, ur_position = 0, ur_ref_kind = [], ur_ref_slug = [], ur_project = [], ur_error = Some e\<rparr>"

text \<open>The new target of the row, with its chain: none when the call keeps the old one.\<close>

definition update_ref :: "db \<Rightarrow> string \<Rightarrow> roadmapUpdateParams \<Rightarrow> go_error + (string \<times> string \<times> string) option" where
  "update_ref d project p =
     (case (up_ref_kind p, up_ref_slug p) of
        (Some k, Some s) \<Rightarrow>
          (case resolveRef d k s of
             Inl e \<Rightarrow> Inl e
           | Inr (proj, chain) \<Rightarrow> if proj \<noteq> project then Inl (ErrMessage ''new ref resolves to another project'')
               else Inr (Some (k, s, chain)))
      | _ \<Rightarrow> Inr None)"

definition update_payload ::
  "roadmapUpdateParams \<Rightarrow> string \<times> string \<Rightarrow> (string \<times> string \<times> string) option \<Rightarrow> RoadmapUpdatedPayload" where
  "update_payload p existing new =
     (let (kind, slug) = (case new of None \<Rightarrow> existing | Some (k, s, _) \<Rightarrow> (k, s))
      in \<lparr>ru_action_kind = ''update'', ru_positions = [up_position p], ru_ref_kind = Some kind, ru_ref_slug = Some slug,
          ru_item_count = None,
          ru_items = [\<lparr>ri_position = up_position p, ri_ref_kind = kind, ri_ref_slug = slug,
             ri_chain_slug = map_option (\<lambda>(_, _, chain). chain) new, ri_note = up_note p\<rparr>]\<rparr>)"

definition update_precheck ::
  "db \<Rightarrow> string \<Rightarrow> roadmapUpdateParams \<Rightarrow> go_error + (string \<times> string) \<times> (string \<times> string \<times> string) option" where
  "update_precheck d project p =
     (if project = [] then Inl (ErrMessage ''roadmap_update requires top-level project'')
      else if up_position p \<le> 0 then Inl (ErrMessage ''roadmap_update requires position'')
      else if up_note p = None \<and> up_ref_kind p = None \<and> up_ref_slug p = None
      then Inl (ErrMessage ''roadmap_update requires at least one of note, ref_kind, ref_slug'')
      else if (up_ref_kind p = None) \<noteq> (up_ref_slug p = None)
      then Inl (ErrMessage ''roadmap_update requires ref_kind and ref_slug together'')
      else case sql_first (\<lambda>r. r_project r = project \<and> r_position r = up_position p) (db_roadmap d) of
        None \<Rightarrow> Inl (ErrMessage ''no roadmap entry'')
      | Some row \<Rightarrow>
          (case update_ref d project p of
             Inl e \<Rightarrow> Inl e | Inr new \<Rightarrow> Inr ((r_ref_kind row, r_ref_slug row), new)))"

definition HandleRoadmapUpdate :: "emit_env \<Rightarrow> ctx \<Rightarrow> string \<Rightarrow> raw_params \<Rightarrow> RoadmapUpdateResult wtx" where
  "HandleRoadmapUpdate E c project params = (\<lambda>w.
     case decode_params unmarshal_roadmapUpdateParams params of
       Inl e \<Rightarrow> (Inr (update_error e), w)
     | Inr p \<Rightarrow>
         (case update_precheck (w_db w) project p of
            Inl e \<Rightarrow> (Inr (update_error e), w)
          | Inr (existing, new) \<Rightarrow>
              tx_bind (WithWrite E c (emit_roadmap E c project (update_payload p existing new)))
                (\<lambda>_. tx_return
                   (let (kind, slug) = (case new of None \<Rightarrow> existing | Some (k, s, _) \<Rightarrow> (k, s))
                    in \<lparr>ur_ok = True, ur_position = up_position p, ur_ref_kind = kind, ur_ref_slug = slug,
                        ur_project = project, ur_error = None\<rparr>)) w))"

section \<open>roadmap\_list, roadmap\_diff and roadmap\_mark\_reassessed\<close>

record RoadmapEntry =
  re_position :: int
  re_ref_kind :: string
  re_ref_slug :: string
  re_chain_slug :: string
  re_note :: string
  re_status :: string
  re_updated :: string

text \<open>One row of the roadmap joined with the chains or tasks of its slug: each match is an entry.\<close>

definition list_entries :: "db \<Rightarrow> roadmap_row \<Rightarrow> RoadmapEntry list" where
  "list_entries d r =
     (let entry = (\<lambda>(status, updated). \<lparr>re_position = r_position r, re_ref_kind = r_ref_kind r, re_ref_slug = r_ref_slug r,
            re_chain_slug = deref_or [] (r_chain_slug r), re_note = deref_or [] (r_note r),
            re_status = status, re_updated = updated\<rparr>);
          targets = (if r_ref_kind r = ''chain''
             then map (\<lambda>c. (c_status c, c_updated c)) (filter (\<lambda>c. c_slug c = r_ref_slug r) (db_chains d))
             else if r_ref_kind r = ''task''
             then map (\<lambda>t. (t_status t, t_updated t)) (filter (\<lambda>t. t_slug t = r_ref_slug r) (db_tasks d))
             else [])
      in if targets = [] then [entry ([], [])] else map entry targets)"

definition HandleRoadmapList :: "db \<Rightarrow> string \<Rightarrow> RoadmapEntry list" where
  "HandleRoadmapList d project =
     sort_key re_position (concat (map (list_entries d)
       (filter (\<lambda>r. project = [] \<or> r_project r = project) (db_roadmap d))))"

record UnplacedRef =
  un_slug :: string
  un_project :: string
  un_created :: string
  un_chain :: string

definition roadmapped :: "db \<Rightarrow> string \<Rightarrow> string \<Rightarrow> bool" where
  "roadmapped d kind slug \<longleftrightarrow> list_ex (\<lambda>r. r_ref_kind r = kind \<and> r_ref_slug r = slug) (db_roadmap d)"

definition HandleRoadmapDiff :: "db \<Rightarrow> direct_tables \<Rightarrow> go_error + UnplacedRef list \<times> UnplacedRef list" where
  "HandleRoadmapDiff d dt =
     (case dt_reassessed dt of
        None \<Rightarrow> Inl ErrNoRows
      | Some lastReassessed \<Rightarrow> Inr
          (sort_key un_created (map (\<lambda>c. \<lparr>un_slug = c_slug c, un_project = c_project c, un_created = c_created c, un_chain = []\<rparr>)
             (filter (\<lambda>c. c_status c = ''open'' \<and> lastReassessed < c_created c \<and> \<not> roadmapped d ''chain'' (c_slug c)) (db_chains d))),
           sort_key un_created (map (\<lambda>(t, c). \<lparr>un_slug = t_slug t, un_project = c_project c, un_created = t_created t, un_chain = c_slug c\<rparr>)
             (filter (\<lambda>(t, c). t_status t \<in> {''pending'', ''active''} \<and> lastReassessed < t_created t \<and>
                \<not> roadmapped d ''task'' (t_slug t)) (task_chain_join d)))))"

text \<open>The UPDATE writes SQLite's \<open>datetime('now')\<close>, the argument \<open>now\<close>, to the row if there is one.\<close>

definition mark_body :: "string \<Rightarrow> emit_env \<Rightarrow> ctx \<Rightarrow> string wtx" where
  "mark_body now E c =
     tx_then (tx_modify (\<lambda>w. w\<lparr>w_direct := (w_direct w)\<lparr>dt_reassessed := map_option (\<lambda>_. now) (dt_reassessed (w_direct w))\<rparr>\<rparr>))
       (Emit E c \<lparr>ea_entity = NewCrossCuttingEntityRef ''roadmap'' ''main'',
          ea_payload = Some (PRoadmapUpdated \<lparr>ru_action_kind = ''mark_reassessed'', ru_positions = [], ru_ref_kind = None,
             ru_ref_slug = None, ru_item_count = None, ru_items = []\<rparr>),
          ea_rationale = None, ea_refs = no_refs\<rparr>)"

definition HandleRoadmapMarkReassessed :: "string \<Rightarrow> emit_env \<Rightarrow> ctx \<Rightarrow> unit wtx" where
  "HandleRoadmapMarkReassessed now E c =
     tx_bind (WithWrite E c (mark_body now E c)) (\<lambda>_. tx_return ())"

end
