(* ===== verification/Roadmap_Facts.thy ===== *)
theory Roadmap_Facts
  imports Handler_Refinement Work_Roadmap
begin

text \<open>
  The roadmap and dependency handlers against the ledger: the events they emit, what the fold makes of
  them, and that positions stay unique within a project.
\<close>

section \<open>Decoded positions\<close>

lemma dec_step_inv:
  assumes "dec_step f z js = Some b" "P z" "\<And>a j b. P a \<Longrightarrow> f a j = Some b \<Longrightarrow> P b"
  shows "P b"
proof -
  have none: "foldl (\<lambda>acc j. case acc of None \<Rightarrow> None | Some a \<Rightarrow> f a j) None js = None" for js
    by (induction js) simp_all
  show ?thesis using assms(1,2) unfolding dec_step_def
  proof (induction js arbitrary: z)
    case (Cons j js)
    then show ?case using assms(3) by (cases "f z j") (auto simp: none)
  qed simp
qed

lemma dec_int_range: "dec_int js = Some n \<Longrightarrow> in_int64 n"
proof (erule dec_step_inv [where P = in_int64])
  show "in_int64 0" by (simp add: in_int64_def)
  fix a j b assume "in_int64 a" "int_val a j = Some b"
  then show "in_int64 b" by (cases j) (auto split: if_splits)
qed

lemma dec_int_ptr_range: "dec_int_ptr js = Some p \<Longrightarrow> ptr_in_int64 p"
proof (erule dec_step_inv [where P = ptr_in_int64])
  show "ptr_in_int64 None" by (simp add: ptr_in_int64_def)
  fix a j b assume "ptr_in_int64 a" "int_ptr_val a j = Some b"
  then show "ptr_in_int64 b" by (cases j) (auto simp: ptr_in_int64_def split: if_splits)
qed

lemma decoded_input: "unmarshal_RoadmapSetInput j = Some it \<Longrightarrow> ptr_in_int64 (si_position it)"
  by (auto simp: unmarshal_RoadmapSetInput_def bind_eq_Some_conv dest: dec_int_ptr_range)

lemma dec_all_inv: "dec_all f js = Some xs \<Longrightarrow> (\<And>j x. f j = Some x \<Longrightarrow> P x) \<Longrightarrow> list_all P xs"
  by (induction js arbitrary: xs) (auto simp: bind_eq_Some_conv)

lemma decoded_items:
  assumes "unmarshal_roadmapSetParams j = Some items"
  shows "list_all (\<lambda>it. ptr_in_int64 (si_position it)) items"
proof -
  obtain fs where "dec_step (arr_val unmarshal_RoadmapSetInput) [] (vals fs ''items'') = Some items"
    using assms by (auto simp: unmarshal_roadmapSetParams_def bind_eq_Some_conv)
  then show ?thesis
  proof (rule dec_step_inv)
    fix a j b assume "list_all (\<lambda>it. ptr_in_int64 (si_position it)) a" "arr_val unmarshal_RoadmapSetInput a j = Some b"
    then show "list_all (\<lambda>it. ptr_in_int64 (si_position it)) b"
      using dec_all_inv [where P = "\<lambda>it. ptr_in_int64 (si_position it)", OF _ decoded_input] by (cases j) auto
  qed simp
qed

lemma decode_params_Inr: "decode_params dec raw = Inr p \<Longrightarrow> \<exists>j. dec j = Some p"
  by (auto simp: decode_params_def split: raw_params.splits option.splits)

lemma wrap64_range [simp]: "in_int64 (wrap64 n)"
proof -
  have "0 \<le> (n + 2 ^ 63) mod 2 ^ 64" "(n + 2 ^ 63) mod 2 ^ 64 < 2 ^ 64" by simp_all
  moreover have "(2 :: int) ^ 64 = 2 ^ 63 + 2 ^ 63" by simp
  ultimately show ?thesis unfolding in_int64_def wrap64_def by linarith
qed

lemma wrap64_id: "in_int64 n \<Longrightarrow> wrap64 n = n"
  unfolding in_int64_def wrap64_def by (subst mod_pos_pos_trivial) auto

lemma positions_from_facts:
  assumes "positions_from i seen items = Inr ps"
  shows "length ps = length items" "distinct ps" "set ps \<inter> set seen = {}"
    "list_all (\<lambda>it. ptr_in_int64 (si_position it)) items \<Longrightarrow> list_all in_int64 ps"
proof -
  have "length ps = length items \<and> distinct ps \<and> set ps \<inter> set seen = {} \<and>
    (list_all (\<lambda>it. ptr_in_int64 (si_position it)) items \<longrightarrow> list_all in_int64 ps)"
    using assms
  proof (induction i seen items arbitrary: ps rule: positions_from.induct)
    case (2 i seen it items)
    define pos where "pos = (case si_position it of Some p \<Rightarrow> p | None \<Rightarrow> wrap64 (int (i + 1)))"
    obtain out where out: "pos \<notin> set seen" "positions_from (Suc i) (pos # seen) items = Inr out" "ps = pos # out"
      using "2.prems" by (auto simp: pos_def Let_def split: if_splits sum.splits)
    have "ptr_in_int64 (si_position it) \<Longrightarrow> in_int64 pos"
      by (auto simp: pos_def ptr_in_int64_def split: option.splits)
    then show ?case using "2.IH" [OF pos_def, of out] out by auto
  qed simp
  then show "length ps = length items" "distinct ps" "set ps \<inter> set seen = {}"
    "list_all (\<lambda>it. ptr_in_int64 (si_position it)) items \<Longrightarrow> list_all in_int64 ps" by blast+
qed

lemma resolve_items_length: "resolve_items d items = Inr rs \<Longrightarrow> length rs = length items"
  by (induction items arbitrary: rs) (auto split: sum.splits)

lemma validate_items_Inr:
  assumes "validate_items d project items = Inr (resolved, scope, positions)"
  shows "resolve_items d items = Inr resolved" "resolveProjectScope project (map fst resolved) = Inr scope"
    "effectivePositions items = Inr positions" "length resolved = length items" "length positions = length items"
    "distinct positions"
proof -
  show *: "resolve_items d items = Inr resolved" "resolveProjectScope project (map fst resolved) = Inr scope"
    "effectivePositions items = Inr positions"
    using assms by (auto simp: validate_items_def split: sum.splits)
  show "length resolved = length items" by (rule resolve_items_length [OF *(1)])
  show "length positions = length items" "distinct positions"
    using positions_from_facts(1,2) *(3) by (auto simp: effectivePositions_def)
qed

section \<open>The payloads\<close>

lemma set_payload_items:
  assumes "length resolved = length items" "length positions = length items"
  shows "map ri_position (ru_items (set_payload items resolved positions)) = positions"
    "legacy_items (set_payload items resolved positions) = set_payload items resolved positions"
  using assms
  by (auto simp: set_payload_def legacy_items_def item_payload_def zip_map_fst_snd comp_def split_beta intro!: nth_equalityI)

lemma set_payload_ok:
  assumes "decode_params unmarshal_roadmapSetParams params = Inr items"
    and "validate_items d project items = Inr (resolved, scope, positions)"
  shows "RoadmapUpdatedPayload_ok (set_payload items resolved positions)"
    "distinct (map ri_position (ru_items (legacy_items (set_payload items resolved positions))))"
proof -
  note v = validate_items_Inr [OF assms(2)]
  have "list_all in_int64 positions"
    using positions_from_facts(4) v(3) decoded_items decode_params_Inr [OF assms(1)]
    unfolding effectivePositions_def by blast
  moreover from this have "list_all RoadmapItemPayload_ok (ru_items (set_payload items resolved positions))"
    using set_payload_items(1) [OF v(4,5)]
    by (metis (no_types, lifting) RoadmapItemPayload_ok_def list.pred_map list.pred_mono_strong comp_apply)
  ultimately show "RoadmapUpdatedPayload_ok (set_payload items resolved positions)"
    by (simp add: RoadmapUpdatedPayload_ok_def set_payload_def ptr_in_int64_def)
  show "distinct (map ri_position (ru_items (legacy_items (set_payload items resolved positions))))"
    using v(6) by (simp add: set_payload_items [OF v(4,5)])
qed

lemma insert_target_range: "ptr_in_int64 p \<Longrightarrow> in_int64 (insert_target m p)"
  by (auto simp: insert_target_def ptr_in_int64_def in_int64_def [of 1] split: option.splits)

lemma insert_payload_ok:
  "in_int64 target \<Longrightarrow> RoadmapUpdatedPayload_ok (insert_payload it chain target)"
  "legacy_items (insert_payload it chain target) = insert_payload it chain target"
  "distinct (map ri_position (ru_items (insert_payload it chain target)))"
  by (simp_all add: insert_payload_def RoadmapUpdatedPayload_ok_def RoadmapItemPayload_ok_def item_payload_def
      ptr_in_int64_def legacy_items_def)

lemma update_payload_ok:
  "in_int64 (up_position p) \<Longrightarrow> RoadmapUpdatedPayload_ok (update_payload p existing new)"
  "legacy_items (update_payload p existing new) = update_payload p existing new"
  "distinct (map ri_position (ru_items (update_payload p existing new)))"
  by (simp_all add: update_payload_def RoadmapUpdatedPayload_ok_def RoadmapItemPayload_ok_def
      ptr_in_int64_def legacy_items_def split_beta)

section \<open>Writing through the ledger\<close>

lemma evolves_committed:
  assumes "\<And>w a w'. wf_db (w_db w) \<Longrightarrow> fn w = (Inr a, w') \<Longrightarrow>
      \<exists>es. runs_to aff (w_db w) (w_db w') es \<and> list_all service_event es"
    and "\<And>w. w_direct (snd (fn w)) = w_direct w"
  shows "tx_evolves aff (WithWrite E c fn)"
proof (rule evolvesI)
  fix w
  show "evolves_at aff w (snd (WithWrite E c fn w))"
  proof (cases rule: WithWrite_cases [of E c fn w])
    case (rolled_back e)
    then show ?thesis by (intro evolves_at_same)
  next
    case (committed a w2)
    then show ?thesis using assms(1) [OF _ committed(3)] assms(2) [of "w\<lparr>w_owner := cx_gid c\<rparr>"] by (simp add: evolves_at_def)
  qed
qed

lemma ingest_runs:
  assumes "ingest (work_projections aff) raw d = (Inr (), d')" "service_event raw"
  shows "\<exists>es. runs_to aff d d' es \<and> list_all service_event es"
  using assms by (intro exI [of _ "[raw]"]) (simp add: runs_to_def tx_simps)

lemma Emit_roadmap_Inr:
  assumes "folds_work aff E" "Emit E c \<lparr>ea_entity = ref, ea_payload = Some (PRoadmapUpdated p),
      ea_rationale = rat, ea_refs = refs\<rparr> w = (Inr i, w')"
    and "er_kind ref = ''roadmap''"
  obtains raw where "ingest (work_projections aff) raw (w_db w) = (Inr (), w_db w')"
    "ev_kind raw = ''roadmap''" "ev_type raw = ''RoadmapUpdated''" "ev_project raw = er_project ref"
    "ev_payload raw = Some (marshal_payload (PRoadmapUpdated p))"
proof -
  obtain raw w1 d where prep: "emit_prepare E c \<lparr>ea_entity = ref, ea_payload = Some (PRoadmapUpdated p),
      ea_rationale = rat, ea_refs = refs\<rparr> w = (Inr raw, w1)"
    and run: "ingest (work_projections aff) raw (w_db w) = (Inr (), d)" "w' = w1\<lparr>w_db := d\<rparr>"
    using assms(2) unfolding Emit_refines_ingest [OF assms(1)] by blast
  show ?thesis
    using prep run assms(3) by (intro that [of raw]) (auto simp: emit_prepare_Inr event_of_envelope_def emit_envelope_def)
qed

lemma emit_roadmap_Inr:
  assumes "folds_work aff E" "emit_roadmap E c scope p w = (Inr i, w')"
  obtains raw where "ingest (work_projections aff) raw (w_db w) = (Inr (), w_db w')"
    "ev_kind raw = ''roadmap''" "ev_type raw = ''RoadmapUpdated''" "ev_project raw = Some scope"
    "ev_payload raw = Some (marshal_payload (PRoadmapUpdated p))"
  using assms(2) unfolding emit_roadmap_def emit_entity_def
  by (elim Emit_roadmap_Inr [OF assms(1)]) (auto simp: NewEntityRef_def)

lemma roadmap_eventI:
  "ev_kind e = ''roadmap'' \<Longrightarrow> ev_type e = ''RoadmapUpdated'' \<Longrightarrow>
   ev_payload e = Some (marshal_payload (PRoadmapUpdated p)) \<Longrightarrow> RoadmapUpdatedPayload_ok p \<Longrightarrow>
   distinct (map ri_position (ru_items (legacy_items p))) \<Longrightarrow> service_event e"
  unfolding service_event_def roadmap_event_def by blast

lemma evolves_emit_roadmap:
  assumes "folds_work aff E" "RoadmapUpdatedPayload_ok p" "distinct (map ri_position (ru_items (legacy_items p)))"
    and "emit_roadmap E c scope p w = (Inr i, w')"
  shows "\<exists>es. runs_to aff (w_db w) (w_db w') es \<and> list_all service_event es"
proof -
  obtain raw where raw: "ingest (work_projections aff) raw (w_db w) = (Inr (), w_db w')"
    "ev_kind raw = ''roadmap''" "ev_type raw = ''RoadmapUpdated''" "ev_project raw = Some scope"
    "ev_payload raw = Some (marshal_payload (PRoadmapUpdated p))"
    by (rule emit_roadmap_Inr [OF assms(1,4)])
  show ?thesis by (rule ingest_runs [OF raw(1) roadmap_eventI [OF raw(2,3,5) assms(2,3)]])
qed

lemma emit_roadmap_direct: "w_direct (snd (emit_roadmap E c scope p w)) = w_direct w"
  by (simp add: emit_roadmap_def emit_entity_def Emit_direct)

lemma insert_body_direct: "w_direct (snd (insert_body E c projID chain it w)) = w_direct w"
proof -
  have "w_direct (snd (tx_bind (emit_roadmap E c projID p) (\<lambda>_. tx_return i) w)) = w_direct w" for p and i :: int
    using emit_roadmap_direct [of E c projID p w] by (auto simp: tx_bind_def tx_apply split: prod.splits sum.splits)
  then show ?thesis by (simp add: insert_body_def tx_bind_def [of "tx_read _"] tx_apply)
qed

lemma evolves_at_bind:
  assumes "tx_evolves aff m" "\<And>a w. snd (f a w) = w"
  shows "evolves_at aff w (snd (tx_bind m f w))"
proof -
  have "snd (tx_bind m f w) = snd (m w)" using assms(2) by (auto simp: tx_bind_def split: prod.splits sum.splits)
  then show ?thesis using evolvesD [OF assms(1)] by metis
qed

lemma evolves_roadmap_set:
  assumes "folds_work aff E"
  shows "tx_evolves aff (HandleRoadmapSet E c project params)"
proof (rule evolvesI)
  fix w :: world
  have commit: "tx_evolves aff (WithWrite E c (emit_roadmap E c scope (set_payload items resolved positions)))"
    if "decode_params unmarshal_roadmapSetParams params = Inr items"
      "validate_items (w_db w) project items = Inr (resolved, scope, positions)" for items resolved scope positions
    by (rule evolves_committed) (rule evolves_emit_roadmap [OF assms set_payload_ok [OF that]], simp_all add: emit_roadmap_direct)
  show "evolves_at aff w (snd (HandleRoadmapSet E c project params w))"
    by (auto simp: HandleRoadmapSet_def evolves_at_same tx_return_def split: sum.splits
        intro!: evolves_at_bind commit)
qed

lemma evolves_roadmap_insert:
  assumes "folds_work aff E"
  shows "tx_evolves aff (HandleRoadmapInsert E c project params)"
proof (rule evolvesI)
  fix w :: world
  have body: "tx_evolves aff (WithWrite E c (insert_body E c projID chain it))"
    if "ptr_in_int64 (si_position it)" for projID chain it
  proof (rule evolves_committed)
    fix w a w' assume "insert_body E c projID chain it w = (Inr a, w')"
    then obtain i where "emit_roadmap E c projID (insert_payload it chain
        (insert_target (current_max (w_db w) projID) (si_position it))) w = (Inr i, w')"
      by (auto simp: insert_body_def tx_simps split: if_splits)
    from evolves_emit_roadmap [OF assms insert_payload_ok(1) _ this] insert_target_range [OF that]
    show "\<exists>es. runs_to aff (w_db w) (w_db w') es \<and> list_all service_event es"
      by (simp add: insert_payload_ok(2,3))
  qed (rule insert_body_direct)
  show "evolves_at aff w (snd (HandleRoadmapInsert E c project params w))"
  proof (cases "decode_params unmarshal_RoadmapSetInput params")
    case (Inr it)
    obtain j where "unmarshal_RoadmapSetInput j = Some it" using decode_params_Inr [OF Inr] by blast
    then have "ptr_in_int64 (si_position it)" by (rule decoded_input)
    then have run: "evolves_at aff w (snd (report f (tx_bind (WithWrite E c (insert_body E c projID chain it)) (\<lambda>a. tx_return (g a))) w))"
      for f projID chain and g :: "int \<Rightarrow> 'r"
      by (intro evolvesD evolves_report evolves_bind evolves_base) (rule body)
    show ?thesis
      unfolding HandleRoadmapInsert_def Inr sum.case
      by (intro evolves_at_cases run)
  qed (simp add: HandleRoadmapInsert_def evolves_at_same)
qed

lemma evolves_roadmap_update:
  assumes "folds_work aff E"
  shows "tx_evolves aff (HandleRoadmapUpdate E c project params)"
proof (rule evolvesI)
  fix w
  show "evolves_at aff w (snd (HandleRoadmapUpdate E c project params w))"
  proof (cases "decode_params unmarshal_roadmapUpdateParams params")
    case (Inr p)
    then have "in_int64 (up_position p)"
      using decode_params_Inr [OF Inr] dec_int_range
      by (auto simp: unmarshal_roadmapUpdateParams_def bind_eq_Some_conv)
    then have "tx_evolves aff (WithWrite E c (emit_roadmap E c project (update_payload p existing new)))" for existing new
      using evolves_emit_roadmap [OF assms update_payload_ok(1)] by (intro evolves_committed) (auto simp: update_payload_ok(2,3) emit_roadmap_direct)
    then show ?thesis
      by (auto simp: HandleRoadmapUpdate_def Inr evolves_at_same tx_return_def split: sum.splits
          intro!: evolves_at_bind)
  qed (simp add: HandleRoadmapUpdate_def evolves_at_same)
qed

text \<open>The dependency handlers leave the event-sourced tables as they are.\<close>

lemma deps_keep_db:
  "w_db (snd (HandleChainDepAdd E c project params w)) = w_db w"
  "w_db (snd (HandleChainDepRemove E c params w)) = w_db w"
proof -
  have "w_db (snd (WithWrite E c (insert_dep e) w)) = w_db w" for e
    by (auto simp: WithWrite_def insert_dep_def exec_deps_def tx_bind_def tx_apply tx_exec_def
        split: option.splits prod.splits sum.splits if_splits)
  then show "w_db (snd (HandleChainDepAdd E c project params w)) = w_db w"
    by (auto simp: HandleChainDepAdd_def tx_bind_def tx_then_def tx_of_def tx_apply Let_def report_def
        split: sum.splits prod.splits dest!: arg_cong [where f = snd])
  have "w_db (snd (WithWrite E c (delete_dep i j) w)) = w_db w" for i j
    by (auto simp: WithWrite_def delete_dep_run split: option.splits)
  then show "w_db (snd (HandleChainDepRemove E c params w)) = w_db w"
    by (auto simp: HandleChainDepRemove_def tx_bind_def tx_then_def tx_of_def tx_apply Let_def report_def
        split: sum.splits prod.splits dest!: arg_cong [where f = snd])
qed

end
