(* ===== verification/Roadmap_Layout.thy ===== *)
theory Roadmap_Layout
  imports Roadmap_Facts
begin

text \<open>
  What the folds make of the roadmap handlers' events: the layout after a set, an insertion and an
  update, and that every event of the service keeps the positions of a project apart.
\<close>

section \<open>The other folds\<close>

definition same_roadmap :: "roadmap_row list \<Rightarrow> db \<Rightarrow> bool" where
  "same_roadmap rs d \<longleftrightarrow> db_roadmap d = rs"

lemma same_roadmap_exec [keeps_intros]:
  "tx_keeps (same_roadmap rs) (exec_tasks f1)" "tx_keeps (same_roadmap rs) (exec_chains f2)"
  "tx_keeps (same_roadmap rs) (exec_bugs f3)" "tx_keeps (same_roadmap rs) (exec_suggestions f4)"
  "tx_keeps (same_roadmap rs) (exec_memories f6)"
  "tx_keeps (same_roadmap rs) (write_bugs_fts i x y)" "tx_keeps (same_roadmap rs) (write_suggestions_fts i x y)"
  "tx_keeps (same_roadmap rs) (tx_modify (\<lambda>d. d\<lparr>db_blockers := g (db_blockers d)\<rparr>))"
  unfolding write_bugs_fts_def write_suggestions_fts_def
  by (intro keeps_exec_tables keeps_then keeps_modify; simp add: same_roadmap_def)+

lemma same_roadmap_at [keeps_intros]:
  "tx_keeps (same_roadmap rs) (\<lambda>d. exec_tasks (f1 d) d)" "tx_keeps (same_roadmap rs) (\<lambda>d. exec_chains (f2 d) d)"
  using same_roadmap_exec(1,2) by (auto simp: tx_keeps_def)

lemma same_roadmap_folds:
  "tx_keeps (same_roadmap rs) (current_bugs_Fold evt)"
  "tx_keeps (same_roadmap rs) (current_suggestions_Fold evt)"
  "tx_keeps (same_roadmap rs) (memories_Fold evt)"
  "tx_keeps (same_roadmap rs) (task_blockers_Fold evt)"
  unfolding current_bugs_Fold_def foldBugReported_def foldBugEdited_def foldBugResolved_def
    foldBugReopened_def foldBugStamped_def foldBugTriaged_def refreshBugsFTS_def update_bug_def
    current_suggestions_Fold_def foldSuggestionReported_def foldSuggestionEdited_def
    foldSuggestionResolved_def foldSuggestionReopened_def foldSuggestionStamped_def
    refreshSuggestionsFTS_def update_suggestion_def memories_Fold_def foldMemoryWritten_def
    task_blockers_Fold_def foldTaskBlockersTransitioned_def foldTaskBlockersCleanupOnClose_def
  by (intro keeps_intros)+

lemma same_roadmap_chains: "tx_keeps (same_roadmap rs) (chain_status_Fold evt)"
  unfolding chain_status_Fold_def foldChainCreated_def foldChainEdited_def foldChainClosed_def
    refreshChainTaskCountsForTaskEvent_def refreshChainTaskCountsByID_def chainIDsForTaskEvent_def
  by (intro keeps_intros)+

lemma same_roadmap_tasks: "tx_keeps (same_roadmap rs) (current_tasks_Fold aff evt)"
  unfolding current_tasks_Fold_def foldTaskCreated_def foldTaskEdited_def foldTaskTransitioned_def
    foldTaskCompleted_def foldTaskCancelled_def foldTaskRetired_def foldTaskAssignedToChain_def
    foldTaskStamped_def update_target_def
  by (intro keeps_intros keeps_modify; simp add: same_roadmap_def)

lemma frame_roadmap: "(\<And>rs. tx_keeps (same_roadmap rs) m) \<Longrightarrow> m d = (Inr (), d') \<Longrightarrow> db_roadmap d' = db_roadmap d"
  using keepsD [of "same_roadmap (db_roadmap d)" m d] by (simp add: same_roadmap_def)

text \<open>One ingested event changes the roadmap by the fold of \<open>roadmap_view\<close> alone.\<close>

lemma ingest_roadmap:
  assumes "ingest (work_projections aff) evt d = (Inr (), d')"
  obtains d1 d2 where "db_roadmap d1 = db_roadmap d" "roadmap_view_Fold evt d1 = (Inr (), d2)"
    "db_roadmap d' = db_roadmap d2"
proof -
  note frames = frame_roadmap [OF same_roadmap_folds(1)] frame_roadmap [OF same_roadmap_folds(2)]
    frame_roadmap [OF same_roadmap_folds(3)] frame_roadmap [OF same_roadmap_folds(4)]
    frame_roadmap [OF same_roadmap_chains] frame_roadmap [OF same_roadmap_tasks]
  obtain e1 e2 e3 e4 e5 e6 where folds: "current_bugs_Fold evt (core d) = (Inr (), e1)"
    "current_suggestions_Fold evt e1 = (Inr (), e2)" "current_tasks_Fold aff evt e2 = (Inr (), e3)"
    "chain_status_Fold evt e3 = (Inr (), e4)" "memories_Fold evt e4 = (Inr (), e5)"
    "roadmap_view_Fold evt e5 = (Inr (), e6)" "task_blockers_Fold evt e6 = (Inr (), core d')"
    using work.ingest_core(1) [OF assms] by (auto simp: work_order projection_defs tx_simps)
  have "db_roadmap e5 = db_roadmap (core d)" using folds(1-5) by (simp add: frames)
  moreover have "db_roadmap (core d') = db_roadmap e6" using folds(7) by (rule frames(4))
  ultimately show ?thesis using that [OF _ folds(6)] by (simp add: core_eq)
qed

section \<open>The layout after a fold\<close>

definition row_item :: "roadmap_row \<Rightarrow> RoadmapItemPayload" where
  "row_item r = \<lparr>ri_position = r_position r, ri_ref_kind = r_ref_kind r, ri_ref_slug = r_ref_slug r,
     ri_chain_slug = r_chain_slug r, ri_note = r_note r\<rparr>"

text \<open>The rows a project gets for the items of an event.\<close>

definition rows_for :: "string \<Rightarrow> RoadmapItemPayload list \<Rightarrow> roadmap_row list \<Rightarrow> bool" where
  "rows_for pid items rows \<longleftrightarrow> map row_item rows = items \<and> list_all (\<lambda>r. r_project r = pid) rows"

lemma insert_rows:
  assumes "tx_foreach (insertRoadmapRow pid evt) items d = (Inr (), d')"
  shows "\<exists>new. db_roadmap d' = db_roadmap d @ new \<and> rows_for pid items new"
  using assms
proof (induction items arbitrary: d)
  case Nil
  then show ?case by (simp add: tx_simps rows_for_def)
next
  case (Cons item items)
  then obtain d1 where one: "insertRoadmapRow pid evt item d = (Inr (), d1)"
    and rest: "tx_foreach (insertRoadmapRow pid evt) items d1 = (Inr (), d')" by (auto simp: tx_simps)
  obtain row where "db_roadmap d1 = db_roadmap d @ [row]" "r_project row = pid" "row_item row = item"
    using one by (auto simp: insertRoadmapRow_def exec_roadmap_def tx_simps sql_insert_Some row_item_def)
  then show ?case using Cons.IH [OF rest] by (auto simp: rows_for_def)
qed

definition position_key :: "roadmap_row \<Rightarrow> string \<times> int" where
  "position_key r = (r_project r, r_position r)"

definition positions_unique :: "roadmap_row list \<Rightarrow> bool" where
  "positions_unique rows \<longleftrightarrow> distinct (map position_key rows)"

lemma rows_for_keys: "rows_for pid items rows \<Longrightarrow> map position_key rows = map (\<lambda>i. (pid, ri_position i)) items"
  by (auto simp: rows_for_def position_key_def row_item_def list_all_iff)

lemma roadmap_set_layout:
  assumes "roadmap_set pid evt p d = (Inr (), d')"
  obtains new where "db_roadmap d' = filter (\<lambda>r. r_project r \<noteq> pid) (db_roadmap d) @ new" "rows_for pid (ru_items p) new"
  using assms insert_rows by (fastforce simp: roadmap_set_def tx_simps sql_delete_def)

lemma roadmap_insert_layout:
  assumes "roadmap_insert pid evt p d = (Inr (), d')" "ru_items p = item # rest"
  obtains row where "db_roadmap d' = map (\<lambda>r. if r_project r = pid \<and> ri_position item \<le> r_position r
      then r\<lparr>r_position := r_position r + 1\<rparr> else r) (db_roadmap d) @ [row]" "r_project row = pid" "row_item row = item"
  using assms
  by (auto simp: roadmap_insert_def insertRoadmapRow_def exec_roadmap_def tx_simps sql_insert_Some sql_update_def
      row_item_def split: if_splits)

lemma refresh_positions:
  "refreshRoadmapRowsForRef k s evt d = (Inr (), d') \<Longrightarrow> map position_key (db_roadmap d') = map position_key (db_roadmap d)"
  by (auto simp: refreshRoadmapRowsForRef_def tx_simps position_key_def dest!: sql_update_Some)

text \<open>The layout of one row under an update event: absent fields are kept, an empty note is cleared.\<close>

definition patched :: "RoadmapItemPayload \<Rightarrow> RoadmapItemPayload \<Rightarrow> RoadmapItemPayload" where
  "patched item x = \<lparr>ri_position = ri_position x, ri_ref_kind = ri_ref_kind item, ri_ref_slug = ri_ref_slug item,
     ri_chain_slug = (case ri_chain_slug item of None \<Rightarrow> ri_chain_slug x | Some cs \<Rightarrow> Some cs),
     ri_note = (case ri_note item of None \<Rightarrow> ri_note x | Some n \<Rightarrow> nonempty_ptr n)\<rparr>"

definition row_layout :: "roadmap_row \<Rightarrow> string \<times> RoadmapItemPayload" where
  "row_layout r = (r_project r, row_item r)"

lemma roadmap_update_layout:
  assumes "roadmap_update pid evt p d = (Inr (), d')" "ru_items p = item # rest"
  shows "map row_layout (db_roadmap d') = map (\<lambda>(q, x). if q = pid \<and> ri_position x = ri_position item
    then (q, patched item x) else (q, x)) (map row_layout (db_roadmap d))"
proof -
  let ?here = "\<lambda>(q, x). q = pid \<and> ri_position x = ri_position item"
  obtain d1 d2 d3 where one: "exec_roadmap (sql_update_key roadmap_key (\<lambda>_. True)
      (\<lambda>r. r_project r = pid \<and> r_position r = ri_position item)
      (\<lambda>r. r\<lparr>r_ref_kind := ri_ref_kind item, r_ref_slug := ri_ref_slug item, r_last_id := ev_id evt, r_last_ts := ev_ts evt\<rparr>)) d = (Inr (), d1)"
    and two: "(case ri_note item of None \<Rightarrow> tx_return () | Some n \<Rightarrow> exec_roadmap (sql_update (\<lambda>_. True)
      (\<lambda>r. r_project r = pid \<and> r_position r = ri_position item) (\<lambda>r. r\<lparr>r_note := (if n = [] then None else Some n)\<rparr>))) d1 = (Inr (), d2)"
    and three: "(case ri_chain_slug item of None \<Rightarrow> tx_return () | Some cs \<Rightarrow> exec_roadmap (sql_update (\<lambda>_. True)
      (\<lambda>r. r_project r = pid \<and> r_position r = ri_position item) (\<lambda>r. r\<lparr>r_chain_slug := Some cs\<rparr>))) d2 = (Inr (), d3)"
    and four: "refreshRoadmapRowsForRef (ri_ref_kind item) (ri_ref_slug item) evt d3 = (Inr (), d')"
    using assms by (auto simp: roadmap_update_def Let_def tx_then_Inr)
  have "map row_layout (db_roadmap d1) = map (\<lambda>(q, x). if ?here (q, x)
      then (q, x\<lparr>ri_ref_kind := ri_ref_kind item, ri_ref_slug := ri_ref_slug item\<rparr>) else (q, x)) (map row_layout (db_roadmap d))"
    using one by (auto simp: tx_simps sql_update_key_def sql_update_def row_layout_def row_item_def split: if_splits)
  moreover have "map row_layout (db_roadmap d2) = map (\<lambda>(q, x). if ?here (q, x)
      then (q, x\<lparr>ri_note := (case ri_note item of None \<Rightarrow> ri_note x | Some n \<Rightarrow> nonempty_ptr n)\<rparr>) else (q, x)) (map row_layout (db_roadmap d1))"
    using two by (cases "ri_note item")
      (auto simp: tx_simps row_layout_def row_item_def nonempty_ptr_def dest!: sql_update_Some)
  moreover have "map row_layout (db_roadmap d3) = map (\<lambda>(q, x). if ?here (q, x)
      then (q, x\<lparr>ri_chain_slug := (case ri_chain_slug item of None \<Rightarrow> ri_chain_slug x | Some cs \<Rightarrow> Some cs)\<rparr>) else (q, x))
      (map row_layout (db_roadmap d2))"
    using three by (cases "ri_chain_slug item")
      (auto simp: tx_simps row_layout_def row_item_def dest!: sql_update_Some)
  moreover have "map row_layout (db_roadmap d') = map row_layout (db_roadmap d3)"
    using four by (auto simp: refreshRoadmapRowsForRef_def tx_simps row_layout_def row_item_def dest!: sql_update_Some)
  ultimately show ?thesis by (simp add: patched_def row_layout_def row_item_def split: option.splits)
qed

lemma layout_positions: "map position_key rows = map (\<lambda>(q, x). (q, ri_position x)) (map row_layout rows)"
  by (simp add: position_key_def row_layout_def row_item_def)

lemma roadmap_update_positions:
  assumes "roadmap_update pid evt p d = (Inr (), d')"
  shows "map position_key (db_roadmap d') = map position_key (db_roadmap d)"
proof -
  obtain item rest where "ru_items p = item # rest"
    using assms by (cases "ru_items p") (auto simp: roadmap_update_def tx_simps)
  from roadmap_update_layout [OF assms this] show ?thesis
    unfolding layout_positions by (simp add: patched_def row_layout_def split_beta)
qed

section \<open>Positions stay unique\<close>

lemma shift_unique:
  assumes "positions_unique rows" "position_key row = (pid, pos)"
  shows "positions_unique (map (\<lambda>r. if r_project r = pid \<and> pos \<le> r_position r
      then r\<lparr>r_position := r_position r + 1\<rparr> else r) rows @ [row])"
proof -
  let ?f = "\<lambda>(q, n). if q = pid \<and> pos \<le> n then (q, n + 1) else (q, n)"
  have key: "map position_key (map (\<lambda>r. if r_project r = pid \<and> pos \<le> r_position r
      then r\<lparr>r_position := r_position r + 1\<rparr> else r) rows) = map ?f (map position_key rows)"
    by (simp add: position_key_def)
  have "inj ?f" by (auto simp: inj_def split: if_splits)
  then have "distinct (map ?f (map position_key rows))"
    using assms(1) unfolding positions_unique_def distinct_map [of ?f] by (blast intro: inj_on_subset)
  moreover have "(pid, pos) \<notin> set (map ?f (map position_key rows))" by (auto split: if_splits prod.splits)
  ultimately show ?thesis unfolding positions_unique_def map_append key by (simp add: assms(2))
qed

lemma set_unique:
  assumes "positions_unique rows" "rows_for pid items new" "distinct (map ri_position items)"
  shows "positions_unique (filter (\<lambda>r. r_project r \<noteq> pid) rows @ new)"
proof -
  have "distinct (map (\<lambda>i. (pid, ri_position i)) items)"
    using assms(3) by (simp add: distinct_map inj_on_def)
  moreover have "distinct (map position_key (filter (\<lambda>r. r_project r \<noteq> pid) rows))"
    using assms(1) unfolding positions_unique_def by (rule distinct_map_filter)
  ultimately show ?thesis
    unfolding positions_unique_def map_append rows_for_keys [OF assms(2)] by (auto simp: position_key_def)
qed

lemma roadmap_decoded:
  assumes "ev_payload e = Some (marshal_payload (PRoadmapUpdated p))" "RoadmapUpdatedPayload_ok p"
  shows "payload_of unmarshal_RoadmapUpdatedPayload e = tx_return (legacy_items p)"
  by (rule payload_eval) (simp add: decoded_def assms roundtrip)

lemma roadmap_event_unique:
  assumes "roadmap_event e" "roadmap_view_Fold e d = (Inr (), d')" "positions_unique (db_roadmap d)"
  shows "positions_unique (db_roadmap d')"
proof -
  obtain p where p: "ev_payload e = Some (marshal_payload (PRoadmapUpdated p))" "RoadmapUpdatedPayload_ok p"
    and dist: "distinct (map ri_position (ru_items (legacy_items p)))"
    and type: "ev_type e = ''RoadmapUpdated''"
    using assms(1) by (auto simp: roadmap_event_def)
  have fold: "foldRoadmapUpdated e d = (Inr (), d')" using assms(2) type by (simp add: roadmap_view_Fold_def)
  note run = fold [unfolded foldRoadmapUpdated_def roadmap_decoded [OF p] tx_bind_Inr tx_apply]
  show ?thesis
  proof (cases "ev_project e")
    case None
    then show ?thesis using run assms(3) by (auto simp: tx_apply split: if_splits)
  next
    case (Some pid)
    have "roadmap_set pid e (legacy_items p) d = (Inr (), d') \<or> roadmap_insert pid e (legacy_items p) d = (Inr (), d') \<or>
        roadmap_update pid e (legacy_items p) d = (Inr (), d') \<or> d' = d"
      using run unfolding Some option.case by (simp add: tx_apply split: if_splits)
    then consider "roadmap_set pid e (legacy_items p) d = (Inr (), d')" | "roadmap_insert pid e (legacy_items p) d = (Inr (), d')"
      | "roadmap_update pid e (legacy_items p) d = (Inr (), d')" | "d' = d"
      by blast
    then show ?thesis
    proof cases
      case 1
      then obtain new where "db_roadmap d' = filter (\<lambda>r. r_project r \<noteq> pid) (db_roadmap d) @ new"
        "rows_for pid (ru_items (legacy_items p)) new" by (rule roadmap_set_layout)
      then show ?thesis using set_unique [OF assms(3) _ dist] by simp
    next
      case 2
      then obtain item rest where items: "ru_items (legacy_items p) = item # rest"
        by (cases "ru_items (legacy_items p)") (auto simp: roadmap_insert_def tx_apply)
      obtain row where "db_roadmap d' = map (\<lambda>r. if r_project r = pid \<and> ri_position item \<le> r_position r
          then r\<lparr>r_position := r_position r + 1\<rparr> else r) (db_roadmap d) @ [row]" "r_project row = pid" "row_item row = item"
        by (rule roadmap_insert_layout [OF 2 items])
      then show ?thesis using shift_unique [OF assms(3), of row pid "ri_position item"]
        by (auto simp: position_key_def row_item_def)
    next
      case 3
      then show ?thesis using roadmap_update_positions assms(3) by (metis positions_unique_def)
    qed (simp add: assms(3))
  qed
qed

lemma other_event_unique:
  assumes "ev_type e \<noteq> ''RoadmapUpdated''" "roadmap_view_Fold e d = (Inr (), d')" "positions_unique (db_roadmap d)"
  shows "positions_unique (db_roadmap d')"
proof -
  have "cascadeDeleteRoadmapRows k s d = (Inr (), d') \<Longrightarrow> positions_unique (db_roadmap d')" for k s
    using assms(3) by (auto simp: cascadeDeleteRoadmapRows_def tx_apply sql_delete_def positions_unique_def intro: distinct_map_filter)
  moreover have "refreshRoadmapRowsForRef k s e d = (Inr (), d') \<Longrightarrow> positions_unique (db_roadmap d')" for k s
    using assms(3) refresh_positions by (metis positions_unique_def)
  ultimately show ?thesis
    using assms unfolding roadmap_view_Fold_def by (auto simp: tx_apply split: if_splits)
qed

lemma service_event_unique:
  assumes "ingest (work_projections aff) e d = (Inr (), d')" "service_event e" "positions_unique (db_roadmap d)"
  shows "positions_unique (db_roadmap d')"
proof -
  obtain d1 d2 where d: "db_roadmap d1 = db_roadmap d" "roadmap_view_Fold e d1 = (Inr (), d2)" "db_roadmap d' = db_roadmap d2"
    by (rule ingest_roadmap [OF assms(1)])
  have "handler_payload p \<Longrightarrow> EventType p \<noteq> ''RoadmapUpdated''" for p by (cases p) simp_all
  then have "roadmap_event e \<or> ev_type e \<noteq> ''RoadmapUpdated''"
    using assms(2) unfolding service_event_def work_event_def construct_event_def carries_def by auto
  then show ?thesis using roadmap_event_unique [OF _ d(2)] other_event_unique [OF _ d(2)] d(1,3) assms(3) by auto
qed

lemma runs_unique:
  assumes "runs_to aff d d' es" "list_all service_event es" "positions_unique (db_roadmap d)"
  shows "positions_unique (db_roadmap d')"
  using assms unfolding runs_to_def
proof (induction es arbitrary: d)
  case (Cons e es)
  then obtain d1 where "ingest (work_projections aff) e d = (Inr (), d1)"
    "tx_foreach (ingest (work_projections aff)) es d1 = (Inr (), d')" by (auto simp: tx_simps)
  then show ?case using Cons service_event_unique by auto
qed (simp add: tx_simps)

end
