(* ===== verification/Work_Lifecycle.thy ===== *)
theory Work_Lifecycle
  imports Work_Batch
begin

text \<open>
  \<open>go/internal/work/lifecycle_step.go\<close>: closing one task and starting the next in a batch of two
  operations, followed by one composite event in a transaction of its own.
\<close>

record LifecycleStepParams =
  lq_close_slug :: string
  lq_close_sha :: string
  lq_close_handoff :: string
  lq_close_rationale :: string
  lq_next_slug :: string
  lq_next_rationale :: string

definition unmarshal_LifecycleStepParams :: "json \<Rightarrow> LifecycleStepParams option" where
  "unmarshal_LifecycleStepParams j = do {
     fs \<leftarrow> struct_fields j;
     x0 \<leftarrow> dec_str (vals fs ''close_task_slug'');
     x1 \<leftarrow> dec_str (vals fs ''close_commit_sha'');
     x2 \<leftarrow> dec_str (vals fs ''close_handoff_output'');
     x3 \<leftarrow> dec_str (vals fs ''close_rationale'');
     x4 \<leftarrow> dec_str (vals fs ''next_task_slug'');
     x5 \<leftarrow> dec_str (vals fs ''next_rationale'');
     Some \<lparr>lq_close_slug = x0, lq_close_sha = x1, lq_close_handoff = x2, lq_close_rationale = x3,
       lq_next_slug = x4, lq_next_rationale = x5\<rparr> }"

record LifecycleStepResult =
  lr_ok :: bool
  lr_chain_slug :: string
  lr_close_event :: string
  lr_start_event :: string
  lr_handoff_event :: string
  lr_batch :: "BatchResult option"     \<comment> \<open>\<open>None\<close>: the zero value\<close>
  lr_error :: "go_error option"

definition lifecycle_error :: "go_error \<Rightarrow> LifecycleStepResult" where
  "lifecycle_error e = \<lparr>lr_ok = False, lr_chain_slug = [], lr_close_event = [], lr_start_event = [],
     lr_handoff_event = [], lr_batch = None, lr_error = Some e\<rparr>"

definition chainSlugForTask :: "db \<Rightarrow> string \<Rightarrow> go_error + string" where
  "chainSlugForTask d slug =
     (case sort (map (\<lambda>(t, c). c_slug c) (filter (\<lambda>(t, c). t_slug t = slug) (task_chain_join d))) of
        [] \<Rightarrow> Inl (ErrMessage ''task not found in any chain'')
      | [chain] \<Rightarrow> Inr chain
      | found \<Rightarrow> Inl (ErrAmbiguousSlug slug found))"

definition lookupTaskProjectID :: "db \<Rightarrow> string \<Rightarrow> string \<Rightarrow> go_error + string" where
  "lookupTaskProjectID d slug chainSlug =
     (case filter (\<lambda>(t, c). t_slug t = slug \<and> c_slug c = chainSlug) (task_chain_join d) of
        [] \<Rightarrow> Inl ErrNoRows | (t, c) # _ \<Rightarrow> Inr (c_project c))"

text \<open>The checks before the batch; the chain both tasks are in.\<close>

definition lifecycle_check :: "TableDeps \<Rightarrow> db \<Rightarrow> LifecycleStepParams \<Rightarrow> go_error + string" where
  "lifecycle_check deps d p =
     (if is_blank (lq_close_slug p) then Inl (ErrMessage ''requires close_task_slug'')
      else if is_blank (lq_next_slug p) then Inl (ErrMessage ''requires next_task_slug'')
      else if is_blank (lq_close_rationale p) then Inl (ErrMessage ''requires close_rationale'')
      else if is_blank (lq_next_rationale p) then Inl (ErrMessage ''requires next_rationale'')
      else if \<not> dp_has_pool deps then Inl (ErrMessage ''lifecycle_step requires a DB pool'')
      else case chainSlugForTask d (lq_close_slug p) of
        Inl e \<Rightarrow> Inl e
      | Inr chainOfClose \<Rightarrow>
          (case chainSlugForTask d (lq_next_slug p) of
             Inl e \<Rightarrow> Inl e
           | Inr chainOfNext \<Rightarrow>
               if chainOfClose \<noteq> chainOfNext then Inl (ErrMessage ''cross-chain handoff rejected'') else Inr chainOfClose))"

text \<open>The batch as \<open>json.Marshal\<close> writes it.\<close>

definition op_json :: "string \<Rightarrow> (string \<times> json) list \<Rightarrow> string \<Rightarrow> json" where
  "op_json op ps rationale = JObj [(''op'', JStr op), (''params'', JObj ps), (''rationale'', JStr rationale)]"

definition lifecycle_batch :: "LifecycleStepParams \<Rightarrow> string \<Rightarrow> json" where
  "lifecycle_batch p chain = JObj
     [(''ops'', JArr
        [op_json ''task_complete'' ([(''slug'', JStr (lq_close_slug p)), (''chain_slug'', JStr chain)] @
           enc_str_omit ''commit_sha'' (lq_close_sha p) @ enc_str_omit ''handoff_output'' (lq_close_handoff p))
           (lq_close_rationale p),
         op_json ''task_start'' [(''slug'', JStr (lq_next_slug p)), (''chain_slug'', JStr chain)] (lq_next_rationale p)]),
      (''continue_on_error'', JBool False),
      (''batch_rationale'', JStr (''lifecycle_step seam in chain '' @ chain @ '': '' @ lq_close_slug p @ '' '' @
         [CHR 0xE2, CHR 0x86, CHR 0x92] @ '' '' @ lq_next_slug p))]"

text \<open>The error of a batch that is not ok: its own, or that of the operation that failed.\<close>

definition batch_failure :: "BatchResult \<Rightarrow> go_error option" where
  "batch_failure br =
     (case br_error br of
        Some e \<Rightarrow> Some e
      | None \<Rightarrow>
          if br_rolled_back br \<and> list_ex (\<lambda>r. \<not> bo_ok r \<and> bo_error_message r \<noteq> None) (br_ops br)
          then Some (ErrMessage ''lifecycle_step rolled back'') else None)"

definition op_event :: "BatchResult \<Rightarrow> nat \<Rightarrow> string" where
  "op_event br i = (if i < length (br_ops br) then deref_or [] (bo_event_id (br_ops br ! i)) else [])"

definition handoff_payload :: "LifecycleStepParams \<Rightarrow> string \<Rightarrow> BatchResult \<Rightarrow> TaskHandoffPayload" where
  "handoff_payload p chain br =
     \<lparr>ho_chain_slug = chain,
      ho_closed = \<lparr>hc_task_slug = lq_close_slug p, hc_commit_sha = strPtr (lq_close_sha p),
        hc_handoff_output = strPtr (lq_close_handoff p), hc_rationale = lq_close_rationale p,
        hc_event_id = strPtr (op_event br 0)\<rparr>,
      ho_started = \<lparr>hs_task_slug = lq_next_slug p, hs_rationale = lq_next_rationale p,
        hs_event_id = strPtr (op_event br 1)\<rparr>\<rparr>"

definition emit_handoff :: "emit_env \<Rightarrow> ctx \<Rightarrow> LifecycleStepParams \<Rightarrow> string \<Rightarrow> BatchResult \<Rightarrow> string \<Rightarrow> string wtx" where
  "emit_handoff E c p chain br projectID =
     emit_entity E c ''task'' (lq_close_slug p) projectID (PTaskHandoff (handoff_payload p chain br))"

text \<open>After the batch: an error of the composite event is reported beside \<open>ok\<close>.\<close>

definition lifecycle_finish ::
  "emit_env \<Rightarrow> ctx \<Rightarrow> LifecycleStepParams \<Rightarrow> string \<Rightarrow> BatchResult \<Rightarrow> LifecycleStepResult wtx" where
  "lifecycle_finish E c p chain br w =
     (let out = \<lparr>lr_ok = br_ok br, lr_chain_slug = chain, lr_close_event = op_event br 0, lr_start_event = op_event br 1,
            lr_handoff_event = [], lr_batch = Some br, lr_error = None\<rparr>
      in if \<not> br_ok br then
           (Inr (out\<lparr>lr_close_event := [], lr_start_event := [], lr_error := batch_failure br\<rparr>), w)
         else case lookupTaskProjectID (w_db w) (lq_close_slug p) chain of
             Inl e \<Rightarrow> (Inr (out\<lparr>lr_error := Some e\<rparr>), w)
           | Inr projectID \<Rightarrow>
               (case WithWrite_capture E c (emit_handoff E c p chain br projectID) w of
                  ((err, recorded), w') \<Rightarrow>
                    (Inr (out\<lparr>lr_handoff_event := deref_or [] recorded, lr_error := err\<rparr>), w')))"

definition HandleLifecycleStep ::
  "emit_env \<Rightarrow> TableDeps \<Rightarrow> (go_error \<Rightarrow> string) \<Rightarrow> ctx \<Rightarrow> string \<Rightarrow> raw_params \<Rightarrow> LifecycleStepResult wtx" where
  "HandleLifecycleStep E deps err_text c project params =
     tx_bind (tx_of (decode_params unmarshal_LifecycleStepParams params)) (\<lambda>p. (\<lambda>w.
     case lifecycle_check deps (w_db w) p of
       Inl e \<Rightarrow> (Inr (lifecycle_error e), w)
     | Inr chain \<Rightarrow>
         tx_bind (HandleBatch E deps err_text c project (RawJson (lifecycle_batch p chain)))
           (lifecycle_finish E c p chain) w))"

end
