(* ===== verification/Store_Steps.thy ===== *)
theory Store_Steps
  imports Roadmap_Facts
begin

text \<open>
  The abstract store of the work service: the database that only events change, and the tables the
  handlers write past the ledger (\<open>chain_deps\<close> and \<open>roadmap_meta\<close>). A step of the store is
  an event appended and folded, or one of three direct writes; \<open>refines_at\<close> says that a call
  amounts to a sequence of such steps.
\<close>

section \<open>Steps of the store\<close>

text \<open>
  The direct writes: a dependency between two different chains of one project that was not there, the
  removal of the edge with a key, and a new reassessment time in the row that holds it.
\<close>

inductive direct_step :: "db \<Rightarrow> direct_tables \<Rightarrow> direct_tables \<Rightarrow> bool" for d :: db where
  dep_added: "x \<in> set (db_chains d) \<Longrightarrow> y \<in> set (db_chains d) \<Longrightarrow> c_project x = c_project y \<Longrightarrow>
    d_dependent e = c_id x \<Longrightarrow> d_prerequisite e = c_id y \<Longrightarrow> dep_check e \<Longrightarrow>
    dep_key e \<notin> dep_key ` set (dt_chain_deps t) \<Longrightarrow>
    direct_step d t (t\<lparr>dt_chain_deps := dt_chain_deps t @ [e]\<rparr>)"
| dep_removed: "direct_step d t (t\<lparr>dt_chain_deps := filter (\<lambda>x. dep_key x \<noteq> k) (dt_chain_deps t)\<rparr>)"
| reassessed: "dt_reassessed t \<noteq> None \<Longrightarrow> direct_step d t (t\<lparr>dt_reassessed := Some now\<rparr>)"

inductive store_step :: "(string \<Rightarrow> sqlval) \<Rightarrow> db \<times> direct_tables \<Rightarrow> db \<times> direct_tables \<Rightarrow> bool"
  for aff :: "string \<Rightarrow> sqlval" where
  ingested: "ingest (work_projections aff) e d = (Inr (), d') \<Longrightarrow> service_event e \<Longrightarrow> store_step aff (d, t) (d', t)"
| written: "direct_step d t t' \<Longrightarrow> store_step aff (d, t) (d, t')"

inductive_cases direct_stepE: "direct_step d t t'"
inductive_cases store_stepE: "store_step aff s s'"

definition stores :: "world \<Rightarrow> db \<times> direct_tables" where
  "stores w = (w_db w, w_direct w)"

definition refines_at :: "(string \<Rightarrow> sqlval) \<Rightarrow> world \<Rightarrow> world \<Rightarrow> bool" where
  "refines_at aff w w' \<longleftrightarrow> (wf_db (w_db w) \<longrightarrow> (store_step aff)\<^sup>*\<^sup>* (stores w) (stores w'))"

lemma store_steps_ingest:
  "runs_to aff d d' es \<Longrightarrow> list_all service_event es \<Longrightarrow> (store_step aff)\<^sup>*\<^sup>* (d, t) (d', t)"
proof (induction es arbitrary: d)
  case Nil
  then show ?case by (simp add: runs_to_def tx_apply)
next
  case (Cons e es)
  then obtain d1 where d1: "ingest (work_projections aff) e d = (Inr (), d1)" "runs_to aff d1 d' es"
    by (auto simp: runs_to_def tx_simps)
  have ev: "service_event e" "list_all service_event es" using Cons.prems(2) by simp_all
  have "store_step aff (d, t) (d1, t)" by (rule ingested [OF d1(1) ev(1)])
  then show ?case using Cons.IH [OF d1(2) ev(2)] by (rule converse_rtranclp_into_rtranclp)
qed

text \<open>What a sequence of store steps does to the ledger and its folds.\<close>

lemma store_steps_run:
  "(store_step aff)\<^sup>*\<^sup>* s s' \<Longrightarrow> \<exists>es. runs_to aff (fst s) (fst s') es \<and> list_all service_event es"
proof (induction rule: rtranclp_induct)
  case base
  then show ?case using runs_to_refl by (intro exI [of _ "[]"]) simp
next
  case (step s1 s2)
  then obtain es where es: "runs_to aff (fst s) (fst s1) es" "list_all service_event es" by blast
  have "\<exists>fs. runs_to aff (fst s1) (fst s2) fs \<and> list_all service_event fs"
    using step.hyps(2)
  proof (cases rule: store_step.cases)
    case (ingested e d d' t)
    then show ?thesis by (intro exI [of _ "[e]"]) (simp add: runs_to_def tx_simps)
  next
    case (written d t t')
    then show ?thesis using runs_to_refl by (intro exI [of _ "[]"]) simp
  qed
  then show ?case using runs_to_trans [OF es(1)] es(2) by (metis list_all_append)
qed

text \<open>The table of dependencies keeps its key and its check.\<close>

definition wf_deps :: "direct_tables \<Rightarrow> bool" where
  "wf_deps t \<longleftrightarrow> distinct (map dep_key (dt_chain_deps t)) \<and> list_all dep_check (dt_chain_deps t)"

lemma direct_step_wf: "direct_step d t t' \<Longrightarrow> wf_deps t \<Longrightarrow> wf_deps t'"
  by (induction rule: direct_step.induct) (auto simp: wf_deps_def list_all_iff distinct_map_filter)

lemma store_steps_wf_deps: "(store_step aff)\<^sup>*\<^sup>* s s' \<Longrightarrow> wf_deps (snd s) \<Longrightarrow> wf_deps (snd s')"
proof (induction rule: rtranclp_induct)
  case (step s1 s2)
  from step.hyps(2) step.IH [OF step.prems] show ?case
    by (cases rule: store_step.cases) (simp_all add: direct_step_wf)
qed

section \<open>Calls that refine the store\<close>

lemma refines_evolves: "evolves_at aff w w' \<Longrightarrow> refines_at aff w w'"
    unfolding refines_at_def stores_def using evolves_atD(1) [of aff w w'] evolves_atD(2) [of aff w w'] store_steps_ingest
  by auto

lemma refines_trans:
  assumes "refines_at aff w w1" "refines_at aff w1 w2"
  shows "refines_at aff w w2"
  unfolding refines_at_def
proof
  assume wf: "wf_db (w_db w)"
  then have one: "(store_step aff)\<^sup>*\<^sup>* (stores w) (stores w1)" using assms(1) by (simp add: refines_at_def)
  then have "wf_db (w_db w1)" using store_steps_run [OF one] runs_to_wf [OF _ wf] by (auto simp: stores_def)
  then show "(store_step aff)\<^sup>*\<^sup>* (stores w) (stores w2)"
    using one assms(2) by (auto simp: refines_at_def)
qed

lemma refines_direct:
  assumes "w_db w' = w_db w" "w_direct w' = w_direct w \<or> direct_step (w_db w) (w_direct w) (w_direct w')"
  shows "refines_at aff w w'"
  using assms by (auto simp: refines_at_def stores_def intro: written)

lemma WithWrite_result: "snd (report f (tx_bind (WithWrite E c m) (\<lambda>a. tx_return (g a))) w) = snd (WithWrite E c m w)"
  by (auto simp: report_def tx_bind_def tx_apply split: prod.splits sum.splits)

lemma refines_dep_add: "refines_at aff w (snd (HandleChainDepAdd E c project params w))"
proof -
  have wrote: "w_direct (snd (WithWrite E c (insert_dep e) w)) = w_direct w \<or>
      direct_step (w_db w) (w_direct w) (w_direct (snd (WithWrite E c (insert_dep e) w)))"
    if ends: "dep_ends (w_db w) dep prereq = Inr (x, y)" "cr_project x = cr_project y"
      and e: "e = \<lparr>d_dependent = cr_id x, d_prerequisite = cr_id y, d_reason = s\<rparr>" for dep prereq x y e s
  proof (cases rule: WithWrite_cases [of E c "insert_dep e" w])
    case (committed u w2)
    obtain cx cy where "cx \<in> set (db_chains (w_db w))" "c_id cx = cr_id x" "c_project cx = cr_project x"
      "cy \<in> set (db_chains (w_db w))" "c_id cy = cr_id y" "c_project cy = cr_project y"
      using ends(1) resolveChain_Inr unfolding dep_ends_Inr by metis
    moreover have "dep_key e \<notin> dep_key ` set (w_deps w)" "dep_check e"
      "w2 = w\<lparr>w_owner := cx_gid c, w_direct := (w_direct w)\<lparr>dt_chain_deps := w_deps w @ [e]\<rparr>\<rparr>"
      using committed(3) insert_dep_Inr [of e "w\<lparr>w_owner := cx_gid c\<rparr>" w2] by simp_all
    ultimately show ?thesis using committed(5) ends(2) by (intro disjI2) (simp, intro dep_added [of cx _ cy], simp_all add: e)
  qed simp
  show ?thesis
  proof (rule refines_direct [OF deps_keep_db(1)], cases "decode_params unmarshal_chainDepAddParams params")
    case (Inl e)
    then show "w_direct (snd (HandleChainDepAdd E c project params w)) = w_direct w \<or> direct_step (w_db w) (w_direct w)
        (w_direct (snd (HandleChainDepAdd E c project params w)))"
      by (simp add: HandleChainDepAdd_def tx_bind_def tx_of_def tx_apply)
  next
    case (Inr p)
    let ?ends = "dep_ends (w_db w) (da_dependent p) (da_prerequisite p)"
    note run = HandleChainDepAdd_def tx_run(1) tx_of_def Inr Let_def tx_then_def
      WithWrite_result [where g = "\<lambda>_. dep_ok _ _ _"]
    show "w_direct (snd (HandleChainDepAdd E c project params w)) = w_direct w \<or> direct_step (w_db w) (w_direct w)
        (w_direct (snd (HandleChainDepAdd E c project params w)))"
    proof (cases ?ends)
      case (Inl e)
      then show ?thesis by (simp add: run)
    next
      case ends: (Inr q)
      obtain x y where q: "q = (x, y)" by fastforce
      show ?thesis using wrote [of "da_dependent p" "da_prerequisite p" x y] ends q by (auto simp: run)
    qed
  qed
qed

lemma refines_dep_remove: "refines_at aff w (snd (HandleChainDepRemove E c params w))"
proof -
  have wrote: "w_direct (snd (WithWrite E c (delete_dep i j) w)) = w_direct w \<or>
      direct_step (w_db w) (w_direct w) (w_direct (snd (WithWrite E c (delete_dep i j) w)))" for i j
  proof (cases rule: WithWrite_cases [of E c "delete_dep i j" w])
    case (committed u w2)
    then show ?thesis using direct_step.dep_removed by (auto simp: delete_dep_run)
  qed simp
  show ?thesis
  proof (rule refines_direct [OF deps_keep_db(2)], cases "decode_params unmarshal_chainDepAddParams params")
    case (Inl e)
    then show "w_direct (snd (HandleChainDepRemove E c params w)) = w_direct w \<or> direct_step (w_db w) (w_direct w)
        (w_direct (snd (HandleChainDepRemove E c params w)))"
      by (simp add: HandleChainDepRemove_def tx_bind_def tx_of_def tx_apply)
  next
    case (Inr p)
    show "w_direct (snd (HandleChainDepRemove E c params w)) = w_direct w \<or> direct_step (w_db w) (w_direct w)
        (w_direct (snd (HandleChainDepRemove E c params w)))"
      using wrote
      by (auto simp: HandleChainDepRemove_def tx_run(1) tx_of_def Inr Let_def WithWrite_result
          split: sum.splits)
  qed
qed

lemma direct_eq: "dt_reassessed t = None \<Longrightarrow> t\<lparr>dt_reassessed := None\<rparr> = t"
  by (cases t) simp

text \<open>\<open>roadmap_mark_reassessed\<close> writes the time and records an event in one transaction.\<close>

lemma refines_mark:
  assumes "folds_work aff E"
  shows "refines_at aff w (snd (HandleRoadmapMarkReassessed now E c w))"
proof -
  have same: "snd (HandleRoadmapMarkReassessed now E c w) = snd (WithWrite E c (mark_body now E c) w)"
    by (auto simp: HandleRoadmapMarkReassessed_def tx_bind_def tx_apply split: prod.splits sum.splits)
  show ?thesis unfolding same
  proof (cases rule: WithWrite_cases [of E c "mark_body now E c" w])
    case (rolled_back e)
    then show "refines_at aff w (snd (WithWrite E c (mark_body now E c) w))" by (intro refines_direct) simp_all
  next
    case (committed i w2)
    let ?args = "\<lparr>ea_entity = NewCrossCuttingEntityRef ''roadmap'' ''main'',
      ea_payload = Some (PRoadmapUpdated \<lparr>ru_action_kind = ''mark_reassessed'', ru_positions = [], ru_ref_kind = None,
        ru_ref_slug = None, ru_item_count = None, ru_items = []\<rparr>), ea_rationale = None, ea_refs = no_refs\<rparr>"
    let ?w1 = "w\<lparr>w_owner := cx_gid c, w_direct := (w_direct w)\<lparr>dt_reassessed :=
        map_option (\<lambda>_. now) (dt_reassessed (w_direct w))\<rparr>\<rparr>"
    have emit: "Emit E c ?args ?w1 = (Inr i, w2)" using committed(3) by (auto simp: mark_body_def tx_simps)
    have "refines_at aff w ?w1"
    proof (rule refines_direct, simp, cases "dt_reassessed (w_direct w)")
      case (Some y)
      then show "w_direct ?w1 = w_direct w \<or> direct_step (w_db w) (w_direct w) (w_direct ?w1)"
        using direct_step.reassessed [of "w_direct w" "w_db w" now] by simp
    qed (simp add: direct_eq)
    moreover have "evolves_at aff ?w1 w2"
    proof (rule Emit_roadmap_Inr [OF assms emit])
      fix raw assume raw: "ingest (work_projections aff) raw (w_db ?w1) = (Inr (), w_db w2)"
        and kind: "ev_kind raw = ''roadmap''" "ev_type raw = ''RoadmapUpdated''"
        "ev_payload raw = Some (marshal_payload (PRoadmapUpdated \<lparr>ru_action_kind = ''mark_reassessed'', ru_positions = [],
          ru_ref_kind = None, ru_ref_slug = None, ru_item_count = None, ru_items = []\<rparr>))"
      have "service_event raw"
        by (rule roadmap_eventI [OF kind]) (simp_all add: RoadmapUpdatedPayload_ok_def ptr_in_int64_def legacy_items_def)
      then show ?thesis
        using ingest_runs [OF raw] Emit_direct [of E c ?args ?w1] emit by (simp add: evolves_at_def)
    qed (simp add: NewCrossCuttingEntityRef_def)
    ultimately have "refines_at aff w w2" using refines_evolves refines_trans by blast
    then show "refines_at aff w (snd (WithWrite E c (mark_body now E c) w))"
      using committed(5) by (simp add: refines_at_def stores_def)
  qed
qed

end
