(* ===== verification/Work_Service.thy ===== *)
theory Work_Service
  imports Roadmap_Layout Work_Lifecycle Store_Steps
begin

text \<open>
  The work service: the bug, suggestion, chain and batch handlers against the ledger, one call of any
  handler as a step relation, and what every sequence of steps keeps, proved once for services that
  write through the ledger.
\<close>

section \<open>Bugs, suggestions and chains\<close>

lemma evolves_sum [evolves_intros]:
  "(\<And>e. tx_evolves aff (f e)) \<Longrightarrow> (\<And>a. tx_evolves aff (g a)) \<Longrightarrow>
   tx_evolves aff (case r of Inl e \<Rightarrow> f e | Inr a \<Rightarrow> g a)"
  by (cases r) simp_all

lemma evolves_bug_resolve_InTx [evolves_intros]:
  "folds_work aff E \<Longrightarrow> tx_evolves aff (HandleBugResolveInTx E c d params)"
  unfolding HandleBugResolveInTx_def resolve_bug_def Let_def by (intro evolves_intros; simp)

lemma evolves_bug_resolve: "folds_work aff E \<Longrightarrow> tx_evolves aff (HandleBugResolve E c params)"
  using evolves_captured [OF evolves_bug_resolve_InTx] by (simp add: HandleBugResolve_def tx_evolves_def)

lemma evolves_emit_at:
  "folds_work aff E \<Longrightarrow> handler_payload p \<Longrightarrow> kind = payload_kind p \<Longrightarrow>
   evolves_at aff w (snd (tx_bind (WithWrite E c (emit_entity E c kind slug pid p)) (\<lambda>_. tx_return r) w))"
  by (intro evolvesD evolves_intros)

lemma evolves_bug_writes:
  assumes "folds_work aff E"
  shows "tx_evolves aff (HandleBugReopen E c params)" "tx_evolves aff (HandleBugStampSHA E c params)"
  unfolding HandleBugReopen_def HandleBugStampSHA_def Let_def
  by (intro evolves_intros; (rule evolvesI, intro evolves_at_cases evolves_emit_at assms; simp)?)+

lemma evolves_suggestion_writes:
  assumes "folds_work aff E"
  shows "tx_evolves aff (HandleSuggestionReopen E c params)" "tx_evolves aff (HandleSuggestionStampSHA E c params)"
  unfolding HandleSuggestionReopen_def HandleSuggestionStampSHA_def Let_def
  by (intro evolves_intros; (rule evolvesI, intro evolves_at_cases evolves_emit_at assms; simp)?)+

lemma evolves_if_at:
  "(b \<Longrightarrow> evolves_at aff w (snd m)) \<Longrightarrow> (\<not> b \<Longrightarrow> evolves_at aff w (snd n)) \<Longrightarrow>
   evolves_at aff w (snd (if b then m else n))"
  by simp

lemma evolves_suggestion_resolve:
  assumes "folds_work aff E"
  shows "tx_evolves aff (HandleSuggestionResolve E c params)"
  unfolding HandleSuggestionResolve_def Let_def
  by (intro evolves_intros; (rule evolvesI, intro evolves_at_cases(1-4) evolves_if_at evolves_emit_at assms; simp)?)

lemma evolves_report_close [evolves_intros]: "tx_evolves aff m \<Longrightarrow> tx_evolves aff (report_close m)"
proof -
  have "snd (report_close m w) = snd (m w)" for w
    by (auto simp: report_close_def split: prod.splits sum.splits)
  then show "tx_evolves aff m \<Longrightarrow> tx_evolves aff (report_close m)" by (simp add: tx_evolves_def)
qed

lemma evolves_close_event [evolves_intros]:
  "folds_work aff E \<Longrightarrow> tx_evolves aff (close_event E c slug pid summary)"
  unfolding close_event_def by (intro evolves_intros) simp_all

lemma evolves_closeChain [evolves_intros]:
  assumes "folds_work aff E"
  shows "tx_evolves aff (closeChain E c project slug summary)"
  unfolding closeChain_def by (rule evolvesI, intro evolves_at_cases evolvesD evolves_intros assms)

lemma evolves_chain_close_InTx [evolves_intros]:
  "folds_work aff E \<Longrightarrow> tx_evolves aff (HandleChainCloseInTx E c d project params)"
  unfolding HandleChainCloseInTx_def closeChainInTx_def by (intro evolves_intros)

lemma evolves_chain_close:
  assumes "folds_work aff E"
  shows "tx_evolves aff (HandleChainClose E c project params)"
  unfolding HandleChainClose_def
  by (intro evolves_intros; rule evolvesI, intro evolves_at_cases evolvesD evolves_intros assms)

section \<open>Batches\<close>

text \<open>
  The construct package's operations inside a batch: each call ingests events of its own, in success
  and in failure, and leaves the tables outside the ledger.
\<close>

definition seams_evolve :: "(string \<Rightarrow> sqlval) \<Rightarrow> TableDeps \<Rightarrow> bool" where
  "seams_evolve aff deps \<longleftrightarrow>
     (\<forall>f c project params. dp_ForgeEditInTx deps = Some f \<or> dp_ForgeCreateInTx deps = Some f \<longrightarrow>
        tx_evolves aff (f c project params))"

lemma evolves_op_result [evolves_intros]: "tx_evolves aff m \<Longrightarrow> tx_evolves aff (op_result err m)"
  unfolding op_result_def by (intro evolves_intros)

lemma evolves_run_seam:
  "(\<And>f. s = Some f \<Longrightarrow> tx_evolves aff (f c project params)) \<Longrightarrow> tx_evolves aff (run_seam deps s c project params)"
  unfolding run_seam_def by (auto intro: evolves_intros split: option.splits)

lemma evolves_dispatch:
  assumes "folds_work aff E" "seams_evolve aff deps"
  shows "tx_evolves aff (batchDispatchInTx E deps c d project p)"
  unfolding batchDispatchInTx_def
  by (intro evolves_intros evolves_run_seam evolves_InTx assms(1); (use assms(2) in \<open>simp add: seams_evolve_def\<close>)?)

lemma evolves_run_ops:
  assumes "folds_work aff E" "seams_evolve aff deps"
  shows "evolves_at aff w (snd (run_ops E deps err_text c d project cont i ps w))"
proof (induction ps arbitrary: i w)
  case Nil
  then show ?case by (simp add: evolves_at_same)
next
  case (Cons p ps)
  obtain r w1 where one: "batchDispatchInTx E deps (WithRationale c (bp_rationale p)) d project p w = (r, w1)"
    by fastforce
  have "evolves_at aff w w1" using evolvesD [OF evolves_dispatch [OF assms]] one by (metis snd_conv)
  moreover have "evolves_at aff w1 (snd (run_ops E deps err_text c d project cont (Suc i) ps w1))"
    by (rule Cons.IH)
  ultimately have "evolves_at aff w (snd (run_ops E deps err_text c d project cont (Suc i) ps w1))"
    by (rule evolves_at_trans)
  then show ?case
    using \<open>evolves_at aff w w1\<close>
    by (cases "run_ops E deps err_text c d project cont (Suc i) ps w1") (simp add: one Let_def split_beta)
qed

lemma evolves_batch_body:
  assumes "folds_work aff E" "seams_evolve aff deps"
  shows "tx_evolves aff (batch_body E deps err_text c d project p)"
proof (rule evolvesI)
  fix w
  show "evolves_at aff w (snd (batch_body E deps err_text c d project p w))"
    using evolves_run_ops [OF assms, of w err_text c d project "bq_continue p" 0 "bq_ops p"]
    by (auto simp: batch_body_def split: prod.splits)
qed

lemma evolves_batch_record:
  assumes "folds_work aff E"
  shows "tx_evolves aff (batch_record E c project p results)"
  unfolding batch_record_def
  by (rule evolves_Emit [OF assms])
    (auto simp: emit_prepare_Inr event_of_envelope_def emit_envelope_def NewCrossCuttingEntityRef_def work_event_def)

lemma batch_world:
  "snd (HandleBatch E deps err_text c project params w) = w \<or>
   (\<exists>p r w1. WithWrite E c (batch_body E deps err_text c (w_db w) project p) w = (r, w1) \<and>
      (snd (HandleBatch E deps err_text c project params w) = w1 \<or>
       (\<exists>rs. snd (HandleBatch E deps err_text c project params w) =
          snd (WithWrite E c (batch_record E c project p rs) w1))))"
proof (cases "decode_params unmarshal_BatchParams params")
  case (Inl e)
  then show ?thesis by (simp add: HandleBatch_def tx_bind_def tx_of_def tx_apply)
next
  case (Inr p)
  show ?thesis
  proof (cases "bq_ops p = [] \<or> first_op_error (bq_ops p) \<noteq> None \<or> \<not> dp_has_pool deps")
    case True
    then show ?thesis using Inr by (auto simp: HandleBatch_def tx_bind_def tx_of_def tx_apply split: option.splits)
  next
    case False
    obtain r w1 where one: "WithWrite E c (batch_body E deps err_text c (w_db w) project p) w = (r, w1)" by fastforce
    obtain rs stopped where ops: "batch_results E deps err_text c project p w = (rs, stopped)" by fastforce
    obtain r2 w2 where two: "WithWrite E c (batch_record E c project p rs) w1 = (r2, w2)" by fastforce
    have "first_op_error (bq_ops p) = None" "bq_ops p \<noteq> []" "dp_has_pool deps" using False by simp_all
    note run = HandleBatch_def tx_bind_def tx_of_def tx_apply WithWrite_capture_def one two ops Inr this
    have "snd (HandleBatch E deps err_text c project params w) = w1 \<or>
        snd (HandleBatch E deps err_text c project params w) = w2"
      by (cases r; cases r2) (simp_all add: run)
    then show ?thesis using one two by (metis snd_conv)
  qed
qed

lemma evolves_batch:
  assumes "folds_work aff E" "seams_evolve aff deps"
  shows "tx_evolves aff (HandleBatch E deps err_text c project params)"
proof (rule evolvesI)
  fix w
  let ?w = "snd (HandleBatch E deps err_text c project params w)"
  from batch_world [of E deps err_text c project params w] show "evolves_at aff w ?w"
  proof (elim disjE exE conjE)
    fix p r w1 assume one: "WithWrite E c (batch_body E deps err_text c (w_db w) project p) w = (r, w1)"
    then have w1: "evolves_at aff w w1"
      using evolvesD [OF evolves_WithWrite [OF evolves_batch_body [OF assms]]] by (metis snd_conv)
    { assume "?w = w1" then show ?thesis using w1 by simp }
    { fix rs assume "?w = snd (WithWrite E c (batch_record E c project p rs) w1)"
      then show ?thesis
        using evolves_at_trans [OF w1 evolvesD [OF evolves_WithWrite [OF evolves_batch_record [OF assms(1)]]]]
        by simp }
  qed (simp add: evolves_at_same)
qed

lemma capture_world: "snd (WithWrite_capture E c fn w) = snd (WithWrite E c fn w)"
  by (auto simp: WithWrite_capture_def split: prod.splits sum.splits)

lemma evolves_handoff:
  "folds_work aff E \<Longrightarrow> tx_evolves aff (emit_handoff E c p chain br pid)"
  unfolding emit_handoff_def by (rule evolves_emit_entity) simp_all

lemma evolves_lifecycle:
  assumes "folds_work aff E" "seams_evolve aff deps"
  shows "tx_evolves aff (HandleLifecycleStep E deps err_text c project params)"
proof -
  have "tx_evolves aff (lifecycle_finish E c p chain br)" for p chain br
  proof (rule evolvesI)
    fix w
    have "snd (lifecycle_finish E c p chain br w) = w \<or>
        (\<exists>pid. snd (lifecycle_finish E c p chain br w) = snd (WithWrite E c (emit_handoff E c p chain br pid) w))"
      by (auto simp: lifecycle_finish_def Let_def case_prod_unfold capture_world split: sum.splits)
    then show "evolves_at aff w (snd (lifecycle_finish E c p chain br w))"
      using evolvesD [OF evolves_WithWrite [OF evolves_handoff [OF assms(1)]]] evolves_at_same by metis
  qed
  then have finish: "tx_evolves aff (tx_bind (HandleBatch E deps err_text c project ps) (lifecycle_finish E c p chain))"
    for p chain ps
    by (intro evolves_bind evolves_batch assms)
  have "tx_evolves aff (\<lambda>w. case lifecycle_check deps (w_db w) p of Inl e \<Rightarrow> (Inr (lifecycle_error e), w)
      | Inr chain \<Rightarrow> tx_bind (HandleBatch E deps err_text c project (RawJson (lifecycle_batch p chain)))
          (lifecycle_finish E c p chain) w)" for p
    by (rule evolvesI) (use evolvesD [OF finish] in \<open>auto simp: evolves_at_same split: sum.splits\<close>)
  then show ?thesis unfolding HandleLifecycleStep_def by (intro evolves_intros)
qed

section \<open>Sequences of calls\<close>

text \<open>One call of a handler that writes, with any parameters and on behalf of anyone.\<close>

inductive work_step ::
  "emit_env \<Rightarrow> stamp_env \<Rightarrow> TableDeps \<Rightarrow> (json \<Rightarrow> string) \<Rightarrow> (go_error \<Rightarrow> string) \<Rightarrow> world \<Rightarrow> world \<Rightarrow> bool"
  for E :: emit_env and S :: stamp_env and deps :: TableDeps and raw_text :: "json \<Rightarrow> string"
    and err_text :: "go_error \<Rightarrow> string" where
  task_start: "work_step E S deps raw_text err_text w (snd (HandleTaskStart E c params w))"
| task_complete: "work_step E S deps raw_text err_text w (snd (HandleTaskComplete E c params w))"
| task_cancel: "work_step E S deps raw_text err_text w (snd (HandleTaskCancel E c params w))"
| task_unstart: "work_step E S deps raw_text err_text w (snd (HandleTaskUnstart E c params w))"
| task_reopen: "work_step E S deps raw_text err_text w (snd (HandleTaskReopen E c params w))"
| task_stamp: "work_step E S deps raw_text err_text w (snd (HandleTaskStampSHA E S c params w))"
| task_block: "work_step E S deps raw_text err_text w (snd (HandleTaskBlock E c params w))"
| task_unblock: "work_step E S deps raw_text err_text w (snd (HandleTaskUnblock E c params w))"
| task_edit: "work_step E S deps raw_text err_text w (snd (HandleTaskEdit raw_text E c params w))"
| bug_resolve: "work_step E S deps raw_text err_text w (snd (HandleBugResolve E c params w))"
| bug_reopen: "work_step E S deps raw_text err_text w (snd (HandleBugReopen E c params w))"
| bug_stamp: "work_step E S deps raw_text err_text w (snd (HandleBugStampSHA E c params w))"
| suggestion_resolve: "work_step E S deps raw_text err_text w (snd (HandleSuggestionResolve E c params w))"
| suggestion_reopen: "work_step E S deps raw_text err_text w (snd (HandleSuggestionReopen E c params w))"
| suggestion_stamp: "work_step E S deps raw_text err_text w (snd (HandleSuggestionStampSHA E c params w))"
| chain_close: "work_step E S deps raw_text err_text w (snd (HandleChainClose E c project params w))"
| roadmap_set: "work_step E S deps raw_text err_text w (snd (HandleRoadmapSet E c project params w))"
| roadmap_insert: "work_step E S deps raw_text err_text w (snd (HandleRoadmapInsert E c project params w))"
| roadmap_update: "work_step E S deps raw_text err_text w (snd (HandleRoadmapUpdate E c project params w))"
| roadmap_mark: "work_step E S deps raw_text err_text w (snd (HandleRoadmapMarkReassessed now E c w))"
| chain_dep_add: "work_step E S deps raw_text err_text w (snd (HandleChainDepAdd E c project params w))"
| chain_dep_remove: "work_step E S deps raw_text err_text w (snd (HandleChainDepRemove E c params w))"
| lifecycle_step: "work_step E S deps raw_text err_text w (snd (HandleLifecycleStep E deps err_text c project params w))"
| batch: "work_step E S deps raw_text err_text w (snd (HandleBatch E deps err_text c project params w))"

inductive_cases work_stepE: "work_step E S deps raw_text err_text w w'"

text \<open>
  A service that refines the store: each of its steps amounts to a sequence of events ingested and of
  direct writes.
\<close>

locale ledger_writer =
  fixes aff :: "string \<Rightarrow> sqlval" and step :: "world \<Rightarrow> world \<Rightarrow> bool"
  assumes step_refines: "step w w' \<Longrightarrow> refines_at aff w w'"
begin

lemma reach_refines: "step\<^sup>*\<^sup>* w w' \<Longrightarrow> refines_at aff w w'"
proof (induction rule: rtranclp_induct)
  case base
  then show ?case by (simp add: refines_at_def)
next
  case (step w1 w2)
  show ?case by (rule refines_trans [OF step.IH step_refines [OF step.hyps(2)]])
qed

lemma reach_runs:
  assumes "step\<^sup>*\<^sup>* w w'" "wf_db (w_db w)"
  shows "\<exists>es. runs_to aff (w_db w) (w_db w') es \<and> list_all service_event es"
  using reach_refines [OF assms(1)] assms(2) store_steps_run [of aff "stores w" "stores w'"]
  by (simp add: refines_at_def stores_def)

lemma reach_deps: "step\<^sup>*\<^sup>* w w' \<Longrightarrow> wf_db (w_db w) \<Longrightarrow> wf_deps (w_direct w) \<Longrightarrow> wf_deps (w_direct w')"
  using reach_refines [of w w'] store_steps_wf_deps [of aff "stores w" "stores w'"] by (simp add: refines_at_def stores_def)

lemma reach_wf: "step\<^sup>*\<^sup>* w w' \<Longrightarrow> wf_db (w_db w) \<Longrightarrow> wf_db (w_db w')"
  using reach_runs runs_to_wf by blast

lemma reach_ledger:
  assumes "step\<^sup>*\<^sup>* w w'" "wf_db (w_db w)"
  shows "\<exists>es. db_events (w_db w') = db_events (w_db w) @ es"
  using reach_runs [OF assms] runs_to_ledger by blast

lemma reach_counters:
  assumes "step\<^sup>*\<^sup>* w w'" "wf_db (w_db w)" "counters_agree (w_db w)"
  shows "counters_agree (w_db w')"
proof -
  obtain es where es: "runs_to aff (w_db w) (w_db w') es" "list_all service_event es"
    using reach_runs [OF assms(1,2)] by blast
  have "handler_payload p \<Longrightarrow> EventType p \<noteq> ''TaskAssignedToChain''" for p by (cases p) simp_all
  then have "service_event e \<Longrightarrow> ev_type e \<noteq> ''TaskAssignedToChain''" for e
    unfolding service_event_def work_event_def construct_event_def roadmap_event_def carries_def by auto
  then have "list_all (\<lambda>e. ev_type e \<noteq> ''TaskAssignedToChain'') es"
    using es(2) by (simp add: list_all_iff)
  from run_agrees [OF assms(3,2) this] show ?thesis using es(1) by (simp add: runs_to_def)
qed

lemma reach_positions:
  assumes "step\<^sup>*\<^sup>* w w'" "wf_db (w_db w)" "positions_unique (db_roadmap (w_db w))"
  shows "positions_unique (db_roadmap (w_db w'))"
  using reach_runs [OF assms(1,2)] runs_unique assms(3) by blast

end

lemma SetFoldHook_folds [simp]: "folds_work aff (SetFoldHook (FoldAll (work_projections aff)) E)"
  by (simp add: folds_work_def SetFoldHook_def)

lemma work_step_refines:
  assumes "folds_work aff E" "seams_evolve aff deps" "work_step E S deps raw_text err_text w w'"
  shows "refines_at aff w w'"
  using assms(3)
  by (cases rule: work_stepE)
    (auto simp: HandleTaskCancel_def HandleTaskUnstart_def HandleTaskReopen_def assms(1,2)
      intro!: refines_mark refines_dep_add refines_dep_remove,
     (rule refines_evolves, auto simp: assms(1,2) intro!: evolvesD evolves_start evolves_complete
        evolves_handle_transition evolves_stamp evolves_block evolves_unblock evolves_edit evolves_bug_resolve
        evolves_bug_writes evolves_suggestion_resolve evolves_suggestion_writes evolves_chain_close
        evolves_roadmap_set evolves_roadmap_insert evolves_roadmap_update evolves_lifecycle evolves_batch)+)

text \<open>Steps of the service whose construct operations write through the ledger too.\<close>

definition service_step ::
  "(string \<Rightarrow> sqlval) \<Rightarrow> emit_env \<Rightarrow> stamp_env \<Rightarrow> TableDeps \<Rightarrow> (json \<Rightarrow> string) \<Rightarrow> (go_error \<Rightarrow> string) \<Rightarrow>
   world \<Rightarrow> world \<Rightarrow> bool" where
  "service_step aff E S deps raw_text err_text w w' \<longleftrightarrow> seams_evolve aff deps \<and>
     work_step (SetFoldHook (FoldAll (work_projections aff)) E) S deps raw_text err_text w w'"

interpretation service: ledger_writer aff "service_step aff E S deps raw_text err_text"
  for aff E S deps raw_text err_text
  by unfold_locales (auto simp: service_step_def intro: work_step_refines [OF SetFoldHook_folds])

end
