(* ===== verification/Task_Effects.thy ===== *)
theory Task_Effects
  imports Work_Service
begin

text \<open>
  What a handler's events do to the task table, the blocker edges and the chains: an event that
  carries the slug of its chain rewrites one task row, the chain rows keep their keys, and a close
  followed by the sweep leaves no task of the chain blocked without an edge.
\<close>

section \<open>One ingested task event\<close>

lemma ingest_task_steps:
  assumes "ingest (work_projections aff) evt d = (Inr (), d')" "ev_kind evt = ''task''"
  obtains d1 d2 d3 where "current_tasks_Fold aff evt (core d) = (Inr (), d1)"
    "chain_status_Fold evt d1 = (Inr (), d2)" "roadmap_view_Fold evt d2 = (Inr (), d3)"
    "task_blockers_Fold evt d3 = (Inr (), core d')"
proof -
  have "current_bugs_Fold evt = tx_return ()" "current_suggestions_Fold evt = tx_return ()"
    "memories_Fold evt = tx_return ()"
    using assms(2) by (simp_all add: current_bugs_Fold_def current_suggestions_Fold_def memories_Fold_def)
  then show ?thesis
    using work.ingest_core(1) [OF assms(1)] that by (auto simp: work_order projection_defs tx_simps)
qed

text \<open>What the later folds leave of the earlier ones' tables.\<close>

definition same_tasks :: "task_row list \<Rightarrow> blocker_row list \<Rightarrow> db \<Rightarrow> bool" where
  "same_tasks ts ks d \<longleftrightarrow> db_tasks d = ts \<and> db_blockers d = ks"

definition chain_id_row :: "chain_row \<Rightarrow> int \<times> string \<times> string" where
  "chain_id_row c = (c_id c, c_project c, c_slug c)"

definition same_chain_ids :: "(int \<times> string \<times> string) list \<Rightarrow> db \<Rightarrow> bool" where
  "same_chain_ids cs d \<longleftrightarrow> map chain_id_row (db_chains d) = cs"

lemma keeps_refresh:
  "tx_keeps (same_tasks ts ks) (refreshChainTaskCountsByID evt i)"
  "tx_keeps (same_chain_ids cs) (refreshChainTaskCountsByID evt i)"
  unfolding refreshChainTaskCountsByID_def tx_keeps_def exec_chains_def tx_exec_def
  by (auto simp: same_tasks_def same_chain_ids_def chain_id_row_def chain_stamp_def with_task_counts_def
      dest!: sql_update_Some split: option.splits)

lemma keeps_chain_fold:
  assumes "ev_kind evt = ''task''" "ev_type evt \<notin> {''ChainCreated'', ''ChainEdited'', ''ChainClosed''}"
  shows "tx_keeps (same_tasks ts ks) (chain_status_Fold evt)" "tx_keeps (same_chain_ids cs) (chain_status_Fold evt)"
proof -
  have "tx_keeps P (chainIDsForTaskEvent p evt)" for P p
    unfolding chainIDsForTaskEvent_def by (intro keeps_intros)
  then show "tx_keeps (same_tasks ts ks) (chain_status_Fold evt)" "tx_keeps (same_chain_ids cs) (chain_status_Fold evt)"
    using assms by (auto simp: chain_status_Fold_def refreshChainTaskCountsForTaskEvent_def
        intro!: keeps_intros keeps_refresh)
qed

lemma keeps_roadmap_fold:
  "tx_keeps (same_tasks ts ks) (roadmap_view_Fold evt)" "tx_keeps (same_chain_ids cs) (roadmap_view_Fold evt)"
proof -
  have x: "tx_keeps (same_tasks ts ks) (exec_roadmap f)" "tx_keeps (same_chain_ids cs) (exec_roadmap f)"
    "tx_keeps (same_tasks ts ks) (tx_modify (\<lambda>d. d\<lparr>db_roadmap := h (db_roadmap d)\<rparr>))"
    "tx_keeps (same_chain_ids cs) (tx_modify (\<lambda>d. d\<lparr>db_roadmap := h (db_roadmap d)\<rparr>))" for f h
    by (intro keeps_exec_tables keeps_modify; simp add: same_tasks_def same_chain_ids_def)+
  show "tx_keeps (same_tasks ts ks) (roadmap_view_Fold evt)" "tx_keeps (same_chain_ids cs) (roadmap_view_Fold evt)"
    unfolding roadmap_view_Fold_def foldRoadmapUpdated_def roadmap_set_def roadmap_insert_def
      roadmap_update_def insertRoadmapRow_def refreshRoadmapRowsForRef_def cascadeDeleteRoadmapRows_def Let_def
    by (intro x keeps_intros)+
qed

lemma chain_id_same:
  assumes "map chain_id_row (db_chains d') = map chain_id_row (db_chains d)"
  shows "chain_id_by_slug d' = chain_id_by_slug d"
proof -
  have "map_option c_id (sql_first (\<lambda>c. c_project c = pid \<and> c_slug c = slug) cs)
      = map_option fst (sql_first (\<lambda>(i, p, s). p = pid \<and> s = slug) (map chain_id_row cs))" for pid slug cs
    by (induction cs) (auto simp: sql_first_def chain_id_row_def)
  then show ?thesis using assms by (simp add: chain_id_by_slug_def fun_eq_iff)
qed

text \<open>The task a chain-scoped event addresses.\<close>

definition addresses :: "db \<Rightarrow> string \<Rightarrow> string \<Rightarrow> int \<Rightarrow> task_row \<Rightarrow> bool" where
  "addresses d pid chainSlug cid t \<longleftrightarrow>
     chainSlug \<noteq> [] \<and> chain_id_by_slug d pid chainSlug = Some cid \<and> t \<in> set (db_tasks d) \<and> t_chain t = cid"

definition set_row :: "task_row \<Rightarrow> task_row \<Rightarrow> task_row list \<Rightarrow> task_row list" where
  "set_row t t' rows = map (\<lambda>x. if x = t then t' else x) rows"

lemma core_wf: "wf_db d \<Longrightarrow> wf_db (core d)"
  by (simp add: core_invariants)

lemma core_tables [simp]:
  "db_tasks (core d) = db_tasks d" "db_chains (core d) = db_chains d" "db_blockers (core d) = db_blockers d"
  by (simp_all add: core_eq)

text \<open>The row after a fold, for the payloads that change the status.\<close>

fun moved_row :: "raw_event \<Rightarrow> payload \<Rightarrow> task_row \<Rightarrow> task_row" where
  "moved_row evt (PTaskTransitioned p) t = task_stamp evt (t\<lparr>t_status := tt_to_status p, t_commit := None\<rparr>)"
| "moved_row evt (PTaskCompleted p) t = task_stamp evt (t\<lparr>t_status := ''closed'',
     t_commit := Some (deref_or [] (tp_commit_sha p)), t_handoff := deref_or [] (tp_closure_summary p)\<rparr>)"
| "moved_row evt (PTaskCancelled p) t = task_stamp evt (t\<lparr>t_status := ''cancelled''\<rparr>)"
| "moved_row evt (PTaskStamped p) t = task_stamp evt (t\<lparr>t_commit := Some (ts_commit_sha p)\<rparr>)"
| "moved_row evt _ t = t"

fun status_payload :: "payload \<Rightarrow> string option" where
  "status_payload (PTaskTransitioned p) = Some (tt_chain_slug p)"
| "status_payload (PTaskCompleted p) = Some (tp_chain_slug p)"
| "status_payload (PTaskCancelled p) = Some (tn_chain_slug p)"
| "status_payload (PTaskStamped p) = Some (ts_chain_slug p)"
| "status_payload _ = None"

lemma status_payload_kind: "status_payload p = Some cs \<Longrightarrow> payload_kind p = ''task''"
  by (cases p) simp_all

lemma current_tasks_moves:
  assumes "wf_db d" "carries evt pid p" "handler_payload p" "status_payload p = Some cs"
    and t: "addresses d pid cs cid t" "t_slug t = ev_slug evt"
  shows "current_tasks_Fold aff evt d = (Inr (), d\<lparr>db_tasks := set_row t (moved_row evt p t) (db_tasks d)\<rparr>)"
proof -
  have a: "cs \<noteq> []" "chain_id_by_slug d pid cs = Some cid" "t \<in> set (db_tasks d)" "task_key t = (cid, ev_slug evt)"
    using t by (auto simp: addresses_def task_key_def)
  have pid: "ev_project evt = Some pid" using assms(2) by (simp add: carries_def)
  note one = update_target_one [OF assms(1) a pid]
  have "task_check t" using assms(1) a(3) by (auto simp: wf_db_def wf_tasks_def list_all_iff)
  then show ?thesis
    using assms(2,3,4) carries_decoded [of evt pid] one
    by (cases p) (auto simp: current_tasks_Fold_def carries_def foldTaskTransitioned_def
        foldTaskCompleted_def foldTaskCancelled_def foldTaskStamped_def payload_eval tx_run set_row_def
        task_stamp_def task_check_def task_statuses_def)
qed

text \<open>The state in which the blocker fold runs, the last one to write.\<close>

lemma ingest_before_blockers:
  assumes wf: "wf_db d" and evt: "carries evt pid p" "handler_payload p" "status_payload p = Some cs"
    and t: "addresses d pid cs cid t" "t_slug t = ev_slug evt"
    and run: "ingest (work_projections aff) evt d = (Inr (), d')"
  obtains d3 where "wf_db d3" "db_tasks d3 = set_row t (moved_row evt p t) (db_tasks d)"
    "db_blockers d3 = db_blockers d" "map chain_id_row (db_chains d3) = map chain_id_row (db_chains d)"
    "task_blockers_Fold evt d3 = (Inr (), core d')"
proof -
  have k: "ev_kind evt = ''task''" "ev_type evt \<notin> {''ChainCreated'', ''ChainEdited'', ''ChainClosed''}"
    using evt by (cases p; auto simp: carries_def)+
  obtain d1 d2 d3 where d1: "current_tasks_Fold aff evt (core d) = (Inr (), d1)"
    and d2: "chain_status_Fold evt d1 = (Inr (), d2)" and d3: "roadmap_view_Fold evt d2 = (Inr (), d3)"
    and d4: "task_blockers_Fold evt d3 = (Inr (), core d')"
    by (rule ingest_task_steps [OF run k(1)])
  have wf3: "wf_db d3"
    using keepsD [OF roadmap_view_Fold_wf keepsD [OF chain_status_Fold_wf
          keepsD [OF current_tasks_Fold_wf core_wf [OF wf] d1] d2] d3] .
  have "addresses (core d) pid cs cid t" using t(1) by (simp add: addresses_def chain_id_by_slug_def)
  then have d1': "d1 = (core d)\<lparr>db_tasks := set_row t (moved_row evt p t) (db_tasks d)\<rparr>"
    using current_tasks_moves [OF core_wf [OF wf] evt _ t(2)] d1 by simp
  have e2: "same_tasks (db_tasks d1) (db_blockers d1) d2" "same_chain_ids (map chain_id_row (db_chains d1)) d2"
    by (rule keepsD [OF keeps_chain_fold(1) [OF k] _ d2], simp add: same_tasks_def)
      (rule keepsD [OF keeps_chain_fold(2) [OF k] _ d2], simp add: same_chain_ids_def)
  have e3: "same_tasks (db_tasks d2) (db_blockers d2) d3" "same_chain_ids (map chain_id_row (db_chains d2)) d3"
    by (rule keepsD [OF keeps_roadmap_fold(1) _ d3], simp add: same_tasks_def)
      (rule keepsD [OF keeps_roadmap_fold(2) _ d3], simp add: same_chain_ids_def)
  show ?thesis
    using e2 e3 d1' by (intro that [OF wf3 _ _ _ d4]) (simp_all add: same_tasks_def same_chain_ids_def)
qed

lemma ingest_moves:
  assumes "wf_db d" "carries evt pid p" "handler_payload p" "status_payload p = Some cs"
    and "addresses d pid cs cid t" "t_slug t = ev_slug evt"
    and "ingest (work_projections aff) evt d = (Inr (), d')"
  shows "db_tasks d' = set_row t (moved_row evt p t) (db_tasks d)"
    "map chain_id_row (db_chains d') = map chain_id_row (db_chains d)"
proof -
  obtain d3 where d3: "db_tasks d3 = set_row t (moved_row evt p t) (db_tasks d)"
    "map chain_id_row (db_chains d3) = map chain_id_row (db_chains d)" "task_blockers_Fold evt d3 = (Inr (), core d')"
    by (rule ingest_before_blockers [OF assms])
  note e4 = frame_fold [OF same_work_folds(5) d3(3)]
  show "db_tasks d' = set_row t (moved_row evt p t) (db_tasks d)"
    "map chain_id_row (db_chains d') = map chain_id_row (db_chains d)"
    using d3 e4 by simp_all
qed

text \<open>The edges after a close, and after a transition that names no blocker.\<close>

lemma close_slug_carried:
  "carries evt pid (PTaskCompleted p) \<Longrightarrow> close_chain_slug evt = tp_chain_slug p"
  "carries evt pid (PTaskCancelled q) \<Longrightarrow> close_chain_slug evt = tn_chain_slug q"
  by (auto simp: carries_def close_chain_slug_def marshal_TaskCompletedPayload_def
      marshal_TaskCancelledPayload_def omit_vals_def)

lemma moved_frame:
  "t_id (moved_row evt p t) = t_id t" "t_chain (moved_row evt p t) = t_chain t"
  "t_slug (moved_row evt p t) = t_slug t" "task_key (moved_row evt p t) = task_key t"
  "t_position (moved_row evt p t) = t_position t"
  by (cases p; simp add: task_stamp_def task_key_def)+

lemma set_row_frame:
  assumes "f t' = f t"
  shows "map f (set_row t t' rows) = map f rows"
  using assms by (auto simp: set_row_def)

lemma in_set_row: "x \<in> set (set_row t t' rows) \<longleftrightarrow> x \<in> set rows \<and> x \<noteq> t \<or> x = t' \<and> t \<in> set rows"
  by (auto simp: set_row_def)

fun edges_after :: "payload \<Rightarrow> int \<Rightarrow> blocker_row list \<Rightarrow> blocker_row list" where
  "edges_after (PTaskCompleted p) i ks = filter (\<lambda>k. k_blocked k \<noteq> i \<and> k_blocker k \<noteq> i) ks"
| "edges_after (PTaskCancelled p) i ks = filter (\<lambda>k. k_blocked k \<noteq> i \<and> k_blocker k \<noteq> i) ks"
| "edges_after _ i ks = ks"

fun names_no_blocker :: "payload \<Rightarrow> bool" where
  "names_no_blocker (PTaskTransitioned p) \<longleftrightarrow> tt_blocker_slug p = None \<and> tt_removed_blocker_slug p = None"
| "names_no_blocker _ \<longleftrightarrow> True"

lemma ingest_edges:
  assumes wf: "wf_db d" and evt: "carries evt pid p" "handler_payload p" "status_payload p = Some cs"
    and t: "addresses d pid cs cid t" "t_slug t = ev_slug evt"
    and run: "ingest (work_projections aff) evt d = (Inr (), d')" and none: "names_no_blocker p"
  shows "db_blockers d' = edges_after p (t_id t) (db_blockers d)"
proof -
  have k: "ev_kind evt = ''task''" "ev_project evt = Some pid"
    using evt(1) status_payload_kind [OF evt(3)] by (simp_all add: carries_def)
  obtain d3 where wf3: "wf_db d3" and ts: "db_tasks d3 = set_row t (moved_row evt p t) (db_tasks d)"
    and ks: "db_blockers d3 = db_blockers d" and cs3: "map chain_id_row (db_chains d3) = map chain_id_row (db_chains d)"
    and d4: "task_blockers_Fold evt d3 = (Inr (), core d')"
    by (rule ingest_before_blockers [OF wf evt t run])
  have cid: "chain_id_by_slug d3 pid cs = Some cid" "cs \<noteq> []"
    using chain_id_same [OF cs3] t(1) by (simp_all add: addresses_def)
  have "moved_row evt p t \<in> set (db_tasks d3)" "task_key (moved_row evt p t) = (cid, ev_slug evt)"
    using t by (auto simp: ts in_set_row addresses_def moved_frame task_key_def)
  note resolved = resolve_by_key [OF wf3 cid(2,1) this, unfolded moved_frame]
  show ?thesis
  proof (cases p)
    case (PTaskTransitioned q)
    then show ?thesis
      using d4 none evt(1) carries_decoded(1) [of evt pid q] ks resolved evt(3)
      by (auto simp: task_blockers_Fold_def carries_def foldTaskBlockersTransitioned_def payload_eval tx_run tx_apply
          dest: arg_cong [of _ _ db_blockers])
  next
    case (PTaskCompleted q)
    then show ?thesis
      using cleanup_drops_edges [OF k(1) _ k(2)] resolved d4 evt(1,3) close_slug_carried(1) [of evt pid q] ks
      by (auto simp: carries_def dest: arg_cong [of _ _ db_blockers])
  next
    case (PTaskCancelled q)
    then show ?thesis
      using cleanup_drops_edges [OF k(1) _ k(2)] resolved d4 evt(1,3) close_slug_carried(2) [of evt pid q] ks
      by (auto simp: carries_def dest: arg_cong [of _ _ db_blockers])
  next
    case (PTaskStamped q)
    then show ?thesis
      using d4 evt(1) ks by (auto simp: task_blockers_Fold_def carries_def tx_apply dest: arg_cong [of _ _ db_blockers])
  qed (use evt in auto)
qed

section \<open>The handlers' own steps\<close>

text \<open>Chains with a slug; every event that creates one has a slug, as \<open>Emit\<close> checks.\<close>

definition chains_named :: "db \<Rightarrow> bool" where
  "chains_named d \<longleftrightarrow> list_all (\<lambda>c. c_slug c \<noteq> []) (db_chains d)"

lemma chains_named_same:
  "map chain_id_row (db_chains d') = map chain_id_row (db_chains d) \<Longrightarrow> chains_named d' = chains_named d"
proof -
  have "chains_named x \<longleftrightarrow> list_all (\<lambda>(i, p, s). s \<noteq> []) (map chain_id_row (db_chains x))" for x
    by (simp add: chains_named_def list.pred_map o_def chain_id_row_def)
  then show "map chain_id_row (db_chains d') = map chain_id_row (db_chains d) \<Longrightarrow> chains_named d' = chains_named d"
    by simp
qed

lemma wf_chain_inj:
  assumes "wf_db d" "a \<in> set (db_chains d)" "b \<in> set (db_chains d)"
  shows "chain_key a = chain_key b \<Longrightarrow> a = b" "c_id a = c_id b \<Longrightarrow> a = b"
  using assms by (metis distinct_map inj_on_eq_iff wf_chains_def wf_db_def)+

lemma chain_by_key:
  assumes "wf_db d" "c \<in> set (db_chains d)"
  shows "chain_id_by_slug d (c_project c) (c_slug c) = Some (c_id c)"
proof -
  have "sql_first (\<lambda>x. c_project x = c_project c \<and> c_slug x = c_slug c) (db_chains d) = Some c"
    using assms(2) by (rule sql_first_unique) (auto intro: wf_chain_inj(1) [OF assms(1) _ assms(2)] simp: chain_key_def)
  then show ?thesis by (simp add: chain_id_by_slug_def)
qed

lemma chain_by_id:
  assumes "wf_db d" "c \<in> set (db_chains d)"
  shows "sql_first (\<lambda>x. c_id x = c_id c) (db_chains d) = Some c"
  using assms(2) by (rule sql_first_unique) (auto intro: wf_chain_inj(2) [OF assms(1) _ assms(2)])

lemma pick_Inr:
  assumes "(case all of [] \<Rightarrow> Inl a | [(t, c)] \<Rightarrow> Inr (f t)
     | _ \<Rightarrow> (case filter P all of [(t, c)] \<Rightarrow> Inr (f t) | _ \<Rightarrow> Inl b)) = Inr r"
  shows "\<exists>(t, c)\<in>set all. f t = r"
proof -
  have "\<exists>(t, c)\<in>set all. f t = r" if "filter P all = [(t, c)]" "f t = r" for t c
    using that by (metis (mono_tags, lifting) case_prodI filter_is_subset list.set_intros(1) subsetD)
  then show ?thesis using assms by (auto split: list.splits)
qed

lemma resolveTaskChainOn_Inr:
  assumes "resolveTaskChainOn d slug cs = Inr (cid, st)"
  obtains t c where "t \<in> set (db_tasks d)" "c \<in> set (db_chains d)" "t_slug t = slug" "t_chain t = cid"
    "t_status t = st" "c_id c = cid" "cs \<noteq> [] \<Longrightarrow> c_slug c = cs"
proof -
  have join: "(t, c) \<in> set (task_chain_join d) \<Longrightarrow> t \<in> set (db_tasks d) \<and> c \<in> set (db_chains d) \<and> c_id c = t_chain t"
    for t c by (auto simp: task_chain_join_def)
  show ?thesis
  proof (cases "cs = []")
    case False
    then obtain t c where "sql_first (\<lambda>(t, c). t_slug t = slug \<and> c_slug c = cs) (task_chain_join d) = Some (t, c)"
      "cid = t_chain t" "st = t_status t"
      using assms by (auto simp: resolveTaskChainOn_def split: option.splits)
    then show ?thesis using sql_first_Some [of _ "task_chain_join d"] join [of t c] by (intro that [of t c]) fastforce+
  next
    case True
    define all where
      "all = sort_key (\<lambda>(t, c). c_slug c) (filter (\<lambda>(t, c). t_slug t = slug) (task_chain_join d))"
    have "\<exists>(t, c)\<in>set all. (t_chain t, t_status t) = (cid, st)"
      by (intro pick_Inr [where a = "ErrTaskNotFound slug []" and P = "\<lambda>(t, c). t_status t \<noteq> ''cancelled''"
            and b = "ErrAmbiguousSlug slug (map (\<lambda>(t, c). c_slug c) all)"])
        (use assms True in \<open>simp only: resolveTaskChainOn_def Let_def all_def simp_thms if_False\<close>)
    then obtain t c where "(t, c) \<in> set (task_chain_join d)" "t_slug t = slug" "cid = t_chain t" "st = t_status t"
      by (auto simp: all_def)
    then show ?thesis using join True by (intro that [of t c]) auto
  qed
qed

section \<open>A handler's emit\<close>

lemma emit_entity_Inr:
  assumes "folds_work aff E" "handler_payload p" "emit_entity E c (payload_kind p) slug pid p w = (Inr i, w')"
  obtains raw where "carries raw pid p" "ev_slug raw = slug"
    "ingest (work_projections aff) raw (w_db w) = (Inr (), w_db w')"
proof -
  obtain raw w1 d where prep: "emit_prepare E c \<lparr>ea_entity = NewEntityRef (payload_kind p) slug pid, ea_payload = Some p,
      ea_rationale = None, ea_refs = no_refs\<rparr> w = (Inr raw, w1)"
    and run: "ingest (work_projections aff) raw (w_db w) = (Inr (), d)" "w' = w1\<lparr>w_db := d\<rparr>"
    using assms(3) unfolding emit_entity_def Emit_refines_ingest [OF assms(1)] by blast
  show ?thesis using prepared_event [OF prep assms(2)] run by (intro that) simp_all
qed

lemma emit_task_Inr:
  assumes "folds_work aff E" "handler_payload p" "payload_kind p = ''task''" "emit_task E c slug pid p w = (Inr i, w')"
  obtains raw where "carries raw pid p" "ev_slug raw = slug"
    "ingest (work_projections aff) raw (w_db w) = (Inr (), w_db w')"
  by (rule emit_entity_Inr [OF assms(1,2)]) (use assms(3,4) in \<open>simp_all add: emit_task_def\<close>)

lemma ingest_wf: "ingest (work_projections aff) raw d = (Inr (), d') \<Longrightarrow> wf_db d \<Longrightarrow> wf_db d'"
  by (rule runs_to_wf [of aff d d' "[raw]"]) (simp_all add: runs_to_def tx_simps)

text \<open>A successful emit for the task of row \<open>t\<close>, whose chain is given by its slug.\<close>

lemma emit_task_effect:
  assumes "folds_work aff E" "handler_payload p" "emit_task E c slug pid p w = (Inr i, w')"
    and "wf_db (w_db w)" "status_payload p = Some cs" "addresses (w_db w) pid cs cid t" "t_slug t = slug"
    and "names_no_blocker p"
  obtains raw where "carries raw pid p"
    "db_tasks (w_db w') = set_row t (moved_row raw p t) (db_tasks (w_db w))"
    "db_blockers (w_db w') = edges_after p (t_id t) (db_blockers (w_db w))"
    "map chain_id_row (db_chains (w_db w')) = map chain_id_row (db_chains (w_db w))" "wf_db (w_db w')"
proof -
  obtain raw where raw: "carries raw pid p" "ev_slug raw = slug"
    "ingest (work_projections aff) raw (w_db w) = (Inr (), w_db w')"
    by (rule emit_task_Inr [OF assms(1,2) status_payload_kind [OF assms(5)] assms(3)])
  have slug: "t_slug t = ev_slug raw" using raw(2) assms(7) by simp
  show ?thesis
    using ingest_moves [OF assms(4) raw(1) assms(2,5,6) slug raw(3)]
      ingest_edges [OF assms(4) raw(1) assms(2,5,6) slug raw(3) assms(8)] ingest_wf [OF raw(3) assms(4)]
    by (intro that [OF raw(1)])
qed

section \<open>The sweep\<close>

text \<open>\<open>swept cid S ts ts'\<close>: the rows of chain \<open>cid\<close> with a slug in \<open>S\<close> are pending, the rest as they were.\<close>

definition swept :: "int \<Rightarrow> string set \<Rightarrow> task_row list \<Rightarrow> task_row list \<Rightarrow> bool" where
  "swept cid S ts ts' \<longleftrightarrow> list_all2 (\<lambda>y x. t_id x = t_id y \<and> task_key x = task_key y \<and>
     (if t_chain y = cid \<and> t_slug y \<in> S then t_status x = ''pending'' else x = y)) ts ts'"

lemma swept_refl: "swept cid {} ts ts"
  by (auto simp: swept_def intro: list.rel_refl_strong)

lemma swept_trans:
  assumes "swept cid S ts ts1" "swept cid S' ts1 ts2"
  shows "swept cid (S \<union> S') ts ts2"
  unfolding swept_def
proof (rule list_all2_trans [OF _ assms [unfolded swept_def]], elim conjE, intro conjI)
  fix a b x assume ids: "t_id b = t_id a" "t_id x = t_id b" and keys: "task_key b = task_key a" "task_key x = task_key b"
    and ab: "if t_chain a = cid \<and> t_slug a \<in> S then t_status b = ''pending'' else b = a"
    and bx: "if t_chain b = cid \<and> t_slug b \<in> S' then t_status x = ''pending'' else x = b"
  show "t_id x = t_id a" "task_key x = task_key a" using ids keys by simp_all
  have "t_chain b = t_chain a" "t_slug b = t_slug a" using keys by (simp_all add: task_key_def)
  then show "if t_chain a = cid \<and> t_slug a \<in> S \<union> S' then t_status x = ''pending'' else x = a"
    using ab bx by (metis UnE UnI1 UnI2)
qed

lemma swept_one:
  assumes "wf_db d" "t \<in> set (db_tasks d)" "task_key t = (cid, s)" "t_status t' = ''pending''"
    "t_id t' = t_id t" "task_key t' = task_key t"
  shows "swept cid {s} (db_tasks d) (set_row t t' (db_tasks d))"
proof -
  have key: "x = t" if "x \<in> set (db_tasks d)" "task_key x = task_key t" for x
    using assms(1,2) that by (auto simp: wf_db_def wf_tasks_def distinct_map inj_on_def)
  show ?thesis
    unfolding swept_def set_row_def list.rel_map
  proof (rule list.rel_refl_strong)
    fix y assume y: "y \<in> set (db_tasks d)"
    have "t_chain y = cid \<and> t_slug y \<in> {s} \<longleftrightarrow> y = t"
      using key [OF y] assms(3) by (auto simp: task_key_def)
    then show "t_id (if y = t then t' else y) = t_id y \<and> task_key (if y = t then t' else y) = task_key y \<and>
      (if t_chain y = cid \<and> t_slug y \<in> {s} then t_status (if y = t then t' else y) = ''pending''
       else (if y = t then t' else y) = y)"
      using assms(4,5,6) by simp
  qed
qed

lemma swept_keys: "swept cid S ts ts' \<Longrightarrow> task_key ` set ts' = task_key ` set ts"
proof -
  assume "swept cid S ts ts'"
  then have "list_all2 (\<lambda>y x. task_key y = task_key x) ts ts'" unfolding swept_def by (rule list_all2_mono) simp
  then have "map task_key ts = map task_key ts'" by (simp add: list_all2_conv_all_nth list_eq_iff_nth_eq)
  then show ?thesis by (metis list.set_map)
qed

definition sweep_payload :: "string \<Rightarrow> payload" where
  "sweep_payload canonical = PTaskTransitioned
     \<lparr>tt_chain_slug = canonical, tt_from_status = ''blocked'', tt_to_status = ''pending'',
      tt_blocker_slug = None, tt_removed_blocker_slug = None\<rparr>"

lemma tx_foreach_Cons_Inr:
  "tx_foreach (\<lambda>x. tx_bind (f x) (\<lambda>_. tx_return ())) (x # xs) s = (Inr (), s') \<longleftrightarrow>
   (\<exists>a s1. f x s = (Inr a, s1) \<and> tx_foreach (\<lambda>x. tx_bind (f x) (\<lambda>_. tx_return ())) xs s1 = (Inr (), s'))"
proof -
  have "tx_foreach g (x # xs) s = (Inr (), s') \<longleftrightarrow> (\<exists>s1. g x s = (Inr (), s1) \<and> tx_foreach g xs s1 = (Inr (), s'))"
    for g by (simp add: tx_simps)
  then show ?thesis by (auto simp: tx_simps)
qed

lemma sweep_loop:
  assumes "folds_work aff E" "canonical \<noteq> []"
    and "tx_foreach (\<lambda>slug. tx_bind (emit_task E c slug pid (sweep_payload canonical)) (\<lambda>_. tx_return ())) slugs w
      = (Inr (), w')"
    and "wf_db (w_db w)" "chain_id_by_slug (w_db w) pid canonical = Some cid"
    and "\<forall>s\<in>set slugs. (cid, s) \<in> task_key ` set (db_tasks (w_db w))"
  shows "swept cid (set slugs) (db_tasks (w_db w)) (db_tasks (w_db w')) \<and>
    db_blockers (w_db w') = db_blockers (w_db w) \<and>
    map chain_id_row (db_chains (w_db w')) = map chain_id_row (db_chains (w_db w))"
  using assms(3-)
proof (induction slugs arbitrary: w)
  case Nil
  then show ?case by (simp add: tx_simps swept_refl)
next
  case (Cons s slugs)
  obtain i w1 where emit: "emit_task E c s pid (sweep_payload canonical) w = (Inr i, w1)"
    and rest: "tx_foreach (\<lambda>slug. tx_bind (emit_task E c slug pid (sweep_payload canonical)) (\<lambda>_. tx_return ())) slugs w1
      = (Inr (), w')"
    using Cons.prems(1) unfolding tx_foreach_Cons_Inr by blast
  obtain t where t: "t \<in> set (db_tasks (w_db w))" "task_key t = (cid, s)" using Cons.prems(4) by auto
  have adr: "addresses (w_db w) pid canonical cid t" "t_slug t = s"
    using t Cons.prems(3) assms(2) by (auto simp: addresses_def task_key_def)
  obtain raw where eff: "db_tasks (w_db w1) = set_row t (moved_row raw (sweep_payload canonical) t) (db_tasks (w_db w))"
    "db_blockers (w_db w1) = edges_after (sweep_payload canonical) (t_id t) (db_blockers (w_db w))"
    "map chain_id_row (db_chains (w_db w1)) = map chain_id_row (db_chains (w_db w))" "wf_db (w_db w1)"
    by (rule emit_task_effect [OF assms(1) _ emit Cons.prems(2) _ adr]) (auto simp: sweep_payload_def)
  have one: "swept cid {s} (db_tasks (w_db w)) (db_tasks (w_db w1))"
    unfolding eff(1) by (rule swept_one [OF Cons.prems(2) t]) (simp_all add: moved_frame, simp add: sweep_payload_def task_stamp_def)
  have "swept cid (set slugs) (db_tasks (w_db w1)) (db_tasks (w_db w')) \<and> db_blockers (w_db w') = db_blockers (w_db w1) \<and>
    map chain_id_row (db_chains (w_db w')) = map chain_id_row (db_chains (w_db w1))"
    using Cons.prems(3,4) swept_keys [OF one] by (intro Cons.IH rest eff(4)) (simp_all add: chain_id_same [OF eff(3)])
  then show ?case using swept_trans [OF one] eff by (auto simp: sweep_payload_def)
qed

section \<open>A successful transition\<close>

lemma cleanup_no_effect: "(if b then cleanupBlockersAfterClose chainID slug else tx_return ()) = tx_return ()"
  by (auto simp: cleanupBlockersAfterClose_def tx_bind_def tx_apply fun_eq_iff split: option.splits)

lemma transition_Inr:
  assumes env: "folds_work aff E" "toStatus \<in> {''pending'', ''active'', ''blocked'', ''closed'', ''cancelled''}"
    and db: "wf_db (w_db w)" "chains_named (w_db w)"
    and run: "transitionTaskWithBlockerEdgesInTx E c slug toStatus cs h sha [] [] w = (Inr i, w')"
  obtains t ch w1 raw p where "t \<in> set (db_tasks (w_db w))" "t_slug t = slug"
    "ch \<in> set (db_chains (w_db w))" "c_id ch = t_chain t" "cs \<noteq> [] \<Longrightarrow> c_slug ch = cs"
    "checkTaskTransition slug (t_status t) toStatus h = None"
    "p = buildTaskTransitionPayload (c_slug ch) (t_status t) toStatus h sha [] []"
    "db_tasks (w_db w1) = set_row t (moved_row raw p t) (db_tasks (w_db w))"
    "db_blockers (w_db w1) = edges_after p (t_id t) (db_blockers (w_db w))"
    "map chain_id_row (db_chains (w_db w1)) = map chain_id_row (db_chains (w_db w))" "wf_db (w_db w1)"
    "if toStatus = ''closed'' then sweepProseOnlyBlockedAfterClose E c (t_chain t) (c_project ch) slug w1 = (Inr (), w')
     else w' = w1"
    "resolveTaskChainOn (w_db w) slug cs = Inr (t_chain t, t_status t)"
proof -
  obtain cid st pid w1 where res: "resolveTaskChainOn (w_db w) slug cs = Inr (cid, st)"
    and chk: "checkTaskTransition slug st toStatus h = None"
    and proj: "lookupChainProjectOn (w_db w) cid = Inr pid"
    and emit: "emit_task E c slug pid (buildTaskTransitionPayload
        (if cs = [] then lookupChainSlug (w_db w) cid else cs) st toStatus h sha [] []) w = (Inr i, w1)"
    and rest: "(if toStatus = ''closed'' then sweepProseOnlyBlockedAfterClose E c cid pid slug else tx_return ()) w1 = (Inr (), w')"
    using run unfolding transitionTaskWithBlockerEdgesInTx_def Let_def cleanup_no_effect
    by (clarsimp simp: tx_bind_Inr tx_then_Inr tx_of_Inr tx_check_Inr tx_apply simp del: if_split)
  obtain t ch where t: "t \<in> set (db_tasks (w_db w))" "ch \<in> set (db_chains (w_db w))" "t_slug t = slug"
    "t_chain t = cid" "t_status t = st" "c_id ch = cid" "cs \<noteq> [] \<longrightarrow> c_slug ch = cs"
    using resolveTaskChainOn_Inr [OF res] by metis
  have pid: "pid = c_project ch" and canonical: "(if cs = [] then lookupChainSlug (w_db w) cid else cs) = c_slug ch"
    using chain_by_id [OF db(1) t(2)] proj t(6,7) by (auto simp: lookupChainProjectOn_def lookupChainSlug_def)
  have named: "c_slug ch \<noteq> []" using db(2) t(2) by (auto simp: chains_named_def list_all_iff)
  define p where "p = buildTaskTransitionPayload (c_slug ch) st toStatus h sha [] []"
  have p: "handler_payload p" "status_payload p = Some (c_slug ch)" "names_no_blocker p"
    using env(2) build_payload by (auto simp: p_def buildTaskTransitionPayload_def nonempty_ptr_def)
  have adr: "addresses (w_db w) pid (c_slug ch) cid t"
    using t named chain_by_key [OF db(1) t(2)] by (simp add: addresses_def pid)
  have emit': "emit_task E c slug pid p w = (Inr i, w1)" using emit by (simp add: p_def canonical)
  obtain raw where eff: "db_tasks (w_db w1) = set_row t (moved_row raw p t) (db_tasks (w_db w))"
    "db_blockers (w_db w1) = edges_after p (t_id t) (db_blockers (w_db w))"
    "map chain_id_row (db_chains (w_db w1)) = map chain_id_row (db_chains (w_db w))" "wf_db (w_db w1)"
    using emit_task_effect [OF env(1) p(1) emit' db(1) p(2) adr t(3) p(3)] by metis
  show ?thesis
    by (rule that [OF t(1,3,2) _ t(7) [rule_format] _ _ eff]) (use chk rest t pid res in \<open>auto simp: p_def tx_simps split: if_splits\<close>)
qed

text \<open>Every transition but a close rewrites the row it addresses and no other.\<close>

lemma transition_moves_one:
  assumes "folds_work aff E" "toStatus \<in> {''pending'', ''active'', ''blocked'', ''cancelled''}"
    and "wf_db (w_db w)" "chains_named (w_db w)"
    and "transitionTaskWithBlockerEdgesInTx E c slug toStatus cs h sha [] [] w = (Inr i, w')"
  obtains t t' where "t \<in> set (db_tasks (w_db w))" "t_slug t = slug"
    "checkTaskTransition slug (t_status t) toStatus h = None"
    "db_tasks (w_db w') = set_row t t' (db_tasks (w_db w))" "t_status t' = toStatus" "t_id t' = t_id t"
    "task_key t' = task_key t"
    "db_blockers (w_db w') = (if toStatus = ''cancelled''
       then filter (\<lambda>k. k_blocked k \<noteq> t_id t \<and> k_blocker k \<noteq> t_id t) (db_blockers (w_db w)) else db_blockers (w_db w))"
    "resolveTaskChainOn (w_db w) slug cs = Inr (t_chain t, t_status t)"
proof -
  have st: "toStatus \<in> {''pending'', ''active'', ''blocked'', ''closed'', ''cancelled''}" "toStatus \<noteq> ''closed''"
    using assms(2) by auto
  show ?thesis
  proof (rule transition_Inr [OF assms(1) st(1) assms(3-5)])
    fix t ch w1 raw p
    assume t: "t \<in> set (db_tasks (w_db w))" "t_slug t = slug" "checkTaskTransition slug (t_status t) toStatus h = None"
      and p: "p = buildTaskTransitionPayload (c_slug ch) (t_status t) toStatus h sha [] []"
      and eff: "db_tasks (w_db w1) = set_row t (moved_row raw p t) (db_tasks (w_db w))"
        "db_blockers (w_db w1) = edges_after p (t_id t) (db_blockers (w_db w))"
      and w': "if toStatus = ''closed'' then sweepProseOnlyBlockedAfterClose E c (t_chain t) (c_project ch) slug w1 = (Inr (), w')
        else w' = w1"
      and res: "resolveTaskChainOn (w_db w) slug cs = Inr (t_chain t, t_status t)"
    have "t_status (moved_row raw p t) = toStatus"
      "edges_after p (t_id t) ks = (if toStatus = ''cancelled''
         then filter (\<lambda>k. k_blocked k \<noteq> t_id t \<and> k_blocker k \<noteq> t_id t) ks else ks)" for ks
      using st(2) by (simp_all add: p buildTaskTransitionPayload_def task_stamp_def)
    then show ?thesis using w' st(2) eff res by (intro that [OF t, of "moved_row raw p t"]) (simp_all add: moved_frame)
  qed
qed

text \<open>A close, with its sweep.\<close>

definition has_edge :: "blocker_row list \<Rightarrow> task_row \<Rightarrow> bool" where
  "has_edge ks t \<longleftrightarrow> list_ex (\<lambda>k. k_blocked k = t_id t) ks"

lemma order_by_set: "set (order_by key rows) = set rows"
proof -
  have "set (insort_by key r xs) = insert r (set xs)" for r xs by (induction xs) auto
  then show ?thesis unfolding order_by_def by (induction rows) auto
qed

lemma sweep_Inr:
  assumes env: "folds_work aff E" and db: "wf_db (w_db w)" "chains_named (w_db w)"
    and ch: "ch \<in> set (db_chains (w_db w))"
    and run: "sweepProseOnlyBlockedAfterClose E c (c_id ch) (c_project ch) slug w = (Inr (), w')"
  shows "swept (c_id ch) (set (sweep_slugs (w_db w) (c_id ch) slug)) (db_tasks (w_db w)) (db_tasks (w_db w'))"
    "db_blockers (w_db w') = db_blockers (w_db w)"
proof -
  let ?S = "sweep_slugs (w_db w) (c_id ch) slug"
  have canonical: "lookupChainSlug (w_db w) (c_id ch) = c_slug ch" "c_slug ch \<noteq> []"
    using chain_by_id [OF db(1) ch] db(2) ch by (auto simp: lookupChainSlug_def chains_named_def list_all_iff)
  have keys: "\<forall>s\<in>set ?S. (c_id ch, s) \<in> task_key ` set (db_tasks (w_db w))"
    by (force simp: sweep_slugs_def order_by_set task_key_def)
  have "?S = [] \<and> w' = w \<or> tx_foreach (\<lambda>slug. tx_bind (emit_task E c slug (c_project ch) (sweep_payload (c_slug ch)))
      (\<lambda>_. tx_return ())) ?S w = (Inr (), w')"
    using run unfolding sweepProseOnlyBlockedAfterClose_def sweep_payload_def
    by (auto simp: tx_bind_def tx_apply canonical split: if_splits)
  then have "swept (c_id ch) (set ?S) (db_tasks (w_db w)) (db_tasks (w_db w')) \<and> db_blockers (w_db w') = db_blockers (w_db w)"
    using sweep_loop [OF env canonical(2) _ db(1) chain_by_key [OF db(1) ch] keys] swept_refl by auto
  then show "swept (c_id ch) (set ?S) (db_tasks (w_db w)) (db_tasks (w_db w'))" "db_blockers (w_db w') = db_blockers (w_db w)"
    by simp_all
qed

text \<open>
  What a close with closing row \<open>t\<close> does to another row \<open>y\<close> of the table: pending when
  it was blocked in the same chain and no edge is left that blocks it, and otherwise as it was.
\<close>

definition released :: "blocker_row list \<Rightarrow> task_row \<Rightarrow> task_row \<Rightarrow> bool" where
  "released ks t y \<longleftrightarrow> t_chain y = t_chain t \<and> t_slug y \<noteq> t_slug t \<and> t_status y = ''blocked'' \<and> \<not> has_edge ks y"

definition closes :: "task_row \<Rightarrow> blocker_row list \<Rightarrow> string option \<Rightarrow> string option \<Rightarrow> task_row \<Rightarrow> task_row \<Rightarrow> bool" where
  "closes t ks h sha y x \<longleftrightarrow> t_id x = t_id y \<and> task_key x = task_key y \<and>
     (if y = t then t_status x = ''closed'' \<and> t_commit x = Some (deref_or [] sha) \<and> t_handoff x = deref_or [] h
      else if released ks t y then t_status x = ''pending'' else x = y)"

lemma wf_task_key: "wf_db d \<Longrightarrow> x \<in> set (db_tasks d) \<Longrightarrow> y \<in> set (db_tasks d) \<Longrightarrow> task_key x = task_key y \<Longrightarrow> x = y"
  by (auto simp: wf_db_def wf_tasks_def distinct_map inj_on_def)

lemma sweep_slugs_iff:
  assumes "wf_db d" "y \<in> set (db_tasks d)" "t_chain y = cid"
  shows "t_slug y \<in> set (sweep_slugs d cid slug) \<longleftrightarrow>
    t_status y = ''blocked'' \<and> t_slug y \<noteq> slug \<and> \<not> has_edge (db_blockers d) y"
proof -
  have "x = y" if "x \<in> set (db_tasks d)" "t_chain x = cid" "t_slug y = t_slug x" for x
    using wf_task_key [OF assms(1) that(1) assms(2)] that assms(3) by (simp add: task_key_def)
  then show ?thesis using assms(2,3) unfolding sweep_slugs_def order_by_set has_edge_def set_map set_filter by blast
qed

lemma close_effect:
  assumes env: "folds_work aff E" and db: "wf_db (w_db w)" "chains_named (w_db w)"
    and run: "transitionTaskWithBlockerEdgesInTx E c slug ''closed'' cs h sha [] [] w = (Inr i, w')"
  obtains t where "t \<in> set (db_tasks (w_db w))" "t_slug t = slug"
    "checkTaskTransition slug (t_status t) ''closed'' h = None"
    "db_blockers (w_db w') = filter (\<lambda>k. k_blocked k \<noteq> t_id t \<and> k_blocker k \<noteq> t_id t) (db_blockers (w_db w))"
    "list_all2 (closes t (db_blockers (w_db w')) h sha) (db_tasks (w_db w)) (db_tasks (w_db w'))"
proof (rule transition_Inr [OF env _ db run])
  fix t ch w1 raw p
  assume t: "t \<in> set (db_tasks (w_db w))" "t_slug t = slug" "checkTaskTransition slug (t_status t) ''closed'' h = None"
    and ch: "ch \<in> set (db_chains (w_db w))" "c_id ch = t_chain t"
    and p: "p = buildTaskTransitionPayload (c_slug ch) (t_status t) ''closed'' h sha [] []"
    and eff: "db_tasks (w_db w1) = set_row t (moved_row raw p t) (db_tasks (w_db w))"
      "db_blockers (w_db w1) = edges_after p (t_id t) (db_blockers (w_db w))"
      "map chain_id_row (db_chains (w_db w1)) = map chain_id_row (db_chains (w_db w))" "wf_db (w_db w1)"
    and w': "if ''closed'' = ''closed'' then sweepProseOnlyBlockedAfterClose E c (t_chain t) (c_project ch) slug w1 = (Inr (), w')
      else w' = w1"
  define m where "m = moved_row raw p t"
  have m: "t_status m = ''closed''" "t_commit m = Some (deref_or [] sha)" "t_handoff m = deref_or [] h"
    "t_id m = t_id t" "task_key m = task_key t" "t_slug m = slug"
    by (simp_all add: m_def moved_frame t(2)) (simp_all add: p buildTaskTransitionPayload_def task_stamp_def)
  obtain ch1 where ch1: "ch1 \<in> set (db_chains (w_db w1))" "chain_id_row ch1 = chain_id_row ch"
    using ch(1) eff(3) by (metis (no_types, lifting) imageE image_eqI image_set)
  then have sw: "sweepProseOnlyBlockedAfterClose E c (c_id ch1) (c_project ch1) slug w1 = (Inr (), w')" "c_id ch1 = t_chain t"
    using w' ch(2) by (simp_all add: chain_id_row_def)
  have named: "chains_named (w_db w1)" using chains_named_same [OF eff(3)] db(2) by simp
  note swept = sweep_Inr [OF env eff(4) named ch1(1) sw(1), unfolded sw(2)]
  let ?ks = "db_blockers (w_db w')"
  have "list_all2 (\<lambda>y x. closes t ?ks h sha y x) (db_tasks (w_db w)) (db_tasks (w_db w'))"
    unfolding list_all2_conv_all_nth
  proof (intro conjI allI impI)
    show len: "length (db_tasks (w_db w)) = length (db_tasks (w_db w'))"
      using swept(1) eff(1) by (auto simp: swept_def set_row_def dest: list_all2_lengthD)
    fix n assume n: "n < length (db_tasks (w_db w))"
    define y x z where "y = db_tasks (w_db w) ! n" and "x = db_tasks (w_db w') ! n" and "z = db_tasks (w_db w1) ! n"
    have n1: "n < length (db_tasks (w_db w1))" using n by (simp add: eff(1) set_row_def)
    have z: "z = (if y = t then m else y)" using n by (simp add: z_def y_def eff(1) set_row_def m_def)
    have zin: "z \<in> set (db_tasks (w_db w1))" unfolding z_def using n1 by (rule nth_mem)
    have zx: "t_id x = t_id z" "task_key x = task_key z"
      "if t_chain z = t_chain t \<and> t_slug z \<in> set (sweep_slugs (w_db w1) (t_chain t) slug) then t_status x = ''pending'' else x = z"
      using swept(1) n eff(1) by (auto simp: swept_def list_all2_conv_all_nth set_row_def x_def z_def)
    have in_sweep: "t_chain z = t_chain t \<and> t_slug z \<in> set (sweep_slugs (w_db w1) (t_chain t) slug) \<longleftrightarrow>
        y \<noteq> t \<and> released ?ks t y"
      using sweep_slugs_iff [OF eff(4) zin] z m(6) t(2) by (auto simp: released_def swept(2))
    show "closes t ?ks h sha (db_tasks (w_db w) ! n) (db_tasks (w_db w') ! n)"
      using zx z m unfolding y_def [symmetric] x_def [symmetric] in_sweep by (auto simp: closes_def)
  qed
  then show ?thesis
    using eff(2) swept(2) by (intro that [OF t]) (simp_all add: p buildTaskTransitionPayload_def)
qed simp

end
