(* ===== verification/Task_Samples.thy ===== *)
theory Task_Samples
  imports Task_Effects Sample_Runs
begin

text \<open>
  A concrete service for the witnesses: schemas that accept every payload, a clock that stands
  still, the fold hook of the work projections, and small task tables.
\<close>

definition ok_env :: emit_env where
  "ok_env = \<lparr>em_ms = (\<lambda>_. 0), em_ts = (\<lambda>_. ''t9''), em_rand_id = (\<lambda>_. Some (replicate 16 0)),
     em_rand_span = (\<lambda>_. Some (replicate 16 0)),
     em_schemas = Inr \<lparr>sch_envelope = (\<lambda>_. True), sch_payloads = map (\<lambda>t. (t, \<lambda>_. True))
       [''TaskTransitioned'', ''TaskCompleted'', ''TaskCancelled'', ''TaskStamped'', ''TaskEdited'', ''BugResolved'',
        ''BugReopened'', ''ChainClosed'', ''BatchExecuted'']\<rparr>,
     em_hook = None, em_begin = (\<lambda>_. None), em_commit = (\<lambda>_. None)\<rparr>"

definition live_env :: emit_env where
  "live_env = SetFoldHook (FoldAll (work_projections no_affinity)) ok_env"

definition ok_ctx :: ctx where
  "ok_ctx = \<lparr>cx_actor = None, cx_span = Some ''s'', cx_rationale = None, cx_session = None, cx_gid = 7\<rparr>"

text \<open>No git and no files.\<close>

definition no_git :: stamp_env where
  "no_git = \<lparr>st_project_path = \<lambda>_. [], st_git_message = \<lambda>_ _. None\<rparr>"

text \<open>A construct package whose edit records an edit of task \<open>z\<close>, and that creates nothing.\<close>

definition ex_deps :: TableDeps where
  "ex_deps = \<lparr>dp_has_pool = True, dp_has_schemas = True, dp_ForgeEditInTx = Some (\<lambda>c project params.
      emit_entity live_env c ''task'' ''z'' project
        (PTaskEdited \<lparr>te_chain_slug = ''c'', te_updated_fields = [], te_updated_values = []\<rparr>)),
     dp_ForgeCreateInTx = None\<rparr>"

lemma ex_deps_evolve: "seams_evolve no_affinity ex_deps"
proof -
  have "folds_work no_affinity live_env" by (simp add: live_env_def)
  then show ?thesis by (auto simp: seams_evolve_def ex_deps_def gm_sorted_def intro!: evolves_emit_entity)
qed

definition mk_world :: "db \<Rightarrow> world" where
  "mk_world d = \<lparr>w_db = d, w_ids = uuid_init, w_count = 0, w_owner = 0,
     w_direct = \<lparr>dt_chain_deps = [], dt_reassessed = None\<rparr>\<rparr>"

definition raw_args :: "(string \<times> string) list \<Rightarrow> raw_params" where
  "raw_args fs = RawJson (JObj (map (\<lambda>(k, v). (k, JStr v)) fs))"

text \<open>Task \<open>a\<close> is active, \<open>p\<close> is blocked in prose only, \<open>q\<close> is blocked by \<open>a\<close> and by \<open>z\<close>.\<close>

definition ex_work :: db where
  "ex_work = empty_db\<lparr>db_chains := [(mk_chain 1 ''c'' 4 1)\<lparr>c_active := 1, c_blocked := 2\<rparr>],
     db_tasks := [(mk_task 1 1 ''a'')\<lparr>t_status := ''active''\<rparr>, (mk_task 2 1 ''p'')\<lparr>t_status := ''blocked''\<rparr>,
       (mk_task 3 1 ''q'')\<lparr>t_status := ''blocked''\<rparr>, mk_task 4 1 ''z''],
     db_blockers := map (\<lambda>i. \<lparr>k_blocked = 3, k_blocker = i, k_reason = [], k_created = ''t0'',
       k_last_id = ''e0'', k_last_ts = ''t0''\<rparr>) [1, 4]\<rparr>"

lemma FoldAll_work:
  "FoldAll (work_projections aff) = (\<lambda>evt. tx_foreach (\<lambda>p.
       tx_then (p_Fold p evt) (WriteWatermark (p_Name p) (ev_id evt) (ev_ts evt)))
       [currentBugs, currentSuggestions, currentTasks aff, chainStatus,
        currentMemories, roadmapView, taskBlockers])"
  by (simp add: FoldAll_def with_All_def work_projections_sorted fun_eq_iff)

definition statuses :: "world \<Rightarrow> (string \<times> string) list" where
  "statuses w = map (\<lambda>t. (t_slug t, t_status t)) (db_tasks (w_db w))"

lemma complete_eval:
  "(case HandleTaskComplete live_env ok_ctx (raw_args [(''slug'', ''a'')]) (mk_world ex_work) of (r, w) \<Rightarrow>
     map_sum id tr_ok r = Inr True \<and>
     statuses w = [(''a'', ''closed''), (''p'', ''pending''), (''q'', ''blocked''), (''z'', ''pending'')] \<and> w_owner w = 0)"
  unfolding live_env_def FoldAll_work by code_simp

text \<open>A fold hook that fails.\<close>

definition broken_env :: emit_env where
  "broken_env = SetFoldHook (\<lambda>_. tx_fail ErrNoRows) ok_env"

text \<open>Two projects with a chain \<open>c\<close> and a task \<open>a\<close> each; the task with id 2 is cancelled.\<close>

definition ex_projects :: db where
  "ex_projects = empty_db\<lparr>db_chains := [mk_chain 1 ''c'' 1 1, (mk_chain 2 ''c'' 1 1)\<lparr>c_project := ''r''\<rparr>],
     db_tasks := [mk_task 1 1 ''a'', mk_task 2 2 ''a'']\<rparr>"

lemma projects_eval:
  "(case HandleTaskCancel live_env ok_ctx (RawJson (JObj [(''id'', JInt 2)])) (mk_world ex_projects) of (r, w) \<Rightarrow>
     map_sum id tr_ok r = Inr True \<and>
     map (\<lambda>t. (t_id t, t_status t)) (db_tasks (w_db w)) = [(1, ''cancelled''), (2, ''pending'')])"
  unfolding live_env_def FoldAll_work by code_simp

text \<open>Task \<open>y\<close> of chain \<open>e\<close> waits for the active task \<open>a\<close> of chain \<open>c\<close>.\<close>

definition ex_cross :: db where
  "ex_cross = empty_db\<lparr>db_chains := [(mk_chain 1 ''c'' 1 0)\<lparr>c_active := 1\<rparr>, (mk_chain 2 ''e'' 1 0)\<lparr>c_blocked := 1\<rparr>],
     db_tasks := [(mk_task 1 1 ''a'')\<lparr>t_status := ''active''\<rparr>, (mk_task 2 2 ''y'')\<lparr>t_status := ''blocked''\<rparr>],
     db_blockers := [\<lparr>k_blocked = 2, k_blocker = 1, k_reason = [], k_created = ''t0'',
       k_last_id = ''e0'', k_last_ts = ''t0''\<rparr>]\<rparr>"

lemma cross_eval:
  "(case HandleTaskComplete live_env ok_ctx (raw_args [(''slug'', ''a'')]) (mk_world ex_cross) of (r, w) \<Rightarrow>
     map_sum id (\<lambda>x. (tr_ok x, tr_slug x)) r = Inr (True, ''a'') \<and> statuses w = [(''a'', ''closed''), (''y'', ''blocked'')] \<and>
     db_blockers (w_db w) = [])"
  unfolding live_env_def FoldAll_work by code_simp

end
