(* ===== verification/Task_Properties.thy ===== *)
theory Task_Properties
  imports Task_Samples
begin

text \<open>
  The task handlers: what a successful call does, what a refused call leaves, and, for the whole work
  service, what any sequence of calls keeps.
\<close>

section \<open>From a handler's answer to its transition\<close>

lemma report_Inr_cases:
  assumes "report f m w = (Inr r, w')"
  obtains (ok) "m w = (Inr r, w')" | (err) e where "m w = (Inl e, w')" "r = f e"
  using assms by (auto simp: report_def split: prod.splits sum.splits)

lemma answer_simps [simp]:
  "tr_ok (error_result e) = False" "tr_ok zero_result = False" "tr_ok (ok_result s st)"
  "tr_error (ok_result s st) = None" "tr_slug (ok_result s st) = s" "tr_error (error_result e) = Some e"
  by (simp_all add: error_result_def zero_result_def ok_result_def)

lemma captured_ok:
  assumes "run_captured E c fn w = (Inr res, w')" "tr_ok res"
    and fn: "\<And>w1 r i w2. fn w1 = (Inr (r, i), w2) \<Longrightarrow> tr_ok r \<Longrightarrow> tr_error r = None"
  obtains i w2 where "fn (w\<lparr>w_owner := cx_gid c\<rparr>) = (Inr (res, i), w2)" "w_db w' = w_db w2"
proof (cases rule: WithWrite_cases [of E c fn w])
  case (rolled_back e)
  then obtain w1 where "WithWrite E c fn w = (Inl e, w1)" by (metis prod.collapse)
  then show ?thesis
    using assms fn by (auto simp: run_captured_def WithWrite_capture_def split: if_splits prod.splits sum.splits option.splits)
next
  case (committed a w2)
  then show ?thesis
    using assms(1) by (cases a) (auto simp: run_captured_def WithWrite_capture_def intro: that)
qed

lemma complete_InTx_ok:
  assumes "HandleTaskCompleteInTx E c d params w = (Inr (res, i), w')" "tr_ok res"
  obtains h sha cs where "transitionTaskWithBlockerEdgesInTx E c (tr_slug res) ''closed'' cs h sha [] [] w = (Inr i, w')"
    "tr_error res = None" "deref_or [] sha = tr_commit res"
proof -
  have "\<exists>h sha cs slug. transitionTaskWithBlockerEdgesInTx E c slug ''closed'' cs h (nonempty_ptr sha) [] [] w = (Inr i, w') \<and>
      res = (ok_result slug ''closed'')\<lparr>tr_commit := sha\<rparr>"
    using assms
    by (auto simp: HandleTaskCompleteInTx_def Let_def tx_simps split: if_splits elim!: report_Inr_cases) blast+
  then obtain h sha cs slug where
    run: "transitionTaskWithBlockerEdgesInTx E c slug ''closed'' cs h (nonempty_ptr sha) [] [] w = (Inr i, w')"
    and res: "res = (ok_result slug ''closed'')\<lparr>tr_commit := sha\<rparr>" by blast
  show ?thesis using run by (intro that [of cs h "nonempty_ptr sha"]) (simp_all add: res nonempty_ptr_def)
qed

lemma start_InTx_ok:
  assumes "HandleTaskStartInTx E c d params w = (Inr (res, i), w')" "tr_ok res"
  obtains cs w1 where "autoClearStatusOnlyBlockedIfNeededInTx E c (tr_slug res) cs w = (Inr (), w1)"
    "transitionTaskWithBlockerEdgesInTx E c (tr_slug res) ''active'' cs None None [] [] w1 = (Inr i, w')"
    "res = ok_result (tr_slug res) ''active''"
  using assms
  by (auto simp: HandleTaskStartInTx_def tx_simps split: if_splits elim!: report_Inr_cases intro: that)

lemma handle_transition_cases:
  assumes "handle_transition action toStatus E c params w = (r, w')"
  obtains (moved) slug cs i w2 where "r = Inr (ok_result slug toStatus)" "w_db w' = w_db w2"
      "transitionTaskWithBlockerEdgesInTx E c slug toStatus cs None None [] [] (w\<lparr>w_owner := cx_gid c\<rparr>) = (Inr i, w2)"
      "\<exists>p. decode_params unmarshal_taskTransitionParams params = Inr p \<and>
        resolveTransitionIdentifier (w_db w) (resolvedSlug p) (resolvedID p) (resolvedChain p) = Inr (slug, cs)"
    | (refused) "\<not> (\<exists>res. r = Inr res \<and> tr_ok res)" "w_db w' = w_db w"
proof -
  have inner: "(\<exists>i w2. m w = (Inr (), w2\<lparr>w_owner := 0\<rparr>) \<and>
        transitionTaskWithBlockerEdgesInTx E c slug toStatus cs None None [] [] (w\<lparr>w_owner := cx_gid c\<rparr>) = (Inr i, w2)) \<or>
      (\<exists>e w1. m w = (Inl e, w1) \<and> w_db w1 = w_db w)"
    if m: "m = transitionTask E c slug toStatus cs None None" for slug cs m
  proof (cases rule: WithWrite_cases [of E c "tx_bind (transitionTaskWithBlockerEdgesInTx E c slug toStatus cs None None [] [])
      (\<lambda>_. tx_return ())" w])
    case (rolled_back e)
    then show ?thesis
      by (intro disjI2 exI [of _ e] exI [of _ "snd (m w)"])
        (auto simp: m transitionTask_def transitionTaskWithBlockerEdges_def prod_eq_iff)
  next
    case (committed a w2)
    then show ?thesis
      by (intro disjI1) (auto simp: m transitionTask_def transitionTaskWithBlockerEdges_def tx_simps)
  qed
  show ?thesis
  proof (cases "\<exists>res. r = Inr res \<and> tr_ok res")
    case True
    then obtain res where res: "r = Inr res" "tr_ok res" by blast
    obtain slug cs p where t: "transitionTask E c slug toStatus cs None None w = (Inr (), w')" "res = ok_result slug toStatus"
      "decode_params unmarshal_taskTransitionParams params = Inr p"
      "resolveTransitionIdentifier (w_db w) (resolvedSlug p) (resolvedID p) (resolvedChain p) = Inr (slug, cs)"
      using assms res
      by (auto simp: handle_transition_def tx_simps split: if_splits elim!: report_Inr_cases)
    then show ?thesis using inner [OF refl, of slug cs] res by (auto intro: moved)
  next
    case False
    have keep: "w_db w1 = w_db w" if "transitionTask E c slug toStatus cs None None w = (Inl e, w1)" for slug cs e w1
      using inner [OF refl, of slug cs] that by auto
    have "w_db w' = w_db w"
      using assms False keep
      by (auto simp: handle_transition_def report_def tx_bind_def tx_then_def tx_of_def tx_apply
          split: if_splits sum.splits prod.splits)
    then show ?thesis using False by (intro refused)
  qed
qed

text \<open>After a close, a blocked task of the chain has an edge.\<close>

lemma closed_chain_edges:
  assumes "wf_db d" "t \<in> set (db_tasks d)" "list_all2 (closes t ks h sha) (db_tasks d) ts"
  shows "\<forall>x \<in> set ts. t_chain x = t_chain t \<and> t_status x = ''blocked'' \<longrightarrow> has_edge ks x"
proof (intro ballI impI)
  fix x assume x: "x \<in> set ts" "t_chain x = t_chain t \<and> t_status x = ''blocked''"
  then obtain n where n: "n < length ts" "ts ! n = x" by (auto simp: in_set_conv_nth)
  define y where "y = db_tasks d ! n"
  have y: "y \<in> set (db_tasks d)" "closes t ks h sha y x"
    using assms(3) n by (auto simp: y_def list_all2_conv_all_nth)
  have "y \<noteq> t" "\<not> released ks t y" "x = y" using y(2) x(2) by (auto simp: closes_def split: if_splits)
  moreover have "t_slug y \<noteq> t_slug t"
    using wf_task_key [OF assms(1) y(1) assms(2)] x(2) \<open>y \<noteq> t\<close> \<open>x = y\<close> by (auto simp: task_key_def)
  ultimately show "has_edge ks x" using x(2) by (auto simp: released_def)
qed

section \<open>Any sequence of calls\<close>

lemma service_steps:
  assumes "seams_evolve aff deps"
  shows "service_step aff E S deps raw_text err_text =
    work_step (SetFoldHook (FoldAll (work_projections aff)) E) S deps raw_text err_text"
  using assms by (simp add: service_step_def fun_eq_iff)


lemma ex_work_ok: "wf_db ex_work" "counters_agree ex_work" "chains_named ex_work"
  by (simp_all add: ex_work_def ex_rows wf_db_def wf_tasks_def wf_chains_def wf_refs_def wf_blockers_def wf_bugs_def
      wf_suggestions_def wf_memories_def key_defs task_check_def task_statuses_def chain_check_def bug_check_def
      chains_named_def counters_agree_def with_task_counts_def sql_count_def)

lemma complete_step:
  obtains res w where "HandleTaskComplete live_env ok_ctx (raw_args [(''slug'', ''a'')]) (mk_world ex_work) = (Inr res, w)"
    "tr_ok res" "statuses w = [(''a'', ''closed''), (''p'', ''pending''), (''q'', ''blocked''), (''z'', ''pending'')]"
    "(work_step live_env S deps raw_text err_text)\<^sup>*\<^sup>* (mk_world ex_work) w"
proof -
  obtain r w where eq: "HandleTaskComplete live_env ok_ctx (raw_args [(''slug'', ''a'')]) (mk_world ex_work) = (r, w)"
    by fastforce
  then have "work_step live_env S deps raw_text err_text (mk_world ex_work) w"
    by (metis snd_conv work_step.task_complete)
  then show ?thesis using complete_eval eq that by (cases r) auto
qed


text \<open>C3. The invariants of the tables survive every sequence of calls of the service: unique keys,
  legal statuses, references that resolve, and chain counters equal to the counts over the task table;
  and the dependency table keeps its key and stays free of loops of length one. The construct functions a
  batch reaches are assumed to ingest events of the service only.\<close>

theorem work_calls_keep_invariants:
  assumes "(work_step (SetFoldHook (FoldAll (work_projections aff)) E) S deps raw_text err_text)\<^sup>*\<^sup>* w w'"
    and "seams_evolve aff deps" "wf_db (w_db w)" "counters_agree (w_db w)"
  shows "wf_db (w_db w') \<and> counters_agree (w_db w') \<and> (wf_deps (w_direct w) \<longrightarrow> wf_deps (w_direct w'))"
  using service.reach_wf [OF assms(1) [folded service_steps [OF assms(2)]] assms(3)]
    service.reach_counters [OF assms(1) [folded service_steps [OF assms(2)]] assms(3,4)]
    service.reach_deps [OF assms(1) [folded service_steps [OF assms(2)]] assms(3)] by simp

theorem work_calls_keep_invariants_witness:
  "\<exists>w. statuses w = [(''a'', ''closed''), (''p'', ''pending''), (''q'', ''blocked''), (''z'', ''pending'')] \<and>
     wf_db (w_db w) \<and> counters_agree (w_db w)"
proof -
  obtain res w where w: "statuses w = [(''a'', ''closed''), (''p'', ''pending''), (''q'', ''blocked''), (''z'', ''pending'')]"
    "(work_step live_env no_git ex_deps (\<lambda>_. []) (\<lambda>_. []))\<^sup>*\<^sup>* (mk_world ex_work) w"
    by (rule complete_step)
  show ?thesis
    using work_calls_keep_invariants [OF w(2) [unfolded live_env_def] ex_deps_evolve] ex_work_ok w(1)
    by (auto simp: mk_world_def)
qed




section \<open>One call\<close>

lemma complete_effect:
  assumes "wf_db (w_db w)" "chains_named (w_db w)"
    and "HandleTaskComplete (SetFoldHook (FoldAll (work_projections aff)) E) c params w = (Inr res, w')" "tr_ok res"
  obtains t h where "t \<in> set (db_tasks (w_db w))" "t_slug t = tr_slug res"
    "checkTaskTransition (tr_slug res) (t_status t) ''closed'' h = None"
    "db_blockers (w_db w') = filter (\<lambda>k. k_blocked k \<noteq> t_id t \<and> k_blocker k \<noteq> t_id t) (db_blockers (w_db w))"
    "list_all2 (closes t (db_blockers (w_db w')) h (Some (tr_commit res))) (db_tasks (w_db w)) (db_tasks (w_db w'))"
proof -
  let ?E = "SetFoldHook (FoldAll (work_projections aff)) E" and ?w = "w\<lparr>w_owner := cx_gid c\<rparr>"
  let ?fn = "HandleTaskCompleteInTx ?E c (w_db w) params"
  have "tr_error r = None" if "?fn w1 = (Inr (r, i), w2)" "tr_ok r" for w1 r i w2
    using that by (rule complete_InTx_ok)
  then obtain i w2 where fn: "?fn ?w = (Inr (res, i), w2)" and same: "w_db w' = w_db w2"
    using captured_ok [of ?E c ?fn w res w'] assms(3,4) unfolding HandleTaskComplete_def by metis
  obtain h sha cs where tr: "transitionTaskWithBlockerEdgesInTx ?E c (tr_slug res) ''closed'' cs h sha [] [] ?w = (Inr i, w2)"
    and sha: "deref_or [] sha = tr_commit res"
    by (rule complete_InTx_ok [OF fn assms(4)])
  have cl: "closes t ks h sha = closes t ks h (Some (tr_commit res))" for t ks
    using sha by (simp add: closes_def fun_eq_iff deref_or_def)
  show ?thesis
    by (rule close_effect [OF SetFoldHook_folds _ _ tr]) (use assms(1,2) same that in \<open>auto simp: cl\<close>)
qed

text \<open>C4. Completing a task: when \<open>task_complete\<close> answers ok, one task with the answered slug
  and a status that may close got status closed with the answered commit; the blocker edges that
  mention it are gone and no other; every other task keeps its row, except the tasks of its chain that
  were blocked and have no edge left, which are pending. So no task of the chain stays blocked without
  a blocker.\<close>

theorem completing_strands_nobody_in_the_chain:
  assumes "wf_db (w_db w)" "chains_named (w_db w)"
    and "HandleTaskComplete (SetFoldHook (FoldAll (work_projections aff)) E) c params w = (Inr res, w')" "tr_ok res"
  shows "\<exists>t h. t \<in> set (db_tasks (w_db w)) \<and> t_slug t = tr_slug res \<and>
    checkTaskTransition (tr_slug res) (t_status t) ''closed'' h = None \<and>
    db_blockers (w_db w') = filter (\<lambda>k. k_blocked k \<noteq> t_id t \<and> k_blocker k \<noteq> t_id t) (db_blockers (w_db w)) \<and>
    list_all2 (closes t (db_blockers (w_db w')) h (Some (tr_commit res))) (db_tasks (w_db w)) (db_tasks (w_db w')) \<and>
    (\<forall>x \<in> set (db_tasks (w_db w')). t_chain x = t_chain t \<and> t_status x = ''blocked'' \<longrightarrow>
       has_edge (db_blockers (w_db w')) x)"
proof (rule complete_effect [OF assms])
  fix t h
  assume t: "t \<in> set (db_tasks (w_db w))" "t_slug t = tr_slug res"
      "checkTaskTransition (tr_slug res) (t_status t) ''closed'' h = None"
      "db_blockers (w_db w') = filter (\<lambda>k. k_blocked k \<noteq> t_id t \<and> k_blocker k \<noteq> t_id t) (db_blockers (w_db w))"
    and rows: "list_all2 (closes t (db_blockers (w_db w')) h (Some (tr_commit res))) (db_tasks (w_db w)) (db_tasks (w_db w'))"
  show ?thesis using t rows closed_chain_edges [OF assms(1) t(1) rows] by blast
qed

theorem completing_strands_nobody_in_the_chain_witness:
  "\<exists>res w t. HandleTaskComplete live_env ok_ctx (raw_args [(''slug'', ''a'')]) (mk_world ex_work) = (Inr res, w) \<and>
     tr_ok res \<and> t \<in> set (db_tasks ex_work) \<and> t_slug t = tr_slug res \<and>
     (\<forall>x \<in> set (db_tasks (w_db w)). t_chain x = t_chain t \<and> t_status x = ''blocked'' \<longrightarrow> has_edge (db_blockers (w_db w)) x)"
proof -
  obtain res w where run: "HandleTaskComplete live_env ok_ctx (raw_args [(''slug'', ''a'')]) (mk_world ex_work) = (Inr res, w)"
    and ok: "tr_ok res" by (rule complete_step)
  have "wf_db (w_db (mk_world ex_work))" "chains_named (w_db (mk_world ex_work))"
    using ex_work_ok by (simp_all add: mk_world_def)
  from completing_strands_nobody_in_the_chain [OF this run [unfolded live_env_def] ok]
  obtain t where "t \<in> set (db_tasks ex_work)" "t_slug t = tr_slug res"
    "\<forall>x \<in> set (db_tasks (w_db w)). t_chain x = t_chain t \<and> t_status x = ''blocked'' \<longrightarrow> has_edge (db_blockers (w_db w)) x"
    by (auto simp: mk_world_def)
  with run ok show ?thesis by blast
qed

text \<open>C35. A dependent in another chain is stranded: a blocked task whose only blocker is the
  completed task, in a different chain, loses its edge and keeps its row, so it stays blocked with
  nothing that blocks it.\<close>

theorem completing_strands_other_chains:
  assumes "wf_db (w_db w)" "chains_named (w_db w)"
    and "HandleTaskComplete (SetFoldHook (FoldAll (work_projections aff)) E) c params w = (Inr res, w')" "tr_ok res"
    and "\<forall>x \<in> set (db_tasks (w_db w)). t_slug x = tr_slug res \<longrightarrow> x = t"
    and y: "y \<in> set (db_tasks (w_db w))" "t_chain y \<noteq> t_chain t"
    and waits: "\<forall>k \<in> set (db_blockers (w_db w)). k_blocked k = t_id y \<longrightarrow> k_blocker k = t_id t"
  shows "y \<in> set (db_tasks (w_db w')) \<and> \<not> has_edge (db_blockers (w_db w')) y"
proof (rule complete_effect [OF assms(1-4)])
  fix t' h
  assume t': "t' \<in> set (db_tasks (w_db w))" "t_slug t' = tr_slug res"
    and ks: "db_blockers (w_db w') = filter (\<lambda>k. k_blocked k \<noteq> t_id t' \<and> k_blocker k \<noteq> t_id t') (db_blockers (w_db w))"
    and rows: "list_all2 (closes t' (db_blockers (w_db w')) h (Some (tr_commit res))) (db_tasks (w_db w)) (db_tasks (w_db w'))"
  have t: "t' = t" using assms(5) t' by blast
  obtain n where n: "n < length (db_tasks (w_db w))" "db_tasks (w_db w) ! n = y" using y(1) by (auto simp: in_set_conv_nth)
  have "closes t (db_blockers (w_db w')) h (Some (tr_commit res)) y (db_tasks (w_db w') ! n)"
    "n < length (db_tasks (w_db w'))"
    using rows n t by (auto simp: list_all2_conv_all_nth)
  then have "y \<in> set (db_tasks (w_db w'))"
    using y(2) by (auto simp: closes_def released_def in_set_conv_nth split: if_splits)
  moreover have "\<not> has_edge (db_blockers (w_db w')) y"
    using waits by (auto simp: has_edge_def ks t list_ex_iff)
  ultimately show ?thesis ..
qed

lemma ex_cross_ok: "wf_db ex_cross" "chains_named ex_cross"
  by (simp_all add: ex_cross_def ex_rows wf_db_def wf_tasks_def wf_chains_def wf_refs_def wf_blockers_def wf_bugs_def
      wf_suggestions_def wf_memories_def key_defs task_check_def task_statuses_def chain_check_def bug_check_def
      chains_named_def)

theorem completing_strands_other_chains_witness:
  "\<exists>res w y. HandleTaskComplete live_env ok_ctx (raw_args [(''slug'', ''a'')]) (mk_world ex_cross) = (Inr res, w) \<and>
     tr_ok res \<and> y \<in> set (db_tasks (w_db w)) \<and> t_status y = ''blocked'' \<and> \<not> has_edge (db_blockers (w_db w)) y"
proof -
  obtain r w where eq: "HandleTaskComplete live_env ok_ctx (raw_args [(''slug'', ''a'')]) (mk_world ex_cross) = (r, w)"
    by fastforce
  then obtain res where r: "r = Inr res" and res: "tr_ok res" "tr_slug res = ''a''"
    using cross_eval by (cases r) auto
  note run = eq [unfolded r]
  let ?t = "(mk_task 1 1 ''a'')\<lparr>t_status := ''active''\<rparr>" and ?y = "(mk_task 2 2 ''y'')\<lparr>t_status := ''blocked''\<rparr>"
  have "?y \<in> set (db_tasks (w_db w)) \<and> \<not> has_edge (db_blockers (w_db w)) ?y"
    by (rule completing_strands_other_chains [OF _ _ run [unfolded live_env_def] res(1), of ?t])
      (use ex_cross_ok in \<open>simp_all add: mk_world_def res(2) ex_cross_def mk_task_def\<close>)
  moreover have "t_status ?y = ''blocked''" by simp
  ultimately show ?thesis using run res(1) by blast
qed

text \<open>C28. \<open>task_cancel\<close>, \<open>task_unstart\<close> and \<open>task_reopen\<close> that answer ok rewrite exactly one
  row, of the answered slug and from a status the state machine lets go: the row gets the new status
  and keeps id, chain and slug, and the edges change only in a cancellation, by those of that task.\<close>

theorem transition_rewrites_one_row:
  assumes "wf_db (w_db w)" "chains_named (w_db w)" "toStatus \<in> {''pending'', ''active'', ''blocked'', ''cancelled''}"
    and "handle_transition action toStatus (SetFoldHook (FoldAll (work_projections aff)) E) c params w = (Inr res, w')"
    and "tr_ok res"
  shows "\<exists>t t'. t \<in> set (db_tasks (w_db w)) \<and> t_slug t = tr_slug res \<and>
    checkTaskTransition (tr_slug res) (t_status t) toStatus None = None \<and>
    db_tasks (w_db w') = map (\<lambda>x. if x = t then t' else x) (db_tasks (w_db w)) \<and>
    t_status t' = toStatus \<and> t_id t' = t_id t \<and> task_key t' = task_key t \<and>
    db_blockers (w_db w') = (if toStatus = ''cancelled''
      then filter (\<lambda>k. k_blocked k \<noteq> t_id t \<and> k_blocker k \<noteq> t_id t) (db_blockers (w_db w)) else db_blockers (w_db w))"
  using assms(4)
proof (cases rule: handle_transition_cases)
  case (moved slug cs i w2)
  have slug: "tr_slug res = slug" using moved(1) by simp
  show ?thesis
    by (rule transition_moves_one [OF SetFoldHook_folds assms(3) _ _ moved(3)])
      (use assms(1,2) moved(2) in \<open>auto simp: slug set_row_def\<close>)
next
  case refused
  then show ?thesis using assms(5) by blast
qed

lemma cancel_step:
  obtains res w where "handle_transition ''task_cancel'' ''cancelled'' live_env ok_ctx (RawJson (JObj [(''id'', JInt 2)]))
      (mk_world ex_projects) = (Inr res, w)" "tr_ok res"
    "map (\<lambda>t. (t_id t, t_status t)) (db_tasks (w_db w)) = [(1, ''cancelled''), (2, ''pending'')]"
proof -
  obtain r w where eq: "handle_transition ''task_cancel'' ''cancelled'' live_env ok_ctx
      (RawJson (JObj [(''id'', JInt 2)])) (mk_world ex_projects) = (r, w)" by fastforce
  then show ?thesis using projects_eval that by (cases r) (auto simp: HandleTaskCancel_def)
qed

lemma ex_projects_ok: "wf_db ex_projects" "chains_named ex_projects"
  by (simp_all add: ex_projects_def ex_rows wf_db_def wf_tasks_def wf_chains_def wf_refs_def wf_blockers_def wf_bugs_def
      wf_suggestions_def wf_memories_def key_defs task_check_def task_statuses_def chain_check_def bug_check_def
      chains_named_def)

theorem transition_rewrites_one_row_witness:
  "\<exists>res w t t'. handle_transition ''task_cancel'' ''cancelled'' live_env ok_ctx (RawJson (JObj [(''id'', JInt 2)]))
     (mk_world ex_projects) = (Inr res, w) \<and> t_status t' = ''cancelled'' \<and>
     db_tasks (w_db w) = map (\<lambda>x. if x = t then t' else x) (db_tasks ex_projects)"
proof -
  obtain res w where run: "handle_transition ''task_cancel'' ''cancelled'' live_env ok_ctx (RawJson (JObj [(''id'', JInt 2)]))
      (mk_world ex_projects) = (Inr res, w)" "tr_ok res" by (rule cancel_step)
  have "wf_db (w_db (mk_world ex_projects))" "chains_named (w_db (mk_world ex_projects))"
    using ex_projects_ok by (simp_all add: mk_world_def)
  from transition_rewrites_one_row [OF this _ run(1) [unfolded live_env_def] run(2)] run(1) show ?thesis
    by (auto simp: mk_world_def)
qed

text \<open>C29. A refused \<open>task_cancel\<close>, \<open>task_unstart\<close> or \<open>task_reopen\<close> leaves the database as it
  was, whatever failed: parameters, resolution, state machine, validation, an insert, a fold, or the
  begin or the commit of the transaction.\<close>

theorem refused_transition_changes_nothing:
  assumes "handle_transition action toStatus E c params w = (r, w')" "\<not> (\<exists>res. r = Inr res \<and> tr_ok res)"
  shows "w_db w' = w_db w"
  using assms(1) by (cases rule: handle_transition_cases) (use assms(2) in auto)

lemma broken_cancel_eval:
  "(case handle_transition ''task_cancel'' ''cancelled'' broken_env ok_ctx (raw_args [(''slug'', ''z'')]) (mk_world ex_work) of
      (r, w) \<Rightarrow> map_sum id tr_ok r = Inr False \<and> w_count w = 1)"
  unfolding broken_env_def by code_simp

theorem refused_transition_changes_nothing_witness:
  "w_db (snd (handle_transition ''task_cancel'' ''cancelled'' broken_env ok_ctx (raw_args [(''slug'', ''z'')]) (mk_world ex_work)))
     = ex_work"
proof -
  obtain r w where eq: "handle_transition ''task_cancel'' ''cancelled'' broken_env ok_ctx (raw_args [(''slug'', ''z'')])
      (mk_world ex_work) = (r, w)" by fastforce
  have "map_sum id tr_ok r = Inr False" using broken_cancel_eval unfolding eq prod.case ..
  then have "\<not> (\<exists>res. r = Inr res \<and> tr_ok res)" by auto
  from refused_transition_changes_nothing [OF eq this] eq show ?thesis by (simp add: mk_world_def)
qed

section \<open>Progress\<close>

text \<open>The environment accepts an event: identifiers are drawn, the schemas and the provenance guard
  pass, and the ledger has neither the id nor an objection to the actor.\<close>

definition emit_accepts :: "emit_env \<Rightarrow> ctx \<Rightarrow> string \<Rightarrow> string \<Rightarrow> payload \<Rightarrow> world \<Rightarrow> bool" where
  "emit_accepts E c slug pid p w \<longleftrightarrow>
     (case emit_prepare E c \<lparr>ea_entity = NewEntityRef ''task'' slug pid, ea_payload = Some p,
        ea_rationale = None, ea_refs = no_refs\<rparr> w of
        (Inl e, _) \<Rightarrow> False
      | (Inr raw, _) \<Rightarrow> event_check raw \<and> ev_id raw \<notin> ev_id ` set (db_events (w_db w)))"

lemma emit_task_runs:
  assumes "folds_work aff E" "handler_payload p" "payload_kind p = ''task''" "wf_db (w_db w)" "emit_accepts E c slug pid p w"
  obtains i w' where "emit_task E c slug pid p w = (Inr i, w')"
proof -
  obtain raw w1 where prep: "emit_prepare E c \<lparr>ea_entity = NewEntityRef ''task'' slug pid, ea_payload = Some p,
        ea_rationale = None, ea_refs = no_refs\<rparr> w = (Inr raw, w1)"
    and ok: "event_check raw" "ev_id raw \<notin> ev_id ` set (db_events (w_db w))"
    using assms(5) by (auto simp: emit_accepts_def split: prod.splits sum.splits)
  define d1 where "d1 = (w_db w)\<lparr>db_events := db_events (w_db w) @ [raw]\<rparr>"
  have ins: "insert_event raw (w_db w) = (Inr (), d1)"
    using ok by (auto simp: insert_event_def tx_exec_def sql_insert_def d1_def image_iff list_ex_iff)
  have "wf_db d1" using assms(4) by (simp add: d1_def wf_db_def)
  then obtain u d2 where fold: "FoldAll (work_projections aff) raw d1 = (Inr u, d2)"
    using totalD [OF total_FoldAll [OF prepared_event(3) [OF prep [folded assms(3)] assms(2)]]] by blast
  have "ingest (work_projections aff) raw (w_db w) = (Inr (), d2)"
    using ins fold by (simp add: ingest_def tx_simps)
  then have "emit_task E c slug pid p w = (Inr (ev_id raw), w1\<lparr>w_db := d2\<rparr>)"
    using prep unfolding emit_task_def emit_entity_def by (simp add: Emit_refines_ingest [OF assms(1)])
  then show ?thesis by (rule that)
qed

text \<open>
  A call of \<open>task_start\<close> that nothing stands in the way of: nobody on this goroutine holds the write
  lock, the database begins and commits, the parameters give an id or a slug that resolves to the pending
  task of slug \<open>slug\<close> in the chain with id \<open>cid\<close>, and the environment accepts the event.
\<close>

definition start_call :: "emit_env \<Rightarrow> ctx \<Rightarrow> raw_params \<Rightarrow> world \<Rightarrow> string \<Rightarrow> int \<Rightarrow> bool" where
  "start_call E c params w slug cid \<longleftrightarrow>
     \<not> nested_write c w \<and> em_begin E (w_count w) = None \<and> (\<forall>n. em_commit E n = None) \<and>
     (\<exists>p cs pid. decode_params unmarshal_taskTransitionParams params = Inr p \<and>
        \<not> (resolvedID p = 0 \<and> resolvedSlug p = []) \<and>
        resolveTransitionIdentifier (w_db w) (resolvedSlug p) (resolvedID p) (resolvedChain p) = Inr (slug, cs) \<and>
        resolveTaskChainOn (w_db w) slug cs = Inr (cid, ''pending'') \<and> lookupChainProjectOn (w_db w) cid = Inr pid \<and>
        emit_accepts E c slug pid (buildTaskTransitionPayload (if cs = [] then lookupChainSlug (w_db w) cid else cs)
          ''pending'' ''active'' None None [] []) (w\<lparr>w_owner := cx_gid c\<rparr>))"

text \<open>Such a call is its one emit: an error of it is answered, and committed like a success.\<close>

lemma start_call_runs:
  assumes "start_call E c params w slug cid"
  obtains cs pid q where "resolveTaskChainOn (w_db w) slug cs = Inr (cid, ''pending'')"
    "q = buildTaskTransitionPayload (if cs = [] then lookupChainSlug (w_db w) cid else cs) ''pending'' ''active'' None None [] []"
    "emit_accepts E c slug pid q (w\<lparr>w_owner := cx_gid c\<rparr>)"
    "transitionTaskWithBlockerEdgesInTx E c slug ''active'' cs None None [] [] (w\<lparr>w_owner := cx_gid c\<rparr>) =
       emit_task E c slug pid q (w\<lparr>w_owner := cx_gid c\<rparr>)"
    "HandleTaskStart E c params w = (case emit_task E c slug pid q (w\<lparr>w_owner := cx_gid c\<rparr>) of
       (Inl e, w1) \<Rightarrow> (Inr (error_result e), w1\<lparr>w_owner := 0\<rparr>)
     | (Inr i, w1) \<Rightarrow> (Inr (ok_result slug ''active''), w1\<lparr>w_owner := 0\<rparr>))"
proof -
  let ?w = "w\<lparr>w_owner := cx_gid c\<rparr>"
  obtain p cs pid where p: "decode_params unmarshal_taskTransitionParams params = Inr p"
      "\<not> (resolvedID p = 0 \<and> resolvedSlug p = [])"
      "resolveTransitionIdentifier (w_db w) (resolvedSlug p) (resolvedID p) (resolvedChain p) = Inr (slug, cs)"
    and res: "resolveTaskChainOn (w_db w) slug cs = Inr (cid, ''pending'')" "lookupChainProjectOn (w_db w) cid = Inr pid"
    and acc: "emit_accepts E c slug pid (buildTaskTransitionPayload (if cs = [] then lookupChainSlug (w_db w) cid else cs)
        ''pending'' ''active'' None None [] []) ?w"
    using assms unfolding start_call_def by blast
  define q where "q = buildTaskTransitionPayload (if cs = [] then lookupChainSlug (w_db w) cid else cs)
    ''pending'' ''active'' None None [] []"
  have "checkTaskTransition slug ''pending'' ''active'' None = None"
    by (simp add: checkTaskTransition_def taskTransitions_def)
  then have run: "transitionTaskWithBlockerEdgesInTx E c slug ''active'' cs None None [] [] ?w = emit_task E c slug pid q ?w"
    using res
    by (auto simp: transitionTaskWithBlockerEdgesInTx_def Let_def tx_bind_def tx_then_def tx_of_def tx_check_def tx_apply
        q_def split: prod.splits sum.splits)
  have clear: "autoClearStatusOnlyBlockedIfNeededInTx E c slug cs ?w = (Inr (), ?w)"
    using res(1) by (simp add: autoClearStatusOnlyBlockedIfNeededInTx_def tx_bind_def tx_of_def tx_apply)
  obtain r w1 where emit: "emit_task E c slug pid q ?w = (r, w1)" by fastforce
  have inner: "HandleTaskStartInTx E c (w_db w) params ?w =
      (Inr (case r of Inl e \<Rightarrow> (error_result e, []) | Inr i \<Rightarrow> (ok_result slug ''active'', i)), w1)"
    using p clear run emit
    by (auto simp: HandleTaskStartInTx_def tx_bind_def tx_then_def tx_of_def tx_apply report_def split: sum.splits)
  have "\<not> nested_write c w" "em_begin E (w_count w) = None" "em_commit E (w_count w1) = None"
    using assms by (simp_all add: start_call_def)
  then have "HandleTaskStart E c params w =
      (Inr (case r of Inl e \<Rightarrow> error_result e | Inr i \<Rightarrow> ok_result slug ''active''), w1\<lparr>w_owner := 0\<rparr>)"
    by (auto simp: HandleTaskStart_def run_captured_def WithWrite_capture_def WithWrite_def inner split: sum.splits)
  then show ?thesis
    using that [OF res(1) q_def acc [folded q_def] run] emit by (auto split: sum.splits)
qed

text \<open>C15. A pending task can be started, by its id or by its slug: when the call resolves to a pending
  task, nobody on this goroutine holds the write lock, the database begins and commits, and the
  environment accepts the event, \<open>task_start\<close> answers ok; the row of that task in its chain is active
  with its id and key, every other row is as it was, and the lock is free.\<close>

theorem pending_task_starts:
  assumes "start_call (SetFoldHook (FoldAll (work_projections aff)) E) c params w slug cid"
    and "wf_db (w_db w)" "chains_named (w_db w)"
  shows "\<exists>w' t t'. HandleTaskStart (SetFoldHook (FoldAll (work_projections aff)) E) c params w =
      (Inr (ok_result slug ''active''), w') \<and> w_owner w' = 0 \<and>
    t \<in> set (db_tasks (w_db w)) \<and> t_slug t = slug \<and> t_chain t = cid \<and> t_status t = ''pending'' \<and>
    db_tasks (w_db w') = map (\<lambda>x. if x = t then t' else x) (db_tasks (w_db w)) \<and>
    t_status t' = ''active'' \<and> t_id t' = t_id t \<and> task_key t' = task_key t"
proof -
  let ?E = "SetFoldHook (FoldAll (work_projections aff)) E" and ?w = "w\<lparr>w_owner := cx_gid c\<rparr>"
  obtain cs pid q where res: "resolveTaskChainOn (w_db w) slug cs = Inr (cid, ''pending'')"
    and q: "q = buildTaskTransitionPayload (if cs = [] then lookupChainSlug (w_db w) cid else cs)
      ''pending'' ''active'' None None [] []"
    and acc: "emit_accepts ?E c slug pid q ?w"
    and run: "transitionTaskWithBlockerEdgesInTx ?E c slug ''active'' cs None None [] [] ?w = emit_task ?E c slug pid q ?w"
    and start: "HandleTaskStart ?E c params w = (case emit_task ?E c slug pid q ?w of
       (Inl e, w1) \<Rightarrow> (Inr (error_result e), w1\<lparr>w_owner := 0\<rparr>)
     | (Inr i, w1) \<Rightarrow> (Inr (ok_result slug ''active''), w1\<lparr>w_owner := 0\<rparr>))"
    by (rule start_call_runs [OF assms(1)])
  obtain i w1 where emit: "emit_task ?E c slug pid q ?w = (Inr i, w1)"
    by (rule emit_task_runs [OF SetFoldHook_folds _ _ _ acc]) (use assms(2) in \<open>simp_all add: q buildTaskTransitionPayload_def\<close>)
  show ?thesis
  proof (rule transition_moves_one [OF SetFoldHook_folds _ _ _ run [unfolded emit]])
    fix t t' assume t: "t \<in> set (db_tasks (w_db ?w))" "t_slug t = slug" "db_tasks (w_db w1) = set_row t t' (db_tasks (w_db ?w))"
      "t_status t' = ''active''" "t_id t' = t_id t" "task_key t' = task_key t"
      "resolveTaskChainOn (w_db ?w) slug cs = Inr (t_chain t, t_status t)"
    have "HandleTaskStart ?E c params w = (Inr (ok_result slug ''active''), w1\<lparr>w_owner := 0\<rparr>)" using start emit by simp
    then show ?thesis
      using t res by (intro exI [of _ "w1\<lparr>w_owner := 0\<rparr>"] exI [of _ t] exI [of _ t']) (simp add: set_row_def)
  qed (use assms(2,3) in simp_all)
qed

lemma start_accepted:
  "emit_accepts ok_env ok_ctx ''z'' ''p'' (buildTaskTransitionPayload ''c'' ''pending'' ''active'' None None [] [])
     ((mk_world ex_work)\<lparr>w_owner := cx_gid ok_ctx\<rparr>)"
  by code_simp

lemma emit_accepts_hook: "emit_accepts (SetFoldHook h E) c slug pid p w = emit_accepts E c slug pid p w"
  by (simp add: emit_accepts_def emit_prepare_def next_event_id_def read_clock_def SetFoldHook_def)

text \<open>The call that names task \<open>z\<close> by its id, whatever the hook.\<close>

lemma ex_start_call: "start_call (SetFoldHook h ok_env) ok_ctx (RawJson (JObj [(''id'', JInt 4)])) (mk_world ex_work) ''z'' 1"
proof -
  define p where "p = \<lparr>tq_slug = [], tq_task_slug = [], tq_id = 4, tq_task_id = 0, tq_chain_slug = [], tq_chain = []\<rparr>"
  have p: "decode_params unmarshal_taskTransitionParams (RawJson (JObj [(''id'', JInt 4)])) = Inr p"
    unfolding p_def by code_simp
  have r: "resolvedID p = 4" "resolveTransitionIdentifier (w_db (mk_world ex_work)) (resolvedSlug p) (resolvedID p) (resolvedChain p)
      = Inr (''z'', ''c'')" unfolding p_def by code_simp+
  have res: "resolveTaskChainOn (w_db (mk_world ex_work)) ''z'' ''c'' = Inr (1, ''pending'')"
    "lookupChainProjectOn (w_db (mk_world ex_work)) 1 = Inr ''p''" by code_simp+
  have "\<not> nested_write ok_ctx (mk_world ex_work)" "em_begin (SetFoldHook h ok_env) (w_count (mk_world ex_work)) = None"
    "\<forall>n. em_commit (SetFoldHook h ok_env) n = None"
    by (simp_all add: nested_write_def ok_ctx_def mk_world_def ok_env_def SetFoldHook_def)
  then show ?thesis
    unfolding start_call_def using p r res start_accepted
    by (intro conjI exI [of _ p] exI [of _ "''c''"] exI [of _ "''p''"]) (simp_all add: emit_accepts_hook)
qed

theorem pending_task_starts_witness:
  "\<exists>w' t'. HandleTaskStart live_env ok_ctx (RawJson (JObj [(''id'', JInt 4)])) (mk_world ex_work)
       = (Inr (ok_result ''z'' ''active''), w') \<and>
     t' \<in> set (db_tasks (w_db w')) \<and> t_status t' = ''active'' \<and> t_slug t' = ''z''"
proof -
  have "wf_db (w_db (mk_world ex_work))" "chains_named (w_db (mk_world ex_work))"
    using ex_work_ok by (simp_all add: mk_world_def)
  from pending_task_starts [OF ex_start_call this] show ?thesis
    unfolding live_env_def by (force simp: task_key_def)
qed

section \<open>Divergences\<close>

text \<open>C36. \<open>task_start\<close> commits a failed fold: when the call is one that could start its task, but the
  fold hook fails (leaving the ledger alone, as the folds do), the call answers an error and the
  transaction commits all the same: the event stays in the ledger and the tables are whatever the hook
  had made of them when it failed.\<close>

theorem failed_fold_is_committed:
  assumes "start_call (SetFoldHook h E) c params w slug cid"
    and fails: "\<And>raw d. \<exists>e d'. h raw d = (Inl e, d') \<and> db_events d' = db_events d"
  shows "\<exists>res raw w'. HandleTaskStart (SetFoldHook h E) c params w = (Inr res, w') \<and> \<not> tr_ok res \<and>
    ev_type raw = ''TaskTransitioned'' \<and> ev_slug raw = slug \<and>
    db_events (w_db w') = db_events (w_db w) @ [raw] \<and>
    w_db w' = snd (h raw ((w_db w)\<lparr>db_events := db_events (w_db w) @ [raw]\<rparr>))"
proof -
  let ?E = "SetFoldHook h E" and ?w = "w\<lparr>w_owner := cx_gid c\<rparr>"
  obtain cs pid q where q: "q = buildTaskTransitionPayload (if cs = [] then lookupChainSlug (w_db w) cid else cs)
      ''pending'' ''active'' None None [] []"
    and acc: "emit_accepts ?E c slug pid q ?w"
    and start: "HandleTaskStart ?E c params w = (case emit_task ?E c slug pid q ?w of
       (Inl e, w1) \<Rightarrow> (Inr (error_result e), w1\<lparr>w_owner := 0\<rparr>)
     | (Inr i, w1) \<Rightarrow> (Inr (ok_result slug ''active''), w1\<lparr>w_owner := 0\<rparr>))"
    by (rule start_call_runs [OF assms(1)])
  obtain raw w1 where prep: "emit_prepare ?E c \<lparr>ea_entity = NewEntityRef ''task'' slug pid, ea_payload = Some q,
        ea_rationale = None, ea_refs = no_refs\<rparr> ?w = (Inr raw, w1)"
    and ok: "event_check raw" "ev_id raw \<notin> ev_id ` set (db_events (w_db w))"
    using acc by (auto simp: emit_accepts_def split: prod.splits sum.splits)
  define d1 where "d1 = (w_db w)\<lparr>db_events := db_events (w_db w) @ [raw]\<rparr>"
  obtain e d2 where h: "h raw d1 = (Inl e, d2)" "db_events d2 = db_events d1" using fails by blast
  have same: "w_db w1 = w_db w" using emit_prepare_db(1) [of ?E c _ ?w] prep by (metis snd_conv world.select_convs(1) world.surjective world.update_convs(4))
  have "insert_event raw (w_db w) = (Inr (), d1)"
    using ok by (auto simp: insert_event_def tx_exec_def sql_insert_def d1_def image_iff list_ex_iff)
  then have "emit_task ?E c slug pid q ?w = (Inl (ErrHook e), w1\<lparr>w_db := d2\<rparr>)"
    using prep same h(1)
    by (simp add: emit_task_def emit_entity_def Emit_def tx_bind_def tx_then_def on_db_def run_hook_def SetFoldHook_def tx_wrap_def)
  then have "HandleTaskStart ?E c params w = (Inr (error_result (ErrHook e)), w1\<lparr>w_db := d2, w_owner := 0\<rparr>)"
    using start by simp
  moreover have "ev_type raw = ''TaskTransitioned''" "ev_slug raw = slug"
    using prep by (auto simp: emit_prepare_Inr event_of_envelope_def emit_envelope_def NewEntityRef_def q
        buildTaskTransitionPayload_def)
  ultimately show ?thesis using h by (intro exI conjI) (auto simp: d1_def)
qed

theorem failed_fold_is_committed_witness:
  "\<exists>res w. HandleTaskStart broken_env ok_ctx (RawJson (JObj [(''id'', JInt 4)])) (mk_world ex_work) = (Inr res, w) \<and>
     \<not> tr_ok res \<and> map ev_type (db_events (w_db w)) = [''TaskTransitioned''] \<and> db_tasks (w_db w) = db_tasks ex_work"
proof -
  have "\<exists>e d'. tx_fail ErrNoRows d = (Inl e, d' :: db) \<and> db_events d' = db_events d" for d by (simp add: tx_apply)
  from failed_fold_is_committed [OF ex_start_call, of "\<lambda>_. tx_fail ErrNoRows", OF this] show ?thesis
    unfolding broken_env_def [symmetric] by (auto simp: mk_world_def tx_apply ex_work_def empty_db_def)
qed

text \<open>C37. An id does not pin the task down: the id is turned into a task slug and a chain slug, and
  when an earlier row \<open>t\<close> of another project has both, a cancel, unstart or reopen of the id of
  \<open>u\<close> that answers ok rewrites the row of \<open>t\<close> and leaves the row of \<open>u\<close>.\<close>

theorem task_id_reaches_another_project:
  assumes db: "wf_db (w_db w)" "chains_named (w_db w)" and st: "toStatus \<in> {''pending'', ''active'', ''blocked'', ''cancelled''}"
    and u: "u \<in> set (db_tasks (w_db w))" "ch \<in> set (db_chains (w_db w))" "c_id ch = t_chain u"
    and first: "sql_first (\<lambda>(x, y). t_slug x = t_slug u \<and> c_slug y = c_slug ch) (task_chain_join (w_db w)) = Some (t, ch')" "t \<noteq> u"
    and params: "decode_params unmarshal_taskTransitionParams params = Inr p" "resolvedID p = t_id u" "0 < t_id u"
    and call: "handle_transition action toStatus (SetFoldHook (FoldAll (work_projections aff)) E) c params w = (Inr res, w')"
      "tr_ok res"
  shows "u \<in> set (db_tasks (w_db w')) \<and> (\<exists>t'. db_tasks (w_db w') = map (\<lambda>x. if x = t then t' else x) (db_tasks (w_db w)) \<and>
    t_status t' = toStatus \<and> t_id t' = t_id t \<and> task_key t' = task_key t)"
  using call(1)
proof (cases rule: handle_transition_cases)
  case (moved slug cs i w2)
  let ?w = "w\<lparr>w_owner := cx_gid c\<rparr>"
  have found: "sql_first (\<lambda>(x, y). t_id x = t_id u) (task_chain_join (w_db w)) = Some (u, ch)"
  proof (rule sql_first_unique)
    show "(u, ch) \<in> set (task_chain_join (w_db w))" using u by (auto simp: task_chain_join_def)
    show "x = (u, ch)" if "x \<in> set (task_chain_join (w_db w))" "case x of (x, y) \<Rightarrow> t_id x = t_id u" for x
    proof -
      obtain a b where x: "x = (a, b)" by fastforce
      have ab: "a \<in> set (db_tasks (w_db w))" "b \<in> set (db_chains (w_db w))" "c_id b = t_chain a" "t_id a = t_id u"
        using that by (auto simp: x task_chain_join_def)
      have "a = u" using db(1) ab(1,4) u(1) by (auto simp: wf_db_def wf_tasks_def distinct_map inj_on_eq_iff)
      moreover have "b = ch" using wf_chain_inj(2) [OF db(1) ab(2) u(2)] ab(3) u(3) \<open>a = u\<close> by simp
      ultimately show ?thesis by (simp add: x)
    qed
  qed simp
  then have pair: "slug = t_slug u" "cs = c_slug ch"
    using moved(4) params by (auto simp: resolveTransitionIdentifier_def)
  have "cs \<noteq> []" using db(2) u(2) pair(2) by (auto simp: chains_named_def list_all_iff)
  then have at: "resolveTaskChainOn (w_db w) slug cs = Inr (t_chain t, t_status t)"
    using first(1) pair by (simp add: resolveTaskChainOn_def)
  have t: "t \<in> set (db_tasks (w_db w))" "t_slug t = t_slug u"
    using sql_first_Some [OF first(1)] by (auto simp: task_chain_join_def)
  show ?thesis
  proof (rule transition_moves_one [OF SetFoldHook_folds st _ _ moved(3)])
    fix y t' assume y: "y \<in> set (db_tasks (w_db ?w))" "t_slug y = slug"
      "db_tasks (w_db w2) = set_row y t' (db_tasks (w_db ?w))" "t_status t' = toStatus" "t_id t' = t_id y"
      "task_key t' = task_key y" "resolveTaskChainOn (w_db ?w) slug cs = Inr (t_chain y, t_status y)"
    have "y = t" using wf_task_key [OF db(1) _ t(1), of y] y(1,2,7) at t(2) pair(1) by (auto simp: task_key_def)
    then have "u \<in> set (db_tasks (w_db w2))" using y(3) u(1) first(2) by (auto simp: in_set_row)
    then show ?thesis using y \<open>y = t\<close> moved(2) by (auto simp: set_row_def)
  qed (use db in simp_all)
next
  case refused
  then show ?thesis using call(2) by blast
qed

theorem task_id_reaches_another_project_witness:
  "\<exists>res w. handle_transition ''task_cancel'' ''cancelled'' live_env ok_ctx (RawJson (JObj [(''id'', JInt 2)]))
     (mk_world ex_projects) = (Inr res, w) \<and> tr_ok res \<and> mk_task 2 2 ''a'' \<in> set (db_tasks (w_db w))"
proof -
  obtain res w where run: "handle_transition ''task_cancel'' ''cancelled'' live_env ok_ctx (RawJson (JObj [(''id'', JInt 2)]))
      (mk_world ex_projects) = (Inr res, w)" "tr_ok res" by (rule cancel_step)
  have db: "wf_db (w_db (mk_world ex_projects))" "chains_named (w_db (mk_world ex_projects))"
    using ex_projects_ok by (simp_all add: mk_world_def)
  define p where "p = \<lparr>tq_slug = [], tq_task_slug = [], tq_id = 2, tq_task_id = 0, tq_chain_slug = [], tq_chain = []\<rparr>"
  have p: "decode_params unmarshal_taskTransitionParams (RawJson (JObj [(''id'', JInt 2)])) = Inr p" "resolvedID p = 2"
    unfolding p_def by code_simp+
  have first: "sql_first (\<lambda>(x, y). t_slug x = ''a'' \<and> c_slug y = ''c'') (task_chain_join (w_db (mk_world ex_projects)))
      = Some (mk_task 1 1 ''a'', mk_chain 1 ''c'' 1 1)"
    by (simp add: sql_first_def task_chain_join_def mk_world_def ex_projects_def mk_task_def mk_chain_def)
  have slugs: "t_slug (mk_task i j s) = s" "t_id (mk_task i j s) = i" "t_chain (mk_task i j s) = j"
    "c_slug (mk_chain i s m n) = s" "c_id (mk_chain i s m n) = i" for i j s m n
    by (simp_all add: mk_task_def mk_chain_def)
  let ?u = "mk_task 2 2 ''a''" and ?ch = "(mk_chain 2 ''c'' 1 1)\<lparr>c_project := ''r''\<rparr>"
  have "?u \<in> set (db_tasks (w_db (mk_world ex_projects)))" "?ch \<in> set (db_chains (w_db (mk_world ex_projects)))"
    by (simp_all add: mk_world_def ex_projects_def)
  moreover have "sql_first (\<lambda>(x, y). t_slug x = t_slug ?u \<and> c_slug y = c_slug ?ch) (task_chain_join (w_db (mk_world ex_projects)))
      = Some (mk_task 1 1 ''a'', mk_chain 1 ''c'' 1 1)" using first by (simp add: slugs)
  moreover have "mk_task 1 1 ''a'' \<noteq> ?u" by (simp add: mk_task_def)
  ultimately have "?u \<in> set (db_tasks (w_db w))"
    using task_id_reaches_another_project [OF db _ _ _ _ _ _ p(1) _ _ run(1) [unfolded live_env_def] run(2)] p(2)
    by (simp add: slugs)
  then show ?thesis using run by blast
qed

end
