(* ===== verification/Service_Samples.thy ===== *)
theory Service_Samples
  imports Task_Samples
begin

text \<open>Concrete calls of the bug, chain and batch handlers.\<close>

definition mk_bug :: "int \<Rightarrow> string \<Rightarrow> bug_row" where
  "mk_bug i slug = \<lparr>b_slug = slug, b_project = ''p'', b_id = i, b_title = [], b_problem = [], b_surface = [],
     b_severity = ''medium'', b_source = [], b_acceptance = [], b_constraints = [], b_status = ''open'',
     b_resolution = None, b_routed_chain = [], b_routed_task = [], b_routed_suggestion = [], b_commit = None,
     b_qwen = None, b_tags = [], b_filed = ''t0'', b_resolved_at = None, b_updated = ''t0'', b_last_id = ''e0'',
     b_last_ts = ''t0''\<rparr>"

text \<open>One chain with one task in the given status, and an open bug.\<close>

definition ex_row :: "string \<Rightarrow> task_row" where
  "ex_row st = (mk_task 1 1 ''a'')\<lparr>t_status := st, t_commit := (if st = ''closed'' then Some ''abc'' else None)\<rparr>"

definition ex_service :: "string \<Rightarrow> db" where
  "ex_service st = empty_db\<lparr>db_chains := [with_task_counts [ex_row st] 1 (mk_chain 1 ''c'' 1 0)],
     db_tasks := [ex_row st], db_bugs := [mk_bug 1 ''b'']\<rparr>"

definition batch_op :: "string \<Rightarrow> (string \<times> string) list \<Rightarrow> json" where
  "batch_op name fs = JObj [(''op'', JStr name), (''rationale'', JStr ''r''),
     (''params'', JObj (map (\<lambda>(k, v). (k, JStr v)) fs))]"

definition batch_args :: "json list \<Rightarrow> raw_params" where
  "batch_args ops = RawJson (JObj [(''ops'', JArr ops)])"

definition no_text :: "go_error \<Rightarrow> string" where
  "no_text e = []"

lemma chain_close_eval:
  "(case HandleChainClose live_env ok_ctx ''p'' (raw_args [(''slug'', ''c'')]) (mk_world (ex_service ''closed'')) of (r, w) \<Rightarrow>
     map_sum id (\<lambda>x. (cc_ok x, cc_slug x)) r = Inr (True, ''c'') \<and> map c_status (db_chains (w_db w)) = [''closed''])"
  unfolding live_env_def FoldAll_work by code_simp

lemma bug_resolve_eval:
  "(case HandleBugResolve live_env ok_ctx (raw_args [(''slug'', ''b''), (''kind'', ''wontfix'')]) (mk_world (ex_service ''active'')) of (r, w) \<Rightarrow>
     map_sum id (\<lambda>x. (tr_ok x, tr_slug x)) r = Inr (True, ''b'') \<and> map b_status (db_bugs (w_db w)) = [''wontfix''] \<and>
    (case HandleBugResolve live_env ok_ctx (raw_args [(''slug'', ''b''), (''kind'', ''fixed'')]) w of (r', w') \<Rightarrow>
     map_sum id tr_ok r' = Inr False \<and> map b_status (db_bugs (w_db w')) = [''wontfix'']))"
  unfolding live_env_def FoldAll_work by code_simp

lemma batch_abort_eval:
  "(case HandleBatch live_env ex_deps no_text ok_ctx ''p'' (batch_args
      [batch_op ''task_complete'' [(''slug'', ''a'')], batch_op ''chain_close'' [(''slug'', ''x'')]])
      (mk_world (ex_service ''active'')) of (r, w) \<Rightarrow>
     map_sum id (\<lambda>x. (br_ok x, br_continue x, map bo_ok (br_ops x))) r = Inr (False, False, [True, False]))"
  unfolding live_env_def FoldAll_work by code_simp

lemma close_race_eval:
  "close_precheck (ex_service ''closed'') ''p'' ''c'' = Inr ''p'' \<and>
   (case HandleTaskReopen live_env ok_ctx (raw_args [(''slug'', ''a'')]) (mk_world (ex_service ''closed'')) of (r, w) \<Rightarrow>
     map_sum id tr_ok r = Inr True \<and>
     map (\<lambda>t. (t_chain t, t_status t)) (db_tasks (w_db w)) = [(1, ''pending'')] \<and>
     map (\<lambda>c. (c_id c, c_project c, c_slug c)) (db_chains (w_db w)) = [(1, ''p'', ''c'')] \<and>
    (case WithWrite live_env ok_ctx (close_event live_env ok_ctx ''c'' ''p'' None) w of (r', w') \<Rightarrow>
      map_sum id (\<lambda>_. ()) r' = Inr ()))"
  unfolding live_env_def FoldAll_work by code_simp

end
