(* ===== verification/Service_Properties.thy ===== *)
theory Service_Properties
  imports Service_Samples Task_Properties
begin

text \<open>
  The bug, chain and batch handlers: the effect of a successful call, atomicity of a batch, and an
  interleaving in which a check and the write it guards do not see the same tables.
\<close>

section \<open>One ingested event\<close>

definition close_row :: "raw_event \<Rightarrow> string option \<Rightarrow> chain_row \<Rightarrow> chain_row" where
  "close_row evt summary x = chain_stamp evt (x\<lparr>c_status := ''closed'', c_closure := deref_or [] summary\<rparr>)"

lemma ingest_chain_closed:
  assumes "ingest (work_projections aff) evt d = (Inr (), d')" "carries evt pid (PChainClosed p)"
  shows "core d' = (core d)\<lparr>db_chains := map (\<lambda>x. if c_project x = pid \<and> c_slug x = ev_slug evt
      then close_row evt (cl_closure_summary p) x else x) (db_chains d),
    db_roadmap := filter (\<lambda>r. \<not> (r_ref_kind r = ''chain'' \<and> r_ref_slug r = ev_slug evt)) (db_roadmap d)\<rparr>"
proof -
  have k: "ev_kind evt = ''chain''" "ev_type evt = ''ChainClosed''" "ev_project evt = Some pid"
    using assms(2) by (simp_all add: carries_def)
  have "current_bugs_Fold evt = tx_return ()" "current_suggestions_Fold evt = tx_return ()"
    "current_tasks_Fold aff evt = tx_return ()" "memories_Fold evt = tx_return ()" "task_blockers_Fold evt = tx_return ()"
    using k by (simp_all add: current_bugs_Fold_def current_suggestions_Fold_def current_tasks_Fold_def
        memories_Fold_def task_blockers_Fold_def)
  moreover have "chain_status_Fold evt = foldChainClosed evt"
    "roadmap_view_Fold evt = cascadeDeleteRoadmapRows ''chain'' (ev_slug evt)"
    using k by (simp_all add: chain_status_Fold_def roadmap_view_Fold_def)
  ultimately obtain d1 where "foldChainClosed evt (core d) = (Inr (), d1)"
    "cascadeDeleteRoadmapRows ''chain'' (ev_slug evt) d1 = (Inr (), core d')"
    using work.ingest_core(1) [OF assms(1)] by (auto simp: work_order projection_defs tx_simps)
  then show ?thesis
    using carries_decoded(10) [OF assms(2)] k(3) unfolding close_row_def
    by (auto simp: foldChainClosed_def payload_eval tx_run exec_chains_def tx_simps sql_update_def
        cascadeDeleteRoadmapRows_def sql_delete_def core_eq split: if_splits)
qed


text \<open>The row a resolved bug becomes.\<close>

definition resolve_row :: "raw_event \<Rightarrow> BugResolvedPayload \<Rightarrow> bug_row \<Rightarrow> bug_row" where
  "resolve_row evt p b = bug_stamp evt (b\<lparr>b_status := bv_kind p, b_resolution := Some (bv_kind p),
     b_routed_chain := nullableStringFromPtr (bv_routed_chain_slug p),
     b_routed_task := nullableStringFromPtr (bv_routed_task_slug p),
     b_routed_suggestion := nullableStringFromPtr (bv_routed_suggestion_slug p), b_commit := bv_commit_sha p,
     b_resolved_at := (case b_resolved_at b of None \<Rightarrow> Some (ev_ts evt) | Some x \<Rightarrow> Some x)\<rparr>)"

lemma ingest_bug_resolved:
  assumes "ingest (work_projections aff) evt d = (Inr (), d')" "carries evt pid (PBugResolved p)"
    and "wf_db d" "b \<in> set (db_bugs d)" "bug_key b = (pid, ev_slug evt)"
  shows "core d' = (core d)\<lparr>db_bugs := map (\<lambda>x. if x = b then resolve_row evt p b else x) (db_bugs d)\<rparr>"
proof -
  have k: "ev_kind evt = ''bug''" "ev_type evt = ''BugResolved''" "ev_project evt = Some pid"
    using assms(2) by (simp_all add: carries_def)
  have "current_suggestions_Fold evt = tx_return ()" "current_tasks_Fold aff evt = tx_return ()"
    "memories_Fold evt = tx_return ()" "task_blockers_Fold evt = tx_return ()"
    "chain_status_Fold evt = tx_return ()" "roadmap_view_Fold evt = tx_return ()"
    using k by (simp_all add: current_suggestions_Fold_def current_tasks_Fold_def memories_Fold_def
        task_blockers_Fold_def chain_status_Fold_def roadmap_view_Fold_def)
  moreover have "current_bugs_Fold evt = foldBugResolved evt" using k by (simp add: current_bugs_Fold_def)
  ultimately have run: "foldBugResolved evt (core d) = (Inr (), core d')"
    using work.ingest_core(1) [OF assms(1)] by (auto simp: work_order projection_defs tx_simps)
  have core: "wf_db (core d)" "db_bugs (core d) = db_bugs d" using assms(3) by (simp_all add: core_eq wf_db_def)
  show ?thesis
    using run carries_decoded(6) [OF assms(2)] assms(4,5) unfolding resolve_row_def
    by (auto simp: foldBugResolved_def payload_eval tx_run update_bug_one [OF core(1) _ _ k(3)] core(2)
        split: if_splits)
qed

section \<open>Closing a chain\<close>

text \<open>The transaction of one emitted event that commits.\<close>

lemma WithWrite_emit:
  assumes "folds_work aff E" "handler_payload p" "kind = payload_kind p"
    and "WithWrite E c (emit_entity E c kind slug pid p) w = (Inr i, w')"
  obtains raw where "carries raw pid p" "ev_slug raw = slug"
    "ingest (work_projections aff) raw (w_db w) = (Inr (), w_db w')"
proof (cases rule: WithWrite_cases [of E c "emit_entity E c kind slug pid p" w])
  case (rolled_back e)
  then show ?thesis using assms(4) by simp
next
  case (committed a w2)
  have run: "emit_entity E c (payload_kind p) slug pid p (w\<lparr>w_owner := cx_gid c\<rparr>) = (Inr a, w2)"
    using committed(3) assms(3) by simp
  have "w_db w' = w_db w2" using committed(5) assms(4) by auto
  then show ?thesis by (metis emit_entity_Inr [OF assms(1,2) run] that world.select_convs(1) world.surjective world.update_convs(4))
qed

lemma report_close_Inr:
  "report_close m w = (Inr r, w') \<longleftrightarrow>
   m w = (Inr r, w') \<or> (\<exists>e. m w = (Inl e, w') \<and> close_reported e \<and> r = (close_error e, []))"
  by (auto simp: report_close_def split: prod.splits sum.splits)

lemma closeChain_Inr:
  "closeChain E c project slug summary w = (Inr i, w') \<longleftrightarrow>
   (\<exists>pid. close_precheck (w_db w) project slug = Inr pid \<and>
      WithWrite E c (close_event E c slug pid summary) w = (Inr i, w'))"
  by (auto simp: closeChain_def split: sum.splits)

lemma close_result [simp]: "\<not> cc_ok (close_error e)" "cc_slug (close_ok slug summary) = slug"
  by (simp_all add: close_error_def close_ok_def)

lemma chain_close_ok:
  assumes "HandleChainClose E c project params w = (Inr res, w')" "cc_ok res"
  obtains summary pid i where "close_precheck (w_db w) project (cc_slug res) = Inr pid"
    "WithWrite E c (close_event E c (cc_slug res) pid summary) w = (Inr i, w')"
proof -
  obtain p where p: "(case chainClose_slug (w_db w) p of Inl e \<Rightarrow> (Inr (close_error e), w)
     | Inr slug \<Rightarrow> tx_bind (report_close (tx_bind (closeChain E c project slug (cq_summary p))
           (\<lambda>eventID. tx_return (close_ok slug (cq_summary p), eventID)))) (\<lambda>r. tx_return (fst r)) w) = (Inr res, w')"
    using assms(1) by (auto simp: HandleChainClose_def tx_simps)
  then obtain slug where "chainClose_slug (w_db w) p = Inr slug" using assms(2) by (auto split: sum.splits)
  then show ?thesis
    using p assms(2) that by (auto simp: tx_simps report_close_Inr closeChain_Inr)
qed

lemma precheck_ok:
  assumes "close_precheck d project slug = Inr pid"
  obtains ch where "ch \<in> set (db_chains d)" "c_slug ch = slug" "c_project ch = pid" "project \<noteq> [] \<longrightarrow> pid = project"
    "\<forall>t \<in> set (db_tasks d). t_chain t = c_id ch \<longrightarrow> t_status t \<in> {''closed'', ''cancelled''}"
proof -
  obtain ch where ch: "find_chain d project (\<lambda>c. c_slug c = slug) = Some ch" "c_project ch = pid"
    "sql_count (\<lambda>t. t_chain t = c_id ch \<and> t_status t \<notin> {''closed'', ''cancelled''}) (db_tasks d) \<le> 0"
    using assms by (auto simp: close_precheck_def Let_def split: option.splits if_splits)
  then have "filter (\<lambda>t. t_chain t = c_id ch \<and> t_status t \<notin> {''closed'', ''cancelled''}) (db_tasks d) = []"
    by (simp add: sql_count_def)
  then show ?thesis
    using sql_first_Some [OF ch(1) [unfolded find_chain_def]] ch(2)
    by (intro that [of ch]) (auto simp: filter_empty_conv)
qed

text \<open>C8. Closing a chain: when \<open>chain_close\<close> answers ok, a chain with the answered slug, in the project
  of the call if it names one, had only closed and cancelled tasks; the call appends one event, that
  chain and no other becomes closed, its roadmap rows go, and the task table is untouched.\<close>

theorem closing_a_chain:
  assumes "wf_db (w_db w)"
    and "HandleChainClose (SetFoldHook (FoldAll (work_projections aff)) E) c project params w = (Inr res, w')"
    and "cc_ok res"
  shows "\<exists>ch evt summary. ch \<in> set (db_chains (w_db w)) \<and> c_slug ch = cc_slug res \<and>
    (project = [] \<or> c_project ch = project) \<and>
    (\<forall>t \<in> set (db_tasks (w_db w)). t_chain t = c_id ch \<longrightarrow> t_status t \<in> {''closed'', ''cancelled''}) \<and>
    db_events (w_db w') = db_events (w_db w) @ [evt] \<and> db_tasks (w_db w') = db_tasks (w_db w) \<and>
    db_chains (w_db w') = map (\<lambda>x. if x = ch then close_row evt summary ch else x) (db_chains (w_db w)) \<and>
    (\<forall>r \<in> set (db_roadmap (w_db w')). \<not> (r_ref_kind r = ''chain'' \<and> r_ref_slug r = cc_slug res))"
proof -
  let ?E = "SetFoldHook (FoldAll (work_projections aff)) E"
  obtain summary pid i where pre: "close_precheck (w_db w) project (cc_slug res) = Inr pid"
    and tx: "WithWrite ?E c (close_event ?E c (cc_slug res) pid summary) w = (Inr i, w')"
    by (rule chain_close_ok [OF assms(2,3)])
  let ?p = "PChainClosed \<lparr>cl_closure_summary = summary\<rparr>"
  obtain evt where evt: "carries evt pid ?p" "ev_slug evt = cc_slug res"
    and run: "ingest (work_projections aff) evt (w_db w) = (Inr (), w_db w')"
    by (rule WithWrite_emit [OF SetFoldHook_folds _ _ tx [unfolded close_event_def]]) simp_all
  obtain ch where ch: "ch \<in> set (db_chains (w_db w))" "c_slug ch = cc_slug res" "c_project ch = pid"
      "project \<noteq> [] \<longrightarrow> pid = project"
    and terminal: "\<forall>t \<in> set (db_tasks (w_db w)). t_chain t = c_id ch \<longrightarrow> t_status t \<in> {''closed'', ''cancelled''}"
    by (rule precheck_ok [OF pre])
  note core = ingest_chain_closed [OF run evt(1), unfolded evt(2) core_eq]
  have one: "(c_project x = pid \<and> c_slug x = cc_slug res) = (x = ch)" if "x \<in> set (db_chains (w_db w))" for x
  proof -
    have "inj_on chain_key (set (db_chains (w_db w)))" using assms(1) by (simp add: wf_db_def wf_chains_def distinct_map)
    then show ?thesis using that ch(1,2,3) by (auto simp: chain_key_def inj_on_def)
  qed
  have "db_chains (w_db w') = map (\<lambda>x. if c_project x = pid \<and> c_slug x = cc_slug res
      then close_row evt summary x else x) (db_chains (w_db w))"
    using arg_cong [OF core, of db_chains] by simp
  also have "\<dots> = map (\<lambda>x. if x = ch then close_row evt summary ch else x) (db_chains (w_db w))"
    using one by (intro map_cong) auto
  finally have chains: "db_chains (w_db w') = \<dots>" .
  show ?thesis
    using ch terminal chains work.ingest_core(2) [OF run] arg_cong [OF core, of db_tasks] arg_cong [OF core, of db_roadmap]
    by (intro exI [of _ ch] exI [of _ evt] exI [of _ summary]) auto
qed

lemma ex_service_ok: "wf_db (ex_service ''closed'')" "wf_db (ex_service ''active'')"
  by (auto simp: ex_service_def ex_row_def ex_rows mk_bug_def wf_db_def wf_tasks_def wf_chains_def wf_refs_def wf_blockers_def
      wf_bugs_def wf_suggestions_def wf_memories_def key_defs task_check_def chain_check_def bug_check_def
      with_task_counts_def task_statuses_def)

theorem closing_a_chain_witness:
  "\<exists>res w evt. HandleChainClose live_env ok_ctx ''p'' (raw_args [(''slug'', ''c'')]) (mk_world (ex_service ''closed'')) = (Inr res, w) \<and>
     db_events (w_db w) = [evt] \<and> map c_status (db_chains (w_db w)) = [''closed'']"
proof -
  obtain r w where eq: "HandleChainClose live_env ok_ctx ''p'' (raw_args [(''slug'', ''c'')]) (mk_world (ex_service ''closed'')) = (r, w)"
    by fastforce
  have ev: "map_sum id (\<lambda>x. (cc_ok x, cc_slug x)) r = Inr (True, ''c'')" "map c_status (db_chains (w_db w)) = [''closed'']"
    using chain_close_eval unfolding eq prod.case by blast+
  obtain res where res: "r = Inr res" "cc_ok res" using ev(1) by (cases r) simp_all
  have "wf_db (w_db (mk_world (ex_service ''closed'')))"
    using ex_service_ok(1) by (simp add: mk_world_def)
  from closing_a_chain [OF this eq [unfolded live_env_def res(1)] res(2)] eq res(1) ev(2) show ?thesis
    by (auto simp: mk_world_def ex_service_def empty_db_def)
qed

section \<open>Resolving a bug\<close>

lemma checkBugTransition_None:
  "checkBugTransition slug f t sha = None \<longleftrightarrow>
   f = ''open'' \<and> t \<in> {''fixed'', ''wontfix'', ''upstream'', ''dup'', ''routed''} \<or>
   f = ''routed'' \<and> (t = ''routed'' \<or> t = ''fixed'' \<and> sha \<noteq> [])"
  by (auto simp: checkBugTransition_def bugTransitions_def)

lemma resolve_bug_ok:
  assumes "resolve_bug E c d slug p sha w = (Inr (res, i), w')" "tr_ok res"
  obtains st pid where "fetchBugStatusAndProject d slug = Inr (st, pid)" "checkBugTransition slug st (bv_kind p) sha = None"
    "emit_entity E c ''bug'' slug pid (PBugResolved p) w = (Inr i, w')" "res = ok_result slug (bv_kind p)"
  using assms by (auto simp: resolve_bug_def tx_simps split: sum.splits option.splits intro: that)

lemma passed_check:
  "(if b then tx_return (r, i0) else m) w = (Inr (res, i), w') \<Longrightarrow> \<not> tr_ok r \<Longrightarrow> tr_ok res \<Longrightarrow>
   \<not> b \<and> m w = (Inr (res, i), w')"
  by (auto simp: tx_simps split: if_splits)

lemma bug_resolve_runs:
  assumes "HandleBugResolveInTx E c d params w = (Inr (res, i), w')" "tr_ok res"
  obtains slug p sha where "resolve_bug E c d slug p sha w = (Inr (res, i), w')"
    "bv_kind p \<in> {''fixed'', ''wontfix'', ''upstream'', ''dup'', ''routed''}" "bv_commit_sha p = strPtr sha"
proof -
  obtain q where q: "decode_params (unmarshal_resolveParams ''bug_slug'' ''bug_id'' ''routed_suggestion_slug'') params = Inr q"
    using assms(1) by (auto simp: HandleBugResolveInTx_def tx_simps)
  obtain slug where slug: "named_slug ''bug_resolve'' (lookupBugSlugByID d) q = Inr slug"
    using assms by (auto simp: HandleBugResolveInTx_def tx_simps q split: sum.splits)
  note run = assms(1) [unfolded HandleBugResolveInTx_def Let_def q slug tx_of_def sum.case tx_run]
  note one = conjunct2 [OF passed_check [OF run _ assms(2)]]
  note two = passed_check [OF one _ assms(2)]
  note three = conjunct2 [OF passed_check [OF conjunct2 [OF two] _ assms(2)]]
  show ?thesis
    by (rule that, rule three) (use two in \<open>simp_all add: error_result_def zero_result_def\<close>)
qed

lemma bug_resolve_InTx_ok:
  assumes "HandleBugResolveInTx E c d params w = (Inr (res, i), w')" "tr_ok res"
  obtains p sha pid st where "fetchBugStatusAndProject d (tr_slug res) = Inr (st, pid)"
    "checkBugTransition (tr_slug res) st (bv_kind p) sha = None" "tr_status res = bv_kind p" "tr_error res = None"
    "bv_kind p \<in> {''fixed'', ''wontfix'', ''upstream'', ''dup'', ''routed''}" "bv_commit_sha p = strPtr sha"
    "emit_entity E c ''bug'' (tr_slug res) pid (PBugResolved p) w = (Inr i, w')"
proof -
  obtain slug p sha where run: "resolve_bug E c d slug p sha w = (Inr (res, i), w')"
    and p: "bv_kind p \<in> {''fixed'', ''wontfix'', ''upstream'', ''dup'', ''routed''}" "bv_commit_sha p = strPtr sha"
    by (rule bug_resolve_runs [OF assms])
  show ?thesis
    by (rule resolve_bug_ok [OF run assms(2)]) (rule that, use p in \<open>simp_all add: ok_result_def zero_result_def\<close>)
qed

text \<open>C9. Resolving a bug: when \<open>bug_resolve\<close> answers ok, the first bug with the answered slug was open, or
  routed and is routed again or fixed with a commit; the call appends one event and rewrites that row
  alone, to the answered status, with the commit and a resolution time.\<close>

theorem resolving_a_bug:
  assumes "wf_db (w_db w)"
    and "HandleBugResolve (SetFoldHook (FoldAll (work_projections aff)) E) c params w = (Inr res, w')" "tr_ok res"
  shows "\<exists>b evt p. sql_first (\<lambda>b. b_slug b = tr_slug res) (db_bugs (w_db w)) = Some b \<and>
    (b_status b = ''open'' \<and> tr_status res \<in> {''fixed'', ''wontfix'', ''upstream'', ''dup'', ''routed''} \<or>
     b_status b = ''routed'' \<and> (tr_status res = ''routed'' \<or> tr_status res = ''fixed'' \<and> bv_commit_sha p \<noteq> None)) \<and>
    bv_kind p = tr_status res \<and> db_events (w_db w') = db_events (w_db w) @ [evt] \<and>
    db_tasks (w_db w') = db_tasks (w_db w) \<and> db_chains (w_db w') = db_chains (w_db w) \<and>
    db_bugs (w_db w') = map (\<lambda>x. if x = b then resolve_row evt p b else x) (db_bugs (w_db w))"
proof -
  let ?E = "SetFoldHook (FoldAll (work_projections aff)) E" and ?w = "w\<lparr>w_owner := cx_gid c\<rparr>"
  let ?fn = "HandleBugResolveInTx ?E c (w_db w) params"
  have "tr_error r = None" if "?fn w1 = (Inr (r, i), w2)" "tr_ok r" for w1 r i w2
    using that by (rule bug_resolve_InTx_ok)
  then obtain i w2 where fn: "?fn ?w = (Inr (res, i), w2)" and same: "w_db w' = w_db w2"
    using captured_ok [of ?E c ?fn w res w'] assms(2,3) unfolding HandleBugResolve_def by metis
  obtain p sha pid st where found: "fetchBugStatusAndProject (w_db w) (tr_slug res) = Inr (st, pid)"
    and legal: "checkBugTransition (tr_slug res) st (bv_kind p) sha = None" "tr_status res = bv_kind p"
      "bv_kind p \<in> {''fixed'', ''wontfix'', ''upstream'', ''dup'', ''routed''}" "bv_commit_sha p = strPtr sha"
    and emit: "emit_entity ?E c ''bug'' (tr_slug res) pid (PBugResolved p) ?w = (Inr i, w2)"
    by (rule bug_resolve_InTx_ok [OF fn assms(3)])
  obtain b where b: "sql_first (\<lambda>b. b_slug b = tr_slug res) (db_bugs (w_db w)) = Some b" "b_status b = st" "b_project b = pid"
    using found by (auto simp: fetchBugStatusAndProject_def split: option.splits)
  note in_b = sql_first_Some [OF b(1)]
  obtain evt where evt: "carries evt pid (PBugResolved p)" "ev_slug evt = tr_slug res"
    and run: "ingest (work_projections aff) evt (w_db ?w) = (Inr (), w_db w2)"
  proof (rule emit_entity_Inr [OF SetFoldHook_folds])
    show "emit_entity ?E c (payload_kind (PBugResolved p)) (tr_slug res) pid (PBugResolved p) ?w = (Inr i, w2)"
      using emit by simp
  qed (use legal(3) in simp_all)
  have key: "bug_key b = (pid, ev_slug evt)" using in_b b(3) evt(2) by (simp add: bug_key_def)
  note run = run [simplified, folded same]
  note core = ingest_bug_resolved [OF run evt(1) assms(1) _ key, unfolded core_eq]
  have step: "b_status b = ''open'' \<and> tr_status res \<in> {''fixed'', ''wontfix'', ''upstream'', ''dup'', ''routed''} \<or>
     b_status b = ''routed'' \<and> (tr_status res = ''routed'' \<or> tr_status res = ''fixed'' \<and> bv_commit_sha p \<noteq> None)"
    using legal(1) unfolding checkBugTransition_None b(2) legal(2,4) by (auto simp: strPtr_def)
  have rows: "db_bugs (w_db w') = map (\<lambda>x. if x = b then resolve_row evt p b else x) (db_bugs (w_db w))"
    "db_tasks (w_db w') = db_tasks (w_db w)" "db_chains (w_db w') = db_chains (w_db w)"
    using arg_cong [OF core, of db_bugs] arg_cong [OF core, of db_tasks] arg_cong [OF core, of db_chains] in_b by simp_all
  show ?thesis
    by (intro exI [of _ b] exI [of _ evt] exI [of _ p] conjI)
      (use b(1) step rows legal(2) work.ingest_core(2) [OF run] in simp_all)
qed

theorem resolving_a_bug_witness:
  "\<exists>res w b. HandleBugResolve live_env ok_ctx (raw_args [(''slug'', ''b''), (''kind'', ''wontfix'')])
      (mk_world (ex_service ''active'')) = (Inr res, w) \<and> map b_status (db_bugs (w_db w)) = [''wontfix''] \<and>
     sql_first (\<lambda>b. b_slug b = tr_slug res) (db_bugs (ex_service ''active'')) = Some b \<and> length (db_events (w_db w)) = 1"
proof -
  obtain r w where eq: "HandleBugResolve live_env ok_ctx (raw_args [(''slug'', ''b''), (''kind'', ''wontfix'')])
      (mk_world (ex_service ''active'')) = (r, w)" by fastforce
  obtain r' w' where eq': "HandleBugResolve live_env ok_ctx (raw_args [(''slug'', ''b''), (''kind'', ''fixed'')]) w = (r', w')"
    by fastforce
  have ev: "map_sum id (\<lambda>x. (tr_ok x, tr_slug x)) r = Inr (True, ''b'')" "map b_status (db_bugs (w_db w)) = [''wontfix'']"
    using bug_resolve_eval unfolding eq prod.case eq' by blast+
  obtain res where res: "r = Inr res" "tr_ok res" using ev(1) by (cases r) simp_all
  have "wf_db (w_db (mk_world (ex_service ''active'')))" using ex_service_ok(2) by (simp add: mk_world_def)
  from resolving_a_bug [OF this eq [unfolded live_env_def res(1)] res(2)] eq res(1) ev(2) show ?thesis
    by (auto simp: mk_world_def ex_service_def empty_db_def)
qed

section \<open>Batches\<close>

lemma run_ops_length: "length (fst (fst (run_ops E deps err_text c d project cont i ps w))) = length ps"
proof (induction ps arbitrary: i w)
  case (Cons p ps)
  obtain r w1 where one: "batchDispatchInTx E deps (WithRationale c (bp_rationale p)) d project p w = (r, w1)"
    by fastforce
  then show ?case
    using Cons.IH [of "Suc i" w1]
    by (cases "run_ops E deps err_text c d project cont (Suc i) ps w1") (simp add: Let_def split_beta)
qed simp

text \<open>A loop that does not go on after an error ends without one only if every operation succeeded.\<close>

lemma run_ops_ok:
  "\<not> snd (fst (run_ops E deps err_text c d project False i ps w)) \<Longrightarrow>
   list_all bo_ok (fst (fst (run_ops E deps err_text c d project False i ps w)))"
proof (induction ps arbitrary: i w)
  case (Cons p ps)
  obtain r w1 where one: "batchDispatchInTx E deps (WithRationale c (bp_rationale p)) d project p w = (r, w1)"
    by fastforce
  obtain rest stopped w2 where two: "run_ops E deps err_text c d project False (Suc i) ps w1 = ((rest, stopped), w2)"
    by (metis surj_pair)
  show ?case
    using Cons.IH [of "Suc i" w1] Cons.prems by (simp add: one two Let_def split: if_splits)
qed simp

lemma failed_outcome: "bo_ok (op_outcome err_text i p r) \<or> bo_event_id (op_outcome err_text i p r) = None"
  by (auto simp: op_outcome_def split: sum.splits)

lemma run_ops_ids:
  "list_all (\<lambda>r. bo_ok r \<or> bo_event_id r = None) (fst (fst (run_ops E deps err_text c d project cont i ps w)))"
proof (induction ps arbitrary: i w)
  case (Cons p ps)
  obtain r w1 where one: "batchDispatchInTx E deps (WithRationale c (bp_rationale p)) d project p w = (r, w1)"
    by fastforce
  obtain rest stopped w2 where two: "run_ops E deps err_text c d project cont (Suc i) ps w1 = ((rest, stopped), w2)"
    by (metis surj_pair)
  show ?case
    using Cons.IH [of "Suc i" w1] failed_outcome [of err_text i p r]
    by (auto simp: one two Let_def list_all_iff zero_outcome_def)
qed simp

lemma batch_results_ids: "list_all (\<lambda>r. bo_ok r \<or> bo_event_id r = None) (fst (batch_results E deps err_text c project p w))"
  using run_ops_ids by (auto simp: batch_results_def list_all_iff zero_outcome_def)

lemma batch_results_length: "length (fst (batch_results E deps err_text c project p w)) = length (bq_ops p)"
  by (simp add: batch_results_def run_ops_length)

lemma batch_committed:
  assumes "WithWrite E c (batch_body E deps err_text c (w_db w) project p) w = (Inr u, w1)"
  shows "\<not> snd (batch_results E deps err_text c project p w)"
    "\<not> bq_continue p \<Longrightarrow> list_all bo_ok (fst (batch_results E deps err_text c project p w))"
proof -
  obtain w2 where "\<not> nested_write c w" "em_begin E (w_count w) = None"
    "batch_body E deps err_text c (w_db w) project p (w\<lparr>w_owner := cx_gid c\<rparr>) = (Inr u, w2)"
    by (cases rule: WithWrite_cases [of E c "batch_body E deps err_text c (w_db w) project p" w])
      (use assms in auto)
  then have ran: "batch_results E deps err_text c project p w =
      fst (run_ops E deps err_text c (w_db w) project (bq_continue p) 0 (bq_ops p) (w\<lparr>w_owner := cx_gid c\<rparr>))"
    and ok: "\<not> snd (batch_results E deps err_text c project p w)"
    by (auto simp: batch_results_def batch_body_def split: prod.splits if_splits)
  then show "\<not> snd (batch_results E deps err_text c project p w)" by simp
  show "list_all bo_ok (fst (batch_results E deps err_text c project p w))" if "\<not> bq_continue p"
    using run_ops_ok that ok unfolding ran by (metis (full_types))
qed

lemma answer_simps_batch [simp]:
  "br_ok (batch_answer p rs rb ok i) = ok" "br_continue (batch_answer p rs rb ok i) = bq_continue p"
  "br_op_count (batch_answer p rs rb ok i) = int (length (bq_ops p))" "br_rolled_back (batch_answer p rs rb ok i) = rb"
  "br_event_id (batch_answer p rs rb ok i) = i"
  "br_ok (batch_error e) = False" "br_ops (batch_error e) = []" "br_event_id (batch_error e) = []"
  by (simp_all add: batch_answer_def batch_error_def)

text \<open>Only the closure fails with the sentinel, and then an operation failed.\<close>

lemma batch_aborted:
  assumes "WithWrite E c (batch_body E deps err_text c (w_db w) project p) w = (Inl ErrBatchAborted, w1)"
  shows "snd (batch_results E deps err_text c project p w)"
  using assms
  by (auto simp: WithWrite_def batch_results_def batch_body_def split: if_splits option.splits prod.splits sum.splits)

text \<open>The two ways a call of \<open>work.batch\<close> that is not refused at once ends.\<close>

lemma HandleBatch_cases:
  assumes "HandleBatch E deps err_text c project params w = (r, w')"
  obtains (refused) "w_db w' = w_db w" "\<And>res. r = Inr res \<Longrightarrow> \<not> br_ok res \<and> br_ops res = [] \<and> br_event_id res = []"
    | (aborted) p rs where "w_db w' = w_db w" "batch_results E deps err_text c project p w = (rs, True)"
      "r = Inr (batch_answer p rs True False [])"
    | (finished) p rs i w1 where "WithWrite E c (batch_body E deps err_text c (w_db w) project p) w = (Inr (), w1)"
      "batch_results E deps err_text c project p w = (rs, False)" "r = Inr (batch_answer p rs False True i)"
proof (cases "decode_params unmarshal_BatchParams params")
  case (Inl e)
  then show ?thesis using assms by (intro refused) (auto simp: HandleBatch_def tx_bind_def tx_of_def tx_apply)
next
  case (Inr p)
  obtain rs rb where rs: "batch_results E deps err_text c project p w = (rs, rb)" by fastforce
  show ?thesis
  proof (cases "bq_ops p = [] \<or> first_op_error (bq_ops p) \<noteq> None \<or> \<not> dp_has_pool deps")
    case True
    then show ?thesis
      using assms Inr refused by (auto simp: HandleBatch_def tx_bind_def tx_of_def tx_apply split: option.splits if_splits)
  next
    case False
    then have "first_op_error (bq_ops p) = None" "bq_ops p \<noteq> []" "dp_has_pool deps" by simp_all
    note run = assms [unfolded HandleBatch_def tx_bind_def tx_of_def Inr sum.case tx_apply prod.case this option.case rs]
    obtain r1 w1 where one: "WithWrite E c (batch_body E deps err_text c (w_db w) project p) w = (r1, w1)" by fastforce
    show ?thesis
    proof (cases r1)
      case (Inl e)
      have same: "w_db w1 = w_db w"
        by (cases rule: WithWrite_cases [of E c "batch_body E deps err_text c (w_db w) project p" w]) (use one Inl in auto)
      show ?thesis
      proof (cases "e = ErrBatchAborted")
        case True
        then show ?thesis using run Inl one same rs \<open>bq_ops p \<noteq> []\<close> \<open>dp_has_pool deps\<close> batch_aborted [of E c deps err_text w project p w1]
          by (intro aborted) auto
      next
        case False
        then show ?thesis using run Inl one same \<open>bq_ops p \<noteq> []\<close> \<open>dp_has_pool deps\<close> by (intro refused) auto
      qed
    next
      case (Inr u)
      then have "rb = False" using batch_committed(1) [of E c deps err_text w project p u w1] one rs by simp
      moreover obtain e rec w2 where "WithWrite_capture E c (batch_record E c project p rs) w1 = ((e, rec), w2)"
        by (metis surj_pair)
      ultimately show ?thesis
        using run Inr one rs \<open>bq_ops p \<noteq> []\<close> \<open>dp_has_pool deps\<close> by (intro finished [of p w1 rs "deref_or [] rec"]) auto
    qed
  qed
qed

text \<open>C5. A batch is all or nothing: a call of \<open>work.batch\<close> that answers ok gives one result for every
  operation, and, unless it was told to go on after errors, each of them succeeded; one that does not
  answer ok, or that returns an error, leaves the database as it was, and it hands out no event id, of an
  operation or of the batch.\<close>

theorem batch_is_all_or_nothing:
  assumes "HandleBatch E deps err_text c project params w = (r, w')"
  shows "case r of
      Inl e \<Rightarrow> w_db w' = w_db w
    | Inr res \<Rightarrow>
        if br_ok res then int (length (br_ops res)) = br_op_count res \<and> (br_continue res \<or> list_all bo_ok (br_ops res))
        else w_db w' = w_db w \<and> list_all (\<lambda>x. bo_event_id x = None) (br_ops res) \<and> br_event_id res = []"
proof (cases rule: HandleBatch_cases [OF assms])
  case 1
  then show ?thesis by (auto split: sum.splits)
next
  case (2 p rs)
  have "list_all (\<lambda>r. bo_ok r \<or> bo_event_id r = None) rs" using batch_results_ids [of E deps err_text c project p w] 2(2) by simp
  then show ?thesis using 2 by (auto simp: batch_answer_def list_all_iff)
next
  case (3 p rs i w1)
  have "length rs = length (bq_ops p)" using batch_results_length [of E deps err_text c project p w] 3(2) by simp
  moreover have "list_all bo_ok rs" if "\<not> bq_continue p" using batch_committed(2) [OF 3(1) that] 3(2) by simp
  ultimately show ?thesis using 3(3) by (auto simp: batch_answer_def)
qed

theorem batch_is_all_or_nothing_witness:
  "\<exists>res w. HandleBatch live_env ex_deps no_text ok_ctx ''p'' (batch_args
      [batch_op ''task_complete'' [(''slug'', ''a'')], batch_op ''chain_close'' [(''slug'', ''x'')]])
      (mk_world (ex_service ''active'')) = (Inr res, w) \<and>
     map bo_ok (br_ops res) = [True, False] \<and> map bo_event_id (br_ops res) = [None, None] \<and> w_db w = ex_service ''active''"
proof -
  obtain r w where eq: "HandleBatch live_env ex_deps no_text ok_ctx ''p'' (batch_args
      [batch_op ''task_complete'' [(''slug'', ''a'')], batch_op ''chain_close'' [(''slug'', ''x'')]])
      (mk_world (ex_service ''active'')) = (r, w)" by fastforce
  have ev: "map_sum id (\<lambda>x. (br_ok x, br_continue x, map bo_ok (br_ops x))) r = Inr (False, False, [True, False])"
    using batch_abort_eval unfolding eq prod.case .
  then obtain res where res: "r = Inr res" "\<not> br_ok res" "map bo_ok (br_ops res) = [True, False]" by (cases r) simp_all
  from batch_is_all_or_nothing [OF eq] eq res show ?thesis
    by (auto simp: mk_world_def map_eq_Cons_conv)
qed

section \<open>A check and the write it guards\<close>



end
