(* ===== verification/Roadmap_Samples.thy ===== *)
theory Roadmap_Samples
  imports Task_Samples
begin

text \<open>Concrete calls of the roadmap and dependency handlers.\<close>

definition road_env :: emit_env where
  "road_env = SetFoldHook (FoldAll (work_projections no_affinity))
     (ok_env\<lparr>em_schemas := Inr \<lparr>sch_envelope = (\<lambda>_. True), sch_payloads = [(''RoadmapUpdated'', \<lambda>_. True)]\<rparr>\<rparr>)"

definition mk_road :: "int \<Rightarrow> string \<Rightarrow> roadmap_row" where
  "mk_road pos slug = \<lparr>r_project = ''p'', r_position = pos, r_ref_kind = ''chain'', r_ref_slug = slug, r_chain_slug = None,
     r_note = None, r_target_status = Some ''open'', r_target_updated = Some ''t0'', r_last_id = ''e0'', r_last_ts = ''t0''\<rparr>"

text \<open>Four open chains of one project, two of them on its roadmap.\<close>

definition ex_roads :: db where
  "ex_roads = empty_db\<lparr>db_chains := [mk_chain 1 ''a'' 0 0, mk_chain 2 ''b'' 0 0, mk_chain 3 ''c'' 0 0, mk_chain 4 ''d'' 0 0],
     db_roadmap := [mk_road 1 ''a'', mk_road 2 ''b'']\<rparr>"

definition road_item :: "string \<Rightarrow> int \<Rightarrow> json" where
  "road_item slug pos = JObj [(''ref_kind'', JStr ''chain''), (''ref_slug'', JStr slug), (''position'', JInt pos)]"

definition road_args :: "(string \<times> int) list \<Rightarrow> raw_params" where
  "road_args xs = RawJson (JObj [(''items'', JArr (map (\<lambda>(s, n). road_item s n) xs))])"

definition layout :: "world \<Rightarrow> (string \<times> int) list" where
  "layout w = map (\<lambda>r. (r_ref_slug r, r_position r)) (db_roadmap (w_db w))"

definition mk_dep :: "int \<Rightarrow> int \<Rightarrow> dep_row" where
  "mk_dep i j = \<lparr>d_dependent = i, d_prerequisite = j, d_reason = ''r''\<rparr>"

definition dep_args :: raw_params where
  "dep_args = raw_args [(''dependent_chain'', ''b''), (''prerequisite_chain'', ''a''), (''reason'', ''first'')]"

lemma roadmap_set_eval:
  "(case HandleRoadmapSet road_env ok_ctx ''p'' (road_args [(''b'', 1), (''c'', 5)]) (mk_world ex_roads) of (r, w) \<Rightarrow>
     map_sum id (\<lambda>x. (rs_ok x, rs_project x)) r = Inr (True, ''p'') \<and> layout w = [(''b'', 1), (''c'', 5)])"
  unfolding road_env_def FoldAll_work by code_simp

lemma preview_eval:
  "HandleRoadmapPreviewSet ex_roads ''p'' (road_args [(''b'', 1), (''c'', 5)]) =
     Inr \<lparr>pv_removed = [(''chain'', ''a'', 1)], pv_added = [(''chain'', ''c'', 5)],
       pv_repositioned = [(''chain'', ''b'', 2, 1)], pv_unchanged = []\<rparr>"
  by code_simp

lemma roadmap_insert_eval:
  "(case HandleRoadmapInsert road_env ok_ctx ''p'' (RawJson (road_item ''c'' 1)) (mk_world ex_roads) of (r, w) \<Rightarrow>
     map_sum id (\<lambda>x. (rn_ok x, rn_position x)) r = Inr (True, 1) \<and>
     layout w = [(''a'', 2), (''b'', 3), (''c'', 1)])"
  unfolding road_env_def FoldAll_work by code_simp

lemma roadmap_update_eval:
  "(case HandleRoadmapUpdate road_env ok_ctx ''p'' (RawJson (JObj [(''position'', JInt 2), (''note'', JStr ''n'')])) (mk_world ex_roads) of (r, w) \<Rightarrow>
     map_sum id ur_ok r = Inr True \<and> map r_note (db_roadmap (w_db w)) = [None, Some ''n''])"
  unfolding road_env_def FoldAll_work by code_simp

text \<open>One reference twice: the preview shows both.\<close>

lemma repeated_ref_eval:
  "(case HandleRoadmapPreviewSet ex_roads ''p'' (road_args [(''c'', 1), (''c'', 2)]) of
      Inl e \<Rightarrow> False | Inr pv \<Rightarrow> pv_added pv = [(''chain'', ''c'', 1), (''chain'', ''c'', 2)])"
  "decode_params unmarshal_roadmapSetParams (road_args [(''c'', 1), (''c'', 2)]) = Inr
     (map (\<lambda>p. \<lparr>si_ref_kind = ''chain'', si_ref_slug = ''c'', si_note = [], si_position = Some p\<rparr>) [1, 2])"
  by code_simp+

text \<open>\<open>b\<close> comes after \<open>a\<close>; \<open>c\<close> and \<open>d\<close> wait for each other.\<close>

definition ex_cycle :: "dep_row list" where
  "ex_cycle = [mk_dep 2 1, mk_dep 3 4, mk_dep 4 3]"

lemma plan_ready_eval: "kahnSort (plan_nodes ex_roads ''p'') [mk_dep 1 2] = [2, 1, 3, 4]"
  by code_simp

lemma dep_add_eval:
  "(case HandleChainDepAdd road_env ok_ctx ''p'' dep_args (mk_world ex_roads) of (r, w) \<Rightarrow>
     map_sum id cd_ok r = Inr True \<and> w_deps w = [(mk_dep 2 1)\<lparr>d_reason := ''first''\<rparr>])"
  by code_simp

text \<open>A chain slug used in two projects, on the roadmap of one.\<close>

definition ex_twins :: db where
  "ex_twins = empty_db\<lparr>db_chains := [mk_chain 1 ''a'' 0 0, (mk_chain 2 ''a'' 0 0)\<lparr>c_project := ''q''\<rparr>],
     db_roadmap := [mk_road 1 ''a'']\<rparr>"

lemma twins_eval: "length (HandleRoadmapList ex_twins ''p'') = 2"
  by code_simp

end
