(* ===== verification/Roadmap_Properties.thy ===== *)
theory Roadmap_Properties
  imports Roadmap_Samples
begin

text \<open>
  The roadmap handlers and the computed plan: what a successful call leaves in the tables, that a
  preview foretells the set it previews, the dependency order, and what the reads miss.
\<close>

section \<open>Layout after a call\<close>

lemma WithWrite_ingest:
  assumes "folds_work aff E" "WithWrite E c (emit_roadmap E c scope p) w = (Inr i, w')"
  obtains raw where "ingest (work_projections aff) raw (w_db w) = (Inr (), w_db w')"
    "ev_kind raw = ''roadmap''" "ev_type raw = ''RoadmapUpdated''" "ev_project raw = Some scope"
    "ev_payload raw = Some (marshal_payload (PRoadmapUpdated p))"
proof -
  obtain w2 where w2: "emit_roadmap E c scope p (w\<lparr>w_owner := cx_gid c\<rparr>) = (Inr i, w2)" "w_db w2 = w_db w'"
    using assms(2) by (auto simp: WithWrite_Inr)
  show ?thesis
  proof (rule emit_roadmap_Inr [OF assms(1) w2(1)])
    fix raw assume "ingest (work_projections aff) raw (w_db (w\<lparr>w_owner := cx_gid c\<rparr>)) = (Inr (), w_db w2)"
      "ev_kind raw = ''roadmap''" "ev_type raw = ''RoadmapUpdated''" "ev_project raw = Some scope"
      "ev_payload raw = Some (marshal_payload (PRoadmapUpdated p))"
    then show ?thesis using w2(2) by (intro that [of raw]) simp_all
  qed
qed

text \<open>A committed roadmap event, down to the arm of the fold that it runs.\<close>

lemma committed_fold:
  assumes "folds_work aff E" "WithWrite E c (emit_roadmap E c scope p) w = (Inr i, w')" "RoadmapUpdatedPayload_ok p"
  obtains evt d d' where "foldRoadmapUpdated evt d = (Inr (), d')" "db_roadmap d = db_roadmap (w_db w)"
    "db_roadmap d' = db_roadmap (w_db w')" "ev_project evt = Some scope"
    "payload_of unmarshal_RoadmapUpdatedPayload evt = tx_return (legacy_items p)"
proof -
  obtain raw where raw: "ingest (work_projections aff) raw (w_db w) = (Inr (), w_db w')"
    "ev_kind raw = ''roadmap''" "ev_type raw = ''RoadmapUpdated''" "ev_project raw = Some scope"
    "ev_payload raw = Some (marshal_payload (PRoadmapUpdated p))"
    by (rule WithWrite_ingest [OF assms(1,2)])
  obtain d d' where d: "db_roadmap d = db_roadmap (w_db w)" "roadmap_view_Fold raw d = (Inr (), d')"
    "db_roadmap (w_db w') = db_roadmap d'" by (rule ingest_roadmap [OF raw(1)])
  show ?thesis
    using that [OF _ d(1) d(3) [symmetric] raw(4) roadmap_decoded [OF raw(5) assms(3)]] d(2) raw(3)
    by (simp add: roadmap_view_Fold_def)
qed

lemma roadmap_set_ok:
  assumes "folds_work aff E" "HandleRoadmapSet E c project params w = (Inr res, w')" "rs_ok res"
  obtains items resolved scope positions new where
    "decode_params unmarshal_roadmapSetParams params = Inr items"
    "validate_items (w_db w) project items = Inr (resolved, scope, positions)"
    "rs_project res = scope" "rs_count res = length items"
    "db_roadmap (w_db w') = filter (\<lambda>r. r_project r \<noteq> scope) (db_roadmap (w_db w)) @ new"
    "rows_for scope (ru_items (set_payload items resolved positions)) new"
proof -
  obtain items where items: "decode_params unmarshal_roadmapSetParams params = Inr items"
    using assms(2,3) by (auto simp: HandleRoadmapSet_def set_error_def split: sum.splits)
  obtain resolved scope positions where v: "validate_items (w_db w) project items = Inr (resolved, scope, positions)"
    using assms(2,3) by (auto simp: HandleRoadmapSet_def items set_error_def split: sum.splits)
  obtain i where tx: "WithWrite E c (emit_roadmap E c scope (set_payload items resolved positions)) w = (Inr i, w')"
    and res: "rs_project res = scope" "rs_count res = length items"
    using assms(2) by (auto simp: HandleRoadmapSet_def items v tx_simps)
  obtain evt d d' where f: "foldRoadmapUpdated evt d = (Inr (), d')" "db_roadmap d = db_roadmap (w_db w)"
    "db_roadmap d' = db_roadmap (w_db w')" "ev_project evt = Some scope"
    "payload_of unmarshal_RoadmapUpdatedPayload evt = tx_return (legacy_items (set_payload items resolved positions))"
    by (rule committed_fold [OF assms(1) tx set_payload_ok(1) [OF items v]])
  have "roadmap_set scope evt (set_payload items resolved positions) d = (Inr (), d')"
    using f(1,4,5) set_payload_items(2) [OF validate_items_Inr(4,5) [OF v]]
    by (simp add: foldRoadmapUpdated_def tx_run set_payload_def)
  then show ?thesis using roadmap_set_layout that [OF items v res] f(2,3) by metis
qed

text \<open>C17. Replacing a roadmap: when \<open>roadmap_set\<close> answers ok, the rows of the answered project are
  exactly the items of the call, in order, each with its note, its chain and its effective position;
  no two share a position, the count is their number, and the rows of other projects are untouched.\<close>

theorem roadmap_set_replaces_one_project:
  assumes "HandleRoadmapSet (SetFoldHook (FoldAll (work_projections aff)) E) c project params w = (Inr res, w')"
    and "rs_ok res"
  shows "\<exists>items resolved positions. decode_params unmarshal_roadmapSetParams params = Inr items \<and>
    resolve_items (w_db w) items = Inr resolved \<and> effectivePositions items = Inr positions \<and> distinct positions \<and>
    length items = rs_count res \<and> (project = [] \<or> rs_project res = project) \<and>
    filter (\<lambda>r. r_project r \<noteq> rs_project res) (db_roadmap (w_db w')) = filter (\<lambda>r. r_project r \<noteq> rs_project res) (db_roadmap (w_db w)) \<and>
    map row_item (filter (\<lambda>r. r_project r = rs_project res) (db_roadmap (w_db w'))) =
      map (\<lambda>(it, r, pos). item_payload it (snd r) pos) (zip items (zip resolved positions))"
proof -
  obtain items resolved scope positions new where items: "decode_params unmarshal_roadmapSetParams params = Inr items"
    and v: "validate_items (w_db w) project items = Inr (resolved, scope, positions)"
    and res: "rs_project res = scope" "rs_count res = length items"
    and rows: "db_roadmap (w_db w') = filter (\<lambda>r. r_project r \<noteq> scope) (db_roadmap (w_db w)) @ new"
    and new: "rows_for scope (ru_items (set_payload items resolved positions)) new"
    by (rule roadmap_set_ok [OF SetFoldHook_folds assms])
  have "filter (\<lambda>r. r_project r \<noteq> scope) new = []" "filter (\<lambda>r. r_project r = scope) new = new"
    using new by (auto simp: rows_for_def list_all_iff filter_empty_conv)
  moreover have "project = [] \<or> scope = project"
    using validate_items_Inr(2) [OF v] by (auto simp: resolveProjectScope_def split: list.splits if_splits)
  ultimately show ?thesis
    using items validate_items_Inr [OF v] res new unfolding rows
    by (intro exI [of _ items] exI [of _ resolved] exI [of _ positions])
      (simp add: rows_for_def set_payload_def comp_def)
qed

theorem roadmap_set_replaces_one_project_witness:
  "\<exists>res w. HandleRoadmapSet road_env ok_ctx ''p'' (road_args [(''b'', 1), (''c'', 5)]) (mk_world ex_roads) = (Inr res, w) \<and>
     rs_project res = ''p'' \<and> layout w = [(''b'', 1), (''c'', 5)] \<and>
     filter (\<lambda>r. r_project r \<noteq> ''p'') (db_roadmap (w_db w)) = filter (\<lambda>r. r_project r \<noteq> ''p'') (db_roadmap ex_roads)"
proof -
  obtain r w where eq: "HandleRoadmapSet road_env ok_ctx ''p'' (road_args [(''b'', 1), (''c'', 5)]) (mk_world ex_roads) = (r, w)"
    by fastforce
  have ev: "map_sum id (\<lambda>x. (rs_ok x, rs_project x)) r = Inr (True, ''p'')" "layout w = [(''b'', 1), (''c'', 5)]"
    using roadmap_set_eval unfolding eq prod.case by blast+
  obtain res where res: "r = Inr res" "rs_ok res" "rs_project res = ''p''" using ev(1) by (cases r) simp_all
  from roadmap_set_replaces_one_project [OF eq [unfolded road_env_def res(1)] res(2)] eq res(1,3) ev(2) show ?thesis
    by (auto simp: mk_world_def)
qed

section \<open>The preview\<close>

text \<open>The position of a reference on a project's roadmap.\<close>

definition placed_at :: "db \<Rightarrow> string \<Rightarrow> string \<times> string \<Rightarrow> int option" where
  "placed_at d scope ref = map_option r_position (sql_first (\<lambda>r. roadmap_key r = (scope, ref)) (db_roadmap d))"

lemma placed_at_iff:
  assumes "distinct (map roadmap_key (db_roadmap d))"
  shows "placed_at d scope ref = Some p \<longleftrightarrow> (\<exists>r \<in> set (db_roadmap d). roadmap_key r = (scope, ref) \<and> r_position r = p)"
proof
  assume "placed_at d scope ref = Some p"
  then show "\<exists>r \<in> set (db_roadmap d). roadmap_key r = (scope, ref) \<and> r_position r = p"
    by (auto simp: placed_at_def dest!: sql_first_Some)
next
  assume "\<exists>r \<in> set (db_roadmap d). roadmap_key r = (scope, ref) \<and> r_position r = p"
  then obtain r where r: "r \<in> set (db_roadmap d)" "roadmap_key r = (scope, ref)" "r_position r = p" by blast
  then have "sql_first (\<lambda>x. roadmap_key x = (scope, ref)) (db_roadmap d) = Some r"
    by (intro sql_first_key_unique [OF assms r(1)]) simp
  then show "placed_at d scope ref = Some p" using r(3) by (simp add: placed_at_def)
qed

lemma go_map_iff: "distinct (map fst kvs) \<Longrightarrow> go_map kvs k = Some v \<longleftrightarrow> (k, v) \<in> set kvs"
  by (simp add: go_map_def rev_map [symmetric])

text \<open>A map of a project's rows from references to positions.\<close>

lemma rows_map:
  assumes "distinct (map roadmap_key rows)" "list_all (\<lambda>r. r_project r = scope) rows"
  shows "distinct (map (\<lambda>r. (r_ref_kind r, r_ref_slug r)) rows)"
proof -
  have "map roadmap_key rows = map (Pair scope) (map (\<lambda>r. (r_ref_kind r, r_ref_slug r)) rows)"
    using assms(2) by (auto simp: roadmap_key_def list_all_iff)
  then show ?thesis using assms(1) by (metis distinct_map)
qed

lemma map_ext_Some: "(\<And>k v. m k = Some v \<longleftrightarrow> n k = Some v) \<Longrightarrow> m = n"
  by (rule ext) (metis not_None_eq)

definition ref_pos :: "roadmap_row \<Rightarrow> (string \<times> string) \<times> int" where
  "ref_pos r = ((r_ref_kind r, r_ref_slug r), r_position r)"

lemma preview_sets:
  assumes cur: "\<And>ref p. before ref = Some p \<longleftrightarrow> (\<exists>r \<in> set (scope_rows d scope). ref_pos r = (ref, p))"
    and props: "\<And>ref p. after ref = Some p \<longleftrightarrow> (ref, p) \<in> set (zip (map (\<lambda>it. (si_ref_kind it, si_ref_slug it)) items) positions)"
    and dist: "distinct (map fst (map ref_pos (scope_rows d scope)))"
      "distinct (map fst (zip (map (\<lambda>it. (si_ref_kind it, si_ref_slug it)) items) positions))"
    and pv: "pv = preview_of d scope items positions"
  shows "set (pv_removed pv) = {(k, s, p). before (k, s) = Some p \<and> after (k, s) = None}"
    "set (pv_added pv) = {(k, s, p). before (k, s) = None \<and> after (k, s) = Some p}"
    "set (pv_repositioned pv) = {(k, s, p, q). before (k, s) = Some p \<and> after (k, s) = Some q \<and> p \<noteq> q}"
    "set (pv_unchanged pv) = {(k, s, p). before (k, s) = Some p \<and> after (k, s) = Some p}"
proof -
  have map_eq: "go_map (map ref_pos (scope_rows d scope)) = before"
    "go_map (zip (map (\<lambda>it. (si_ref_kind it, si_ref_slug it)) items) positions) = after"
    by (rule map_ext_Some, use cur props dist in \<open>simp add: go_map_iff image_iff; metis\<close>)+
  note def = pv preview_of_def Let_def map_eq [unfolded ref_pos_def] if_distrib [of set]
  show "set (pv_removed pv) = {(k, s, p). before (k, s) = Some p \<and> after (k, s) = None}"
    by (auto simp: def cur ref_pos_def image_iff)
  show "set (pv_added pv) = {(k, s, p). before (k, s) = None \<and> after (k, s) = Some p}"
    by (auto simp: def props image_iff)
  show "set (pv_repositioned pv) = {(k, s, p, q). before (k, s) = Some p \<and> after (k, s) = Some q \<and> p \<noteq> q}"
    by (auto simp: def props split: option.splits if_splits)
  show "set (pv_unchanged pv) = {(k, s, p). before (k, s) = Some p \<and> after (k, s) = Some p}"
    by (auto simp: def props image_iff)
qed

text \<open>The rows a set leaves, as the pairs the preview proposes.\<close>

lemma proposed_pairs:
  assumes "rows_for scope (ru_items (set_payload items resolved positions)) new"
    and "length resolved = length items" "length positions = length items"
  shows "map ref_pos new = zip (map (\<lambda>it. (si_ref_kind it, si_ref_slug it)) items) positions"
proof -
  let ?f = "\<lambda>i. ((ri_ref_kind i, ri_ref_slug i), ri_position i)"
  have "map ref_pos new = map ?f (map row_item new)" by (simp add: ref_pos_def row_item_def)
  also have "\<dots> = map ?f (ru_items (set_payload items resolved positions))" using assms(1) by (simp add: rows_for_def)
  also have "\<dots> = zip (map (\<lambda>it. (si_ref_kind it, si_ref_slug it)) items) positions"
    using assms(2,3) by (intro nth_equalityI) (simp_all add: set_payload_def item_payload_def)
  finally show ?thesis .
qed

lemma placed_pairs:
  assumes "distinct (map roadmap_key (db_roadmap d))" "filter (\<lambda>r. r_project r = scope) (db_roadmap d) = rows"
  shows "placed_at d scope ref = Some p \<longleftrightarrow> (ref, p) \<in> set (map ref_pos rows)"
    "distinct (map fst (map ref_pos rows))"
proof -
  show "placed_at d scope ref = Some p \<longleftrightarrow> (ref, p) \<in> set (map ref_pos rows)"
    using assms(2) by (auto simp: placed_at_iff [OF assms(1)] roadmap_key_def ref_pos_def)
  have "distinct (map roadmap_key rows)" using assms distinct_map_filter by blast
  moreover have "list_all (\<lambda>r. r_project r = scope) rows" using assms(2) by (auto simp: list_all_iff)
  ultimately show "distinct (map fst (map ref_pos rows))" using rows_map by (simp add: ref_pos_def comp_def)
qed

text \<open>C14. The preview foretells the set: when \<open>roadmap_preview_set\<close> and then \<open>roadmap_set\<close> answer the
  same call on the same state with a preview and with ok, the references the preview lists as removed,
  added, repositioned and unchanged are exactly those, with the positions before and after the set.\<close>

theorem preview_foretells_set:
  assumes "wf_db (w_db w)" "HandleRoadmapPreviewSet (w_db w) project params = Inr pv"
    and "HandleRoadmapSet (SetFoldHook (FoldAll (work_projections aff)) E) c project params w = (Inr res, w')"
    and "rs_ok res"
  shows "set (pv_removed pv) = {(k, s, p). placed_at (w_db w) (rs_project res) (k, s) = Some p \<and>
      placed_at (w_db w') (rs_project res) (k, s) = None} \<and>
    set (pv_added pv) = {(k, s, p). placed_at (w_db w) (rs_project res) (k, s) = None \<and>
      placed_at (w_db w') (rs_project res) (k, s) = Some p} \<and>
    set (pv_repositioned pv) = {(k, s, p, q). placed_at (w_db w) (rs_project res) (k, s) = Some p \<and>
      placed_at (w_db w') (rs_project res) (k, s) = Some q \<and> p \<noteq> q} \<and>
    set (pv_unchanged pv) = {(k, s, p). placed_at (w_db w) (rs_project res) (k, s) = Some p \<and>
      placed_at (w_db w') (rs_project res) (k, s) = Some p}"
proof -
  let ?E = "SetFoldHook (FoldAll (work_projections aff)) E"
  obtain items resolved scope positions new where items: "decode_params unmarshal_roadmapSetParams params = Inr items"
    and v: "validate_items (w_db w) project items = Inr (resolved, scope, positions)"
    and res: "rs_project res = scope" "rs_count res = length items"
    and rows: "db_roadmap (w_db w') = filter (\<lambda>r. r_project r \<noteq> scope) (db_roadmap (w_db w)) @ new"
    and new: "rows_for scope (ru_items (set_payload items resolved positions)) new"
    by (rule roadmap_set_ok [OF SetFoldHook_folds assms(3,4)])
  have pv: "pv = preview_of (w_db w) scope items positions"
    using assms(2) by (simp add: HandleRoadmapPreviewSet_def items v)
  have "wf_db (w_db w')"
    using evolvesD [OF evolves_roadmap_set [of aff ?E c project params], of w] assms(1,3) runs_to_wf
    by (auto simp: evolves_at_def)
  then have keys: "distinct (map roadmap_key (db_roadmap (w_db w)))" "distinct (map roadmap_key (db_roadmap (w_db w')))"
    using assms(1) by (simp_all add: wf_db_def)
  have "filter (\<lambda>r. r_project r = scope) (db_roadmap (w_db w')) = new"
    using new by (auto simp: rows rows_for_def list_all_iff)
  note after = placed_pairs [OF keys(2) this, unfolded proposed_pairs [OF new validate_items_Inr(4,5) [OF v]]]
  note before = placed_pairs [OF keys(1) refl, of scope]
  have cur: "placed_at (w_db w) scope ref = Some p \<longleftrightarrow> (\<exists>r \<in> set (scope_rows (w_db w) scope). ref_pos r = (ref, p))" for ref p
    unfolding before(1) by (auto simp: scope_rows_def image_iff)
  have "distinct (map fst (map ref_pos (scope_rows (w_db w) scope)))"
    using before(2) by (simp add: scope_rows_def distinct_map inj_on_def)
  then show ?thesis unfolding res(1) using preview_sets [OF cur after(1) _ after(2) pv] by simp
qed

lemma ex_roads_ok: "wf_db ex_roads" "positions_unique (db_roadmap ex_roads)"
  by (auto simp: ex_roads_def mk_road_def ex_rows wf_db_def wf_tasks_def wf_chains_def wf_refs_def wf_blockers_def
      wf_bugs_def wf_suggestions_def wf_memories_def key_defs chain_check_def positions_unique_def position_key_def)

theorem preview_foretells_set_witness:
  "\<exists>res w. HandleRoadmapSet road_env ok_ctx ''p'' (road_args [(''b'', 1), (''c'', 5)]) (mk_world ex_roads) = (Inr res, w) \<and>
     placed_at (w_db w) ''p'' (''chain'', ''a'') = None \<and> placed_at (w_db w) ''p'' (''chain'', ''c'') = Some 5"
proof -
  obtain r w where eq: "HandleRoadmapSet road_env ok_ctx ''p'' (road_args [(''b'', 1), (''c'', 5)]) (mk_world ex_roads) = (r, w)"
    by fastforce
  have ev: "map_sum id (\<lambda>x. (rs_ok x, rs_project x)) r = Inr (True, ''p'')"
    using roadmap_set_eval unfolding eq prod.case by blast
  obtain res where res: "r = Inr res" "rs_ok res" "rs_project res = ''p''" using ev by (cases r) simp_all
  have "wf_db (w_db (mk_world ex_roads))" "HandleRoadmapPreviewSet (w_db (mk_world ex_roads)) ''p'' (road_args [(''b'', 1), (''c'', 5)]) =
     Inr \<lparr>pv_removed = [(''chain'', ''a'', 1)], pv_added = [(''chain'', ''c'', 5)],
       pv_repositioned = [(''chain'', ''b'', 2, 1)], pv_unchanged = []\<rparr>"
    using ex_roads_ok(1) preview_eval by (simp_all add: mk_world_def)
  note sets = preview_foretells_set [OF this eq [unfolded road_env_def res(1)] res(2), unfolded res(3)]
  have "(''chain'', ''a'', 1) \<in> {(k, s, p). placed_at (w_db (mk_world ex_roads)) ''p'' (k, s) = Some p \<and> placed_at (w_db w) ''p'' (k, s) = None}"
    unfolding conjunct1 [OF sets, symmetric] by simp
  moreover have "(''chain'', ''c'', 5) \<in> {(k, s, p). placed_at (w_db (mk_world ex_roads)) ''p'' (k, s) = None \<and> placed_at (w_db w) ''p'' (k, s) = Some p}"
    unfolding conjunct1 [OF conjunct2 [OF sets], symmetric] by simp
  ultimately show ?thesis using eq res(1) by auto
qed

text \<open>C40. The preview and the set disagree on a reference given twice: whatever items
  \<open>roadmap_preview_set\<close> answers for, when two of them name one reference, \<open>roadmap_set\<close> with the
  same parameters is never ok and leaves the database as it was, since the table has one row for each
  reference of a project.\<close>

theorem preview_accepts_what_set_refuses:
  assumes "wf_db (w_db w)" "HandleRoadmapPreviewSet (w_db w) project params = Inr pv"
    and items: "decode_params unmarshal_roadmapSetParams params = Inr items"
      "\<not> distinct (map (\<lambda>it. (si_ref_kind it, si_ref_slug it)) items)"
    and call: "HandleRoadmapSet (SetFoldHook (FoldAll (work_projections aff)) E) c project params w = (r, w')"
  shows "w_db w' = w_db w \<and> \<not> (\<exists>res. r = Inr res \<and> rs_ok res)"
proof -
  let ?E = "SetFoldHook (FoldAll (work_projections aff)) E"
  obtain resolved scope positions where v: "validate_items (w_db w) project items = Inr (resolved, scope, positions)"
    using assms(2) items(1) by (auto simp: HandleRoadmapPreviewSet_def split: sum.splits)
  have bad: "\<not> rs_ok res" if res: "r = Inr res" for res
  proof
    assume "rs_ok res"
    then obtain resolved' scope' positions' new where v': "validate_items (w_db w) project items = Inr (resolved', scope', positions')"
      and rows: "db_roadmap (w_db w') = filter (\<lambda>r. r_project r \<noteq> scope') (db_roadmap (w_db w)) @ new"
      and new: "rows_for scope' (ru_items (set_payload items resolved' positions')) new"
      using roadmap_set_ok [OF SetFoldHook_folds call [unfolded res]] items(1) by (metis sum.inject(2))
    have "evolves_at aff w w'" using evolvesD [OF evolves_roadmap_set [OF SetFoldHook_folds], of aff w E c project params] call by simp
    then have "wf_db (w_db w')" using evolves_atD(1) [OF _ assms(1)] runs_to_wf [OF _ assms(1)] by blast
    then have "distinct (map roadmap_key new)" using rows by (simp add: wf_db_def)
    moreover have "map roadmap_key new = map (\<lambda>it. (scope', si_ref_kind it, si_ref_slug it)) items"
      using new validate_items_Inr(4,5) [OF v'] unfolding rows_for_def
      by (auto simp: set_payload_def row_item_def roadmap_key_def item_payload_def list_eq_iff_nth_eq list_all_length)
    moreover have "distinct (map (\<lambda>it. (scope', si_ref_kind it, si_ref_slug it)) items) =
        distinct (map (\<lambda>it. (si_ref_kind it, si_ref_slug it)) items)"
      by (simp add: distinct_map inj_on_def)
    ultimately show False using items(2) by simp
  qed
  obtain i w1 where tx: "WithWrite ?E c (emit_roadmap ?E c scope (set_payload items resolved positions)) w = (i, w1)" by fastforce
  have "w_db w' = w_db w"
  proof (cases rule: WithWrite_cases [of ?E c "emit_roadmap ?E c scope (set_payload items resolved positions)" w])
    case (rolled_back e)
    then show ?thesis using call tx by (auto simp: HandleRoadmapSet_def items(1) v tx_bind_def tx_apply)
  next
    case (committed i w2)
    then show ?thesis using call bad by (auto simp: HandleRoadmapSet_def items(1) v tx_bind_def tx_apply)
  qed
  then show ?thesis using bad by blast
qed

theorem preview_accepts_what_set_refuses_witness:
  "\<exists>pv r w. HandleRoadmapPreviewSet ex_roads ''p'' (road_args [(''c'', 1), (''c'', 2)]) = Inr pv \<and>
     HandleRoadmapSet road_env ok_ctx ''p'' (road_args [(''c'', 1), (''c'', 2)]) (mk_world ex_roads) = (r, w) \<and>
     w_db w = ex_roads \<and> \<not> (\<exists>res. r = Inr res \<and> rs_ok res)"
proof -
  let ?args = "road_args [(''c'', 1), (''c'', 2)]"
  let ?it = "\<lambda>p. \<lparr>si_ref_kind = ''chain'', si_ref_slug = ''c'', si_note = [], si_position = Some p\<rparr>"
  obtain r w where eq: "HandleRoadmapSet road_env ok_ctx ''p'' ?args (mk_world ex_roads) = (r, w)" by fastforce
  obtain pv where pv: "HandleRoadmapPreviewSet (w_db (mk_world ex_roads)) ''p'' ?args = Inr pv"
    using repeated_ref_eval(1) by (auto simp: mk_world_def split: sum.splits)
  have "wf_db (w_db (mk_world ex_roads))" using ex_roads_ok(1) by (simp add: mk_world_def)
  from preview_accepts_what_set_refuses [OF this pv repeated_ref_eval(2) _ eq [unfolded road_env_def]] eq pv
  show ?thesis by (auto simp: mk_world_def)
qed

section \<open>Insertion\<close>

lemma fold_max_in: "fold max ps (p :: int) \<in> set (p # ps)"
proof (induction ps arbitrary: p)
  case (Cons a ps)
  then show ?case using Cons.IH [of "max a p"] by (auto simp: max_def split: if_splits)
qed simp

lemma current_max_range:
  "\<forall>r \<in> set (db_roadmap d). - (2 ^ 63) \<le> r_position r \<and> r_position r < 2 ^ 63 - 1 \<Longrightarrow>
   - (2 ^ 63) \<le> current_max d scope \<and> current_max d scope < 2 ^ 63 - 1"
proof -
  assume all: "\<forall>r \<in> set (db_roadmap d). - (2 ^ 63) \<le> r_position r \<and> r_position r < 2 ^ 63 - 1"
  show ?thesis
  proof (cases "map r_position (filter (\<lambda>r. r_project r = scope) (db_roadmap d))")
    case (Cons p ps)
    have "fold max ps p \<in> set (map r_position (filter (\<lambda>r. r_project r = scope) (db_roadmap d)))"
      unfolding Cons by (rule fold_max_in)
    then obtain r where "r \<in> set (db_roadmap d)" "fold max ps p = r_position r" by (auto simp del: fold_simps)
    then show ?thesis using all Cons by (simp add: current_max_def)
  qed (simp add: current_max_def)
qed

lemma insert_target_eq:
  assumes "- (2 ^ 63) \<le> m \<and> m < 2 ^ 63 - 1"
  shows "insert_target m q = (case q of None \<Rightarrow> m + 1 | Some p \<Rightarrow> if p < 1 then 1 else min p (m + 1))"
proof -
  have "wrap64 (m + 1) = m + 1" using assms by (intro wrap64_id) (simp add: in_int64_def)
  then show ?thesis by (simp add: insert_target_def min_def split: option.splits)
qed

lemma roadmap_insert_ok:
  assumes "folds_work aff E" "HandleRoadmapInsert E c project params w = (Inr res, w')" "rn_ok res"
  obtains it projID chain row where "decode_params unmarshal_RoadmapSetInput params = Inr it"
    "resolveRef (w_db w) (si_ref_kind it) (si_ref_slug it) = Inr (projID, chain)"
    "\<forall>r \<in> set (db_roadmap (w_db w)). roadmap_key r \<noteq> (projID, si_ref_kind it, si_ref_slug it)"
    "rn_position res = insert_target (current_max (w_db w) projID) (si_position it)"
    "db_roadmap (w_db w') = map (\<lambda>r. if r_project r = projID \<and> rn_position res \<le> r_position r
        then r\<lparr>r_position := r_position r + 1\<rparr> else r) (db_roadmap (w_db w)) @ [row]"
    "r_project row = projID" "row_item row = item_payload it chain (rn_position res)"
proof -
  have bad: "\<not> rn_ok (insert_error e)" for e by (simp add: insert_error_def)
  obtain it where it: "decode_params unmarshal_RoadmapSetInput params = Inr it"
    using assms(2,3) bad by (auto simp: HandleRoadmapInsert_def split: sum.splits)
  obtain projID chain where ref: "resolveRef (w_db w) (si_ref_kind it) (si_ref_slug it) = Inr (projID, chain)"
    using assms(2,3) bad by (auto simp: HandleRoadmapInsert_def it split: sum.splits if_splits)
  let ?w = "w\<lparr>w_owner := cx_gid c\<rparr>"
  obtain w2 where body: "insert_body E c projID chain it ?w = (Inr (rn_position res), w2)" "w_db w' = w_db w2"
    using assms(2,3) bad
    by (auto simp: HandleRoadmapInsert_def it ref report_Inr tx_simps WithWrite_Inr split: if_splits)
  define pos where "pos = insert_target (current_max (w_db w) projID) (si_position it)"
  have new: "\<not> list_ex (\<lambda>r. roadmap_key r = (projID, si_ref_kind it, si_ref_slug it)) (db_roadmap (w_db w))"
    using body(1) unfolding insert_body_def by (auto simp: tx_bind_Inr tx_apply)
  then have fresh: "\<forall>r \<in> set (db_roadmap (w_db w)). roadmap_key r \<noteq> (projID, si_ref_kind it, si_ref_slug it)"
    by (auto simp: list_ex_iff)
  have "\<exists>i. emit_roadmap E c projID (insert_payload it chain pos) ?w = (Inr i, w2) \<and> rn_position res = pos"
    using body(1) new unfolding insert_body_def tx_run by (simp add: pos_def tx_run) (auto simp: tx_bind_Inr tx_apply)
  then obtain i where emit: "emit_roadmap E c projID (insert_payload it chain pos) ?w = (Inr i, w2)"
    and res: "rn_position res = pos" by blast
  obtain j where "unmarshal_RoadmapSetInput j = Some it" using decode_params_Inr [OF it] by blast
  then have ok: "RoadmapUpdatedPayload_ok (insert_payload it chain pos)"
    unfolding pos_def by (intro insert_payload_ok insert_target_range) (rule decoded_input)
  obtain raw where raw: "ingest (work_projections aff) raw (w_db ?w) = (Inr (), w_db w2)"
    "ev_kind raw = ''roadmap''" "ev_type raw = ''RoadmapUpdated''" "ev_project raw = Some projID"
    "ev_payload raw = Some (marshal_payload (PRoadmapUpdated (insert_payload it chain pos)))"
    by (rule emit_roadmap_Inr [OF assms(1) emit])
  obtain d d' where d: "db_roadmap d = db_roadmap (w_db ?w)" "roadmap_view_Fold raw d = (Inr (), d')"
    "db_roadmap (w_db w2) = db_roadmap d'" by (rule ingest_roadmap [OF raw(1)])
  have action: "ru_action_kind (insert_payload it chain pos) = ''insert''" by (simp add: insert_payload_def)
  have "roadmap_insert projID raw (insert_payload it chain pos) d = (Inr (), d')"
    using d(2) raw(3,4) roadmap_decoded [OF raw(5) ok] 
    by (simp add: roadmap_view_Fold_def foldRoadmapUpdated_def insert_payload_ok(2) tx_run action)
  then obtain row where "db_roadmap d' = map (\<lambda>r. if r_project r = projID \<and> pos \<le> r_position r
      then r\<lparr>r_position := r_position r + 1\<rparr> else r) (db_roadmap d) @ [row]" "r_project row = projID"
    "row_item row = item_payload it chain pos"
    by (rule roadmap_insert_layout [where item = "item_payload it chain pos" and rest = "[]"])
      (auto simp: insert_payload_def item_payload_def)
  then show ?thesis using that [OF it ref fresh] d(1,3) body(2) by (simp add: res pos_def)
qed

text \<open>C23. Inserting one entry: when \<open>roadmap_insert\<close> answers ok, and every position on the roadmap is an
  \<open>int64\<close> other than the largest, then with \<open>m\<close> the largest position of the project (zero if it has
  none) the answered position is \<open>m + 1\<close> when the call names none, 1 when it names one below 1, and
  the smaller of \<open>m + 1\<close> and the named one otherwise. So it lies between 1 and \<open>m + 1\<close> if \<open>m\<close> is not
  negative, while an append below a negative \<open>m\<close> answers a position below 1. The reference was not on the
  project's roadmap, the entries of the project at or after the position move down by one, and nothing
  else of the roadmap changes.\<close>

theorem roadmap_insert_shifts:
  assumes "HandleRoadmapInsert (SetFoldHook (FoldAll (work_projections aff)) E) c project params w = (Inr res, w')"
    and "rn_ok res" and range: "\<forall>r \<in> set (db_roadmap (w_db w)). - (2 ^ 63) \<le> r_position r \<and> r_position r < 2 ^ 63 - 1"
  shows "\<exists>it projID chain row. decode_params unmarshal_RoadmapSetInput params = Inr it \<and>
    resolveRef (w_db w) (si_ref_kind it) (si_ref_slug it) = Inr (projID, chain) \<and>
    rn_position res = (case si_position it of
        None \<Rightarrow> current_max (w_db w) projID + 1
      | Some p \<Rightarrow> if p < 1 then 1 else min p (current_max (w_db w) projID + 1)) \<and>
    (0 \<le> current_max (w_db w) projID \<longrightarrow> 1 \<le> rn_position res \<and> rn_position res \<le> current_max (w_db w) projID + 1) \<and>
    (current_max (w_db w) projID < 0 \<and> si_position it = None \<longrightarrow> rn_position res < 1) \<and>
    (\<forall>r \<in> set (db_roadmap (w_db w)). roadmap_key r \<noteq> (projID, si_ref_kind it, si_ref_slug it)) \<and>
    db_roadmap (w_db w') = map (\<lambda>r. if r_project r = projID \<and> rn_position res \<le> r_position r
        then r\<lparr>r_position := r_position r + 1\<rparr> else r) (db_roadmap (w_db w)) @ [row] \<and>
    r_project row = projID \<and> row_item row = item_payload it chain (rn_position res)"
proof -
  obtain it projID chain row where ok: "decode_params unmarshal_RoadmapSetInput params = Inr it"
    "resolveRef (w_db w) (si_ref_kind it) (si_ref_slug it) = Inr (projID, chain)"
    "\<forall>r \<in> set (db_roadmap (w_db w)). roadmap_key r \<noteq> (projID, si_ref_kind it, si_ref_slug it)"
    and pos: "rn_position res = insert_target (current_max (w_db w) projID) (si_position it)"
    and rows: "db_roadmap (w_db w') = map (\<lambda>r. if r_project r = projID \<and> rn_position res \<le> r_position r
        then r\<lparr>r_position := r_position r + 1\<rparr> else r) (db_roadmap (w_db w)) @ [row]"
    "r_project row = projID" "row_item row = item_payload it chain (rn_position res)"
    by (rule roadmap_insert_ok [OF SetFoldHook_folds assms(1,2)])
  note at = pos [unfolded insert_target_eq [OF current_max_range [OF range, of projID]]]
  have "0 \<le> current_max (w_db w) projID \<longrightarrow> 1 \<le> rn_position res \<and> rn_position res \<le> current_max (w_db w) projID + 1"
    "current_max (w_db w) projID < 0 \<and> si_position it = None \<longrightarrow> rn_position res < 1"
    unfolding at by (auto split: option.splits)
  then show ?thesis
    using ok at rows by (intro exI [of _ it] exI [of _ projID] exI [of _ chain] exI [of _ row]) blast
qed

theorem roadmap_insert_shifts_witness:
  "\<exists>res w. HandleRoadmapInsert road_env ok_ctx ''p'' (RawJson (road_item ''c'' 1)) (mk_world ex_roads) = (Inr res, w) \<and>
     layout w = [(''a'', 2), (''b'', 3), (''c'', 1)] \<and> (\<exists>row. row \<in> set (db_roadmap (w_db w)) \<and> r_position row = rn_position res)"
proof -
  obtain r w where eq: "HandleRoadmapInsert road_env ok_ctx ''p'' (RawJson (road_item ''c'' 1)) (mk_world ex_roads) = (r, w)"
    by fastforce
  have ev: "map_sum id (\<lambda>x. (rn_ok x, rn_position x)) r = Inr (True, 1)" "layout w = [(''a'', 2), (''b'', 3), (''c'', 1)]"
    using roadmap_insert_eval unfolding eq prod.case by blast+
  obtain res where res: "r = Inr res" "rn_ok res" using ev(1) by (cases r) simp_all
  have range: "\<forall>r \<in> set (db_roadmap (w_db (mk_world ex_roads))). - (2 ^ 63) \<le> r_position r \<and> r_position r < 2 ^ 63 - 1"
    by (simp add: mk_world_def ex_roads_def mk_road_def)
  obtain rows row it chain where "db_roadmap (w_db w) = rows @ [row]" "row_item row = item_payload it chain (rn_position res)"
    using roadmap_insert_shifts [OF eq [unfolded road_env_def res(1)] res(2) range] by (elim exE conjE) (rule that)
  then show ?thesis using eq res(1) ev(2) by (auto simp: row_item_def item_payload_def)
qed

section \<open>Patching\<close>

text \<open>C25. Patching one entry: when \<open>roadmap_update\<close> answers ok, the entries of the project at the named position
  get the new reference with its chain if the call names one and the new note if it names one, an empty
  note clearing the old; every field the call leaves out, every other entry and all positions are kept.\<close>

theorem roadmap_update_patches:
  assumes "HandleRoadmapUpdate (SetFoldHook (FoldAll (work_projections aff)) E) c project params w = (Inr res, w')"
    and "ur_ok res"
  shows "\<exists>p existing new. decode_params unmarshal_roadmapUpdateParams params = Inr p \<and>
    update_precheck (w_db w) project p = Inr (existing, new) \<and>
    map row_layout (db_roadmap (w_db w')) = map (\<lambda>r. (r_project r,
      if r_project r = project \<and> r_position r = up_position p
      then \<lparr>ri_position = r_position r, ri_ref_kind = ur_ref_kind res, ri_ref_slug = ur_ref_slug res,
         ri_chain_slug = (case new of None \<Rightarrow> r_chain_slug r | Some (_, _, chain) \<Rightarrow> Some chain),
         ri_note = (case up_note p of None \<Rightarrow> r_note r | Some n \<Rightarrow> nonempty_ptr n)\<rparr>
      else row_item r)) (db_roadmap (w_db w)) \<and>
    (ur_ref_kind res, ur_ref_slug res) = (case new of None \<Rightarrow> existing | Some (k, s, _) \<Rightarrow> (k, s))"
proof -
  let ?E = "SetFoldHook (FoldAll (work_projections aff)) E"
  have bad: "\<not> ur_ok (update_error e)" for e by (simp add: update_error_def)
  obtain p where p: "decode_params unmarshal_roadmapUpdateParams params = Inr p"
    using assms bad by (auto simp: HandleRoadmapUpdate_def split: sum.splits)
  obtain existing new where pre: "update_precheck (w_db w) project p = Inr (existing, new)"
    using assms bad by (auto simp: HandleRoadmapUpdate_def p split: sum.splits)
  obtain i where tx: "WithWrite ?E c (emit_roadmap ?E c project (update_payload p existing new)) w = (Inr i, w')"
    and ref: "(ur_ref_kind res, ur_ref_slug res) = (case new of None \<Rightarrow> existing | Some (k, s, _) \<Rightarrow> (k, s))"
    using assms(1) by (auto simp: HandleRoadmapUpdate_def p pre tx_simps Let_def split: prod.splits option.splits)
  have "in_int64 (up_position p)"
    using decode_params_Inr [OF p] dec_int_range by (auto simp: unmarshal_roadmapUpdateParams_def bind_eq_Some_conv)
  then have ok: "RoadmapUpdatedPayload_ok (update_payload p existing new)" by (rule update_payload_ok)
  obtain evt d d' where f: "foldRoadmapUpdated evt d = (Inr (), d')" "db_roadmap d = db_roadmap (w_db w)"
    "db_roadmap d' = db_roadmap (w_db w')" "ev_project evt = Some project"
    "payload_of unmarshal_RoadmapUpdatedPayload evt = tx_return (legacy_items (update_payload p existing new))"
    by (rule committed_fold [OF SetFoldHook_folds tx ok])
  define item where "item = \<lparr>ri_position = up_position p, ri_ref_kind = ur_ref_kind res, ri_ref_slug = ur_ref_slug res,
      ri_chain_slug = map_option (\<lambda>(_, _, chain). chain) new, ri_note = up_note p\<rparr>"
  have items: "ru_action_kind (update_payload p existing new) = ''update''" "ru_items (update_payload p existing new) = [item]"
    using ref by (simp_all add: update_payload_def item_def split_beta flip: ref)
  have "roadmap_update project evt (update_payload p existing new) d = (Inr (), d')"
    using f(1,4,5) items(1) by (simp add: foldRoadmapUpdated_def tx_run update_payload_ok(2))
  from roadmap_update_layout [OF this items(2)]
  have "map row_layout (db_roadmap (w_db w')) = map (\<lambda>(q, x). if q = project \<and> ri_position x = ri_position item
      then (q, patched item x) else (q, x)) (map row_layout (db_roadmap (w_db w)))" by (simp only: f(2,3))
  then show ?thesis
    using p pre ref
    by (intro exI [of _ p] exI [of _ existing] exI [of _ new])
      (simp add: row_layout_def row_item_def patched_def item_def split: option.splits)
qed

theorem roadmap_update_patches_witness:
  "\<exists>res w. HandleRoadmapUpdate road_env ok_ctx ''p'' (RawJson (JObj [(''position'', JInt 2), (''note'', JStr ''n'')])) (mk_world ex_roads) = (Inr res, w) \<and>
     map r_note (db_roadmap (w_db w)) = [None, Some ''n''] \<and> map r_position (db_roadmap (w_db w)) = [1, 2]"
proof -
  obtain r w where eq: "HandleRoadmapUpdate road_env ok_ctx ''p'' (RawJson (JObj [(''position'', JInt 2), (''note'', JStr ''n'')])) (mk_world ex_roads) = (r, w)"
    by fastforce
  have ev: "map_sum id ur_ok r = Inr True" "map r_note (db_roadmap (w_db w)) = [None, Some ''n'']"
    using roadmap_update_eval unfolding eq prod.case by blast+
  obtain res where res: "r = Inr res" "ur_ok res" using ev(1) by (cases r) simp_all
  obtain f where lay: "map row_layout (db_roadmap (w_db w)) = map f (db_roadmap (w_db (mk_world ex_roads)))" "\<forall>r. ri_position (snd (f r)) = r_position r"
    using roadmap_update_patches [OF eq [unfolded road_env_def res(1)] res(2)]
    by (elim exE conjE) (rule that, assumption, simp add: row_item_def)
  have "map r_position (db_roadmap (w_db w)) = map (ri_position \<circ> snd) (map row_layout (db_roadmap (w_db w)))"
    by (simp add: row_layout_def row_item_def)
  also have "\<dots> = [1, 2]" unfolding lay(1) using lay(2) by (simp add: mk_world_def ex_roads_def mk_road_def)
  finally show ?thesis using eq res(1) ev(2) by simp
qed

section \<open>The computed plan\<close>

text \<open>The edges that gate a plan, the order it is computed from, and the chains in its scope.\<close>

definition gating :: "db \<Rightarrow> dep_row list \<Rightarrow> string \<Rightarrow> dep_row list" where
  "gating d deps project = plan_edges (plan_nodes d project) deps"

definition plan_order :: "db \<Rightarrow> dep_row list \<Rightarrow> string \<Rightarrow> int list" where
  "plan_order d deps project = kahnSort (plan_nodes d project) (gating d deps project)"

definition in_scope :: "db \<Rightarrow> string \<Rightarrow> int set" where
  "in_scope d project = c_id ` {c \<in> set (db_chains d). c_status c = ''open'' \<and> (project = [] \<or> c_project c = project)}"

lemma gating_iff:
  "e \<in> set (gating d deps project) \<longleftrightarrow> e \<in> set deps \<and> d_dependent e \<in> in_scope d project \<and> d_prerequisite e \<in> in_scope d project"
proof -
  have "(\<exists>n \<in> set (plan_nodes d project). pn_id n = i) \<longleftrightarrow> i \<in> in_scope d project" for i
    using plan_nodes_ids(2) [of d project] plan_rows_ids [of d project] unfolding in_scope_def by (metis imageE imageI)
  then show ?thesis by (auto simp: gating_def plan_edges_def list_ex_iff)
qed

lemma plan_inv: "\<exists>deg. kahn_inv (in_scope d project) (gating d deps project) [] deg (plan_order d deps project)"
  using kahnSort_inv [OF plan_nodes_ids(1) plan_edges_ends(1), of d project deps]
  unfolding plan_order_def gating_def in_scope_def plan_nodes_ids(2) plan_rows_ids .

lemma gating_ends: "d_prerequisite ` set (gating d deps project) \<subseteq> in_scope d project"
  by (auto simp: gating_iff)

lemma plan_length:
  assumes "distinct (plan_order d deps project)" "set (plan_order d deps project) \<subseteq> in_scope d project"
  shows "length (plan_order d deps project) < length (plan_nodes d project) \<longleftrightarrow> set (plan_order d deps project) \<noteq> in_scope d project"
proof -
  have ids: "set (map pn_id (plan_nodes d project)) = in_scope d project"
    using plan_nodes_ids(2) [of d project] plan_rows_ids [of d project] by (simp add: in_scope_def)
  have "length (plan_nodes d project) = card (in_scope d project)"
    using distinct_card [OF plan_nodes_ids(1) [of d project]] ids by simp
  moreover have "length (plan_order d deps project) = card (set (plan_order d deps project))"
    using distinct_card [OF assms(1)] by simp
  moreover have "finite (in_scope d project)" unfolding ids [symmetric] by simp
  ultimately show ?thesis using assms(2) by (metis card_subset_eq nat_neq_iff psubset_card_mono psubset_eq)
qed

text \<open>C12. Every roadmap plan ends: the loop of \<open>kahnSort\<close> returns each chain at most once and returns
  exactly the open chains in scope that are neither in a dependency cycle nor behind one; the answer
  has an error when, and only when, the dependencies among the open chains in scope have a cycle.\<close>

theorem roadmap_plan_ends_with_the_placeable:
  "distinct (plan_order d deps project) \<and>
   length (rp_order (HandleRoadmapPlan d deps project)) = length (plan_order d deps project) \<and>
   set (plan_order d deps project) = {m \<in> in_scope d project. \<not> behind_cycle (gating d deps project) m} \<and>
   (rp_error (HandleRoadmapPlan d deps project) = None \<longleftrightarrow> acyclic (dep_rel (gating d deps project)))"
proof -
  obtain deg where inv: "kahn_inv (in_scope d project) (gating d deps project) [] deg (plan_order d deps project)"
    using plan_inv by blast
  have set: "set (plan_order d deps project) = {m \<in> in_scope d project. \<not> behind_cycle (gating d deps project) m}"
    using kahn_inv_placed [OF inv gating_ends] by blast
  have "rp_error (HandleRoadmapPlan d deps project) = None \<longleftrightarrow>
      \<not> length (plan_order d deps project) < length (plan_nodes d project)"
    by (simp add: HandleRoadmapPlan_def plan_order_def gating_def Let_def)
  then have "rp_error (HandleRoadmapPlan d deps project) = None \<longleftrightarrow> acyclic (dep_rel (gating d deps project))"
    using plan_length [OF kahn_invD(1) [OF inv]] set kahnSort_complete [OF inv gating_ends] by blast
  then show ?thesis
    using set kahn_invD(1) [OF inv] by (simp add: HandleRoadmapPlan_def plan_order_def gating_def Let_def del: upt_Suc)
qed

text \<open>C18. The plan respects the dependencies: every entry answers the chain at its place of the order,
  numbered from 1; every gating prerequisite of a chain stands before it, and an entry is \<open>ready\<close> when its
  chain has no gating prerequisite and \<open>blocked\<close>, with its prerequisites listed, when it has one.\<close>

theorem roadmap_plan_is_topological:
  assumes "k < length (plan_order d deps project)"
  shows "let i = plan_order d deps project ! k; entry = rp_order (HandleRoadmapPlan d deps project) ! k;
      mine = filter (\<lambda>e. d_dependent e = i) (gating d deps project);
      slug = (\<lambda>j. pn_slug (node_of (plan_nodes d project) j)) in
    pe_position entry = Suc k \<and> pe_chain entry = slug i \<and>
    set (pe_depends_on entry) = (\<lambda>e. (slug (d_prerequisite e), d_reason e)) ` set mine \<and>
    pe_status entry = (if mine = [] then ''ready'' else ''blocked'') \<and>
    (\<forall>e \<in> set mine. d_prerequisite e \<in> set (take k (plan_order d deps project)))"
proof -
  obtain deg where inv: "kahn_inv (in_scope d project) (gating d deps project) [] deg (plan_order d deps project)"
    using plan_inv by blast
  have "rp_order (HandleRoadmapPlan d deps project) ! k =
      plan_entry (plan_nodes d project) (gating d deps project) (Suc k, plan_order d deps project ! k)"
    using assms by (simp add: HandleRoadmapPlan_def plan_order_def gating_def Let_def del: upt_Suc)
  then show ?thesis
    using kahn_invD(4) [OF inv assms] by (auto simp: plan_entry_def Let_def slice_sort_facts)
qed

theorem roadmap_plan_is_topological_witness:
  "d_prerequisite (mk_dep 1 2) \<in> set (take 1 (plan_order ex_roads [mk_dep 1 2] ''p'')) \<and>
   pe_status (rp_order (HandleRoadmapPlan ex_roads [mk_dep 1 2] ''p'') ! 1) = ''blocked''"
proof -
  have gate: "gating ex_roads [mk_dep 1 2] ''p'' = [mk_dep 1 2]" unfolding gating_def by code_simp
  have order: "plan_order ex_roads [mk_dep 1 2] ''p'' = [2, 1, 3, 4]"
    unfolding plan_order_def gate by (rule plan_ready_eval)
  have "1 < length (plan_order ex_roads [mk_dep 1 2] ''p'')" by (simp add: order)
  from roadmap_plan_is_topological [OF this] show ?thesis
    unfolding gate order by (simp add: Let_def mk_dep_def)
qed

text \<open>The cycle report blames the innocent: of four chains where \<open>b\<close> comes after \<open>a\<close> and \<open>c\<close> and \<open>d\<close>
  wait for each other, the plan places \<open>b\<close> and yet lists it among the chains of the cycle.\<close>

theorem cycle_report_names_a_placed_chain:
  "map pe_chain (rp_order (HandleRoadmapPlan ex_roads ex_cycle ''p'')) = [''a'', ''b''] \<and>
   rp_cycle (HandleRoadmapPlan ex_roads ex_cycle ''p'') = [''b'', ''c'', ''d'']"
  by code_simp

section \<open>Dependency edges\<close>

lemma chain_key_name: "fold_name ''chain'' = ''chain''"
  by code_simp

text \<open>C24. Adding and removing a dependency: after \<open>chain_dep_add\<close> answers ok, one edge between two chains of
  one project is new, \<open>chain_dep_list\<close> of the dependent shows the prerequisite with the reason, and, when
  transactions begin and commit, \<open>chain_dep_remove\<close> with the same parameters answers ok and leaves the
  edges as they were; no event-sourced table changes.\<close>

theorem chain_dep_add_remove:
  assumes "HandleChainDepAdd E c project params w = (Inr res, w1)" "cd_ok res"
    and "em_begin E = (\<lambda>_. None)" "em_commit E = (\<lambda>_. None)"
  shows "\<exists>e x y. w_deps w1 = w_deps w @ [e] \<and> w_db w1 = w_db w \<and> dep_check e \<and> dep_key e \<notin> dep_key ` set (w_deps w) \<and>
    x \<in> set (db_chains (w_db w)) \<and> y \<in> set (db_chains (w_db w)) \<and> c_id x = d_dependent e \<and> c_id y = d_prerequisite e \<and>
    c_project x = c_project y \<and>
    (\<exists>l. HandleChainDepList (w_db w1) (w_deps w1) (RawJson (JObj [(''chain'', JStr (cd_dependent res))])) = Inr (Inr l) \<and>
       (cd_prerequisite res, cd_reason res) \<in> set (cl_prerequisites l)) \<and>
    (\<exists>res' w2. HandleChainDepRemove E c params w1 = (Inr res', w2) \<and> cd_ok res' \<and> w_deps w2 = w_deps w \<and> w_db w2 = w_db w)"
proof -
  obtain p x y e where p: "decode_params unmarshal_chainDepAddParams params = Inr p"
    "da_dependent p \<noteq> []" "da_prerequisite p \<noteq> []" "da_dependent p \<noteq> da_prerequisite p"
    and ends: "dep_ends (w_db w) (da_dependent p) (da_prerequisite p) = Inr (x, y)" "cr_project x = cr_project y"
    and res: "res = dep_ok (da_dependent p) (da_prerequisite p) (da_reason p)"
    and e: "e = \<lparr>d_dependent = cr_id x, d_prerequisite = cr_id y, d_reason = da_reason p\<rparr>"
    "dep_key e \<notin> dep_key ` set (w_deps w)" "dep_check e"
    and w1: "w1 = w\<lparr>w_direct := (w_direct w)\<lparr>dt_chain_deps := w_deps w @ [e]\<rparr>, w_owner := 0\<rparr>"
    by (rule HandleChainDepAdd_ok [OF assms(1,2)])
  have two: "resolveChain (w_db w) (da_dependent p) = Inr x" "resolveChain (w_db w) (da_prerequisite p) = Inr y"
    using ends(1) by (simp_all add: dep_ends_Inr)
  obtain a b where ab: "a \<in> set (db_chains (w_db w))" "c_id a = cr_id x" "c_project a = cr_project x"
    "b \<in> set (db_chains (w_db w))" "c_slug b = da_prerequisite p" "c_id b = cr_id y" "c_project b = cr_project y"
    using resolveChain_Inr two by metis
  have key: "dep_key e = (cr_id x, cr_id y)" by (simp add: e(1) dep_key_def)
  have list: "HandleChainDepList (w_db w1) (w_deps w1) (RawJson (JObj [(''chain'', JStr (da_dependent p))])) =
      Inr (Inr \<lparr>cl_chain = da_dependent p, cl_prerequisites = dep_join (w_db w) (w_deps w @ [e]) d_dependent d_prerequisite (cr_id x),
        cl_dependents = dep_join (w_db w) (w_deps w @ [e]) d_prerequisite d_dependent (cr_id x)\<rparr>)"
    using p(2) two(1) by (simp add: HandleChainDepList_def decode_params_def unmarshal_chainDepListParams_def w1
        dec_step_def vals_def chain_key_name)
  have "(da_prerequisite p, da_reason p) \<in> set (dep_join (w_db w) (w_deps w @ [e]) d_dependent d_prerequisite (cr_id x))"
    using ab(4-6) by (auto simp: dep_join_def e(1) image_iff intro!: bexI [of _ b])
  moreover have "filter (\<lambda>e. dep_key e \<noteq> (cr_id x, cr_id y)) (w_deps w @ [e]) = w_deps w"
    using e(2) by (auto simp: key filter_id_conv image_iff)
  then have "\<exists>w2. HandleChainDepRemove E c params w1 = (Inr (dep_ok (da_dependent p) (da_prerequisite p) []), w2) \<and>
      w_deps w2 = w_deps w \<and> w_db w2 = w_db w"
    using p ends(1) key assms(3,4)
    by (simp add: HandleChainDepRemove_def tx_bind_def tx_of_def tx_apply Let_def report_def WithWrite_def nested_write_def
        delete_dep_run w1)
  ultimately show ?thesis
    using e ab ends(2) list w1 res
    by (intro exI [of _ e] exI [of _ a] exI [of _ b]) (auto simp: dep_ok_def)
qed

theorem chain_dep_add_remove_witness:
  "\<exists>res w1 res' w2. HandleChainDepAdd road_env ok_ctx ''p'' dep_args (mk_world ex_roads) = (Inr res, w1) \<and>
     w_deps w1 = [(mk_dep 2 1)\<lparr>d_reason := ''first''\<rparr>] \<and>
     HandleChainDepRemove road_env ok_ctx dep_args w1 = (Inr res', w2) \<and> cd_ok res' \<and> w_deps w2 = []"
proof -
  obtain r w1 where eq: "HandleChainDepAdd road_env ok_ctx ''p'' dep_args (mk_world ex_roads) = (r, w1)" by fastforce
  have ev: "map_sum id cd_ok r = Inr True" "w_deps w1 = [(mk_dep 2 1)\<lparr>d_reason := ''first''\<rparr>]"
    using dep_add_eval unfolding eq prod.case by blast+
  obtain res where res: "r = Inr res" "cd_ok res" using ev(1) by (cases r) simp_all
  have "em_begin road_env = (\<lambda>_. None)" "em_commit road_env = (\<lambda>_. None)"
    by (simp_all add: road_env_def ok_env_def SetFoldHook_def)
  from chain_dep_add_remove [OF eq [unfolded res(1)] res(2) this] eq res(1) ev(2) show ?thesis
    by (auto simp: mk_world_def)
qed

section \<open>Positions\<close>

text \<open>C11. Positions stay unique: if no two roadmap entries of a project share a position, that holds after
  any sequence of calls of the service, whatever their parameters and whether they succeed. The read model
  is well formed at the start, and a step of the service assumes of the construct functions a batch
  reaches that they ingest events of the service only.\<close>

theorem roadmap_positions_stay_unique:
  assumes "(service_step aff E S deps raw_text err_text)\<^sup>*\<^sup>* w w'" "wf_db (w_db w)" "positions_unique (db_roadmap (w_db w))"
  shows "positions_unique (db_roadmap (w_db w'))"
  using assms by (rule service.reach_positions)

theorem roadmap_positions_stay_unique_witness:
  "positions_unique (db_roadmap (w_db (snd (HandleRoadmapInsert road_env ok_ctx ''p'' (RawJson (road_item ''c'' 1)) (mk_world ex_roads)))))"
proof -
  let ?ok = "ok_env\<lparr>em_schemas := Inr \<lparr>sch_envelope = (\<lambda>_. True), sch_payloads = [(''RoadmapUpdated'', \<lambda>_. True)]\<rparr>\<rparr>"
  have "service_step no_affinity ?ok no_git ex_deps (\<lambda>_. []) (\<lambda>_. []) (mk_world ex_roads)
      (snd (HandleRoadmapInsert road_env ok_ctx ''p'' (RawJson (road_item ''c'' 1)) (mk_world ex_roads)))"
    unfolding service_step_def road_env_def using ex_deps_evolve work_step.roadmap_insert by blast
  then have "(service_step no_affinity ?ok no_git ex_deps (\<lambda>_. []) (\<lambda>_. []))\<^sup>*\<^sup>* (mk_world ex_roads)
      (snd (HandleRoadmapInsert road_env ok_ctx ''p'' (RawJson (road_item ''c'' 1)) (mk_world ex_roads)))" by blast
  moreover have "wf_db (w_db (mk_world ex_roads))" "positions_unique (db_roadmap (w_db (mk_world ex_roads)))"
    using ex_roads_ok by (simp_all add: mk_world_def)
  ultimately show ?thesis by (rule roadmap_positions_stay_unique)
qed

section \<open>What the reads miss\<close>

text \<open>C39. A reassessment does not cover its own day: \<open>roadmap_mark_reassessed\<close> stores SQLite's
  \<open>YYYY-MM-DD HH:MM:SS\<close> and a chain's creation time is \<open>YYYY-MM-DDTHH:MM:SS.mmmZ\<close>; compared as texts, the
  latter is larger on the same day whatever the time, so an open chain off the roadmap that was created
  that day, even before the reassessment, is in the next \<open>roadmap_diff\<close>.\<close>

theorem reassessment_misses_its_day:
  assumes "dt_reassessed dt = Some (day @ '' '' @ clock)" "ch \<in> set (db_chains d)" "c_status ch = ''open''"
    and "c_created ch = day @ ''T'' @ time" "\<not> roadmapped d ''chain'' (c_slug ch)"
  shows "\<exists>chains tasks. HandleRoadmapDiff d dt = Inr (chains, tasks) \<and> c_slug ch \<in> un_slug ` set chains"
proof -
  have "day @ '' '' @ clock < day @ ''T'' @ time"
    by (induction day) (simp_all add: less_char_def)
  then show ?thesis using assms by (auto simp: HandleRoadmapDiff_def image_iff)
qed

theorem reassessment_misses_its_day_witness:
  "let d = empty_db\<lparr>db_chains := [(mk_chain 1 ''a'' 0 0)\<lparr>c_created := ''2026-05-01T08:00:00.000Z''\<rparr>]\<rparr>;
       dt = \<lparr>dt_chain_deps = [], dt_reassessed = Some ''2026-05-01 23:59:59''\<rparr>
   in \<exists>chains tasks. HandleRoadmapDiff d dt = Inr (chains, tasks) \<and> ''a'' \<in> un_slug ` set chains"
proof -
  let ?ch = "(mk_chain 1 ''a'' 0 0)\<lparr>c_created := ''2026-05-01T08:00:00.000Z''\<rparr>"
  let ?d = "empty_db\<lparr>db_chains := [?ch]\<rparr>"
  have "\<exists>chains tasks. HandleRoadmapDiff ?d \<lparr>dt_chain_deps = [], dt_reassessed = Some ''2026-05-01 23:59:59''\<rparr> = Inr (chains, tasks) \<and>
      c_slug ?ch \<in> un_slug ` set chains"
    by (rule reassessment_misses_its_day [where day = "''2026-05-01''" and clock = "''23:59:59''" and time = "''08:00:00.000Z''"])
      (simp_all add: mk_chain_def roadmapped_def empty_db_def)
  then show ?thesis by (simp add: Let_def mk_chain_def)
qed

end
