(* ===== verification/Work_Reads.thy ===== *)
theory Work_Reads
  imports Chain_Deps Work_Batch "HOL-Library.AList"
begin

text \<open>
  The read side of \<open>go/internal/work\<close>: the strict parameters of list\_params.go, task\_list and
  task\_search of task.go, bug\_list, suggestion\_list, and the chain reads of chain.go. SQLite's LIKE is the parameter \<open>like\<close>, of a pattern and a text; rows that
  tie in an ORDER BY, and the rows of a query without one, keep the order of the tables.
\<close>

section \<open>Strict parameters\<close>

datatype field_type = FStr | FInt | FBool

fun fits :: "field_type \<Rightarrow> json \<Rightarrow> bool" where
  "fits ty JNull = True"
| "fits FStr (JStr s) = True"
| "fits FInt (JInt n) = in_int64 n"
| "fits FBool (JBool b) = True"
| "fits ty j = False"

abbreviation "dec_bool \<equiv> dec_step bool_val False"

text \<open>
  The params as a \<open>map[string]json.RawMessage\<close>: one value per key, the last one; \<open>json.Marshal\<close>
  writes its keys in order.
\<close>

fun obj_put :: "string \<Rightarrow> json \<Rightarrow> (string \<times> json) list \<Rightarrow> (string \<times> json) list" where
  "obj_put k v [] = [(k, v)]"
| "obj_put k v ((k', v') # fs) =
     (if k < k' then (k, v) # (k', v') # fs
      else if k = k' then (k, v) # fs
      else (k', v') # obj_put k v fs)"

definition dropEnvelopeProject :: "(string \<times> json) list \<Rightarrow> (string \<times> json) list" where
  "dropEnvelopeProject fs =
     (if list_ex (\<lambda>f. fst f = ''project'') fs
      then foldl (\<lambda>obj (k, v). obj_put k v obj) [] (filter (\<lambda>f. fst f \<noteq> ''project'') fs)
      else fs)"

text \<open>What the decoder reports of one member when unknown fields are refused.\<close>

definition member_error :: "string \<Rightarrow> (string \<times> field_type) list \<Rightarrow> string \<times> json \<Rightarrow> go_error option" where
  "member_error action accepted f =
     (case map_of accepted (fold_name (fst f)) of
        None \<Rightarrow> Some (ErrUnknownParam action (fst f))
      | Some ty \<Rightarrow> if fits ty (snd f) then None else Some ErrParams)"

text \<open>The first error of the decoder is the one it returns; \<open>mapUnknownParamErr\<close> renders it.\<close>

definition decodeListParams ::
  "(json \<Rightarrow> 'p option) \<Rightarrow> (string \<times> field_type) list \<Rightarrow> string \<Rightarrow> raw_params \<Rightarrow> go_error + 'p" where
  "decodeListParams dec accepted action params =
     (case params of
        RawJson (JObj fs) \<Rightarrow>
          (let cleaned = dropEnvelopeProject fs
           in case first_err (member_error action accepted) cleaned of
                Some e \<Rightarrow> Inl e
              | None \<Rightarrow> decode_params dec (RawJson (JObj cleaned)))
      | _ \<Rightarrow> decode_params dec params)"

text \<open>The LIMIT and OFFSET clauses; without a limit there is no offset either.\<close>

definition limit_clause :: "int \<Rightarrow> int \<Rightarrow> 'r list \<Rightarrow> 'r list" where
  "limit_clause limit offset rows =
     (if 0 \<le> limit then take (nat limit) (if 0 < offset then drop (nat offset) rows else rows) else rows)"

text \<open>Decoding several keys of one type.\<close>

fun dec_keys :: "(string \<Rightarrow> 'a option) \<Rightarrow> string list \<Rightarrow> 'a list option" where
  "dec_keys f [] = Some []"
| "dec_keys f (k # ks) = do { x \<leftarrow> f k; xs \<leftarrow> dec_keys f ks; Some (x # xs) }"

section \<open>Texts\<close>

text \<open>A text as its runes, each with the bytes it was read from.\<close>

definition rune_width :: "string \<Rightarrow> nat" where
  "rune_width s =
     (let b = (of_char (hd s) :: nat);
          n = (if 0xC2 \<le> b \<and> b < 0xE0 then 1 else if 0xE0 \<le> b \<and> b < 0xF0 then 2
               else if 0xF0 \<le> b \<and> b < 0xF5 then 3 else 0);
          more = take n (tl s)
      in if b < 0x80 \<or> n = 0 \<or> length more < n \<or> \<not> list_all is_cont more \<or> \<not> second_ok b (of_char (hd more))
         then 0 else n)"

function rune_bytes :: "string \<Rightarrow> string list" where
  "rune_bytes [] = []"
| "rune_bytes (c # cs) = (c # take (rune_width (c # cs)) cs) # rune_bytes (drop (rune_width (c # cs)) cs)"
  by pat_completeness auto
termination
  by (relation "measure length") auto

text \<open>\<open>strings.TrimSpace\<close>\<close>

definition blank_rune :: "string \<Rightarrow> bool" where
  "blank_rune bs \<longleftrightarrow> list_all rune_space (runes bs)"

definition TrimSpace :: "string \<Rightarrow> string" where
  "TrimSpace s = concat (rev (dropWhile blank_rune (rev (dropWhile blank_rune (rune_bytes s)))))"

text \<open>\<open>strings.Split(s, "\n")\<close>\<close>

fun split_lines :: "string \<Rightarrow> string list" where
  "split_lines [] = [[]]"
| "split_lines (c # cs) =
     (if c = CHR 0x0A then [] # split_lines cs
      else case split_lines cs of [] \<Rightarrow> [[c]] | l # ls \<Rightarrow> (c # l) # ls)"

text \<open>The bytes of a rune in \<open>string([]rune)\<close>: a byte that starts no sequence becomes U+FFFD.\<close>

definition valid_bytes :: "string \<Rightarrow> string" where
  "valid_bytes bs = (if runes bs = [0xFFFD] then [CHR 0xEF, CHR 0xBF, CHR 0xBD] else bs)"

fun first_line :: "string list \<Rightarrow> string" where
  "first_line [] = []"
| "first_line (l # ls) =
     (let line = TrimSpace l; r = rune_bytes line
      in if line = [] then first_line ls
         else if length r \<le> 120 then line
         else concat (map valid_bytes (take 120 r)) @ [CHR 0xE2, CHR 0x80, CHR 0xA6])"

definition deriveTaskTitle :: "string \<Rightarrow> string" where
  "deriveTaskTitle ps = first_line (split_lines ps)"

text \<open>\<open>strconv.ParseInt(s, 10, 64)\<close>\<close>

definition parse_int64 :: "string \<Rightarrow> int option" where
  "parse_int64 s =
     (let neg = (take 1 s = ''-''); ds = (if take 1 s = ''-'' \<or> take 1 s = ''+'' then drop 1 s else s);
          n = foldl (\<lambda>a c. a * 10 + (int (of_char c) - 48)) 0 ds; v = (if neg then - n else n)
      in if ds = [] \<or> list_ex (\<lambda>c. (of_char c :: nat) < 48 \<or> 57 < (of_char c :: nat)) ds \<or> \<not> in_int64 v
         then None else Some v)"

text \<open>\<open>coerceChainID\<close>: a chain id given as a number, as a numeral in a string, or as a slug.\<close>

definition coerceChainID :: "json list \<Rightarrow> int \<times> string" where
  "coerceChainID js =
     (case (if js = [] then JNull else last js) of
        JInt n \<Rightarrow> (if in_int64 n then n else 0, [])
      | JStr t \<Rightarrow> (let s = TrimSpace t in case parse_int64 s of Some v \<Rightarrow> (v, []) | None \<Rightarrow> (0, s))
      | _ \<Rightarrow> (0, []))"

section \<open>Tasks\<close>

record TaskListItem =
  ti_id :: int
  ti_chain_id :: int
  ti_chain_slug :: string
  ti_slug :: string
  ti_position :: int
  ti_status :: string
  ti_title :: string
  ti_created :: string
  ti_updated :: string

fun scanTaskListItems :: "(task_row \<times> chain_row) list \<Rightarrow> go_error + TaskListItem list" where
  "scanTaskListItems [] = Inr []"
| "scanTaskListItems ((t, c) # rows) =
     (case scan_int64 (t_position t) of
        None \<Rightarrow> Inl (ErrScan ''position'')
      | Some n \<Rightarrow>
          (case scanTaskListItems rows of
             Inl e \<Rightarrow> Inl e
           | Inr items \<Rightarrow>
               Inr (\<lparr>ti_id = t_id t, ti_chain_id = t_chain t, ti_chain_slug = c_slug c, ti_slug = t_slug t,
                     ti_position = n, ti_status = t_status t, ti_title = deriveTaskTitle (t_problem t),
                     ti_created = t_created t, ti_updated = t_updated t\<rparr> # items)))"

record taskListParams =
  tl_status :: string
  tl_state :: string
  tl_since :: string
  tl_verbose :: bool
  tl_all :: bool
  tl_limit :: int
  tl_offset :: int
  tl_chain :: string
  tl_chain_slug :: string

definition taskListFields :: "(string \<times> field_type) list" where
  "taskListFields =
     [(''status'', FStr), (''state'', FStr), (''since'', FStr), (''verbose'', FBool), (''all'', FBool),
      (''limit'', FInt), (''offset'', FInt), (''chain'', FStr), (''chain_slug'', FStr)]"

definition unmarshal_taskListParams :: "json \<Rightarrow> taskListParams option" where
  "unmarshal_taskListParams j = do {
     fs \<leftarrow> struct_fields j;
     x0 \<leftarrow> dec_str (vals fs ''status'');
     x1 \<leftarrow> dec_str (vals fs ''state'');
     x2 \<leftarrow> dec_str (vals fs ''since'');
     x3 \<leftarrow> dec_bool (vals fs ''verbose'');
     x4 \<leftarrow> dec_bool (vals fs ''all'');
     x5 \<leftarrow> dec_int (vals fs ''limit'');
     x6 \<leftarrow> dec_int (vals fs ''offset'');
     x7 \<leftarrow> dec_str (vals fs ''chain'');
     x8 \<leftarrow> dec_str (vals fs ''chain_slug'');
     Some \<lparr>tl_status = x0, tl_state = x1, tl_since = x2, tl_verbose = x3, tl_all = x4, tl_limit = x5,
       tl_offset = x6, tl_chain = x7, tl_chain_slug = x8\<rparr> }"

text \<open>The WHERE clause of task\_list; \<open>open\<close> stands for every status but the terminal ones.\<close>

definition task_list_where :: "string \<Rightarrow> taskListParams \<Rightarrow> task_row \<times> chain_row \<Rightarrow> bool" where
  "task_list_where project p tc \<longleftrightarrow>
     (let t = fst tc; c = snd tc; status = firstNonEmpty [tl_status p, tl_state p];
          chain = firstNonEmpty [tl_chain p, tl_chain_slug p]
      in (project = [] \<or> c_project c = project) \<and>
         (if status = [] then True
          else if status = ''open'' then t_status t \<notin> {''closed'', ''cancelled''}
          else t_status t = status) \<and>
         (chain = [] \<or> c_slug c = chain) \<and>
         (tl_since p = [] \<or> tl_since p \<le> t_created t))"

definition by_chain_position :: "task_row \<times> chain_row \<Rightarrow> task_row \<times> chain_row \<Rightarrow> bool" where
  "by_chain_position x y \<longleftrightarrow>
     c_slug (snd x) < c_slug (snd y) \<or>
     c_slug (snd x) = c_slug (snd y) \<and> sqlval_less (t_position (fst x)) (t_position (fst y))"

definition HandleTaskList :: "db \<Rightarrow> string \<Rightarrow> raw_params \<Rightarrow> go_error + TaskListItem list" where
  "HandleTaskList d project params =
     (case decodeListParams unmarshal_taskListParams taskListFields ''task_list'' params of
        Inl e \<Rightarrow> Inl e
      | Inr p \<Rightarrow>
          (case normalizeLimitOffset (tl_limit p) (tl_offset p) 50 of (limit, offset) \<Rightarrow>
             scanTaskListItems (limit_clause limit offset
               (slice_sort by_chain_position (filter (task_list_where project p) (task_chain_join d))))))"

record taskSearchParams =
  ts_chain :: string
  ts_chain_slug :: string
  ts_chain_id :: int
  ts_patterns :: "string list"     \<comment> \<open>\<open>pattern\<close>, \<open>query\<close>, \<open>text\<close>, \<open>q\<close>, \<open>slug\<close>\<close>
  ts_status :: string
  ts_limits :: "int list"          \<comment> \<open>\<open>max\<close>, \<open>limit\<close>, \<open>max_results\<close>\<close>

definition unmarshal_taskSearchParams :: "json \<Rightarrow> taskSearchParams option" where
  "unmarshal_taskSearchParams j = do {
     fs \<leftarrow> struct_fields j;
     x0 \<leftarrow> dec_str (vals fs ''chain'');
     x1 \<leftarrow> dec_str (vals fs ''chain_slug'');
     x2 \<leftarrow> dec_keys (\<lambda>k. dec_str (vals fs k)) [''pattern'', ''query'', ''text'', ''q'', ''slug''];
     x3 \<leftarrow> dec_str (vals fs ''status'');
     x4 \<leftarrow> dec_keys (\<lambda>k. dec_int (vals fs k)) [''max'', ''limit'', ''max_results''];
     case coerceChainID (vals fs ''chain_id'') of (ident, slug) \<Rightarrow>
     Some \<lparr>ts_chain = (if slug \<noteq> [] \<and> x0 = [] \<and> x1 = [] then slug else x0), ts_chain_slug = x1,
       ts_chain_id = ident, ts_patterns = x2, ts_status = x3, ts_limits = x4\<rparr> }"

definition like_pattern :: "string \<Rightarrow> string" where
  "like_pattern p = ''%'' @ p @ ''%''"

definition task_matches :: "(string \<Rightarrow> string \<Rightarrow> bool) \<Rightarrow> string \<Rightarrow> task_row \<Rightarrow> bool" where
  "task_matches like pattern t \<longleftrightarrow>
     list_ex (like (like_pattern pattern))
       [t_problem t, t_acceptance t, t_context t, t_constraints t, t_handoff t, t_slug t]"

definition listTasksByChain ::
  "(string \<Rightarrow> string \<Rightarrow> bool) \<Rightarrow> db \<Rightarrow> string \<Rightarrow> string \<Rightarrow> string \<Rightarrow> go_error + (go_error + TaskListItem list)" where
  "listTasksByChain like d chainSlug pattern statusFilter =
     (if \<not> list_ex (\<lambda>c. c_slug c = chainSlug) (db_chains d) then Inr (Inl (ErrNotFound ''chain'' chainSlug))
      else map_sum id Inr (scanTaskListItems
        (slice_sort (\<lambda>x y. sqlval_less (t_position (fst x)) (t_position (fst y)))
          (filter (\<lambda>(t, c). c_slug c = chainSlug \<and> (statusFilter = [] \<or> t_status t = statusFilter) \<and>
             (pattern = [] \<or> task_matches like pattern t)) (task_chain_join d)))))"

definition searchTasksSummary ::
  "(string \<Rightarrow> string \<Rightarrow> bool) \<Rightarrow> db \<Rightarrow> string \<Rightarrow> string \<Rightarrow> int \<Rightarrow> go_error + (go_error + TaskListItem list)" where
  "searchTasksSummary like d pattern project maxRows =
     map_sum id Inr (scanTaskListItems (take (nat maxRows)
       (filter (\<lambda>(t, c). task_matches like pattern t \<and> (project = [] \<or> c_project c = project)) (task_chain_join d))))"

definition HandleTaskSearch ::
  "(string \<Rightarrow> string \<Rightarrow> bool) \<Rightarrow> db \<Rightarrow> string \<Rightarrow> raw_params \<Rightarrow> go_error + (go_error + TaskListItem list)" where
  "HandleTaskSearch like d project params =
     (case decode_params unmarshal_taskSearchParams params of
        Inl e \<Rightarrow> Inl e
      | Inr p \<Rightarrow>
          (let given = firstNonEmpty [ts_chain p, ts_chain_slug p]; pattern = firstNonEmpty (ts_patterns p)
           in case (if given = [] \<and> ts_chain_id p \<noteq> 0 then
                      (case sql_first (\<lambda>c. c_id c = ts_chain_id p) (db_chains d) of
                         None \<Rightarrow> Inl (ErrChainIdNotFound (ts_chain_id p)) | Some c \<Rightarrow> Inr (c_slug c))
                    else Inr given) of
                Inl e \<Rightarrow> Inr (Inl e)
              | Inr chain \<Rightarrow>
                  if chain = [] \<and> pattern = [] then Inr (Inl ErrSearchArgs)
                  else if chain \<noteq> [] then listTasksByChain like d chain pattern (ts_status p)
                  else searchTasksSummary like d pattern project (firstNonZeroInt64 (ts_limits p @ [20]))))"

section \<open>Bugs and suggestions\<close>

text \<open>\<open>bugListParams\<close> and \<open>suggestionListParams\<close> differ in one key, severity or priority.\<close>

record entityListParams =
  el_status :: string
  el_state :: string
  el_resolve_state :: string
  el_class :: string
  el_surface :: string
  el_since :: string
  el_verbose :: bool
  el_titles_only :: bool
  el_all :: bool
  el_limit :: int
  el_offset :: int

definition entityListFields :: "string \<Rightarrow> (string \<times> field_type) list" where
  "entityListFields classKey =
     [(''status'', FStr), (''state'', FStr), (''resolve_state'', FStr), (classKey, FStr), (''surface'', FStr),
      (''since'', FStr), (''verbose'', FBool), (''titles_only'', FBool), (''all'', FBool), (''limit'', FInt),
      (''offset'', FInt)]"

definition unmarshal_entityListParams :: "string \<Rightarrow> json \<Rightarrow> entityListParams option" where
  "unmarshal_entityListParams classKey j = do {
     fs \<leftarrow> struct_fields j;
     x0 \<leftarrow> dec_str (vals fs ''status'');
     x1 \<leftarrow> dec_str (vals fs ''state'');
     x2 \<leftarrow> dec_str (vals fs ''resolve_state'');
     x3 \<leftarrow> dec_str (vals fs classKey);
     x4 \<leftarrow> dec_str (vals fs ''surface'');
     x5 \<leftarrow> dec_str (vals fs ''since'');
     x6 \<leftarrow> dec_bool (vals fs ''verbose'');
     x7 \<leftarrow> dec_bool (vals fs ''titles_only'');
     x8 \<leftarrow> dec_bool (vals fs ''all'');
     x9 \<leftarrow> dec_int (vals fs ''limit'');
     x10 \<leftarrow> dec_int (vals fs ''offset'');
     Some \<lparr>el_status = x0, el_state = x1, el_resolve_state = x2, el_class = x3, el_surface = x4, el_since = x5,
       el_verbose = x6, el_titles_only = x7, el_all = x8, el_limit = x9, el_offset = x10\<rparr> }"

text \<open>\<open>WhereBuilder\<close>: a condition on a column is dropped when its value is empty.\<close>

definition where_eq :: "string \<Rightarrow> string \<Rightarrow> bool" where
  "where_eq val col \<longleftrightarrow> val = [] \<or> col = val"

definition where_like :: "(string \<Rightarrow> string \<Rightarrow> bool) \<Rightarrow> string \<Rightarrow> string \<Rightarrow> bool" where
  "where_like like pattern col \<longleftrightarrow> pattern = [] \<or> like pattern col"

definition where_ge :: "string \<Rightarrow> string \<Rightarrow> bool" where
  "where_ge val col \<longleftrightarrow> val = [] \<or> val \<le> col"

record BugListTitle =
  bt_id :: int
  bt_slug :: string
  bt_title :: string
  bt_severity :: string
  bt_status :: string

record BugListItem =
  bi_id :: int
  bi_project :: string
  bi_slug :: string
  bi_title :: string
  bi_surface :: string
  bi_severity :: string
  bi_source :: string
  bi_status :: string
  bi_resolution_kind :: string
  bi_routed_chain :: string
  bi_routed_task :: string
  bi_routed_suggestion :: string
  bi_resolved_commit :: string
  bi_qwen_task :: string
  bi_tags :: string
  bi_filed :: string
  bi_resolved_at :: string
  bi_updated :: string

datatype BugListResult =
    BugTitles "BugListTitle list"
  | BugVerbose "Bug list"
  | BugDefault "BugListItem list"

definition scanBugTitle :: "bug_row \<Rightarrow> BugListTitle" where
  "scanBugTitle b = \<lparr>bt_id = b_id b, bt_slug = b_slug b, bt_title = b_title b, bt_severity = b_severity b,
     bt_status = b_status b\<rparr>"

definition scanBugListItem :: "bug_row \<Rightarrow> BugListItem" where
  "scanBugListItem b = \<lparr>bi_id = b_id b, bi_project = b_project b, bi_slug = b_slug b, bi_title = b_title b,
     bi_surface = b_surface b, bi_severity = b_severity b, bi_source = b_source b, bi_status = b_status b,
     bi_resolution_kind = deref_or [] (b_resolution b), bi_routed_chain = b_routed_chain b,
     bi_routed_task = b_routed_task b, bi_routed_suggestion = b_routed_suggestion b,
     bi_resolved_commit = deref_or [] (b_commit b), bi_qwen_task = deref_or [] (b_qwen b), bi_tags = b_tags b,
     bi_filed = b_filed b, bi_resolved_at = deref_or [] (b_resolved_at b), bi_updated = b_updated b\<rparr>"

definition bug_list_where :: "(string \<Rightarrow> string \<Rightarrow> bool) \<Rightarrow> string \<Rightarrow> entityListParams \<Rightarrow> bug_row \<Rightarrow> bool" where
  "bug_list_where like project p b \<longleftrightarrow>
     (let surfacePattern = (if el_surface p \<noteq> [] then like_pattern (el_surface p) else [])
      in where_eq project (b_project b) \<and>
         where_eq (firstNonEmpty [el_status p, el_state p, el_resolve_state p]) (b_status b) \<and>
         where_eq (el_class p) (b_severity b) \<and>
         where_like like surfacePattern (b_surface b) \<and>
         where_ge (el_since p) (b_filed b))"

definition HandleBugList ::
  "(string \<Rightarrow> string \<Rightarrow> bool) \<Rightarrow> db \<Rightarrow> string \<Rightarrow> raw_params \<Rightarrow> go_error + BugListResult" where
  "HandleBugList like d project params =
     (case decodeListParams (unmarshal_entityListParams ''severity'') (entityListFields ''severity'') ''bug_list'' params of
        Inl e \<Rightarrow> Inl e
      | Inr p \<Rightarrow>
          (case normalizeLimitOffset (el_limit p) (el_offset p) 50 of (limit, offset) \<Rightarrow>
             let rows = limit_clause limit offset
               (slice_sort (\<lambda>x y. b_filed y < b_filed x) (filter (bug_list_where like project p) (db_bugs d)))
             in if el_titles_only p then Inr (BugTitles (map scanBugTitle rows))
                else if el_verbose p then Inr (BugVerbose (map scanOneBug rows))
                else Inr (BugDefault (map scanBugListItem rows))))"

record SuggestionListTitle =
  st_id :: int
  st_slug :: string
  st_title :: string
  st_priority :: string
  st_status :: string

record SuggestionListItem =
  sl_id :: int
  sl_project :: string
  sl_slug :: string
  sl_title :: string
  sl_surface :: string
  sl_priority :: string
  sl_source :: string
  sl_status :: string
  sl_resolution_kind :: string
  sl_routed_chain :: string
  sl_routed_task :: string
  sl_routed_bug :: string
  sl_resolved_commit :: string
  sl_tags :: string
  sl_filed :: string
  sl_resolved_at :: string
  sl_updated :: string

datatype SuggestionListResult =
    SuggestionTitles "SuggestionListTitle list"
  | SuggestionVerbose "Suggestion list"
  | SuggestionDefault "SuggestionListItem list"

definition scanSuggestionTitle :: "suggestion_row \<Rightarrow> SuggestionListTitle" where
  "scanSuggestionTitle g = \<lparr>st_id = g_id g, st_slug = g_slug g, st_title = g_title g,
     st_priority = g_priority g, st_status = g_status g\<rparr>"

definition scanSuggestionListItem :: "suggestion_row \<Rightarrow> SuggestionListItem" where
  "scanSuggestionListItem g = \<lparr>sl_id = g_id g, sl_project = g_project g, sl_slug = g_slug g,
     sl_title = g_title g, sl_surface = g_surface g, sl_priority = g_priority g, sl_source = g_source g,
     sl_status = g_status g, sl_resolution_kind = deref_or [] (g_resolution g),
     sl_routed_chain = g_routed_chain g, sl_routed_task = g_routed_task g, sl_routed_bug = g_routed_bug g,
     sl_resolved_commit = deref_or [] (g_commit g), sl_tags = g_tags g, sl_filed = g_filed g,
     sl_resolved_at = deref_or [] (g_resolved_at g), sl_updated = g_updated g\<rparr>"

definition suggestion_list_where ::
  "(string \<Rightarrow> string \<Rightarrow> bool) \<Rightarrow> string \<Rightarrow> entityListParams \<Rightarrow> suggestion_row \<Rightarrow> bool" where
  "suggestion_list_where like project p g \<longleftrightarrow>
     (let status = firstNonEmpty [el_status p, el_state p, el_resolve_state p]
      in (project = [] \<or> g_project g = project) \<and> (status = [] \<or> g_status g = status) \<and>
         (el_class p = [] \<or> g_priority g = el_class p) \<and>
         (el_surface p = [] \<or> like (like_pattern (el_surface p)) (g_surface g)) \<and>
         (el_since p = [] \<or> el_since p \<le> g_filed g))"

definition HandleSuggestionList ::
  "(string \<Rightarrow> string \<Rightarrow> bool) \<Rightarrow> db \<Rightarrow> string \<Rightarrow> raw_params \<Rightarrow> go_error + SuggestionListResult" where
  "HandleSuggestionList like d project params =
     (case decodeListParams (unmarshal_entityListParams ''priority'') (entityListFields ''priority'')
             ''suggestion_list'' params of
        Inl e \<Rightarrow> Inl e
      | Inr p \<Rightarrow>
          (case normalizeLimitOffset (el_limit p) (el_offset p) 50 of (limit, offset) \<Rightarrow>
             let rows = limit_clause limit offset
               (slice_sort (\<lambda>x y. g_filed y < g_filed x)
                 (filter (suggestion_list_where like project p) (db_suggestions d)))
             in if el_titles_only p then Inr (SuggestionTitles (map scanSuggestionTitle rows))
                else if el_verbose p then Inr (SuggestionVerbose (map scanOneSuggestion rows))
                else Inr (SuggestionDefault (map scanSuggestionListItem rows))))"

section \<open>Chains\<close>

record chainSlugParams =
  ch_slug :: string
  ch_chain :: string
  ch_chain_slug :: string
  ch_id :: int
  ch_chain_id :: int

definition chain_resolved :: "chainSlugParams \<Rightarrow> string" where
  "chain_resolved p = firstNonEmpty [ch_slug p, ch_chain p, ch_chain_slug p]"

definition chain_resolvedID :: "chainSlugParams \<Rightarrow> int" where
  "chain_resolvedID p = (if ch_id p \<noteq> 0 then ch_id p else ch_chain_id p)"

definition unmarshal_chainSlugParams :: "json \<Rightarrow> chainSlugParams option" where
  "unmarshal_chainSlugParams j = do {
     fs \<leftarrow> struct_fields j;
     x0 \<leftarrow> dec_str (vals fs ''slug'');
     x1 \<leftarrow> dec_str (vals fs ''chain'');
     x2 \<leftarrow> dec_str (vals fs ''chain_slug'');
     case (coerceChainID (vals fs ''id''), coerceChainID (vals fs ''chain_id'')) of
       ((i, slugFromID), (ci, slugFromChainID)) \<Rightarrow>
         (let p = \<lparr>ch_slug = x0, ch_chain = x1, ch_chain_slug = x2, ch_id = i, ch_chain_id = ci\<rparr>
          in Some (if chain_resolved p = [] then p\<lparr>ch_slug := firstNonEmpty [slugFromID, slugFromChainID]\<rparr> else p)) }"

datatype ChainStatusResult =
    StatusList "ChainSummary list"
  | StatusSingle ChainSummary
  | StatusError go_error

definition HandleChainStatus :: "db \<Rightarrow> string \<Rightarrow> raw_params \<Rightarrow> go_error + ChainStatusResult" where
  "HandleChainStatus d project params =
     (case decode_params unmarshal_chainSlugParams params of
        Inl e \<Rightarrow> Inl e
      | Inr p \<Rightarrow>
          (let slug = chain_resolved p; chains = listChains d project
           in Inr (if slug = [] then StatusList chains
                   else case find (\<lambda>s. c_slug (cs_chain s) = slug) chains of
                          Some s \<Rightarrow> StatusSingle s | None \<Rightarrow> StatusError (ErrChainNotFound slug))))"

definition HandleChainState :: "db \<Rightarrow> string \<Rightarrow> raw_params \<Rightarrow> go_error + (go_error + chain_row)" where
  "HandleChainState d project params =
     (case decode_params unmarshal_chainSlugParams params of
        Inl e \<Rightarrow> Inl e
      | Inr p \<Rightarrow>
          Inr (if chain_resolved p = [] \<and> chain_resolvedID p = 0 then Inl (ErrIdentifierRequired ''chain_state'')
               else if chain_resolved p \<noteq> [] then getChain d project (chain_resolved p)
               else getChainByID d project (chain_resolvedID p)))"

definition findChains ::
  "(string \<Rightarrow> string \<Rightarrow> bool) \<Rightarrow> db \<Rightarrow> string \<Rightarrow> string \<Rightarrow> int \<Rightarrow> ChainSummary list" where
  "findChains like d pattern project maxRows =
     take (nat maxRows) (sort_key (\<lambda>s. - cs_pending s) (map (chainSummarySelect d)
       (filter (\<lambda>c. (pattern = [] \<or> like (like_pattern pattern) (c_slug c)) \<and> (project = [] \<or> c_project c = project))
          (db_chains d))))"

definition HandleChainFind ::
  "(string \<Rightarrow> string \<Rightarrow> bool) \<Rightarrow> db \<Rightarrow> string \<Rightarrow> raw_params \<Rightarrow> go_error + ChainSummary list" where
  "HandleChainFind like d envProject params =
     (case decode_params (\<lambda>j. do {
             fs \<leftarrow> struct_fields j;
             ps \<leftarrow> dec_keys (\<lambda>k. dec_str (vals fs k)) [''pattern'', ''query'', ''text'', ''q'', ''slug''];
             project \<leftarrow> dec_str (vals fs ''project'');
             ns \<leftarrow> dec_keys (\<lambda>k. dec_int (vals fs k)) [''max'', ''limit'', ''max_results''];
             Some (ps, project, ns) }) params of
        Inl e \<Rightarrow> Inl e
      | Inr (ps, project, ns) \<Rightarrow>
          Inr (findChains like d (firstNonEmpty ps) (firstNonEmpty [project, envProject]) (firstNonZeroInt64 (ns @ [10]))))"

section \<open>Sorting\<close>

text \<open>
  What a query's order has to satisfy for \<open>slice_sort\<close> to sort by it: a strict weak order.
\<close>

locale weak_order =
  fixes lt :: "'a \<Rightarrow> 'a \<Rightarrow> bool"
  assumes asym: "lt x y \<Longrightarrow> \<not> lt y x"
    and not_less_trans: "\<not> lt y x \<Longrightarrow> \<not> lt z y \<Longrightarrow> \<not> lt z x"
begin

lemma sorted_insert_by:
  "sorted_wrt (\<lambda>x y. \<not> lt y x) ys \<Longrightarrow> sorted_wrt (\<lambda>x y. \<not> lt y x) (insert_by lt x ys)"
  by (induction ys) (auto simp: set_insert_by dest: asym, metis not_less_trans)

lemma sorted_slice_sort: "sorted_wrt (\<lambda>x y. \<not> lt y x) (slice_sort lt xs)"
  by (induction xs) (simp_all add: slice_sort_simps sorted_insert_by)

text \<open>A page from the front holds the least rows: what is left out is not below what is shown.\<close>

lemma left_out:
  assumes "y \<in> set xs" "y \<notin> set (take n (slice_sort lt xs))"
  shows "length (take n (slice_sort lt xs)) = n" "x \<in> set (take n (slice_sort lt xs)) \<Longrightarrow> \<not> lt y x"
proof -
  have split: "slice_sort lt xs = take n (slice_sort lt xs) @ drop n (slice_sort lt xs)" by simp
  have y: "y \<in> set (drop n (slice_sort lt xs))"
    using assms slice_sort_facts(2) [of lt xs] by (subst (asm) split) (auto simp del: append_take_drop_id)
  then show "length (take n (slice_sort lt xs)) = n" by (cases "n \<le> length (slice_sort lt xs)") auto
  assume "x \<in> set (take n (slice_sort lt xs))"
  then show "\<not> lt y x"
    using sorted_slice_sort [of xs] y by (subst (asm) split) (auto simp: sorted_wrt_append simp del: append_take_drop_id)
qed

end

lemma mset_insert_by: "mset (insert_by lt x xs) = add_mset x (mset xs)"
  by (induction xs) auto

lemma mset_slice_sort [simp]: "mset (slice_sort lt xs) = mset xs"
  by (induction xs) (simp_all add: slice_sort_simps mset_insert_by)

text \<open>SQLite's order of values, as the order of a key: numbers first, by value.\<close>

definition sql_key :: "sqlval \<Rightarrow> bool \<times> rat \<times> string" where
  "sql_key v = (case v of SqlInt n \<Rightarrow> (False, rat_of_int n, []) | SqlReal q \<Rightarrow> (False, q, []) | SqlText s \<Rightarrow> (True, 0, s))"

lemma sqlval_less_key: "sqlval_less x y \<longleftrightarrow> sql_key x < sql_key y"
  by (cases x; cases y) (simp_all add: sql_key_def less_prod_def)

definition list_key :: "task_row \<times> chain_row \<Rightarrow> string \<times> bool \<times> rat \<times> string" where
  "list_key tc = (c_slug (snd tc), sql_key (t_position (fst tc)))"

lemma by_chain_position_key: "by_chain_position x y \<longleftrightarrow> list_key x < list_key y"
  by (auto simp: by_chain_position_def list_key_def sqlval_less_key less_prod_def)

interpretation chain_position: weak_order by_chain_position
  by unfold_locales (auto simp: by_chain_position_key)

interpretation newest_bug: weak_order "\<lambda>x y. b_filed y < b_filed x"
  by unfold_locales auto

interpretation newest_suggestion: weak_order "\<lambda>x y. g_filed y < g_filed x"
  by unfold_locales auto

section \<open>Scanning and paging\<close>

definition task_item :: "task_row \<times> chain_row \<Rightarrow> TaskListItem" where
  "task_item tc =
     \<lparr>ti_id = t_id (fst tc), ti_chain_id = t_chain (fst tc), ti_chain_slug = c_slug (snd tc),
      ti_slug = t_slug (fst tc), ti_position = deref_or 0 (scan_int64 (t_position (fst tc))),
      ti_status = t_status (fst tc), ti_title = deriveTaskTitle (t_problem (fst tc)),
      ti_created = t_created (fst tc), ti_updated = t_updated (fst tc)\<rparr>"

lemma scan_rows:
  "scanTaskListItems rows =
     (if list_all (\<lambda>tc. scan_int64 (t_position (fst tc)) \<noteq> None) rows then Inr (map task_item rows)
      else Inl (ErrScan ''position''))"
  by (induction rows rule: scanTaskListItems.induct) (auto simp: task_item_def deref_or_def split: option.splits)

lemma concat_pages: "concat (map (\<lambda>k. take n (drop (k * n) xs)) [0 ..< K]) = take (K * n) xs"
  by (induction K) (simp_all add: add.commute [of n] take_add)

section \<open>Unknown keys\<close>

lemma obj_put_keys: "fst ` set (obj_put k v fs) = insert k (fst ` set fs)"
  by (induction k v fs rule: obj_put.induct) auto

lemma dropEnvelopeProject_keys: "fst ` set (dropEnvelopeProject fs) = fst ` set fs - {''project''}"
proof -
  have "fst ` set (foldl (\<lambda>obj (k, v). obj_put k v obj) obj fs) = fst ` set fs \<union> fst ` set obj" for obj fs
    by (induction fs arbitrary: obj) (simp_all add: obj_put_keys case_prod_unfold)
  then have "fst ` set (foldl (\<lambda>obj (k, v). obj_put k v obj) [] (filter (\<lambda>f. fst f \<noteq> ''project'') fs)) =
      fst ` {f \<in> set fs. fst f \<noteq> ''project''}" by simp
  then show ?thesis by (auto simp: dropEnvelopeProject_def list_ex_iff)
qed

lemma members_accepted: "first_err f xs = None \<longleftrightarrow> (\<forall>x \<in> set xs. f x = None)"
  by (induction xs) (auto split: option.splits)

text \<open>A key that is not accepted ends the call, and the first one does so under its own name.\<close>

lemma decodeListParams_unknown:
  assumes "k \<in> fst ` set fs" "k \<noteq> ''project''" "fold_name k \<notin> fst ` set accepted"
  shows "\<exists>e. decodeListParams dec accepted action (RawJson (JObj fs)) = Inl e"
proof -
  have "k \<in> fst ` set (dropEnvelopeProject fs)" unfolding dropEnvelopeProject_keys using assms(1,2) by blast
  then obtain v where "(k, v) \<in> set (dropEnvelopeProject fs)" by (metis imageE prod.collapse)
  moreover have "map_of accepted (fold_name k) = None" using assms(3) by (simp add: map_of_eq_None_iff)
  then have "member_error action accepted (k, v) \<noteq> None" by (simp add: member_error_def)
  ultimately have "first_err (member_error action accepted) (dropEnvelopeProject fs) \<noteq> None" unfolding members_accepted by metis
  then show ?thesis by (auto simp: decodeListParams_def)
qed

lemma decodeListParams_only:
  assumes "k \<noteq> ''project''" "fold_name k \<notin> fst ` set accepted"
  shows "decodeListParams dec accepted action (RawJson (JObj [(k, v)])) = Inl (ErrUnknownParam action k)"
proof -
  have "map_of accepted (fold_name k) = None" using assms(2) by (simp add: map_of_eq_None_iff)
  then show ?thesis using assms(1) by (simp add: decodeListParams_def dropEnvelopeProject_def member_error_def)
qed

end
