(* ===== verification/Work_Summary.thy ===== *)
theory Work_Summary
  imports Work_Reads
begin

text \<open>
  \<open>go/internal/work/work_summary.go\<close>: the counts of open work over all projects or one, and the
  same counts grouped by project. The reads agree with each other: the groups add up to the totals,
  and the task counts are those chain\_status lists.
\<close>

record WorkSummaryTasks =
  wt_pending :: int
  wt_active :: int
  wt_blocked :: int

record WorkSummaryResult =
  ws_project :: string
  ws_open_bugs :: int
  ws_open_chains :: int
  ws_tasks :: WorkSummaryTasks
  ws_open_suggestions :: int

definition zero_summary :: "string \<Rightarrow> WorkSummaryResult" where
  "zero_summary pid = \<lparr>ws_project = pid, ws_open_bugs = 0, ws_open_chains = 0,
     ws_tasks = \<lparr>wt_pending = 0, wt_active = 0, wt_blocked = 0\<rparr>, ws_open_suggestions = 0\<rparr>"

definition applyTaskCount :: "WorkSummaryTasks \<Rightarrow> string \<Rightarrow> int \<Rightarrow> WorkSummaryTasks" where
  "applyTaskCount t status n =
     (if status = ''pending'' then t\<lparr>wt_pending := n\<rparr>
      else if status = ''active'' then t\<lparr>wt_active := n\<rparr>
      else if status = ''blocked'' then t\<lparr>wt_blocked := n\<rparr> else t)"

text \<open>\<open>SELECT k, COUNT(*) ... GROUP BY k\<close>\<close>

definition group_counts :: "'k list \<Rightarrow> ('k \<times> int) list" where
  "group_counts ks = map (\<lambda>k. (k, int (count_list ks k))) (remdups ks)"

text \<open>The rows the queries select, by project, and by project and status.\<close>

definition summary_bugs :: "db \<Rightarrow> string \<Rightarrow> string list" where
  "summary_bugs d scope =
     map b_project (filter (\<lambda>b. b_status b = ''open'' \<and> (scope = [] \<or> b_project b = scope)) (db_bugs d))"

definition summary_chains :: "db \<Rightarrow> string \<Rightarrow> string list" where
  "summary_chains d scope =
     map c_project (filter (\<lambda>c. c_status c \<notin> {''closed'', ''cancelled''} \<and> (scope = [] \<or> c_project c = scope)) (db_chains d))"

definition summary_suggestions :: "db \<Rightarrow> string \<Rightarrow> string list" where
  "summary_suggestions d scope =
     map g_project (filter (\<lambda>g. g_status g = ''open'' \<and> (scope = [] \<or> g_project g = scope)) (db_suggestions d))"

definition summary_tasks :: "db \<Rightarrow> string \<Rightarrow> (string \<times> string) list" where
  "summary_tasks d scope =
     map (\<lambda>(t, c). (c_project c, t_status t))
       (filter (\<lambda>(t, c). c_status c \<notin> {''closed'', ''cancelled''} \<and>
          t_status t \<in> {''pending'', ''active'', ''blocked''} \<and> (scope = [] \<or> c_project c = scope)) (task_chain_join d))"

definition workSummaryTotals :: "db \<Rightarrow> string \<Rightarrow> WorkSummaryResult" where
  "workSummaryTotals d scope =
     \<lparr>ws_project = [], ws_open_bugs = int (length (summary_bugs d scope)),
      ws_open_chains = int (length (summary_chains d scope)),
      ws_tasks = foldl (\<lambda>t (status, n). applyTaskCount t status n) (ws_tasks (zero_summary []))
        (group_counts (map snd (summary_tasks d scope))),
      ws_open_suggestions = int (length (summary_suggestions d scope))\<rparr>"

text \<open>\<open>get(pid)\<close> and an assignment through the pointer it returns.\<close>

definition with_project ::
  "string \<Rightarrow> (WorkSummaryResult \<Rightarrow> WorkSummaryResult) \<Rightarrow> (string \<times> WorkSummaryResult) list \<Rightarrow> (string \<times> WorkSummaryResult) list" where
  "with_project pid f m = AList.update pid (f (case map_of m pid of Some r \<Rightarrow> r | None \<Rightarrow> zero_summary pid)) m"

definition scanCountByProject ::
  "(int \<Rightarrow> WorkSummaryResult \<Rightarrow> WorkSummaryResult) \<Rightarrow> string list \<Rightarrow> (string \<times> WorkSummaryResult) list \<Rightarrow>
   (string \<times> WorkSummaryResult) list" where
  "scanCountByProject setCount pids m = foldl (\<lambda>m (pid, n). with_project pid (setCount n) m) m (group_counts pids)"

definition workSummaryByProject :: "db \<Rightarrow> string \<Rightarrow> WorkSummaryResult list" where
  "workSummaryByProject d scope =
     (let m1 = scanCountByProject (\<lambda>n r. r\<lparr>ws_open_bugs := n\<rparr>) (summary_bugs d scope) [];
          m2 = scanCountByProject (\<lambda>n r. r\<lparr>ws_open_chains := n\<rparr>) (summary_chains d scope) m1;
          m3 = scanCountByProject (\<lambda>n r. r\<lparr>ws_open_suggestions := n\<rparr>) (summary_suggestions d scope) m2;
          m4 = foldl (\<lambda>m ((pid, status), n).
                 with_project pid (\<lambda>r. r\<lparr>ws_tasks := applyTaskCount (ws_tasks r) status n\<rparr>) m) m3
                 (group_counts (summary_tasks d scope))
      in slice_sort (\<lambda>x y. ws_project x < ws_project y) (map snd m4))"

definition HandleWorkSummary ::
  "db \<Rightarrow> string \<Rightarrow> raw_params \<Rightarrow> go_error + (WorkSummaryResult \<times> WorkSummaryResult list option)" where
  "HandleWorkSummary d project params =
     (case decode_params (\<lambda>j. do {
             fs \<leftarrow> struct_fields j;
             pr \<leftarrow> dec_str (vals fs ''project'');
             grouped \<leftarrow> dec_bool (vals fs ''by_project'');
             Some (pr, grouped) }) params of
        Inl e \<Rightarrow> Inl e
      | Inr (pr, grouped) \<Rightarrow>
          (let scope = firstNonEmpty [pr, project]
           in Inr (workSummaryTotals d scope, if grouped then Some (workSummaryByProject d scope) else None)))"

section \<open>Groups\<close>

lemma group_counts_facts:
  "distinct (map fst (group_counts ks))"
  "map_of (group_counts ks) k = (if k \<in> set ks then Some (int (count_list ks k)) else None)"
  "fst ` set (group_counts ks) = set ks"
  by (simp_all add: group_counts_def comp_def map_of_map_restrict restrict_map_def image_image)

definition look :: "(string \<times> WorkSummaryResult) list \<Rightarrow> string \<Rightarrow> WorkSummaryResult" where
  "look m q = (case map_of m q of Some r \<Rightarrow> r | None \<Rightarrow> zero_summary q)"

lemma look_Nil [simp]: "look [] q = zero_summary q"
  by (simp add: look_def)

lemma with_project_facts [simp]:
  "look (with_project pid f m) q = (if q = pid then f (look m pid) else look m q)"
  "fst ` set (with_project pid f m) = insert pid (fst ` set m)"
  "distinct (map fst m) \<Longrightarrow> distinct (map fst (with_project pid f m))"
  by (simp_all add: look_def with_project_def update_conv' dom_update distinct_update)

lemma foldl_projects:
  "fst ` set (foldl (\<lambda>m x. with_project (f x) (g x) m) m xs) = f ` set xs \<union> fst ` set m"
  "distinct (map fst m) \<Longrightarrow> distinct (map fst (foldl (\<lambda>m x. with_project (f x) (g x) m) m xs))"
  by (induction xs arbitrary: m) auto

lemma foldl_look:
  "distinct (map fst gs) \<Longrightarrow>
   look (foldl (\<lambda>m (pid, n). with_project pid (setCount n) m) m gs) q =
     (case map_of gs q of Some n \<Rightarrow> setCount n (look m q) | None \<Rightarrow> look m q)"
  by (induction gs arbitrary: m) (auto split: option.splits dest!: map_of_SomeD simp: rev_image_eqI)

lemma scanCount_look:
  "look (scanCountByProject setCount pids m) q =
     (if q \<in> set pids then setCount (int (count_list pids q)) (look m q) else look m q)"
  by (simp add: scanCountByProject_def foldl_look group_counts_facts)

lemma scanCount_keys:
  "fst ` set (scanCountByProject setCount pids m) = set pids \<union> fst ` set m"
  "distinct (map fst m) \<Longrightarrow> distinct (map fst (scanCountByProject setCount pids m))"
  using foldl_projects [where f = fst and g = "\<lambda>x. setCount (snd x)" and xs = "group_counts pids"]
  by (simp_all add: scanCountByProject_def case_prod_unfold group_counts_facts)

text \<open>The task counts of one project among the groups by project and status.\<close>

definition count_tasks :: "(string \<Rightarrow> int option) \<Rightarrow> WorkSummaryTasks \<Rightarrow> WorkSummaryTasks" where
  "count_tasks f t = \<lparr>wt_pending = deref_or (wt_pending t) (f ''pending''), wt_active = deref_or (wt_active t) (f ''active''),
     wt_blocked = deref_or (wt_blocked t) (f ''blocked'')\<rparr>"

lemma count_tasks_put:
  "f s = None \<Longrightarrow> count_tasks f (applyTaskCount t s n) = count_tasks (f(s \<mapsto> n)) t"
  by (auto simp: count_tasks_def applyTaskCount_def deref_or_def split: option.splits)

lemma foldl_applyTaskCount:
  "distinct (map fst gs) \<Longrightarrow> foldl (\<lambda>t (s, n). applyTaskCount t s n) t gs = count_tasks (map_of gs) t"
proof (induction gs arbitrary: t)
  case Nil
  then show ?case by (simp add: count_tasks_def)
next
  case (Cons g gs)
  have "map_of gs (fst g) = None" using Cons.prems by (auto simp: map_of_eq_None_iff)
  then show ?case using Cons by (simp add: case_prod_beta count_tasks_put fun_upd_def)
qed

lemma foldl_task_groups:
  "distinct (map fst gs) \<Longrightarrow>
   look (foldl (\<lambda>m ((pid, status), n).
       with_project pid (\<lambda>r. r\<lparr>ws_tasks := applyTaskCount (ws_tasks r) status n\<rparr>) m) m gs) q =
     (look m q)\<lparr>ws_tasks := count_tasks (\<lambda>s. map_of gs (q, s)) (ws_tasks (look m q))\<rparr>"
proof (induction gs arbitrary: m)
  case Nil
  then show ?case by (simp add: count_tasks_def)
next
  case (Cons g gs)
  obtain pid s n where g: "g = ((pid, s), n)" by (metis prod.exhaust)
  have "map_of gs (pid, s) = None" using Cons.prems by (auto simp: map_of_eq_None_iff g)
  moreover have "(\<lambda>a. if a = s then Some n else map_of gs (pid, a)) = (\<lambda>a. map_of gs (pid, a))(s \<mapsto> n)" by auto
  ultimately show ?case using Cons by (auto simp: g count_tasks_put)
qed

section \<open>The breakdown\<close>

definition summary_row :: "db \<Rightarrow> string \<Rightarrow> string \<Rightarrow> WorkSummaryResult" where
  "summary_row d scope q =
     (let n = (\<lambda>s. int (count_list (summary_tasks d scope) (q, s)))
      in \<lparr>ws_project = q, ws_open_bugs = int (count_list (summary_bugs d scope) q),
          ws_open_chains = int (count_list (summary_chains d scope) q),
          ws_tasks = \<lparr>wt_pending = n ''pending'', wt_active = n ''active'', wt_blocked = n ''blocked''\<rparr>,
          ws_open_suggestions = int (count_list (summary_suggestions d scope) q)\<rparr>)"

definition summary_projects :: "db \<Rightarrow> string \<Rightarrow> string set" where
  "summary_projects d scope =
     set (summary_bugs d scope) \<union> set (summary_chains d scope) \<union> set (summary_suggestions d scope) \<union>
     fst ` set (summary_tasks d scope)"

lemma count_zero: "x \<notin> set xs \<Longrightarrow> count_list xs x = 0"
  by (simp add: count_list_0_iff)

lemma breakdown_rows:
  obtains qs where "distinct qs" "set qs = summary_projects d scope"
    "mset (workSummaryByProject d scope) = mset (map (summary_row d scope) qs)"
proof -
  define m1 where "m1 = scanCountByProject (\<lambda>n r. r\<lparr>ws_open_bugs := n\<rparr>) (summary_bugs d scope) []"
  define m2 where "m2 = scanCountByProject (\<lambda>n r. r\<lparr>ws_open_chains := n\<rparr>) (summary_chains d scope) m1"
  define m3 where "m3 = scanCountByProject (\<lambda>n r. r\<lparr>ws_open_suggestions := n\<rparr>) (summary_suggestions d scope) m2"
  define m4 where "m4 = foldl (\<lambda>m ((pid, status), n).
      with_project pid (\<lambda>r. r\<lparr>ws_tasks := applyTaskCount (ws_tasks r) status n\<rparr>) m) m3 (group_counts (summary_tasks d scope))"
  note defs = m1_def m2_def m3_def m4_def
  have rows: "workSummaryByProject d scope = slice_sort (\<lambda>x y. ws_project x < ws_project y) (map snd m4)"
    by (simp add: workSummaryByProject_def defs)
  have step: "m4 = foldl (\<lambda>m x. with_project (fst (fst x))
      (\<lambda>r. r\<lparr>ws_tasks := applyTaskCount (ws_tasks r) (snd (fst x)) (snd x)\<rparr>) m) m3 (group_counts (summary_tasks d scope))"
    by (simp add: m4_def case_prod_unfold)
  have "distinct (map fst m3)" unfolding m1_def m2_def m3_def by (intro scanCount_keys(2)) simp
  then have dist: "distinct (map fst m4)" unfolding step by (rule foldl_projects(2))
  have "fst ` set m4 = fst ` fst ` set (group_counts (summary_tasks d scope)) \<union> fst ` set m3"
    unfolding step foldl_projects(1) by (simp add: image_image)
  then have keys: "set (map fst m4) = summary_projects d scope"
    by (auto simp: group_counts_facts(3) m1_def m2_def m3_def scanCount_keys(1) summary_projects_def)
  have look: "look m4 q = summary_row d scope q" for q
    unfolding m4_def foldl_task_groups [OF group_counts_facts(1)] m3_def m2_def m1_def
    by (simp add: scanCount_look group_counts_facts(2) count_tasks_def summary_row_def zero_summary_def count_zero)
  have "snd x = summary_row d scope (fst x)" if "x \<in> set m4" for x
    using map_of_is_SomeI [OF dist, of "fst x" "snd x"] that look [of "fst x"] by (simp add: look_def)
  then have "map snd m4 = map (summary_row d scope) (map fst m4)" by simp
  then have "mset (workSummaryByProject d scope) = mset (map (summary_row d scope) (map fst m4))"
    unfolding rows mset_slice_sort by (simp only:)
  then show ?thesis by (rule that [OF dist keys])
qed

interpretation by_project: weak_order "\<lambda>x y. ws_project x < ws_project y"
  by unfold_locales auto

lemma count_list_map_filter: "count_list (map f (filter P xs)) k = length (filter (\<lambda>x. P x \<and> f x = k) xs)"
  by (induction xs) auto

lemma sum_counts:
  assumes "distinct qs" "set ks \<subseteq> set qs"
  shows "(\<Sum>q\<leftarrow>qs. int (count_list ks q)) = int (length ks)"
  using sum_count_set [OF assms(2)] assms(1) by (simp add: sum_list_distinct_conv_sum_set flip: of_nat_sum)

lemma sum_pair_counts:
  assumes "distinct qs" "fst ` set ks \<subseteq> set qs"
  shows "(\<Sum>q\<leftarrow>qs. int (count_list ks (q, s))) = int (count_list (map snd ks) s)"
proof -
  have "count_list ks (q, s) = count_list (map fst (filter (\<lambda>x. snd x = s) ks)) q" for q
    by (induction ks) auto
  moreover have "count_list (map snd ks) s = length (map fst (filter (\<lambda>x. snd x = s) ks))"
    by (induction ks) auto
  ultimately show ?thesis using sum_counts [OF assms(1), of "map fst (filter (\<lambda>x. snd x = s) ks)"] assms(2) by force
qed

lemma totals_tasks:
  "ws_tasks (workSummaryTotals d scope) =
     (let n = (\<lambda>s. int (count_list (map snd (summary_tasks d scope)) s))
      in \<lparr>wt_pending = n ''pending'', wt_active = n ''active'', wt_blocked = n ''blocked''\<rparr>)"
  by (simp add: workSummaryTotals_def foldl_applyTaskCount group_counts_facts count_tasks_def zero_summary_def count_zero
      del: set_map)

lemma project_in_scope: "q \<in> summary_projects d scope \<Longrightarrow> scope = [] \<or> q = scope"
  by (auto simp: summary_projects_def summary_bugs_def summary_chains_def summary_suggestions_def summary_tasks_def)

text \<open>The row of a project in the breakdown has the totals of that project alone.\<close>

lemma row_totals:
  assumes "q \<in> summary_projects d scope" "q \<noteq> []"
  shows "workSummaryTotals d q = (summary_row d scope q)\<lparr>ws_project := []\<rparr>"
proof -
  have scope: "(scope = [] \<or> x = scope) \<and> x = q \<longleftrightarrow> x = q" for x
    using project_in_scope [OF assms(1)] by auto
  have tasks: "count_list (map snd (summary_tasks d q)) s = count_list (summary_tasks d scope) (q, s)" for s
    using project_in_scope [OF assms(1)] assms(2)
    by (auto simp: summary_tasks_def count_list_map_filter case_prod_unfold comp_def intro!: arg_cong [where f = length] filter_cong)
  have counts: "length (summary_bugs d q) = count_list (summary_bugs d scope) q"
    "length (summary_chains d q) = count_list (summary_chains d scope) q"
    "length (summary_suggestions d q) = count_list (summary_suggestions d scope) q"
    using project_in_scope [OF assms(1)] assms(2)
    by (auto simp: summary_bugs_def summary_chains_def summary_suggestions_def count_list_map_filter
        intro!: arg_cong [where f = length] filter_cong)
  have "workSummaryTotals d q = \<lparr>ws_project = [], ws_open_bugs = int (length (summary_bugs d q)),
      ws_open_chains = int (length (summary_chains d q)), ws_tasks = ws_tasks (workSummaryTotals d q),
      ws_open_suggestions = int (length (summary_suggestions d q))\<rparr>"
    by (simp add: workSummaryTotals_def)
  then show ?thesis unfolding totals_tasks by (simp add: counts tasks summary_row_def)
qed

section \<open>Agreement with chain\_status\<close>

lemma sum_filter_counts:
  "(\<Sum>c\<leftarrow>cs. int (length (filter (\<lambda>t. t_chain t = c_id c \<and> t_status t = s) ts))) =
   int (length (filter (\<lambda>(t, c). t_status t = s) (concat (map (\<lambda>t. map (Pair t) (filter (\<lambda>c. c_id c = t_chain t) cs)) ts))))"
proof (induction ts)
  case (Cons t ts)
  have "(\<Sum>c\<leftarrow>cs. int (length (filter (\<lambda>t. t_chain t = c_id c \<and> t_status t = s) (t # ts)))) =
      (\<Sum>c\<leftarrow>cs. if t_chain t = c_id c \<and> t_status t = s then 1 else 0) +
      (\<Sum>c\<leftarrow>cs. int (length (filter (\<lambda>t. t_chain t = c_id c \<and> t_status t = s) ts)))"
    unfolding sum_list_addf [symmetric] by (intro arg_cong [where f = sum_list] map_cong) auto
  moreover have "(\<Sum>c\<leftarrow>cs. if t_chain t = c_id c \<and> t_status t = s then 1 else 0) =
      int (length (filter (\<lambda>(t, c). t_status t = s) (map (Pair t) (filter (\<lambda>c. c_id c = t_chain t) cs))))"
    by (induction cs) auto
  ultimately show ?case using Cons.IH by simp
qed (induction cs; simp)

lemma filter_join:
  "filter (\<lambda>(t, c). P c \<and> Q t) (task_chain_join d) =
   filter (\<lambda>(t, c). Q t) (concat (map (\<lambda>t. map (Pair t) (filter (\<lambda>c. c_id c = t_chain t) (filter P (db_chains d)))) (db_tasks d)))"
proof -
  have "filter (\<lambda>(t, c). P c \<and> Q t) (map (Pair t) (filter (\<lambda>c. c_id c = t_chain t) cs)) =
      filter (\<lambda>(t, c). Q t) (map (Pair t) (filter (\<lambda>c. c_id c = t_chain t) (filter P cs)))" for t cs
    by (induction cs) auto
  then show ?thesis unfolding task_chain_join_def by (simp add: filter_concat comp_def)
qed

lemma chain_counts:
  assumes "s \<in> {''pending'', ''active'', ''blocked''}"
    and "\<And>c. n (chainSummarySelect d c) = sql_count (\<lambda>t. t_chain t = c_id c \<and> t_status t = s) (db_tasks d)"
  shows "(\<Sum>x\<leftarrow>listChains d project. n x) = int (count_list (map snd (summary_tasks d project)) s)"
proof -
  let ?P = "\<lambda>c. (project = [] \<or> c_project c = project) \<and> c_status c \<notin> {''closed'', ''cancelled''}"
  have "(\<Sum>x\<leftarrow>listChains d project. n x) = sum_mset (mset (map n (listChains d project)))"
    by (simp only: sum_mset_sum_list)
  also have "\<dots> = (\<Sum>c\<leftarrow>filter ?P (db_chains d). n (chainSummarySelect d c))"
    unfolding listChains_def mset_map mset_sort
    by (simp only: mset_map [symmetric] sum_mset_sum_list map_map comp_def)
  also have "\<dots> = int (length (filter (\<lambda>(t, c). ?P c \<and> t_status t = s) (task_chain_join d)))"
    unfolding assms(2) sql_count_def sum_filter_counts filter_join ..
  also have "filter (\<lambda>(t, c). ?P c \<and> t_status t = s) (task_chain_join d) =
      filter (\<lambda>x. (case x of (t, c) \<Rightarrow> c_status c \<notin> {''closed'', ''cancelled''} \<and>
        t_status t \<in> {''pending'', ''active'', ''blocked''} \<and> (project = [] \<or> c_project c = project)) \<and> t_status (fst x) = s)
        (task_chain_join d)"
    using assms(1) by (intro filter_cong) auto
  also have "int (length \<dots>) = int (count_list (map snd (summary_tasks d project)) s)"
    unfolding summary_tasks_def map_map by (subst count_list_map_filter) (simp add: case_prod_unfold comp_def)
  finally show ?thesis .
qed

lemma chain_status_agrees:
  "int (length (listChains d project)) = ws_open_chains (workSummaryTotals d project)"
  "(\<Sum>x\<leftarrow>listChains d project. cs_pending x) = wt_pending (ws_tasks (workSummaryTotals d project))"
  "(\<Sum>x\<leftarrow>listChains d project. cs_active x) = wt_active (ws_tasks (workSummaryTotals d project))"
  "(\<Sum>x\<leftarrow>listChains d project. cs_blocked x) = wt_blocked (ws_tasks (workSummaryTotals d project))"
  unfolding totals_tasks by (simp_all add: chain_counts chainSummarySelect_def Let_def,
    simp add: listChains_def workSummaryTotals_def summary_chains_def conj_commute)

end
