(* ===== verification/Read_Properties.thy ===== *)
theory Read_Properties
  imports Work_Summary Task_Properties
begin

text \<open>
  What the reads answer: pages of a list, the newest bugs, refused filters, and the agreement of
  work\_summary, chain\_status and the stored counters.
\<close>

section \<open>Lists\<close>

lemma positions_sorted:
  assumes "sorted_wrt (\<lambda>x y. \<not> by_chain_position y x) rows"
    and "list_all (\<lambda>tc. scan_int64 (t_position (fst tc)) \<noteq> None) rows"
  shows "sorted (map (\<lambda>i. (ti_chain_slug i, ti_position i)) (map task_item rows))"
proof -
  have key: "list_key tc = (ti_chain_slug (task_item tc), False, rat_of_int (ti_position (task_item tc)), [])"
    if "tc \<in> set rows" for tc
    using assms(2) that by (cases "t_position (fst tc)") (auto simp: list_all_iff list_key_def task_item_def sql_key_def)
  have "sorted_wrt (\<lambda>x y. (ti_chain_slug (task_item x), ti_position (task_item x)) \<le>
      (ti_chain_slug (task_item y), ti_position (task_item y))) rows"
    using assms(1)
    by (rule sorted_wrt_mono_rel [rotated]) (auto simp: by_chain_position_key key less_prod_def less_eq_prod_def)
  then show ?thesis by (simp add: sorted_map comp_def)
qed

text \<open>The pages of \<open>task_list\<close>: a call without a limit answers exactly the tasks that pass its
  filters, ordered by chain and position, and calls with the same filters, a limit \<open>n\<close> and the
  offsets 0, \<open>n\<close>, 2\<open>n\<close> and so on answer consecutive pieces of that list.\<close>

theorem task_list_pages:
  assumes "decodeListParams unmarshal_taskListParams taskListFields ''task_list'' whole = Inr p" "tl_limit p < 0"
    and "HandleTaskList d project whole = Inr items" "0 < n"
    and "\<And>k. k < K \<Longrightarrow> decodeListParams unmarshal_taskListParams taskListFields ''task_list'' (page k) =
      Inr (p\<lparr>tl_limit := int n, tl_offset := int (k * n)\<rparr>)"
  shows "mset (map ti_id items) = mset (map (t_id \<circ> fst) (filter (task_list_where project p) (task_chain_join d))) \<and>
    sorted (map (\<lambda>i. (ti_chain_slug i, ti_position i)) items) \<and>
    (\<exists>pages. length pages = K \<and> (\<forall>k < K. HandleTaskList d project (page k) = Inr (pages ! k)) \<and>
       concat pages = take (K * n) items)"
proof -
  define rows where "rows = slice_sort by_chain_position (filter (task_list_where project p) (task_chain_join d))"
  have ok: "list_all (\<lambda>tc. scan_int64 (t_position (fst tc)) \<noteq> None) rows" "items = map task_item rows"
    using assms(1-3) by (auto simp: HandleTaskList_def normalizeLimitOffset_def limit_clause_def scan_rows rows_def split: if_splits)
  let ?pages = "map (\<lambda>k. take n (drop (k * n) items)) [0 ..< K]"
  have "HandleTaskList d project (page k) = Inr (take n (drop (k * n) items))" if "k < K" for k
  proof -
    have same: "task_list_where project (p\<lparr>tl_limit := int n, tl_offset := int (k * n)\<rparr>) = task_list_where project p"
      by (simp add: task_list_where_def fun_eq_iff)
    have "limit_clause (int n) (int (k * n)) rows = take n (drop (k * n) rows)"
      by (auto simp: limit_clause_def nat_mult_distrib simp flip: of_nat_mult)
    moreover have "list_all (\<lambda>tc. scan_int64 (t_position (fst tc)) \<noteq> None) (take n (drop (k * n) rows))"
      using ok(1) by (auto simp: list_all_iff dest!: in_set_takeD in_set_dropD)
    ultimately show ?thesis
      using assms(4) assms(5) [OF that] ok(2)
      by (simp add: HandleTaskList_def normalizeLimitOffset_def scan_rows same rows_def [symmetric] take_map drop_map del: of_nat_mult)
  qed
  moreover have "mset (map ti_id items) = mset (map (t_id \<circ> fst) (filter (task_list_where project p) (task_chain_join d)))"
    by (simp add: ok(2) rows_def task_item_def comp_def multiset.map_comp)
  moreover have "sorted (map (\<lambda>i. (ti_chain_slug i, ti_position i)) items)"
    unfolding ok(2) using chain_position.sorted_slice_sort ok(1) by (intro positions_sorted) (simp_all add: rows_def)
  moreover have "concat ?pages = take (K * n) items" by (rule concat_pages)
  ultimately show ?thesis by (intro conjI exI [of _ ?pages]) simp_all
qed

definition page_args :: "(string \<times> json) list \<Rightarrow> raw_params" where
  "page_args fs = RawJson (JObj fs)"

theorem task_list_pages_witness:
  "\<exists>p1 p2. HandleTaskList ex_work ''p'' (page_args [(''limit'', JInt 3), (''offset'', JInt 0)]) = Inr p1 \<and>
     HandleTaskList ex_work ''p'' (page_args [(''limit'', JInt 3), (''offset'', JInt 3)]) = Inr p2 \<and>
     map ti_slug (p1 @ p2) = [''a'', ''p'', ''q'', ''z'']"
proof -
  let ?dec = "decodeListParams unmarshal_taskListParams taskListFields ''task_list''"
  let ?p = "\<lparr>tl_status = [], tl_state = [], tl_since = [], tl_verbose = False, tl_all = False, tl_limit = - 1,
    tl_offset = 0, tl_chain = [], tl_chain_slug = []\<rparr>"
  let ?page = "\<lambda>k. page_args [(''limit'', JInt 3), (''offset'', JInt (if k = 0 then 0 else 3))]"
  have whole: "?dec (page_args [(''limit'', JInt (- 1))]) = Inr ?p" by code_simp
  have pages: "?dec (page_args [(''limit'', JInt 3), (''offset'', JInt 0)]) = Inr (?p\<lparr>tl_limit := 3, tl_offset := 0\<rparr>)"
    "?dec (page_args [(''limit'', JInt 3), (''offset'', JInt 3)]) = Inr (?p\<lparr>tl_limit := 3, tl_offset := 3\<rparr>)"
    by code_simp+
  have slugs: "map_sum id (map ti_slug) (HandleTaskList ex_work ''p'' (page_args [(''limit'', JInt (- 1))])) =
      Inr [''a'', ''p'', ''q'', ''z'']" by code_simp
  then obtain items where items: "HandleTaskList ex_work ''p'' (page_args [(''limit'', JInt (- 1))]) = Inr items"
    "map ti_slug items = [''a'', ''p'', ''q'', ''z'']"
    by (cases "HandleTaskList ex_work ''p'' (page_args [(''limit'', JInt (- 1))])") simp_all
  have "?dec (?page k) = Inr (?p\<lparr>tl_limit := int 3, tl_offset := int (k * 3)\<rparr>)" if "k < 2" for k
    using that pages by (cases "k = 0") (auto simp: less_Suc_eq numeral_2_eq_2)
  from task_list_pages [where K = 2, OF whole _ items(1) _ this] obtain ps where ps: "length ps = 2"
    "\<forall>k < 2. HandleTaskList ex_work ''p'' (?page k) = Inr (ps ! k)" "concat ps = take (2 * 3) items" by auto
  have "length items = 4" using arg_cong [OF items(2), of length] by simp
  then have "ps ! 0 @ ps ! 1 = items" using ps(1,3) by (cases ps; cases "tl ps") auto
  then have "map ti_slug (ps ! 0 @ ps ! 1) = [''a'', ''p'', ''q'', ''z'']" using items(2) by (simp only:)
  then show ?thesis using ps(2) [rule_format, of 0] ps(2) [rule_format, of 1]
    by (intro exI [of _ "ps ! 0"] exI [of _ "ps ! 1"] conjI) simp_all
qed

text \<open>The first page of \<open>bug_list\<close> is the newest bugs: the rows answered pass the filters and come
  newest first, and a bug that passes them is missing only when the page is full and every bug shown
  is at least as new.\<close>

theorem bug_list_shows_the_newest:
  assumes "HandleBugList like d project params = Inr res"
    and "decodeListParams (unmarshal_entityListParams ''severity'') (entityListFields ''severity'') ''bug_list'' params = Inr p"
    and "el_offset p \<le> 0"
  shows "\<exists>rows. (res = BugTitles (map scanBugTitle rows) \<or> res = BugVerbose (map scanOneBug rows) \<or>
      res = BugDefault (map scanBugListItem rows)) \<and>
    mset rows \<subseteq># mset (filter (bug_list_where like project p) (db_bugs d)) \<and>
    sorted_wrt (\<lambda>x y. b_filed y \<le> b_filed x) rows \<and>
    (\<forall>b \<in> set (db_bugs d). bug_list_where like project p b \<and> b \<notin> set rows \<longrightarrow>
       int (length rows) = (if el_limit p = 0 then 50 else el_limit p) \<and> (\<forall>x \<in> set rows. b_filed b \<le> b_filed x))"
proof -
  let ?all = "filter (bug_list_where like project p) (db_bugs d)"
  let ?sorted = "slice_sort (\<lambda>x y. b_filed y < b_filed x) ?all"
  define limit where "limit = (if el_limit p = 0 then 50 else el_limit p)"
  define rows where "rows = limit_clause limit 0 ?sorted"
  have res: "res = BugTitles (map scanBugTitle rows) \<or> res = BugVerbose (map scanOneBug rows) \<or>
      res = BugDefault (map scanBugListItem rows)"
    using assms by (auto simp: HandleBugList_def normalizeLimitOffset_def Let_def rows_def limit_def split: if_splits)
  have rows: "rows = (if 0 \<le> limit then take (nat limit) ?sorted else ?sorted)"
    by (simp add: rows_def limit_clause_def)
  have sub: "mset rows \<subseteq># mset ?all"
    unfolding mset_slice_sort [of "\<lambda>x y. b_filed y < b_filed x" ?all, symmetric] rows
    by (auto simp del: mset_slice_sort mset_filter) (metis append_take_drop_id mset_append mset_subset_eq_add_left)
  have srt: "sorted_wrt (\<lambda>x y. b_filed y \<le> b_filed x) rows"
    using newest_bug.sorted_slice_sort [of ?all] by (auto simp: rows not_less intro: sorted_wrt_take)
  have "int (length rows) = limit \<and> (\<forall>x \<in> set rows. b_filed b \<le> b_filed x)"
    if b: "b \<in> set ?all" "b \<notin> set rows" for b
  proof -
    have pos: "0 \<le> limit" using b slice_sort_facts(2) by (fastforce simp: rows split: if_splits)
    then show ?thesis
      using newest_bug.left_out [of b ?all "nat limit"] b by (auto simp: rows not_less)
  qed
  then show ?thesis using res sub srt unfolding limit_def by (intro exI [of _ rows]) auto
qed

text \<open>Three open bugs and a page of two.\<close>

definition ex_bugs :: db where
  "ex_bugs = empty_db\<lparr>db_bugs := [ex_bug_row, ex_bug_row\<lparr>b_slug := ''new'', b_id := 8, b_filed := ''t2''\<rparr>,
     ex_bug_row\<lparr>b_slug := ''mid'', b_id := 9, b_filed := ''t1''\<rparr>]\<rparr>"

theorem bug_list_shows_the_newest_witness:
  "\<exists>rows. HandleBugList (=) ex_bugs ''p'' (page_args [(''limit'', JInt 2)]) = Inr (BugDefault (map scanBugListItem rows)) \<and>
     ex_bug_row \<notin> set rows \<and> length rows = 2 \<and> (\<forall>x \<in> set rows. b_filed ex_bug_row \<le> b_filed x)"
proof -
  let ?dec = "decodeListParams (unmarshal_entityListParams ''severity'') (entityListFields ''severity'') ''bug_list''"
  let ?p = "\<lparr>el_status = [], el_state = [], el_resolve_state = [], el_class = [], el_surface = [], el_since = [],
    el_verbose = False, el_titles_only = False, el_all = False, el_limit = 2, el_offset = 0\<rparr>"
  have dec: "?dec (page_args [(''limit'', JInt 2)]) = Inr ?p" by code_simp
  let ?shown = "[ex_bug_row\<lparr>b_slug := ''new'', b_id := 8, b_filed := ''t2''\<rparr>,
    ex_bug_row\<lparr>b_slug := ''mid'', b_id := 9, b_filed := ''t1''\<rparr>]"
  have ev: "HandleBugList (=) ex_bugs ''p'' (page_args [(''limit'', JInt 2)]) = Inr (BugDefault (map scanBugListItem ?shown))"
    by code_simp
  have first: "el_offset ?p \<le> 0" by simp
  obtain rows where shape: "BugDefault (map scanBugListItem ?shown) = BugTitles (map scanBugTitle rows) \<or>
      BugDefault (map scanBugListItem ?shown) = BugVerbose (map scanOneBug rows) \<or>
      BugDefault (map scanBugListItem ?shown) = BugDefault (map scanBugListItem rows)"
    and missing: "\<forall>b \<in> set (db_bugs ex_bugs). bug_list_where (=) ''p'' ?p b \<and> b \<notin> set rows \<longrightarrow>
       int (length rows) = (if el_limit ?p = 0 then 50 else el_limit ?p) \<and> (\<forall>x \<in> set rows. b_filed b \<le> b_filed x)"
    using bug_list_shows_the_newest [OF ev dec first] by blast
  have rows: "map scanBugListItem rows = map scanBugListItem ?shown"
    using shape by (metis BugListResult.distinct(3,5) BugListResult.inject(3))
  have "bi_slug ` scanBugListItem ` set rows = {''new'', ''mid''}"
    using arg_cong [OF rows, of "\<lambda>xs. bi_slug ` set xs"] by (simp add: scanBugListItem_def)
  then have "ex_bug_row \<notin> set rows" by (force simp: scanBugListItem_def ex_bug_row_def)
  moreover have "ex_bug_row \<in> set (db_bugs ex_bugs)" "bug_list_where (=) ''p'' ?p ex_bug_row"
    by (simp add: ex_bugs_def, code_simp)
  ultimately show ?thesis using missing ev rows by (intro exI [of _ rows]) auto
qed

text \<open>A filter that a list does not know is refused, never dropped: a key other than the
  envelope's \<open>project\<close> that names no field of the call makes \<open>task_list\<close>, \<open>bug_list\<close> and
  \<open>suggestion_list\<close> answer an error, and a call with that key alone names it in the error.\<close>

theorem unknown_filters_are_refused:
  assumes "k \<in> fst ` set fs" "k \<noteq> ''project''"
  shows "(fold_name k \<notin> fst ` set taskListFields \<longrightarrow>
      (\<exists>e. HandleTaskList d project (RawJson (JObj fs)) = Inl e) \<and>
      HandleTaskList d project (RawJson (JObj [(k, v)])) = Inl (ErrUnknownParam ''task_list'' k)) \<and>
    (fold_name k \<notin> fst ` set (entityListFields ''severity'') \<longrightarrow>
      (\<exists>e. HandleBugList like d project (RawJson (JObj fs)) = Inl e) \<and>
      HandleBugList like d project (RawJson (JObj [(k, v)])) = Inl (ErrUnknownParam ''bug_list'' k)) \<and>
    (fold_name k \<notin> fst ` set (entityListFields ''priority'') \<longrightarrow>
      (\<exists>e. HandleSuggestionList like d project (RawJson (JObj fs)) = Inl e) \<and>
      HandleSuggestionList like d project (RawJson (JObj [(k, v)])) = Inl (ErrUnknownParam ''suggestion_list'' k))"
proof (intro conjI impI)
  note refused = decodeListParams_unknown [OF assms] and named = decodeListParams_only [OF assms(2)]
  note defs = HandleTaskList_def HandleBugList_def HandleSuggestionList_def
  show "\<exists>e. HandleTaskList d project (RawJson (JObj fs)) = Inl e" if "fold_name k \<notin> fst ` set taskListFields"
    using refused [OF that, of unmarshal_taskListParams "''task_list''"] by (auto simp: defs)
  show "\<exists>e. HandleBugList like d project (RawJson (JObj fs)) = Inl e"
    if "fold_name k \<notin> fst ` set (entityListFields ''severity'')"
    using refused [OF that, of "unmarshal_entityListParams ''severity''" "''bug_list''"] by (auto simp: defs)
  show "\<exists>e. HandleSuggestionList like d project (RawJson (JObj fs)) = Inl e"
    if "fold_name k \<notin> fst ` set (entityListFields ''priority'')"
    using refused [OF that, of "unmarshal_entityListParams ''priority''" "''suggestion_list''"] by (auto simp: defs)
  show "HandleTaskList d project (RawJson (JObj [(k, v)])) = Inl (ErrUnknownParam ''task_list'' k)"
    if "fold_name k \<notin> fst ` set taskListFields" by (simp add: defs named [OF that])
  show "HandleBugList like d project (RawJson (JObj [(k, v)])) = Inl (ErrUnknownParam ''bug_list'' k)"
    if "fold_name k \<notin> fst ` set (entityListFields ''severity'')" by (simp add: defs named [OF that])
  show "HandleSuggestionList like d project (RawJson (JObj [(k, v)])) = Inl (ErrUnknownParam ''suggestion_list'' k)"
    if "fold_name k \<notin> fst ` set (entityListFields ''priority'')" by (simp add: defs named [OF that])
qed

theorem unknown_filters_are_refused_witness:
  "HandleBugList (=) ex_bugs ''p'' (page_args [(''pattern'', JStr ''x'')]) = Inl (ErrUnknownParam ''bug_list'' ''pattern'') \<and>
   (\<exists>e. HandleBugList (=) ex_bugs ''p'' (page_args [(''limit'', JInt 2), (''pattern'', JStr ''x'')]) = Inl e)"
proof -
  have "fold_name ''pattern'' \<notin> fst ` set (entityListFields ''severity'')" by code_simp
  then show ?thesis
    using unknown_filters_are_refused [of "''pattern''" "[(''limit'', JInt 2), (''pattern'', JStr ''x'')]" _ _ "JStr ''x''"]
    by (simp add: page_args_def)
qed

section \<open>Summaries\<close>

text \<open>C16. The breakdown of \<open>work_summary\<close> adds up: the projects are listed once each, in order; the
  counts of their rows sum to the totals of the same answer, and each row has the counts that a call
  for that project alone answers.\<close>

theorem work_summary_adds_up:
  assumes "HandleWorkSummary d project params = Inr (tot, Some rows)"
  shows "distinct (map ws_project rows) \<and> sorted (map ws_project rows) \<and>
    (\<Sum>r\<leftarrow>rows. ws_open_bugs r) = ws_open_bugs tot \<and> (\<Sum>r\<leftarrow>rows. ws_open_chains r) = ws_open_chains tot \<and>
    (\<Sum>r\<leftarrow>rows. ws_open_suggestions r) = ws_open_suggestions tot \<and>
    (\<Sum>r\<leftarrow>rows. wt_pending (ws_tasks r)) = wt_pending (ws_tasks tot) \<and>
    (\<Sum>r\<leftarrow>rows. wt_active (ws_tasks r)) = wt_active (ws_tasks tot) \<and>
    (\<Sum>r\<leftarrow>rows. wt_blocked (ws_tasks r)) = wt_blocked (ws_tasks tot) \<and>
    (\<forall>r \<in> set rows. ws_project r \<noteq> [] \<longrightarrow>
       HandleWorkSummary d (ws_project r) RawEmpty = Inr (r\<lparr>ws_project := []\<rparr>, None))"
proof -
  obtain scope where scope: "tot = workSummaryTotals d scope" "rows = workSummaryByProject d scope"
    using assms by (auto simp: HandleWorkSummary_def Let_def split: sum.splits if_splits)
  obtain qs where qs: "distinct qs" "set qs = summary_projects d scope" "mset rows = mset (map (summary_row d scope) qs)"
    using breakdown_rows scope(2) by metis
  have sums: "(\<Sum>r\<leftarrow>rows. f r) = (\<Sum>q\<leftarrow>qs. f (summary_row d scope q))" for f :: "WorkSummaryResult \<Rightarrow> int"
    using arg_cong [OF qs(3), of "\<lambda>m. sum_mset (image_mset f m)"]
    by (simp only: mset_map [symmetric] sum_mset_sum_list map_map comp_def)
  have inside: "set (summary_bugs d scope) \<subseteq> set qs" "set (summary_chains d scope) \<subseteq> set qs"
    "set (summary_suggestions d scope) \<subseteq> set qs" "fst ` set (summary_tasks d scope) \<subseteq> set qs"
    unfolding qs(2) summary_projects_def by auto
  have "mset (map ws_project rows) = mset qs"
    using arg_cong [OF qs(3), of "image_mset ws_project"] by (simp add: summary_row_def Let_def multiset.map_comp comp_def)
  then have "distinct (map ws_project rows)" using qs(1) mset_eq_imp_distinct_iff by blast
  moreover have "sorted (map ws_project rows)"
    unfolding sorted_map scope(2) workSummaryByProject_def Let_def using by_project.sorted_slice_sort by (simp add: not_less)
  moreover have "HandleWorkSummary d (ws_project r) RawEmpty = Inr (r\<lparr>ws_project := []\<rparr>, None)"
    if r: "r \<in> set rows" "ws_project r \<noteq> []" for r
  proof -
    obtain q where q: "q \<in> summary_projects d scope" "r = summary_row d scope q"
      using r(1) qs(2) mset_eq_setD [OF qs(3)] by auto
    then have "ws_project r = q" by (simp add: summary_row_def Let_def)
    then show ?thesis using row_totals [OF q(1)] r(2) q(2)
      by (simp add: HandleWorkSummary_def decode_params_def vals_def dec_step_def)
  qed
  ultimately show ?thesis
    unfolding sums scope(1) totals_tasks
    using sum_counts [OF qs(1) inside(1)] sum_counts [OF qs(1) inside(2)] sum_counts [OF qs(1) inside(3)]
      sum_pair_counts [OF qs(1) inside(4)]
    by (simp add: summary_row_def Let_def workSummaryTotals_def)
qed

theorem work_summary_adds_up_witness:
  "\<exists>tot r1 r2. HandleWorkSummary (ex_db\<lparr>db_bugs := [ex_bug_row, ex_bug_row\<lparr>b_project := ''o''\<rparr>]\<rparr>) []
      (page_args [(''by_project'', JBool True)]) = Inr (tot, Some [r1, r2]) \<and>
    ws_project r1 = ''o'' \<and> ws_project r2 = ''p'' \<and> ws_open_bugs r1 + ws_open_bugs r2 = ws_open_bugs tot \<and> ws_open_bugs tot = 2"
proof -
  let ?d = "ex_db\<lparr>db_bugs := [ex_bug_row, ex_bug_row\<lparr>b_project := ''o''\<rparr>]\<rparr>"
  obtain tot rows where ev: "HandleWorkSummary ?d [] (page_args [(''by_project'', JBool True)]) = Inr (tot, Some rows)"
    "map ws_project rows = [''o'', ''p'']" "ws_open_bugs tot = 2"
  proof -
    have "map_sum id (\<lambda>(t, rs). (ws_open_bugs t, map_option (map ws_project) rs))
        (HandleWorkSummary ?d [] (page_args [(''by_project'', JBool True)])) = Inr (2, Some [''o'', ''p''])" by code_simp
    then show ?thesis using that
      by (cases "HandleWorkSummary ?d [] (page_args [(''by_project'', JBool True)])") auto
  qed
  from ev(2) obtain r1 r2 where "rows = [r1, r2]" "ws_project r1 = ''o''" "ws_project r2 = ''p''" by (auto simp: map_eq_Cons_conv)
  then show ?thesis using work_summary_adds_up [OF ev(1)] ev(1,3) by auto
qed

text \<open>C13. Three views of the open work agree after any sequence of calls of the service: the chains
  \<open>chain_status\<close> lists are those \<open>work_summary\<close> counts, and the pending, active and blocked tasks
  \<open>chain_status\<close> counts in them, those \<open>work_summary\<close> counts, and the stored counters of the listed chains
  are the same numbers. The read model is well formed with agreeing counters at the start, and a step of the
  service assumes of the construct functions a batch reaches that they ingest events of the service only.\<close>

theorem open_work_reads_agree:
  assumes "(service_step aff E S deps raw_text err_text)\<^sup>*\<^sup>* w w'" "wf_db (w_db w)" "counters_agree (w_db w)"
  shows "\<exists>chains tot. HandleChainStatus (w_db w') project RawEmpty = Inr (StatusList chains) \<and>
    HandleWorkSummary (w_db w') project RawEmpty = Inr (tot, None) \<and>
    int (length chains) = ws_open_chains tot \<and>
    (\<Sum>x\<leftarrow>chains. cs_pending x) = wt_pending (ws_tasks tot) \<and> (\<Sum>x\<leftarrow>chains. cs_active x) = wt_active (ws_tasks tot) \<and>
    (\<Sum>x\<leftarrow>chains. cs_blocked x) = wt_blocked (ws_tasks tot) \<and>
    (\<forall>x \<in> set chains. cs_chain x \<in> set (db_chains (w_db w')) \<and> c_total (cs_chain x) = cs_total x \<and>
       c_pending (cs_chain x) = cs_pending x \<and> c_active (cs_chain x) = cs_active x \<and> c_blocked (cs_chain x) = cs_blocked x)"
proof -
  have "counters_agree (w_db w')" using service.reach_counters [OF assms] .
  then have same: "with_task_counts (db_tasks (w_db w')) (c_id c) c = c" if "c \<in> set (db_chains (w_db w'))" for c
    using that by (simp add: counters_agree_def list_all_iff)
  have stored: "c_total c = cs_total (chainSummarySelect (w_db w') c)" "c_pending c = cs_pending (chainSummarySelect (w_db w') c)"
    "c_active c = cs_active (chainSummarySelect (w_db w') c)" "c_blocked c = cs_blocked (chainSummarySelect (w_db w') c)"
    if "c \<in> set (db_chains (w_db w'))" for c
    by (subst same [OF that, symmetric], simp add: with_task_counts_def chainSummarySelect_def Let_def)+
  have status: "HandleChainStatus (w_db w') project RawEmpty = Inr (StatusList (listChains (w_db w') project))"
    by (simp add: HandleChainStatus_def decode_params_def unmarshal_chainSlugParams_def vals_def dec_step_def
        coerceChainID_def chain_resolved_def Let_def)
  have summary: "HandleWorkSummary (w_db w') project RawEmpty = Inr (workSummaryTotals (w_db w') project, None)"
    by (simp add: HandleWorkSummary_def decode_params_def vals_def dec_step_def)
  have "cs_chain x \<in> set (db_chains (w_db w')) \<and> x = chainSummarySelect (w_db w') (cs_chain x)"
    if "x \<in> set (listChains (w_db w') project)" for x
    using that by (auto simp: listChains_def chainSummarySelect_def Let_def)
  then show ?thesis
    using status summary chain_status_agrees [of "w_db w'" project] stored by metis
qed

theorem open_work_reads_agree_witness:
  "\<exists>chains tot. let d = w_db (snd (HandleTaskComplete live_env ok_ctx (raw_args [(''slug'', ''a'')]) (mk_world ex_work))) in
     HandleChainStatus d ''p'' RawEmpty = Inr (StatusList chains) \<and> HandleWorkSummary d ''p'' RawEmpty = Inr (tot, None) \<and>
     (\<Sum>x\<leftarrow>chains. cs_pending x) = wt_pending (ws_tasks tot)"
proof -
  let ?w = "snd (HandleTaskComplete live_env ok_ctx (raw_args [(''slug'', ''a'')]) (mk_world ex_work))"
  have "service_step no_affinity ok_env no_git ex_deps (\<lambda>_. []) (\<lambda>_. []) (mk_world ex_work) ?w"
    unfolding service_step_def live_env_def using ex_deps_evolve work_step.task_complete by blast
  then have "(service_step no_affinity ok_env no_git ex_deps (\<lambda>_. []) (\<lambda>_. []))\<^sup>*\<^sup>* (mk_world ex_work) ?w" by blast
  moreover have "wf_db (w_db (mk_world ex_work))" "counters_agree (w_db (mk_world ex_work))"
    using ex_work_ok by (simp_all add: mk_world_def)
  ultimately show ?thesis unfolding Let_def using open_work_reads_agree [of _ _ _ _ _ _ _ ?w "''p''"] by blast
qed

end
