(* ===== verification/Spec2Isabelle.thy ===== *)
theory Spec2Isabelle
  imports Fold_Properties Task_Properties Service_Properties Roadmap_Properties Read_Properties
begin

text \<open>
  \<^bold>\<open>The work service of corpos-toolkit: ledger, projections and handlers\<close>

  The toolkit server keeps its work items (chains of tasks, bugs, suggestions, a roadmap, memories) in
  an append-only table of events. Handlers validate a call and emit events; in the same transaction
  each event is folded into read tables by the registered projections; the read tables can be rebuilt
  from the ledger at any time. This development models that core of the Go sources under
  \<^verbatim>\<open>src/go/internal\<close>: \<^verbatim>\<open>projections\<close>, \<^verbatim>\<open>events\<close>, \<^verbatim>\<open>db\<close> (the write
  pool) and \<^verbatim>\<open>work\<close>.

  \<^bold>\<open>Parts and theories\<close>

  \<^item> \<^verbatim>\<open>Toolkit_Prelude\<close>: errors as the datatype \<open>go_error\<close>, transactions as functions
    from a state to an error or a value and a state (\<open>tx\<close>), SQL statements on lists of rows
    (\<open>sql_insert\<close>, \<open>sql_upsert\<close>, \<open>sql_update\<close>), and the rules the other theories share
    (\<open>tx_simps\<close>, \<open>keeps_intros\<close>).
  \<^item> \<^verbatim>\<open>Event_Payloads\<close>: \<^verbatim>\<open>events/payloads.go\<close>; JSON values, the payload structs with
    their \<open>encoding/json\<close> behaviour (last key wins, case folding of keys, null, nested structs)
    and the round trip of the payloads the folds decode.
  \<^item> \<^verbatim>\<open>Work_Tables\<close>: the ledger row and the rows of the read tables with their keys and CHECK
    constraints, the database record \<open>db\<close>, and what handlers write directly:
    the chain dependencies and the time of the last reassessment (\<open>direct_tables\<close>).
  \<^item> \<^verbatim>\<open>Proj_Tasks\<close>, \<^verbatim>\<open>Proj_Chains\<close>, \<^verbatim>\<open>Proj_Bugs\<close>, \<^verbatim>\<open>Proj_Suggestions\<close>,
    \<^verbatim>\<open>Proj_Roadmap\<close>: the \<open>Fold\<close> of each projection, one definition per fold function of
    \<^verbatim>\<open>projections/*.go\<close>.
  \<^item> \<^verbatim>\<open>Projection_Registry\<close>, \<^verbatim>\<open>Fold_Engine\<close>: \<^verbatim>\<open>projections.go\<close>; registration, the
    topological order, \<open>FoldAll\<close>, watermarks and \<open>RebuildAll\<close>.
  \<^item> \<^verbatim>\<open>Rebuild_Live\<close>: the locale of projection sets whose folds only touch their own tables, with
    live folding against replay; interpreted on the seven work projections (\<open>work\<close>).
  \<^item> \<^verbatim>\<open>Work_Invariants\<close>, \<^verbatim>\<open>Chain_Counters\<close>, \<^verbatim>\<open>Work_Facts\<close>: well-formed tables
    (\<open>wf_db\<close>), the agreement of the chain counters with the task table (\<open>counters_agree\<close>), and
    which rows an event reaches.
  \<^item> \<^verbatim>\<open>Event_Ids\<close>, \<^verbatim>\<open>Provenance\<close>, \<^verbatim>\<open>Event_Emit\<close>: \<^verbatim>\<open>events.go\<close> (UUIDs on bytes),
    \<^verbatim>\<open>provenance.go\<close> (the guard against uncited attributions), \<^verbatim>\<open>context.go\<close>,
    \<^verbatim>\<open>validator.go\<close>, \<^verbatim>\<open>emit.go\<close> and \<open>Pool.WithWrite\<close> of \<^verbatim>\<open>db/db.go\<close>, over a
    \<open>world\<close>: the database, the direct tables, the id generator, the owner of the write mutex and a counter.
  \<^item> \<^verbatim>\<open>Work_Params\<close>, \<^verbatim>\<open>Work_Tasks\<close>, \<^verbatim>\<open>Work_Blockers\<close>, \<^verbatim>\<open>Work_Task_Edit\<close>:
    \<^verbatim>\<open>work/task.go\<close> with \<^verbatim>\<open>helpers.go\<close>, \<^verbatim>\<open>sha.go\<close>, \<^verbatim>\<open>stamp_validate.go\<close>; one
    definition per handler and helper, from the decoded parameters to the answer.
  \<^item> \<^verbatim>\<open>Work_Bugs\<close>, \<^verbatim>\<open>Work_Chains\<close>, \<^verbatim>\<open>Work_Batch\<close>, \<^verbatim>\<open>Work_Lifecycle\<close>: \<^verbatim>\<open>work/bug.go\<close>,
    \<^verbatim>\<open>suggestion.go\<close>, \<^verbatim>\<open>chain.go\<close>, \<^verbatim>\<open>batch.go\<close>, \<^verbatim>\<open>lifecycle_step.go\<close>.
  \<^item> \<^verbatim>\<open>Work_Reads\<close>, \<^verbatim>\<open>Work_Summary\<close>: \<^verbatim>\<open>work/list_params.go\<close>, the lists and searches of
    \<^verbatim>\<open>task.go\<close>, \<^verbatim>\<open>bug.go\<close> and \<^verbatim>\<open>suggestion.go\<close>, the chain reads, and
    \<^verbatim>\<open>work_summary.go\<close>; the locale \<open>weak_order\<close> of the orders the lists sort by.
  \<^item> \<^verbatim>\<open>Chain_Deps\<close>, \<^verbatim>\<open>Work_Roadmap\<close>: \<^verbatim>\<open>work/chain_deps.go\<close> (edges between chains, their
    listing, and the plan computed from them by Kahn's algorithm) and \<^verbatim>\<open>work/roadmap.go\<close> (set,
    insert, update, mark reassessed, preview, list and the resolution of references).
  \<^item> \<^verbatim>\<open>Task_Facts\<close>, \<^verbatim>\<open>Handler_Refinement\<close>, \<^verbatim>\<open>Store_Steps\<close>, \<^verbatim>\<open>Work_Service\<close>: the folds of
    what the handlers emit never fail on well-formed tables; every handler but three changes the tables by
    a run of \<open>ingest\<close> steps (\<open>tx_evolves\<close>); the abstract store (\<open>store_step\<close>), whose steps are
    such an event or one of the direct writes of the three (\<open>direct_step\<close>); one call of any of the
    twenty-four writing handlers as the step relation \<open>work_step\<close>, and the locale \<open>ledger_writer\<close>
    of services all of whose steps refine the store, interpreted on it (\<open>service\<close>).
  \<^item> \<^verbatim>\<open>Task_Effects\<close>: what one emitted task event, a transition and the sweep after a close do to
    the rows and the blocker edges.
  \<^item> \<^verbatim>\<open>Roadmap_Facts\<close>, \<^verbatim>\<open>Roadmap_Layout\<close>: the roadmap handlers as runs of \<open>ingest\<close> steps, the
    tables their folds leave alone, and the layout of a roadmap after each of them.
  \<^item> \<^verbatim>\<open>Sample_Runs\<close>, \<^verbatim>\<open>Task_Samples\<close>, \<^verbatim>\<open>Service_Samples\<close>, \<^verbatim>\<open>Roadmap_Samples\<close>: concrete ledgers, tables and
    environments, evaluated for the witnesses.
  \<^item> \<^verbatim>\<open>Fold_Properties\<close>, \<^verbatim>\<open>Task_Properties\<close>, \<^verbatim>\<open>Service_Properties\<close>,
    \<^verbatim>\<open>Roadmap_Properties\<close>, \<^verbatim>\<open>Read_Properties\<close>: the properties; a few
    stand in the theory of their component (\<^verbatim>\<open>Event_Payloads\<close>, \<^verbatim>\<open>Projection_Registry\<close>,
    \<^verbatim>\<open>Event_Ids\<close>, \<^verbatim>\<open>Provenance\<close>).

  \<^bold>\<open>What is shown\<close>

  \<^item> Refinement: any sequence of handler calls is a sequence of steps of the store. On the tables of the
    projections it is an append of events to the ledger followed by their folds, and nothing else; the
    chain dependencies and the reassessment time change only by the three direct writes.
  \<^item> Invariants: keys, checks, references and chain counters survive every sequence of calls and every
    run of events. The counters are exact unless a task is moved between chains without naming the
    chain it leaves. No two entries of a
    project's roadmap come to share a position. The table of dependencies
    keeps its key.
  \<^item> Equivalence: a rebuild of the read tables from the ledger gives the live tables back, as long as the
    ledger is sorted by timestamp and id.
  \<^item> Handlers: the full effect of completing a task, of the other transitions, of closing a chain and of
    resolving a bug; a refused transition and a batch that is not ok change nothing, and the latter hands
    out no event id; a pending task can be started, by id or by slug.
  \<^item> Reads: after any calls, \<^verbatim>\<open>chain_status\<close>, \<^verbatim>\<open>work_summary\<close> and the stored counters give the
    same numbers; the breakdown by project adds up; lists page through the rows that pass the filters,
    the first page of bugs is the newest, and an unknown filter is refused.
  \<^item> Roadmap: setting a roadmap replaces that of one project and no other; the preview foretells what a
    set answers; an insert shifts the rows at and behind its target by one; an update patches one row;
    adding a dependency and removing it restores the table of edges.
  \<^item> The computed plan: the loop ends with exactly the chains that can be placed, each behind its
    prerequisites; what is left over lies on or behind a cycle.
  \<^item> Ids and guards: event ids increase as strings under any clock, the tail increment is the successor
    on 74 bits, the provenance walk is complete, payloads decode to what was encoded, the fold order
    respects the dependencies.
  \<^item> Behaviour the sources do not intend, proved in general: a dependent in another chain is stranded by a
    close, a failed fold is committed by \<^verbatim>\<open>task_start\<close>, an id reaches a task of another project,
    \<^verbatim>\<open>chain_close\<close> misses a task reopened after its check, a bug reported again orphans its search
    row, a move fails when two tasks share the slug, the preview accepts a repeated reference that a set
    refuses, an append to a roadmap of negative positions answers a position below 1, and a reassessment
    does not cover the chains created earlier on its day. On a concrete run: the cycle report names a
    chain that was placed.

  \<^bold>\<open>Choices\<close>

  Strings are lists of bytes; what Go iterates by rune is decoded by \<open>runes\<close>. A JSON text is
  represented by its value (\<open>json\<close>), so lexing is outside the model, and numbers are integers, as
  every field of the modelled structs is. A JSON number outside the range
  of an \<^verbatim>\<open>int64\<close> field is refused, as the decoder does; row ids and counters are integers,
  far from their bounds; the 64-bit clock and the bytes of the UUIDs are machine words. The committed state a handler reads through the
  pool is an argument of its in-transaction form, so reads inside and outside the transaction differ as
  they do in the code. A handler call is one step; interleavings of a check outside a transaction with
  other calls are stated on the pieces of the handler. Texts are valid UTF-8: what reaches a handler has
  been through \<^verbatim>\<open>json.Unmarshal\<close>, which replaces other bytes, so that \<^verbatim>\<open>json.Marshal\<close> has nothing
  left to replace; numbers stay in the range of a \<^verbatim>\<open>float64\<close>, outside of which the provenance guard
  of the source skips a payload. Rows that tie in an ORDER BY, and those of a query without one, come in
  the order of the table. The text of an error is not modelled, only its
  kind and what it names. No definition uses fuel: the loops of the topological sort and of the computed
  plan have a measure, all other loops run over a list. Roadmap positions taken from parameters are computed
  with the wrap-around of \<^verbatim>\<open>int64\<close> (\<open>wrap64\<close>); the shift of the rows behind an insert is an
  addition of integers, which SQLite leaves only for a row at the largest \<^verbatim>\<open>int64\<close>.

  Parameters stand for what the sources do not contain: the affinity of a TEXT column (\<open>aff\<close>), the
  clock, the random source, the compiled JSON schemas, failures of begin and commit (\<open>emit_env\<close>), LIKE of SQLite, git and
  the file system (\<open>stamp_env\<close>), the rendering of a raw JSON value and of an error, and the two
  functions of \<open>TableDeps\<close> through which a batch reaches the construct package. Of these functions the
  properties over sequences of calls assume that each call, whether it succeeds or fails, changes the
  tables only by events of the kinds the service emits (\<open>seams_evolve\<close>). Of the sixteen
  registered projections the seven of the work tables are modelled; the other nine write tables no
  handler here reads.

  \<^bold>\<open>Not modelled\<close>

  The timeline, the record handlers and the training runs of \<^verbatim>\<open>work\<close>; the create
  and edit paths of \<^verbatim>\<open>construct\<close>; dispatch and documentation of actions; migrations and the reader
  pool; the measurement projections; and the packages around the core (review, retrieval, reference
  resolution, telemetry, HTTP, file and command access, model serving), which are queries, text
  processing or I/O.
\<close>

end
